(* ===== verification/Prelude.thy ===== *)
theory Prelude
  imports Main "HOL-Library.Word" "HOL-Library.AList"
begin

text \<open>
  Shared vocabulary of the development: Rust results, the parts of the standard
  string and integer API that the crate uses, hash maps, and the lemmas about
  them that the component theories rely on.

  A \<open>&str\<close> or \<open>String\<close> is a HOL \<open>string\<close> holding the UTF-8 bytes of the Rust
  value, one \<open>char\<close> per byte, so that \<open>len()\<close> is \<^const>\<open>length\<close>.  A \<open>[u8]\<close> is a
  list of \<open>8 word\<close>; \<open>as_bytes\<close> maps the first to the second.  A
  \<open>HashMap<K, V>\<close> is an association list with distinct keys: the order of the
  list stands for the (unspecified) iteration order.
\<close>

named_theorems hmap_simps \<open>equations of the hash map operations\<close>
named_theorems ascii_simps \<open>definitions of the ASCII character classes\<close>

section \<open>Types\<close>

type_synonym u8 = "8 word"
type_synonym u16 = "16 word"
type_synonym u32 = "32 word"
type_synonym u64 = "64 word"
type_synonym bytes = "8 word list"
type_synonym ('k, 'v) hmap = "('k \<times> 'v) list"

section \<open>Results\<close>

datatype ('a, 'e) result = Ok 'a | Err 'e

primrec try_bind :: "('a, 'e) result \<Rightarrow> ('a \<Rightarrow> ('b, 'e) result) \<Rightarrow> ('b, 'e) result" where
  "try_bind (Ok a) f = f a"
| "try_bind (Err e) f = Err e"

primrec map_err :: "('e \<Rightarrow> 'f) \<Rightarrow> ('a, 'e) result \<Rightarrow> ('a, 'f) result" where
  "map_err g (Ok a) = Ok a"
| "map_err g (Err e) = Err (g e)"

primrec ok_or :: "'e \<Rightarrow> 'a option \<Rightarrow> ('a, 'e) result" where
  "ok_or e None = Err e"
| "ok_or e (Some a) = Ok a"

primrec is_ok :: "('a, 'e) result \<Rightarrow> bool" where
  "is_ok (Ok a) = True"
| "is_ok (Err e) = False"

primrec ok_opt :: "('a, 'e) result \<Rightarrow> 'a option" where
  "ok_opt (Ok a) = Some a"
| "ok_opt (Err e) = None"

definition require :: "bool \<Rightarrow> 'e \<Rightarrow> (unit, 'e) result" where
  "require b e = (if b then Ok () else Err e)"

section \<open>Bytes, characters and strings\<close>

definition code :: "char \<Rightarrow> nat" where
  "code c = of_char c"

definition as_bytes :: "string \<Rightarrow> bytes" where
  "as_bytes s = map (\<lambda>c. word_of_nat (code c)) s"

definition from_bytes :: "bytes \<Rightarrow> string" where
  "from_bytes bs = map (\<lambda>b. char_of (unat b)) bs"

definition is_ascii_digit :: "char \<Rightarrow> bool" where
  [ascii_simps]: "is_ascii_digit c = (48 \<le> code c \<and> code c \<le> 57)"

definition is_ascii_lowercase :: "char \<Rightarrow> bool" where
  [ascii_simps]: "is_ascii_lowercase c = (97 \<le> code c \<and> code c \<le> 122)"

definition is_ascii_uppercase :: "char \<Rightarrow> bool" where
  [ascii_simps]: "is_ascii_uppercase c = (65 \<le> code c \<and> code c \<le> 90)"

definition is_ascii_alphabetic :: "char \<Rightarrow> bool" where
  [ascii_simps]: "is_ascii_alphabetic c = (is_ascii_lowercase c \<or> is_ascii_uppercase c)"

definition is_ascii_alphanumeric :: "char \<Rightarrow> bool" where
  [ascii_simps]: "is_ascii_alphanumeric c = (is_ascii_alphabetic c \<or> is_ascii_digit c)"

definition is_ascii_hexdigit :: "char \<Rightarrow> bool" where
  [ascii_simps]: "is_ascii_hexdigit c =
     (is_ascii_digit c \<or> (65 \<le> code c \<and> code c \<le> 70) \<or> (97 \<le> code c \<and> code c \<le> 102))"

definition is_ascii_control :: "char \<Rightarrow> bool" where
  [ascii_simps]: "is_ascii_control c = (code c \<le> 31 \<or> code c = 127)"

definition is_visible_ascii :: "char \<Rightarrow> bool" where
  "is_visible_ascii c = (33 \<le> code c \<and> code c < 127)"

definition ascii_lower_char :: "char \<Rightarrow> char" where
  "ascii_lower_char c = (if is_ascii_uppercase c then char_of (code c + 32) else c)"

definition ascii_upper_char :: "char \<Rightarrow> char" where
  "ascii_upper_char c = (if is_ascii_lowercase c then char_of (code c - 32) else c)"

definition to_ascii_lowercase :: "string \<Rightarrow> string" where
  "to_ascii_lowercase s = map ascii_lower_char s"

definition to_ascii_uppercase :: "string \<Rightarrow> string" where
  "to_ascii_uppercase s = map ascii_upper_char s"

definition eq_ignore_ascii_case :: "string \<Rightarrow> string \<Rightarrow> bool" where
  "eq_ignore_ascii_case a b = (to_ascii_lowercase a = to_ascii_lowercase b)"

definition starts_with :: "string \<Rightarrow> string \<Rightarrow> bool" where
  "starts_with s p = (take (length p) s = p)"

definition ends_with :: "string \<Rightarrow> string \<Rightarrow> bool" where
  "ends_with s p = starts_with (rev s) (rev p)"

definition strip_prefix :: "string \<Rightarrow> string \<Rightarrow> string option" where
  "strip_prefix p s = (if starts_with s p then Some (drop (length p) s) else None)"

definition strip_suffix :: "string \<Rightarrow> string \<Rightarrow> string option" where
  "strip_suffix p s =
     (if ends_with s p then Some (take (length s - length p) s) else None)"

fun contains_str :: "string \<Rightarrow> string \<Rightarrow> bool" where
  "contains_str [] p = (p = [])"
| "contains_str (c # s) p = (starts_with (c # s) p \<or> contains_str s p)"

definition contains_char :: "string \<Rightarrow> char \<Rightarrow> bool" where
  "contains_char s c = (c \<in> set s)"

definition trim_start_matches :: "char \<Rightarrow> string \<Rightarrow> string" where
  "trim_start_matches c s = dropWhile (\<lambda>x. x = c) s"

definition trim_end_matches :: "char \<Rightarrow> string \<Rightarrow> string" where
  "trim_end_matches c s = rev (dropWhile (\<lambda>x. x = c) (rev s))"

fun split_on :: "char \<Rightarrow> string \<Rightarrow> string list" where
  "split_on c [] = [[]]"
| "split_on c (x # xs) =
     (if x = c then [] # split_on c xs
      else (case split_on c xs of [] \<Rightarrow> [[x]] | y # ys \<Rightarrow> (x # y) # ys))"

fun join_with :: "string \<Rightarrow> string list \<Rightarrow> string" where
  "join_with sep [] = []"
| "join_with sep [x] = x"
| "join_with sep (x # y # ys) = x @ sep @ join_with sep (y # ys)"

text \<open>
  \<open>char::is_whitespace\<close> is the Unicode White\_Space property.  \<open>ws_len\<close> is the
  number of bytes of a leading white space character, 0 if there is none.
\<close>

fun ws_len :: "nat list \<Rightarrow> nat" where
  "ws_len [] = 0"
| "ws_len (a # xs) =
     (if (9 \<le> a \<and> a \<le> 13) \<or> a = 32 then 1
      else (case xs of
              [] \<Rightarrow> 0
            | b # ys \<Rightarrow>
                (if a = 0xC2 \<and> (b = 0x85 \<or> b = 0xA0) then 2
                 else (case ys of
                         [] \<Rightarrow> 0
                       | c # zs \<Rightarrow>
                           (if (a = 0xE1 \<and> b = 0x9A \<and> c = 0x80)
                               \<or> (a = 0xE2 \<and> b = 0x80
                                   \<and> ((0x80 \<le> c \<and> c \<le> 0x8A) \<or> c = 0xA8 \<or> c = 0xA9 \<or> c = 0xAF))
                               \<or> (a = 0xE2 \<and> b = 0x81 \<and> c = 0x9F)
                               \<or> (a = 0xE3 \<and> b = 0x80 \<and> c = 0x80)
                            then 3 else 0)))))"

definition ws_head :: "string \<Rightarrow> nat" where
  "ws_head s = ws_len (map code (take 3 s))"

definition ws_tail :: "string \<Rightarrow> nat" where
  "ws_tail s =
     (let t = (\<lambda>n. ws_len (map code (drop (length s - n) s))) in
      if 1 \<le> length s \<and> t 1 = 1 then 1
      else if 2 \<le> length s \<and> t 2 = 2 then 2
      else if 3 \<le> length s \<and> t 3 = 3 then 3 else 0)"

function trim_start :: "string \<Rightarrow> string" where
  "trim_start s = (if s = [] \<or> ws_head s = 0 then s else trim_start (drop (ws_head s) s))"
  by pat_completeness auto
termination
  by (relation "measure length") auto

function trim_end :: "string \<Rightarrow> string" where
  "trim_end s = (if s = [] \<or> ws_tail s = 0 then s else trim_end (take (length s - ws_tail s) s))"
  by pat_completeness auto
termination
  by (relation "measure length") auto

declare trim_start.simps [simp del] trim_end.simps [simp del]

definition trim :: "string \<Rightarrow> string" where
  "trim s = trim_end (trim_start s)"

text \<open>\<open>split_whitespace\<close>: maximal runs of characters that are not white space.\<close>

function split_ws :: "string \<Rightarrow> string \<Rightarrow> string list" where
  "split_ws acc [] = (if acc = [] then [] else [rev acc])"
| "split_ws acc (c # s) =
     (let n = ws_head (c # s) in
      if n = 0 then split_ws (c # acc) s
      else (if acc = [] then [] else [rev acc]) @ split_ws [] (drop n (c # s)))"
  by pat_completeness auto
termination
  by (relation "measure (\<lambda>(acc, s). length s)") auto

definition split_whitespace :: "string \<Rightarrow> string list" where
  "split_whitespace s = split_ws [] s"

text \<open>Decimal rendering of an unsigned integer, as \<open>format!\<close> prints it.\<close>

function show_nat :: "nat \<Rightarrow> string" where
  "show_nat n = (if n < 10 then [char_of (48 + n)]
                 else show_nat (n div 10) @ [char_of (48 + n mod 10)])"
  by pat_completeness auto
termination
  by (relation "measure id") auto

declare show_nat.simps [simp del]

section \<open>Machine integers\<close>

abbreviation u64_max :: u64 where
  "u64_max \<equiv> - 1"

definition saturating_add :: "u64 \<Rightarrow> u64 \<Rightarrow> u64" where
  "saturating_add a b = (if b \<le> u64_max - a then a + b else u64_max)"

definition saturating_sub :: "u64 \<Rightarrow> u64 \<Rightarrow> u64" where
  "saturating_sub a b = (if b \<le> a then a - b else 0)"

definition checked_add :: "u64 \<Rightarrow> u64 \<Rightarrow> u64 option" where
  "checked_add a b = (if b \<le> u64_max - a then Some (a + b) else None)"

section \<open>Hash maps\<close>

definition hm_ok :: "('k, 'v) hmap \<Rightarrow> bool" where
  "hm_ok m = distinct (map fst m)"

definition hm_get :: "'k \<Rightarrow> ('k, 'v) hmap \<Rightarrow> 'v option" where
  "hm_get k m = map_of m k"

definition hm_insert :: "'k \<Rightarrow> 'v \<Rightarrow> ('k, 'v) hmap \<Rightarrow> ('k, 'v) hmap" where
  "hm_insert k v m = AList.update k v m"

definition hm_remove :: "'k \<Rightarrow> ('k, 'v) hmap \<Rightarrow> ('k, 'v) hmap" where
  "hm_remove k m = AList.delete k m"

definition hm_retain :: "('k \<Rightarrow> 'v \<Rightarrow> bool) \<Rightarrow> ('k, 'v) hmap \<Rightarrow> ('k, 'v) hmap" where
  "hm_retain p m = filter (\<lambda>(k, v). p k v) m"

definition hm_contains :: "'k \<Rightarrow> ('k, 'v) hmap \<Rightarrow> bool" where
  "hm_contains k m = (hm_get k m \<noteq> None)"

section \<open>Lemmas: results\<close>

lemma try_bind_Ok_iff [simp]:
  "try_bind r f = Ok b \<longleftrightarrow> (\<exists>a. r = Ok a \<and> f a = Ok b)"
  by (cases r) auto

lemma try_bind_Err_iff:
  "try_bind r f = Err e \<longleftrightarrow> r = Err e \<or> (\<exists>a. r = Ok a \<and> f a = Err e)"
  by (cases r) auto

lemma map_err_Ok_iff [simp]: "map_err g r = Ok a \<longleftrightarrow> r = Ok a"
  by (cases r) auto

lemma ok_or_Ok_iff [simp]: "ok_or e x = Ok a \<longleftrightarrow> x = Some a"
  by (cases x) auto

lemma map_err_Err_iff: "map_err g r = Err e \<longleftrightarrow> (\<exists>e'. r = Err e' \<and> e = g e')"
  by (cases r) auto

lemma ok_or_Err_iff: "ok_or e x = Err e' \<longleftrightarrow> x = None \<and> e' = e"
  by (cases x) auto

lemma require_Ok_iff [simp]: "require b e = Ok u \<longleftrightarrow> b"
  by (simp add: require_def)

lemma require_simps [simp]: "require True e = Ok ()" "require False e = Err e"
  by (simp_all add: require_def)

section \<open>Lemmas: machine integers\<close>

lemma unat_u64_max: "unat (u64_max) = 2 ^ 64 - 1"
  by (simp add: unsigned_minus_1_eq_mask mask_eq_exp_minus_1)

lemma u8_less [simp]: "unat (b :: u8) < 256"
  using unsigned_less [of b] by simp

lemma u16_less [simp]: "unat (s :: u16) < 65536"
  using unsigned_less [of s] by simp

lemma unat_u64_less: "unat (a :: u64) < 2 ^ 64"
  using unsigned_less [of a] by simp

lemma u64_le_max_minus: "b \<le> u64_max - a \<longleftrightarrow> unat a + unat (b :: u64) < 2 ^ 64"
proof -
  have "unat (u64_max - a) = 2 ^ 64 - 1 - unat a"
    using unat_sub [of a "u64_max"] by (simp add: unat_u64_max)
  moreover have "unat a < 2 ^ 64"
    by (rule unat_u64_less)
  ultimately show ?thesis
    by (simp only: word_le_nat_alt) arith
qed

lemma unat_saturating_add:
  "unat (saturating_add a b) = min (unat a + unat b) (2 ^ 64 - 1)"
proof (cases "unat a + unat b < 2 ^ 64")
  case True
  hence "unat (a + b) = unat a + unat b"
    by (subst unat_plus_simple [symmetric]) (simp add: no_olen_add_nat)
  with True show ?thesis
    by (simp add: saturating_add_def u64_le_max_minus)
next
  case False
  thus ?thesis
    by (simp add: saturating_add_def u64_le_max_minus unat_u64_max)
qed

lemma unat_saturating_sub: "unat (saturating_sub a b) = unat a - unat b"
  by (auto simp: saturating_sub_def word_le_nat_alt unat_sub)

lemma unat_checked_add:
  "checked_add a b = Some c \<longleftrightarrow> unat a + unat b < 2 ^ 64 \<and> unat c = unat a + unat b"
proof (cases "unat a + unat b < 2 ^ 64")
  case True
  hence "unat (a + b) = unat a + unat b"
    by (subst unat_plus_simple [symmetric]) (simp add: no_olen_add_nat)
  with True show ?thesis
    by (auto simp: checked_add_def u64_le_max_minus word_unat_eq_iff)
qed (simp add: checked_add_def u64_le_max_minus)

section \<open>Lemmas: hash maps\<close>

lemma hm_ok_empty [simp, intro]: "hm_ok []"
  by (simp add: hm_ok_def)

lemma hm_ok_insert [simp, intro]: "hm_ok m \<Longrightarrow> hm_ok (hm_insert k v m)"
  by (simp add: hm_ok_def hm_insert_def distinct_update)

lemma hm_ok_remove [simp, intro]: "hm_ok m \<Longrightarrow> hm_ok (hm_remove k m)"
  by (simp add: hm_ok_def hm_remove_def distinct_delete)

lemma hm_ok_retain [simp, intro]: "hm_ok m \<Longrightarrow> hm_ok (hm_retain p m)"
  by (induction m) (auto simp: hm_ok_def hm_retain_def)

lemma hm_get_empty [simp, hmap_simps]: "hm_get k [] = None"
  by (simp add: hm_get_def)

lemma hm_get_insert [simp, hmap_simps]:
  "hm_get k (hm_insert k' v m) = (if k = k' then Some v else hm_get k m)"
  by (simp add: hm_get_def hm_insert_def update_conv)

lemma hm_get_remove [simp, hmap_simps]:
  "hm_get k (hm_remove k' m) = (if k = k' then None else hm_get k m)"
  by (simp add: hm_get_def hm_remove_def delete_conv)

lemma hm_get_in_set: "hm_get k m = Some v \<Longrightarrow> (k, v) \<in> set m"
  by (auto simp: hm_get_def dest: map_of_SomeD)

lemma hm_in_set_get: "hm_ok m \<Longrightarrow> (k, v) \<in> set m \<Longrightarrow> hm_get k m = Some v"
  by (simp add: hm_get_def hm_ok_def)

lemma hm_get_None_iff: "hm_get k m = None \<longleftrightarrow> k \<notin> fst ` set m"
  by (simp add: hm_get_def map_of_eq_None_iff)

lemma hm_get_retain [hmap_simps]:
  assumes "hm_ok m"
  shows "hm_get k (hm_retain p m) =
    (case hm_get k m of None \<Rightarrow> None | Some v \<Rightarrow> if p k v then Some v else None)"
  using assms
  by (induction m) (auto simp: hm_ok_def hm_get_def hm_retain_def map_of_eq_None_iff split: option.splits)

lemma hm_retain_subset: "set (hm_retain p m) \<subseteq> set m"
  by (auto simp: hm_retain_def)

lemma length_hm_retain [simp]: "length (hm_retain p m) \<le> length m"
  by (simp add: hm_retain_def)

lemma length_hm_insert:
  "length (hm_insert k v m) = (if hm_contains k m then length m else Suc (length m))"
  by (induction m) (auto simp: hm_insert_def hm_contains_def hm_get_def)

lemma length_hm_insert_le [simp]: "length (hm_insert k v m) \<le> Suc (length m)"
  by (simp add: length_hm_insert)

lemma length_hm_remove [simp]: "length (hm_remove k m) \<le> length m"
  by (simp add: hm_remove_def length_delete_le)

lemma set_hm_insert: "set (hm_insert k v m) \<subseteq> insert (k, v) (set m)"
  by (induction m) (auto simp: hm_insert_def)

lemma set_hm_remove: "set (hm_remove k m) \<subseteq> set m"
  by (induction m) (auto simp: hm_remove_def split: if_splits)

section \<open>Lemmas: strings\<close>

lemma find_SomeD: "find P xs = Some x \<Longrightarrow> x \<in> set xs \<and> P x"
  by (induction xs) (auto split: if_splits)

lemma starts_with_iff: "starts_with s p \<longleftrightarrow> (\<exists>r. s = p @ r)"
  by (auto simp: starts_with_def) (metis append_take_drop_id)

lemma starts_with_append [simp]: "starts_with (p @ r) p"
  by (simp add: starts_with_def)

lemma ends_with_iff: "ends_with s p \<longleftrightarrow> (\<exists>r. s = r @ p)"
  by (auto simp: ends_with_def starts_with_iff) (metis rev_append rev_rev_ident)

lemma split_on_nonempty [simp]: "split_on c s \<noteq> []"
  by (induction s) (auto split: list.splits)

lemma split_on_no_sep: "t \<in> set (split_on c s) \<Longrightarrow> c \<notin> set t"
  by (induction s arbitrary: t) (auto split: list.splits if_splits)

lemma join_split_on: "join_with [c] (split_on c s) = s"
proof (induction s)
  case (Cons x xs)
  obtain y ys where "split_on c xs = y # ys"
    using split_on_nonempty [of c xs] by (cases "split_on c xs") auto
  with Cons show ?case
    by (cases ys) auto
qed simp

lemma length_split_on: "length (split_on c s) = Suc (length (filter (\<lambda>x. x = c) s))"
proof (induction s)
  case (Cons x xs)
  obtain y ys where "split_on c xs = y # ys"
    using split_on_nonempty [of c xs] by (cases "split_on c xs") auto
  with Cons show ?case
    by auto
qed simp

lemma split_on_append:
  "c \<notin> set a \<Longrightarrow> split_on c (a @ c # b) = a # split_on c b"
  by (induction a) auto

lemma split_on_single: "c \<notin> set a \<Longrightarrow> split_on c a = [a]"
  by (induction a) auto

lemma hd_split_on: "hd (split_on c s) = takeWhile (\<lambda>x. x \<noteq> c) s"
proof (induction s)
  case (Cons x s)
  obtain y ys where "split_on c s = y # ys"
    using split_on_nonempty [of c s] by (cases "split_on c s") auto
  with Cons show ?case
    by auto
qed simp

lemma split_on_join:
  assumes "ls \<noteq> []" "\<forall>l \<in> set ls. c \<notin> set l"
  shows "split_on c (join_with [c] ls) = ls"
  using assms
proof (induction "[c]" ls rule: join_with.induct)
  case (2 x)
  hence "c \<notin> set x"
    by simp
  thus ?case
    by (induction x) auto
next
  case (3 x y ys)
  thus ?case
    using split_on_append [of c x "join_with [c] (y # ys)"] by simp
qed simp

lemma set_split_on: "l \<in> set (split_on c s) \<Longrightarrow> set l \<subseteq> set s"
proof (induction s arbitrary: l)
  case (Cons x s)
  obtain y ys where "split_on c s = y # ys"
    using split_on_nonempty [of c s] by (cases "split_on c s") auto
  with Cons show ?case
    by (fastforce split: if_splits)
qed simp

lemma in_split_on: "x \<in> set s \<Longrightarrow> x \<noteq> c \<Longrightarrow> \<exists>l \<in> set (split_on c s). x \<in> set l"
proof (induction s)
  case (Cons y s)
  obtain l ls where "split_on c s = l # ls"
    using split_on_nonempty [of c s] by (cases "split_on c s") auto
  with Cons show ?case
    by auto
qed simp

lemma length_split_on_2: "length (split_on c s) < 2 \<longleftrightarrow> c \<notin> set s"
  by (auto simp: length_split_on filter_empty_conv)

lemma code_less_256 [simp]: "code c < 256"
  by (simp add: code_def)

lemma code_inj: "code a = code b \<longleftrightarrow> a = b"
  by (simp add: code_def)

lemma code_char_of [simp]: "code (char_of n) = n mod 256"
  by (simp add: code_def)

lemma as_bytes_inj [simp]: "as_bytes a = as_bytes b \<longleftrightarrow> a = b"
proof -
  have "inj (\<lambda>c. word_of_nat (code c) :: u8)"
  proof (rule injI)
    fix x y :: char
    assume "(word_of_nat (code x) :: u8) = word_of_nat (code y)"
    hence "unat (word_of_nat (code x) :: u8) = unat (word_of_nat (code y) :: u8)"
      by (rule arg_cong)
    hence "code x mod 256 = code y mod 256"
      by (simp add: unat_of_nat)
    thus "x = y"
      by (simp add: code_inj)
  qed
  thus ?thesis
    by (simp add: as_bytes_def inj_map_eq_map)
qed

lemma length_as_bytes [simp]: "length (as_bytes s) = length s"
  by (simp add: as_bytes_def)

lemma is_ascii_uppercase_lower [simp]: "\<not> is_ascii_uppercase (ascii_lower_char c)"
  by (auto simp: ascii_lower_char_def ascii_simps)

lemma to_ascii_lowercase_idem [simp]:
  "to_ascii_lowercase (to_ascii_lowercase s) = to_ascii_lowercase s"
  by (simp add: to_ascii_lowercase_def) (simp add: ascii_lower_char_def [of "ascii_lower_char _"])

lemma length_to_ascii_lowercase [simp]: "length (to_ascii_lowercase s) = length s"
  by (simp add: to_ascii_lowercase_def)

lemma show_nat_digits: "c \<in> set (show_nat n) \<Longrightarrow> is_ascii_digit c"
proof (induction n rule: show_nat.induct)
  case (1 n)
  have "n mod 10 < 10"
    by simp
  with 1 show ?case
    by (subst (asm) (2) show_nat.simps) (auto simp: ascii_simps split: if_splits)
qed

text \<open>Trimming leaves strings of visible ASCII characters alone.\<close>

lemma ws_head_visible: "is_visible_ascii c \<Longrightarrow> ws_head (c # s) = 0"
  by (auto simp: ws_head_def is_visible_ascii_def split: list.split)

lemma ws_len_ascii: "a < 127 \<Longrightarrow> ws_len (a # xs) \<le> 1"
  by (auto split: list.split)

lemma trim_start_visible: "s = [] \<or> is_visible_ascii (hd s) \<Longrightarrow> trim_start s = s"
  by (subst trim_start.simps) (cases s; auto simp: ws_head_visible)

lemma ws_tail_visible:
  assumes "list_all is_visible_ascii s"
  shows "ws_tail s = 0"
proof -
  have "ws_len (map code (drop k s)) = 0" for k
  proof (cases "drop k s")
    case (Cons c r)
    hence "c \<in> set s"
      by (metis in_set_dropD list.set_intros(1))
    hence "is_visible_ascii c"
      using assms by (simp add: list_all_iff)
    thus ?thesis
      by (auto simp: Cons is_visible_ascii_def split: list.split)
  qed simp
  thus ?thesis
    by (simp add: ws_tail_def Let_def)
qed

lemma trim_visible: "list_all is_visible_ascii s \<Longrightarrow> trim s = s"
proof -
  assume v: "list_all is_visible_ascii s"
  have "trim_start s = s"
    by (rule trim_start_visible) (use v in \<open>cases s; auto\<close>)
  moreover have "trim_end s = s"
    by (subst trim_end.simps) (simp add: ws_tail_visible v)
  ultimately show "trim s = s"
    by (simp add: trim_def)
qed

end
