(* ===== verification/Ip_Filter.thy ===== *)
theory Ip_Filter
  imports Prelude
begin

text \<open>
  Classification of IP addresses (\<open>kernels/ip_filter.rs\<close>) and its executable
  specification in \<open>verification/formal_models.rs\<close>.  The kernels work on the
  octets of an IPv4 and on the 16-bit segments of an IPv6 address, at their
  machine width.  The lemmas relate them to the address blocks in CIDR notation
  that the documentation lists, read on the 32-bit and on the 128-bit address.
\<close>

unbundle bit_operations_syntax

section \<open>Addresses\<close>

type_synonym octets = "u8 \<times> u8 \<times> u8 \<times> u8"
type_synonym segments = "u16 \<times> u16 \<times> u16 \<times> u16 \<times> u16 \<times> u16 \<times> u16 \<times> u16"

datatype ip_addr = V4 octets | V6 segments

section \<open>The kernels\<close>

fun is_restricted_ipv4_octets :: "octets \<Rightarrow> bool" where
  "is_restricted_ipv4_octets (o0, o1, o2, o3) =
     (o0 = 0
      \<or> o0 = 10
      \<or> (o0 = 100 \<and> (o1 AND 0xC0) = 64)
      \<or> o0 = 127
      \<or> (o0 = 169 \<and> o1 = 254)
      \<or> (o0 = 172 \<and> o1 \<ge> 16 \<and> o1 \<le> 31)
      \<or> (o0 = 192 \<and> o1 = 0 \<and> o2 = 0)
      \<or> (o0 = 192 \<and> o1 = 0 \<and> o2 = 2)
      \<or> (o0 = 192 \<and> o1 = 88 \<and> o2 = 99)
      \<or> (o0 = 192 \<and> o1 = 168)
      \<or> (o0 = 198 \<and> (o1 = 18 \<or> o1 = 19))
      \<or> (o0 = 198 \<and> o1 = 51 \<and> o2 = 100)
      \<or> (o0 = 203 \<and> o1 = 0 \<and> o2 = 113)
      \<or> (o0 \<ge> 224 \<and> o0 \<le> 239)
      \<or> o0 \<ge> 240)"

definition hi_byte :: "u16 \<Rightarrow> u8" where
  "hi_byte s = ucast (drop_bit 8 s AND 0xff)"

definition lo_byte :: "u16 \<Rightarrow> u8" where
  "lo_byte s = ucast (s AND 0xff)"

fun is_restricted_ipv6_segments :: "segments \<Rightarrow> bool" where
  "is_restricted_ipv6_segments (s0, s1, s2, s3, s4, s5, s6, s7) =
     ((s0 = 0 \<and> s1 = 0 \<and> s2 = 0 \<and> s3 = 0 \<and> s4 = 0 \<and> s5 = 0 \<and> s6 = 0 \<and> s7 = 0)
      \<or> (s0 = 0 \<and> s1 = 0 \<and> s2 = 0 \<and> s3 = 0 \<and> s4 = 0 \<and> s5 = 0 \<and> s6 = 0 \<and> s7 = 1)
      \<or> (s0 = 0 \<and> s1 = 0 \<and> s2 = 0 \<and> s3 = 0 \<and> s4 = 0 \<and> s5 = 0xffff
          \<and> is_restricted_ipv4_octets (hi_byte s6, lo_byte s6, hi_byte s7, lo_byte s7))
      \<or> (s0 = 0 \<and> s1 = 0 \<and> s2 = 0 \<and> s3 = 0 \<and> s4 = 0xffff \<and> s5 = 0)
      \<or> (s0 = 0x0064 \<and> s1 = 0xff9b \<and> s2 = 0 \<and> s3 = 0 \<and> s4 = 0 \<and> s5 = 0)
      \<or> (s0 = 0x2001 \<and> s1 = 0x0db8)
      \<or> (s0 = 0x2001 \<and> s1 = 0)
      \<or> (s0 = 0x2002
          \<and> is_restricted_ipv4_octets (hi_byte s1, lo_byte s1, hi_byte s2, lo_byte s2))
      \<or> (s0 AND 0xfe00) = 0xfc00
      \<or> (s0 AND 0xffc0) = 0xfe80
      \<or> (s0 AND 0xffc0) = 0xfec0
      \<or> (s0 AND 0xff00) = 0xff00)"

definition is_restricted_ipv4 :: "octets \<Rightarrow> bool" where
  "is_restricted_ipv4 ip = is_restricted_ipv4_octets ip"

definition is_restricted_ipv6 :: "segments \<Rightarrow> bool" where
  "is_restricted_ipv6 ip = is_restricted_ipv6_segments ip"

fun is_restricted_ip :: "ip_addr \<Rightarrow> bool" where
  "is_restricted_ip (V4 v4) = is_restricted_ipv4 v4"
| "is_restricted_ip (V6 v6) = is_restricted_ipv6 v6"

section \<open>The executable specification of the crate\<close>

fun spec_is_restricted_ipv4 :: "octets \<Rightarrow> bool" where
  "spec_is_restricted_ipv4 (o0, o1, o2, o3) =
     (o0 = 0 \<or> o0 = 10 \<or> (o0 = 100 \<and> (o1 AND 0xC0) = 64) \<or> o0 = 127
      \<or> (o0 = 169 \<and> o1 = 254)
      \<or> (o0 = 172 \<and> o1 \<in> {16..31})
      \<or> (o0 = 192 \<and> o1 = 0 \<and> o2 = 0)
      \<or> (o0 = 192 \<and> o1 = 0 \<and> o2 = 2)
      \<or> (o0 = 192 \<and> o1 = 88 \<and> o2 = 99)
      \<or> (o0 = 192 \<and> o1 = 168)
      \<or> (o0 = 198 \<and> (o1 = 18 \<or> o1 = 19))
      \<or> (o0 = 198 \<and> o1 = 51 \<and> o2 = 100)
      \<or> (o0 = 203 \<and> o1 = 0 \<and> o2 = 113)
      \<or> o0 \<in> {224..239}
      \<or> o0 \<ge> 240)"

text \<open>\<open>Ipv6Addr::is_unspecified\<close>, \<open>is_loopback\<close> and \<open>to_ipv4_mapped\<close> of the standard
  library; the last one reads the address as its sixteen octets.\<close>

definition is_unspecified :: "segments \<Rightarrow> bool" where
  "is_unspecified ip = (ip = (0, 0, 0, 0, 0, 0, 0, 0))"

definition is_loopback :: "segments \<Rightarrow> bool" where
  "is_loopback ip = (ip = (0, 0, 0, 0, 0, 0, 0, 1))"

definition be_bytes :: "u16 \<Rightarrow> u8 list" where
  "be_bytes s = [ucast (drop_bit 8 s), ucast s]"

fun ipv6_octets :: "segments \<Rightarrow> u8 list" where
  "ipv6_octets (s0, s1, s2, s3, s4, s5, s6, s7) =
     concat (map be_bytes [s0, s1, s2, s3, s4, s5, s6, s7])"

definition to_ipv4_mapped :: "segments \<Rightarrow> octets option" where
  "to_ipv4_mapped ip =
     (let os = ipv6_octets ip in
      if take 10 os = replicate 10 0 \<and> os ! 10 = 0xff \<and> os ! 11 = 0xff
      then Some (os ! 12, os ! 13, os ! 14, os ! 15) else None)"

fun spec_is_restricted_ipv6 :: "segments \<Rightarrow> bool" where
  "spec_is_restricted_ipv6 (s0, s1, s2, s3, s4, s5, s6, s7) =
     (is_unspecified (s0, s1, s2, s3, s4, s5, s6, s7)
      \<or> is_loopback (s0, s1, s2, s3, s4, s5, s6, s7)
      \<or> (case to_ipv4_mapped (s0, s1, s2, s3, s4, s5, s6, s7) of
           Some mapped \<Rightarrow> spec_is_restricted_ipv4 mapped
         | None \<Rightarrow> False)
      \<or> (s0 = 0 \<and> s1 = 0 \<and> s2 = 0 \<and> s3 = 0 \<and> s4 = 0xffff \<and> s5 = 0)
      \<or> (s0 = 0x0064 \<and> s1 = 0xff9b \<and> s2 = 0 \<and> s3 = 0 \<and> s4 = 0 \<and> s5 = 0)
      \<or> (s0 = 0x2001 \<and> s1 = 0x0db8)
      \<or> (s0 = 0x2001 \<and> s1 = 0)
      \<or> (s0 = 0x2002
          \<and> spec_is_restricted_ipv4 (hi_byte s1, lo_byte s1, hi_byte s2, lo_byte s2))
      \<or> (s0 AND 0xfe00) = 0xfc00
      \<or> (s0 AND 0xffc0) = 0xfe80
      \<or> (s0 AND 0xffc0) = 0xfec0
      \<or> (s0 AND 0xff00) = 0xff00)"

fun spec_is_restricted_ip :: "ip_addr \<Rightarrow> bool" where
  "spec_is_restricted_ip (V4 v4) = spec_is_restricted_ipv4 v4"
| "spec_is_restricted_ip (V6 v6) = spec_is_restricted_ipv6 v6"

section \<open>Address blocks\<close>

text \<open>An address read as one number, and the blocks of the documentation as pairs of a
  network address and a prefix length.\<close>

definition dotted :: "nat \<Rightarrow> nat \<Rightarrow> nat \<Rightarrow> nat \<Rightarrow> nat" where
  "dotted a b c d = a * 2 ^ 24 + b * 2 ^ 16 + c * 2 ^ 8 + d"

definition hextets ::
  "nat \<Rightarrow> nat \<Rightarrow> nat \<Rightarrow> nat \<Rightarrow> nat \<Rightarrow> nat \<Rightarrow> nat \<Rightarrow> nat \<Rightarrow> nat" where
  "hextets a0 a1 a2 a3 a4 a5 a6 a7 =
     a0 * 2 ^ 112 + a1 * 2 ^ 96 + a2 * 2 ^ 80 + a3 * 2 ^ 64
     + a4 * 2 ^ 48 + a5 * 2 ^ 32 + a6 * 2 ^ 16 + a7"

fun ipv4_value :: "octets \<Rightarrow> nat" where
  "ipv4_value (o0, o1, o2, o3) = dotted (unat o0) (unat o1) (unat o2) (unat o3)"

fun ipv6_value :: "segments \<Rightarrow> nat" where
  "ipv6_value (s0, s1, s2, s3, s4, s5, s6, s7) =
     hextets (unat s0) (unat s1) (unat s2) (unat s3) (unat s4) (unat s5) (unat s6) (unat s7)"

definition in_block :: "nat \<Rightarrow> nat \<Rightarrow> nat \<times> nat \<Rightarrow> bool" where
  "in_block w a b = (a div 2 ^ (w - snd b) = fst b div 2 ^ (w - snd b))"

definition restricted_ipv4_blocks :: "(nat \<times> nat) list" where
  "restricted_ipv4_blocks =
     [(dotted 0 0 0 0, 8), (dotted 10 0 0 0, 8), (dotted 100 64 0 0, 10),
      (dotted 127 0 0 0, 8), (dotted 169 254 0 0, 16), (dotted 172 16 0 0, 12),
      (dotted 192 0 0 0, 24), (dotted 192 0 2 0, 24), (dotted 192 88 99 0, 24),
      (dotted 192 168 0 0, 16), (dotted 198 18 0 0, 15), (dotted 198 51 100 0, 24),
      (dotted 203 0 113 0, 24), (dotted 224 0 0 0, 4), (dotted 240 0 0 0, 4)]"

definition restricted_ipv4_value :: "nat \<Rightarrow> bool" where
  "restricted_ipv4_value a = list_ex (in_block 32 a) restricted_ipv4_blocks"

definition restricted_ipv6_blocks :: "(nat \<times> nat) list" where
  "restricted_ipv6_blocks =
     [(hextets 0 0 0 0 0 0 0 0, 128), (hextets 0 0 0 0 0 0 0 1, 128),
      (hextets 0 0 0 0 0xffff 0 0 0, 96), (hextets 0x64 0xff9b 0 0 0 0 0 0, 96),
      (hextets 0x2001 0x0db8 0 0 0 0 0 0, 32), (hextets 0x2001 0 0 0 0 0 0 0, 32),
      (hextets 0xfc00 0 0 0 0 0 0 0, 7), (hextets 0xfe80 0 0 0 0 0 0 0, 10),
      (hextets 0xfec0 0 0 0 0 0 0 0, 10), (hextets 0xff00 0 0 0 0 0 0 0, 8)]"

text \<open>The two blocks that embed an IPv4 address: \<open>::ffff:0:0/96\<close> in its last 32 bits and
  \<open>2002::/16\<close> in the 32 bits after the prefix.\<close>

definition embedded_ipv4 :: "nat \<Rightarrow> nat option" where
  "embedded_ipv4 a =
     (if in_block 128 a (hextets 0 0 0 0 0 0xffff 0 0, 96) then Some (a mod 2 ^ 32)
      else if in_block 128 a (hextets 0x2002 0 0 0 0 0 0 0, 16) then Some (a div 2 ^ 80 mod 2 ^ 32)
      else None)"

definition restricted_ipv6_value :: "nat \<Rightarrow> bool" where
  "restricted_ipv6_value a =
     (list_ex (in_block 128 a) restricted_ipv6_blocks
      \<or> (case embedded_ipv4 a of Some v4 \<Rightarrow> restricted_ipv4_value v4 | None \<Rightarrow> False))"

section \<open>Lemmas\<close>

lemma unat_and_high_mask:
  "unat ((x :: 'a::len word) AND NOT (mask k)) = unat x div 2 ^ k * 2 ^ k"
proof -
  have "x AND NOT (mask k) = push_bit k (drop_bit k x)"
    by (simp add: bit_eq_iff bit_simps) auto
  hence "unat (x AND NOT (mask k)) = take_bit LENGTH('a) (push_bit k (drop_bit k (unat x)))"
    by (simp only: unsigned_push_bit_eq unsigned_drop_bit_eq take_bit_nat_eq_self [OF unsigned_less])
  moreover have "unat x div 2 ^ k * 2 ^ k < 2 ^ LENGTH('a)"
    by (rule order.strict_trans1 [OF div_times_less_eq_dividend]) (rule unsigned_less)
  ultimately show ?thesis
    by (simp add: push_bit_eq_mult drop_bit_eq_div take_bit_eq_mod)
qed

lemma unat_and_0xff: "unat ((x :: u16) AND 0xff) = unat x mod 256"
proof -
  have "x AND 0xff = take_bit 8 x"
    by (simp add: take_bit_eq_mask mask_eq_exp_minus_1)
  hence "unat (x AND 0xff) = take_bit 8 (unat x)"
    by (simp only: unsigned_take_bit_eq)
  thus ?thesis
    by (simp add: take_bit_eq_mod)
qed

lemma unat_ucast_u8: "unat (ucast (x :: u16) :: u8) = unat x mod 256"
  by (simp add: unsigned_ucast_eq take_bit_eq_mod)

lemma unat_drop_bit_8: "unat (drop_bit 8 (x :: u16)) = unat x div 256"
proof -
  have "unat (drop_bit 8 x) = drop_bit 8 (take_bit 16 (unat x))"
    by (simp add: unsigned_drop_bit_eq)
  thus ?thesis
    using u16_less [of x] by (simp add: drop_bit_eq_div take_bit_eq_mod)
qed

lemma hi_byte_eq: "unat (hi_byte s) = unat s div 256"
proof -
  have "unat s div 256 < 256"
    using u16_less [of s] by linarith
  thus ?thesis
    by (simp only: hi_byte_def unat_ucast_u8 unat_and_0xff unat_drop_bit_8 mod_mod_trivial mod_less)
qed

lemma lo_byte_eq: "unat (lo_byte s) = unat s mod 256"
  by (simp only: lo_byte_def unat_ucast_u8 unat_and_0xff mod_mod_trivial)

text \<open>The masks of the code, as conditions on the leading bits.\<close>

lemma mask_tests:
  "(o1 :: u8) AND 0xC0 = 64 \<longleftrightarrow> unat o1 div 64 = 1"
  "(s :: u16) AND 0xfe00 = 0xfc00 \<longleftrightarrow> unat s div 512 = 0x7e"
  "s AND 0xffc0 = 0xfe80 \<longleftrightarrow> unat s div 64 = 0x3fa"
  "s AND 0xffc0 = 0xfec0 \<longleftrightarrow> unat s div 64 = 0x3fb"
  "s AND 0xff00 = 0xff00 \<longleftrightarrow> unat s div 256 = 0xff"
proof -
  have masks: "(0xC0 :: u8) = NOT (mask 6)" "(0xfe00 :: u16) = NOT (mask 9)"
    "(0xffc0 :: u16) = NOT (mask 6)" "(0xff00 :: u16) = NOT (mask 8)"
    by (simp_all add: mask_eq_exp_minus_1)
  show "o1 AND 0xC0 = 64 \<longleftrightarrow> unat o1 div 64 = 1"
    by (simp only: word_unat_eq_iff masks unat_and_high_mask) simp
  show "s AND 0xfe00 = 0xfc00 \<longleftrightarrow> unat s div 512 = 0x7e"
    by (simp only: word_unat_eq_iff masks(2) unat_and_high_mask) simp
  show "s AND 0xffc0 = 0xfe80 \<longleftrightarrow> unat s div 64 = 0x3fa"
    by (simp only: word_unat_eq_iff masks(3) unat_and_high_mask) simp
  show "s AND 0xffc0 = 0xfec0 \<longleftrightarrow> unat s div 64 = 0x3fb"
    by (simp only: word_unat_eq_iff masks(3) unat_and_high_mask) simp
  show "s AND 0xff00 = 0xff00 \<longleftrightarrow> unat s div 256 = 0xff"
    by (simp only: word_unat_eq_iff masks(4) unat_and_high_mask)
      (simp add: masks(4) [symmetric])
qed

lemma digit_pair_eq:
  assumes "(b :: nat) < n" "y < n"
  shows "a * n + b = x * n + y \<longleftrightarrow> a = x \<and> b = y"
proof
  assume eq: "a * n + b = x * n + y"
  have "(a * n + b) div n = a" "(a * n + b) mod n = b"
    "(x * n + y) div n = x" "(x * n + y) mod n = y"
    using assms by simp_all
  with eq show "a = x \<and> b = y"
    by simp
qed simp

text \<open>The prefixes of a 32-bit address in terms of its octets.\<close>

lemma octet_prefixes:
  fixes a b c d :: nat
  assumes "a < 256" "b < 256" "c < 256" "d < 256"
  shows "dotted a b c d div 2 ^ 8 = (a * 256 + b) * 256 + c"
    "dotted a b c d div 2 ^ 16 = a * 256 + b"
    "dotted a b c d div 2 ^ 17 = a * 128 + b div 2"
    "dotted a b c d div 2 ^ 20 = a * 16 + b div 16"
    "dotted a b c d div 2 ^ 22 = a * 4 + b div 64"
    "dotted a b c d div 2 ^ 24 = a"
    "dotted a b c d div 2 ^ 28 = a div 16"
  using assms by (simp_all add: dotted_def)

text \<open>What it means for an address to be in a block of each of the prefix lengths used.\<close>

lemma in_ipv4_block:
  fixes a b c d x y z w :: nat
  assumes v: "a < 256" "b < 256" "c < 256" "d < 256"
    and n: "x < 256" "y < 256" "z < 256" "w < 256"
  shows "in_block 32 (dotted a b c d) (dotted x y z w, 4) \<longleftrightarrow> a div 16 = x div 16"
    "in_block 32 (dotted a b c d) (dotted x y z w, 8) \<longleftrightarrow> a = x"
    "in_block 32 (dotted a b c d) (dotted x y z w, 10) \<longleftrightarrow> a = x \<and> b div 64 = y div 64"
    "in_block 32 (dotted a b c d) (dotted x y z w, 12) \<longleftrightarrow> a = x \<and> b div 16 = y div 16"
    "in_block 32 (dotted a b c d) (dotted x y z w, 15) \<longleftrightarrow> a = x \<and> b div 2 = y div 2"
    "in_block 32 (dotted a b c d) (dotted x y z w, 16) \<longleftrightarrow> a = x \<and> b = y"
    "in_block 32 (dotted a b c d) (dotted x y z w, 24) \<longleftrightarrow> a = x \<and> b = y \<and> c = z"
proof -
  have small: "b div 64 < 4" "y div 64 < 4" "b div 16 < 16" "y div 16 < 16"
    "b div 2 < 128" "y div 2 < 128"
    using v n by linarith+
  have diffs: "(32 :: nat) - 4 = 28" "(32 :: nat) - 8 = 24" "(32 :: nat) - 10 = 22"
    "(32 :: nat) - 12 = 20" "(32 :: nat) - 15 = 17" "(32 :: nat) - 16 = 16" "(32 :: nat) - 24 = 8"
    by simp_all
  note unf = in_block_def fst_conv snd_conv diffs octet_prefixes [OF v] octet_prefixes [OF n]
  show "in_block 32 (dotted a b c d) (dotted x y z w, 4) \<longleftrightarrow> a div 16 = x div 16"
    "in_block 32 (dotted a b c d) (dotted x y z w, 8) \<longleftrightarrow> a = x"
    by (simp_all only: unf)
  show "in_block 32 (dotted a b c d) (dotted x y z w, 10) \<longleftrightarrow> a = x \<and> b div 64 = y div 64"
    "in_block 32 (dotted a b c d) (dotted x y z w, 12) \<longleftrightarrow> a = x \<and> b div 16 = y div 16"
    "in_block 32 (dotted a b c d) (dotted x y z w, 15) \<longleftrightarrow> a = x \<and> b div 2 = y div 2"
    by (simp_all only: unf digit_pair_eq small)
  show "in_block 32 (dotted a b c d) (dotted x y z w, 16) \<longleftrightarrow> a = x \<and> b = y"
    "in_block 32 (dotted a b c d) (dotted x y z w, 24) \<longleftrightarrow> a = x \<and> b = y \<and> c = z"
    by (simp_all only: unf digit_pair_eq v n conj_assoc)
qed

lemma byte_intervals:
  fixes a b :: nat
  shows "b div 16 = Suc 0 \<longleftrightarrow> 16 \<le> b \<and> b \<le> 31" "b div 2 = 9 \<longleftrightarrow> b = 18 \<or> b = 19"
    "a div 16 = 14 \<longleftrightarrow> 224 \<le> a \<and> a \<le> 239" "a < 256 \<Longrightarrow> a div 16 = 15 \<longleftrightarrow> 240 \<le> a"
  by linarith+

lemma ipv4_octets_blocks:
  "is_restricted_ipv4_octets ip = restricted_ipv4_value (ipv4_value ip)"
proof (cases ip)
  case (fields o0 o1 o2 o3)
  have b: "unat o0 < 256" "unat o1 < 256" "unat o2 < 256" "unat o3 < 256"
    by (rule u8_less)+
  have v: "ipv4_value ip = dotted (unat o0) (unat o1) (unat o2) (unat o3)"
    by (simp add: fields)
  show ?thesis
    unfolding v restricted_ipv4_value_def restricted_ipv4_blocks_def
    unfolding fields is_restricted_ipv4_octets.simps mask_tests
    by (simp add: in_ipv4_block b byte_intervals word_unat_eq_iff word_le_nat_alt)
qed

text \<open>A 128-bit address in Horner form, and its prefixes.\<close>

lemma hextets_horner:
  "hextets a0 a1 a2 a3 a4 a5 a6 a7 =
     ((((((a0 * 65536 + a1) * 65536 + a2) * 65536 + a3) * 65536
       + a4) * 65536 + a5) * 65536 + a6) * 65536 + a7"
  by (simp add: hextets_def)

lemma div_segment: "r < 65536 \<Longrightarrow> (q * 65536 + r) div (65536 * k) = q div (k :: nat)"
  by (simp add: div_mult2_eq)

lemma segment_prefixes:
  fixes a0 a1 a2 a3 a4 a5 a6 a7 :: nat
  assumes b: "a0 < 65536" "a1 < 65536" "a2 < 65536" "a3 < 65536"
    "a4 < 65536" "a5 < 65536" "a6 < 65536" "a7 < 65536"
  defines "v \<equiv> hextets a0 a1 a2 a3 a4 a5 a6 a7"
  shows "v div 2 ^ 121 = a0 div 512" "v div 2 ^ 120 = a0 div 256"
    "v div 2 ^ 118 = a0 div 64" "v div 2 ^ 112 = a0"
    "v div 2 ^ 96 = a0 * 65536 + a1"
    "v div 2 ^ 80 = (a0 * 65536 + a1) * 65536 + a2"
    "v div 2 ^ 32 = ((((a0 * 65536 + a1) * 65536 + a2) * 65536 + a3) * 65536 + a4) * 65536 + a5"
proof -
  have two: "(2 :: nat) ^ 32 = 65536 * (65536 * 1)"
    "(2 :: nat) ^ 80 = 65536 * (65536 * (65536 * (65536 * (65536 * 1))))"
    "(2 :: nat) ^ 96 = 65536 * (65536 * (65536 * (65536 * (65536 * (65536 * 1)))))"
    "(2 :: nat) ^ 112 = 65536 * (65536 * (65536 * (65536 * (65536 * (65536 * (65536 * 1))))))"
    "(2 :: nat) ^ 118 = 65536 * (65536 * (65536 * (65536 * (65536 * (65536 * (65536 * 64))))))"
    "(2 :: nat) ^ 120 = 65536 * (65536 * (65536 * (65536 * (65536 * (65536 * (65536 * 256))))))"
    "(2 :: nat) ^ 121 = 65536 * (65536 * (65536 * (65536 * (65536 * (65536 * (65536 * 512))))))"
    by simp_all
  show "v div 2 ^ 121 = a0 div 512" "v div 2 ^ 120 = a0 div 256"
    "v div 2 ^ 118 = a0 div 64" "v div 2 ^ 112 = a0"
    "v div 2 ^ 96 = a0 * 65536 + a1"
    "v div 2 ^ 80 = (a0 * 65536 + a1) * 65536 + a2"
    "v div 2 ^ 32 = ((((a0 * 65536 + a1) * 65536 + a2) * 65536 + a3) * 65536 + a4) * 65536 + a5"
    by (simp_all only: v_def hextets_horner two div_segment b div_by_1)
qed

lemma low_two_segments:
  fixes x y z :: nat
  assumes "y < 65536" "z < 65536"
  shows "((x * 65536 + y) * 65536 + z) mod 2 ^ 32 = y * 65536 + z"
proof -
  have "(x * 65536 + y) * 65536 + z = (y * 65536 + z) + x * 2 ^ 32"
    by simp
  moreover have "y * 65536 + z < 2 ^ 32"
    using assms by simp
  ultimately show ?thesis
    by (simp only: mod_mult_self1 mod_less)
qed

lemma in_ipv6_block:
  fixes a0 a1 a2 a3 a4 a5 a6 a7 b0 b1 b2 b3 b4 b5 b6 b7 :: nat
  assumes a: "a0 < 65536" "a1 < 65536" "a2 < 65536" "a3 < 65536"
    "a4 < 65536" "a5 < 65536" "a6 < 65536" "a7 < 65536"
    and b: "b0 < 65536" "b1 < 65536" "b2 < 65536" "b3 < 65536"
    "b4 < 65536" "b5 < 65536" "b6 < 65536" "b7 < 65536"
  defines "v \<equiv> hextets a0 a1 a2 a3 a4 a5 a6 a7" and "n \<equiv> hextets b0 b1 b2 b3 b4 b5 b6 b7"
  shows "in_block 128 v (n, 7) \<longleftrightarrow> a0 div 512 = b0 div 512"
    "in_block 128 v (n, 8) \<longleftrightarrow> a0 div 256 = b0 div 256"
    "in_block 128 v (n, 10) \<longleftrightarrow> a0 div 64 = b0 div 64"
    "in_block 128 v (n, 16) \<longleftrightarrow> a0 = b0"
    "in_block 128 v (n, 32) \<longleftrightarrow> a0 = b0 \<and> a1 = b1"
    "in_block 128 v (n, 96) \<longleftrightarrow>
       a0 = b0 \<and> a1 = b1 \<and> a2 = b2 \<and> a3 = b3 \<and> a4 = b4 \<and> a5 = b5"
    "in_block 128 v (n, 128) \<longleftrightarrow>
       a0 = b0 \<and> a1 = b1 \<and> a2 = b2 \<and> a3 = b3 \<and> a4 = b4 \<and> a5 = b5 \<and> a6 = b6 \<and> a7 = b7"
proof -
  have diffs: "(128 :: nat) - 7 = 121" "(128 :: nat) - 8 = 120" "(128 :: nat) - 10 = 118"
    "(128 :: nat) - 16 = 112" "(128 :: nat) - 32 = 96" "(128 :: nat) - 96 = 32"
    by simp_all
  note unf = in_block_def fst_conv snd_conv diffs v_def n_def
    segment_prefixes [OF a] segment_prefixes [OF b]
  show "in_block 128 v (n, 7) \<longleftrightarrow> a0 div 512 = b0 div 512"
    "in_block 128 v (n, 8) \<longleftrightarrow> a0 div 256 = b0 div 256"
    "in_block 128 v (n, 10) \<longleftrightarrow> a0 div 64 = b0 div 64"
    "in_block 128 v (n, 16) \<longleftrightarrow> a0 = b0"
    "in_block 128 v (n, 32) \<longleftrightarrow> a0 = b0 \<and> a1 = b1"
    "in_block 128 v (n, 96) \<longleftrightarrow>
       a0 = b0 \<and> a1 = b1 \<and> a2 = b2 \<and> a3 = b3 \<and> a4 = b4 \<and> a5 = b5"
    by (simp_all only: unf digit_pair_eq a b conj_assoc)
  show "in_block 128 v (n, 128) \<longleftrightarrow>
       a0 = b0 \<and> a1 = b1 \<and> a2 = b2 \<and> a3 = b3 \<and> a4 = b4 \<and> a5 = b5 \<and> a6 = b6 \<and> a7 = b7"
    by (simp only: in_block_def fst_conv snd_conv diff_self_eq_0 power_0 div_by_1 v_def n_def
        hextets_horner digit_pair_eq a b conj_assoc)
qed

text \<open>An embedded IPv4 address, split into its octets, has the value of its two segments.\<close>

lemma embedded_value:
  "ipv4_value (hi_byte x, lo_byte x, hi_byte y, lo_byte y) = unat x * 65536 + unat y"
proof -
  have "dotted a b c d = (a * 256 + b) * 65536 + (c * 256 + d)" for a b c d
    by (simp add: dotted_def)
  thus ?thesis
    by (simp only: ipv4_value.simps hi_byte_eq lo_byte_eq div_mult_mod_eq)
qed

lemma embedded_octets:
  "is_restricted_ipv4_octets (hi_byte x, lo_byte x, hi_byte y, lo_byte y)
     = restricted_ipv4_value (unat x * 65536 + unat y)"
  by (simp only: ipv4_octets_blocks embedded_value)

lemma ipv6_segments_blocks:
  "is_restricted_ipv6_segments ip = restricted_ipv6_value (ipv6_value ip)"
proof (cases ip rule: is_restricted_ipv6_segments.cases)
  case fields: (1 s0 s1 s2 s3 s4 s5 s6 s7)
  have b: "unat s0 < 65536" "unat s1 < 65536" "unat s2 < 65536" "unat s3 < 65536"
    "unat s4 < 65536" "unat s5 < 65536" "unat s6 < 65536" "unat s7 < 65536"
    by (rule u16_less)+
  let ?v = "ipv6_value ip"
  have v: "?v = hextets (unat s0) (unat s1) (unat s2) (unat s3) (unat s4) (unat s5) (unat s6) (unat s7)"
    by (simp add: fields)
  have low: "?v mod 2 ^ 32 = unat s6 * 65536 + unat s7"
    by (simp only: v hextets_horner low_two_segments b)
  have mid: "?v div 2 ^ 80 mod 2 ^ 32 = unat s1 * 65536 + unat s2"
    by (simp only: v segment_prefixes(6) low_two_segments b)
  show ?thesis
    unfolding restricted_ipv6_value_def restricted_ipv6_blocks_def embedded_ipv4_def low mid
    unfolding v fields is_restricted_ipv6_segments.simps mask_tests embedded_octets
    by (simp add: in_ipv6_block b word_unat_eq_iff)
qed

section \<open>The kernel meets the executable specification\<close>

lemma be_bytes_eq: "be_bytes s = [hi_byte s, lo_byte s]"
proof -
  have "unat s div 256 < 256"
    using u16_less [of s] by linarith
  thus ?thesis
    by (simp add: be_bytes_def word_unat_eq_iff unat_ucast_u8 hi_byte_eq lo_byte_eq unat_drop_bit_8
        del: u16_less)
qed

lemma segment_bytes:
  "hi_byte s = 0 \<and> lo_byte s = 0 \<longleftrightarrow> s = 0"
  "hi_byte s = 0xff \<and> lo_byte s = 0xff \<longleftrightarrow> s = 0xffff"
proof -
  have n: "n = x * 256 + y \<longleftrightarrow> n div 256 = x \<and> n mod 256 = y" if "y < 256" for n x y :: nat
    using digit_pair_eq [of "n mod 256" 256 y "n div 256" x] that by (simp only: div_mult_mod_eq)
  show "hi_byte s = 0 \<and> lo_byte s = 0 \<longleftrightarrow> s = 0"
    using n [of 0 "unat s" 0] by (simp add: word_unat_eq_iff hi_byte_eq lo_byte_eq)
  show "hi_byte s = 0xff \<and> lo_byte s = 0xff \<longleftrightarrow> s = 0xffff"
    using n [of 255 "unat s" 255] by (simp add: word_unat_eq_iff hi_byte_eq lo_byte_eq)
qed

lemma to_ipv4_mapped_eq:
  "to_ipv4_mapped (s0, s1, s2, s3, s4, s5, s6, s7) =
     (if s0 = 0 \<and> s1 = 0 \<and> s2 = 0 \<and> s3 = 0 \<and> s4 = 0 \<and> s5 = 0xffff
      then Some (hi_byte s6, lo_byte s6, hi_byte s7, lo_byte s7) else None)"
proof -
  have "to_ipv4_mapped (s0, s1, s2, s3, s4, s5, s6, s7) =
     (if (hi_byte s0 = 0 \<and> lo_byte s0 = 0) \<and> (hi_byte s1 = 0 \<and> lo_byte s1 = 0)
        \<and> (hi_byte s2 = 0 \<and> lo_byte s2 = 0) \<and> (hi_byte s3 = 0 \<and> lo_byte s3 = 0)
        \<and> (hi_byte s4 = 0 \<and> lo_byte s4 = 0) \<and> (hi_byte s5 = 0xff \<and> lo_byte s5 = 0xff)
      then Some (hi_byte s6, lo_byte s6, hi_byte s7, lo_byte s7) else None)"
    by (simp add: to_ipv4_mapped_def be_bytes_eq Let_def numeral_nat)
  thus ?thesis
    by (simp only: segment_bytes)
qed

lemma spec_is_restricted_ipv4_eq: "spec_is_restricted_ipv4 ip = is_restricted_ipv4_octets ip"
  by (cases ip) simp

lemma case_guarded_Some:
  "(case (if p then Some a else None) of Some m \<Rightarrow> q m | None \<Rightarrow> False) \<longleftrightarrow> p \<and> q a"
  by simp

lemma is_restricted_ip_spec: "is_restricted_ip ip = spec_is_restricted_ip ip"
proof (cases ip)
  case (V6 v6)
  show ?thesis
    by (cases v6 rule: is_restricted_ipv6_segments.cases)
      (simp add: V6 is_restricted_ipv6_def to_ipv4_mapped_eq is_unspecified_def is_loopback_def
        spec_is_restricted_ipv4_eq case_guarded_Some
        del: is_restricted_ipv4_octets.simps spec_is_restricted_ipv4.simps)
qed (simp add: is_restricted_ipv4_def spec_is_restricted_ipv4_eq)

section \<open>Properties\<close>

text \<open>C23: An IPv4 address is classified as restricted exactly when its 32-bit value lies in one
  of the fifteen CIDR blocks that the documentation of the filter lists.\<close>

theorem restricted_ipv4_iff_blocks:
  "is_restricted_ip (V4 ip) \<longleftrightarrow> restricted_ipv4_value (ipv4_value ip)"
  by (simp add: is_restricted_ipv4_def ipv4_octets_blocks)

text \<open>C24: An IPv6 address is classified as restricted exactly when its 128-bit value lies in one
  of the ten unconditionally blocked CIDR blocks, or it is an IPv4-mapped or a 6to4 address
  whose embedded 32-bit IPv4 address is restricted: embedding an address hides nothing.\<close>

theorem restricted_ipv6_iff_blocks:
  "is_restricted_ip (V6 ip) \<longleftrightarrow> restricted_ipv6_value (ipv6_value ip)"
  by (simp add: is_restricted_ipv6_def ipv6_segments_blocks)

text \<open>The shipped classifier and the executable specification of the crate, which is written
  with interval tests and the address methods of the standard library, agree on every
  address.\<close>

theorem is_restricted_ip_meets_spec: "is_restricted_ip ip = spec_is_restricted_ip ip"
  by (rule is_restricted_ip_spec)

end
