(* ===== verification/Errors.thy ===== *)
theory Errors
  imports Prelude
begin

text \<open>
  The error enumerations of \<open>error.rs\<close>, one datatype per enum with the constructors of
  the source.  Constructor names repeat between the enums, so they are used qualified
  by the name of their type, as in Rust.  Payloads are kept as they are in the source;
  a foreign error that a variant wraps is its \<open>Display\<close> text.  A \<open>#[from]\<close> conversion of
  the question mark operator is the \<open>map_err\<close> of the wrapping constructor.
\<close>

datatype (plugins only: code size) CryptoError =
    EcdsaSign string
  | EcdsaVerify string
  | InvalidKey string
  | InvalidPoint string
  | Base64Decode string
  | Json string
  | Rng string
  | Hmac string
  | Pem string
  | Seal string
  | Open string
  | InvalidEnvelope string
  | Utf8 string

text \<open>The \<open>Display\<close> of an error of this type, which other errors quote.\<close>

fun show_crypto_error :: "CryptoError \<Rightarrow> string" where
  "show_crypto_error (EcdsaSign m) = ''ECDSA P-256 signature generation error: '' @ m"
| "show_crypto_error (EcdsaVerify m) = ''ECDSA P-256 signature verification failed: '' @ m"
| "show_crypto_error (InvalidKey m) = ''Invalid cryptographic key: '' @ m"
| "show_crypto_error (InvalidPoint m) = ''Invalid elliptic curve point: '' @ m"
| "show_crypto_error (Base64Decode m) = ''Base64 decode error: '' @ m"
| "show_crypto_error (CryptoError.Json m) = ''JSON serialization/deserialization error: '' @ m"
| "show_crypto_error (Rng m) = ''Random number generator error: '' @ m"
| "show_crypto_error (Hmac m) = ''HMAC error: '' @ m"
| "show_crypto_error (Pem m) = ''PEM decoding error: '' @ m"
| "show_crypto_error (Seal m) = ''Authenticated encryption failed: '' @ m"
| "show_crypto_error (Open m) = ''Authenticated decryption failed: '' @ m"
| "show_crypto_error (InvalidEnvelope m) = ''Invalid sealed envelope: '' @ m"
| "show_crypto_error (Utf8 m) = ''Decrypted payload is not valid UTF-8: '' @ m"

datatype (plugins only: code size) DPoPError =
    MalformedJwt string
  | InvalidHeaderTyp string
  | UnsupportedAlgorithm string
  | MissingJwk
  | InvalidJwk string
  | PrivateKeyInJwk
  | MissingClaim string
  | JtiTooLong nat nat
  | MethodMismatch string string
  | UriMismatch string string
  | InvalidUri string
  | ExpiredProof u64 u64
  | FutureProof u64 u64 u64
  | ProofTooOld u64 u64 u64
  | NonceMismatch string string
  | MissingNonce
  | ResponseMissingDpopNonce
  | AthMismatch string string
  | MissingAth
  | SignatureVerificationFailed
  | ReplayDetected string
  | NonceRetryLimitExceeded
  | ReplayCacheSaturated
  | NonceCacheSaturated
  | Serialization string
  | ClockSkew string
  | Crypto CryptoError

datatype (plugins only: code size) PkceError =
    InvalidVerifierLength nat nat nat
  | InvalidVerifierCharacter char nat
  | InvalidChallengeLength nat
  | UnsupportedMethod string
  | ChallengeMismatch
  | Crypto CryptoError

datatype (plugins only: code size) SsrfError =
    BlockedIp string
  | BlockedHost string
  | InsecureScheme string
  | DnsResolutionFailed string
  | InvalidUrl string
  | TooManyRedirects
  | ResponseTooLarge nat nat
  | HttpStatus nat string
  | Http string
  | Io string
  | Json string

datatype (plugins only: code size) TokenError =
    MissingHeader
  | InvalidScheme string string
  | Expired u64 u64
  | NotYetValid u64 u64
  | AudienceMismatch string string
  | IssuerMismatch string string
  | InvalidSignature
  | CnfThumbprintMismatch string string
  | MissingAudience
  | MissingIssuer
  | MissingDid
  | MalformedToken string
  | InvalidNsid string
  | InvalidStateTtl nat
  | InvalidTokenType string
  | MissingField string
  | SubMismatch string string
  | MissingAtprotoScope string
  | ScopeExpansion string string
  | RequestFailed nat string "string option"
  | MissingRefreshToken
  | InvalidState string
  | StateExpired
  | MissingCallbackIssuer
  | MissingScope
  | Http string
  | Json string
  | DPoP DPoPError
  | Ssrf SsrfError
  | Crypto CryptoError

datatype (plugins only: code size) ParError =
    RequestFailed nat string "string option"
  | MissingField string
  | InvalidRequestUri string
  | InvalidEndpoint string
  | Http string
  | Json string
  | DPoP DPoPError
  | Ssrf SsrfError

datatype (plugins only: code size) IdentityError =
    InvalidHandleSyntax string
  | DisallowedHandleTld string
  | HandleResolutionFailed string
  | AmbiguousHandleResolution string
  | HandleDidMismatch string
  | InvalidDidSyntax string
  | UnsupportedDidMethod string
  | DidNotFound string
  | MalformedDidDocument string
  | DidDocumentIdMismatch string string
  | MissingPdsEndpoint string
  | InvalidPdsEndpoint string
  | Ssrf SsrfError
  | Http string
  | Json string
  | Dns string

datatype (plugins only: code size) DiscoveryError =
    ProtectedResourceDiscoveryFailed string
  | MissingAuthorizationServers string
  | MultipleAuthorizationServers nat
  | InvalidAuthorizationServerUrl string
  | ResourceMismatch string string
  | AuthServerDiscoveryFailed string
  | IssuerMismatch string string
  | MissingDpopAlgorithm string
  | MissingPkceMethod string
  | MissingParEndpoint string
  | ParNotRequired string
  | MissingRequestUriRegistration string
  | MissingResponseType string
  | MissingGrantType string string
  | MissingTokenAuthMethod string
  | MissingTokenAuthSigningAlg string
  | InvalidTokenAuthSigningAlg string
  | MissingAtprotoScope string
  | MissingIssParameterSupport string
  | MissingClientMetadataSupport string
  | MissingTokenEndpoint string
  | MissingAuthorizationEndpoint string
  | InvalidEndpointUrl string
  | Identity IdentityError
  | Ssrf SsrfError
  | Http string
  | Json string

datatype (plugins only: code size) StoreError =
    StateExpired string
  | StateNotFound string
  | Backend string
  | CapacityExceeded nat
  | Serialization string
  | Lock string

datatype (plugins only: code size) IntegrationError =
    MissingCode
  | MissingState
  | OAuthError string string
  | MissingAuthHeader
  | InvalidAuthScheme string
  | MissingDPoPProofHeader
  | SessionNotFound
  | AuthFailed string
  | Internal string
  | Store StoreError
  | DPoP DPoPError
  | Token TokenError

datatype (plugins only: code size) AtprotoOAuthError =
    Crypto CryptoError
  | DPoP DPoPError
  | Pkce PkceError
  | Token TokenError
  | Par ParError
  | Ssrf SsrfError
  | Identity IdentityError
  | Discovery DiscoveryError
  | Store StoreError
  | Integration IntegrationError

end
