(* ===== verification/Crypto.thy ===== *)
theory Crypto
  imports Errors
begin

text \<open>
  The wrappers of \<open>crypto.rs\<close> around the cryptographic crates, the constant-time
  comparison kernel (\<open>kernels/ct_eq.rs\<close>) and its model in \<open>formal_models.rs\<close>, and the
  key types of \<open>dpop.rs\<close>.

  The crates themselves (\<open>sha2\<close>, \<open>hmac\<close>, \<open>base64\<close>, \<open>subtle\<close>, \<open>p256\<close>) are a parameter,
  a record of the functions the crate calls.  A \<open>Display\<close> of a foreign error value is
  the string in the error branch of the corresponding field.  Keys are represented by
  their canonical encodings.  What the crates document about these functions is
  collected in the predicates of the section on documented behaviour, which the
  theorems that need it take as hypotheses.
\<close>

unbundle bit_operations_syntax

type_synonym signing_key = bytes
type_synonym verifying_key = bytes

record crypto_lib =
  sha256 :: "bytes \<Rightarrow> bytes"
  hmac_new :: "bytes \<Rightarrow> (bytes, string) result"
  hmac_mac :: "bytes \<Rightarrow> bytes \<Rightarrow> bytes"
  b64_encode_nopad :: "bytes \<Rightarrow> string"
  b64_decode_nopad :: "string \<Rightarrow> (bytes, string) result"
  b64_decode_pad :: "string \<Rightarrow> (bytes, string) result"
  subtle_ct_eq :: "bytes \<Rightarrow> bytes \<Rightarrow> bool"
  p256_sign :: "signing_key \<Rightarrow> bytes \<Rightarrow> bytes"
  p256_signature_from_slice :: "bytes \<Rightarrow> (bytes, string) result"
  p256_verify :: "verifying_key \<Rightarrow> bytes \<Rightarrow> bytes \<Rightarrow> (unit, string) result"
  p256_verifying_key :: "signing_key \<Rightarrow> verifying_key"
  p256_from_sec1 :: "bytes \<Rightarrow> (verifying_key, string) result"
  p256_point_x :: "verifying_key \<Rightarrow> bytes option"
  p256_point_y :: "verifying_key \<Rightarrow> bytes option"

section \<open>Wrappers of crypto.rs\<close>

definition sha256_digest :: "crypto_lib \<Rightarrow> bytes \<Rightarrow> bytes" where
  "sha256_digest L d = sha256 L d"

definition hmac_sha256 :: "crypto_lib \<Rightarrow> bytes \<Rightarrow> bytes \<Rightarrow> (bytes, CryptoError) result" where
  "hmac_sha256 L key message =
     try_bind (map_err (\<lambda>e. CryptoError.Hmac (''Failed to initialize HMAC: '' @ e)) (hmac_new L key))
       (\<lambda>mac. Ok (hmac_mac L mac message))"

definition base64url_encode :: "crypto_lib \<Rightarrow> bytes \<Rightarrow> string" where
  "base64url_encode L d = b64_encode_nopad L d"

definition base64url_decode :: "crypto_lib \<Rightarrow> string \<Rightarrow> (bytes, CryptoError) result" where
  "base64url_decode L input =
     map_err (\<lambda>e. CryptoError.Base64Decode (''Invalid base64url data: '' @ e))
       (case b64_decode_nopad L (trim input) of
          Ok d \<Rightarrow> Ok d
        | Err _ \<Rightarrow> b64_decode_pad L (trim input))"

definition base64url_decode_fixed ::
  "crypto_lib \<Rightarrow> nat \<Rightarrow> string \<Rightarrow> (bytes, CryptoError) result" where
  "base64url_decode_fixed L n input =
     try_bind (base64url_decode L input)
       (\<lambda>d. if length d \<noteq> n
            then Err (CryptoError.Base64Decode
                   (''Expected '' @ show_nat n @ '' bytes after base64url decode, got ''
                    @ show_nat (length d)))
            else Ok d)"

definition sign_p256_raw :: "crypto_lib \<Rightarrow> signing_key \<Rightarrow> bytes \<Rightarrow> (bytes, CryptoError) result" where
  "sign_p256_raw L key message =
     (let d = p256_sign L key message in
      if length d \<noteq> 64
      then Err (CryptoError.EcdsaSign
             (''Signature generated unexpected length '' @ show_nat (length d) @ '', expected 64''))
      else Ok d)"

definition verify_p256_raw ::
  "crypto_lib \<Rightarrow> verifying_key \<Rightarrow> bytes \<Rightarrow> bytes \<Rightarrow> (unit, CryptoError) result" where
  "verify_p256_raw L vk message sig_bytes =
     (if length sig_bytes \<noteq> 64
      then Err (CryptoError.EcdsaVerify
             (''Invalid IEEE P1363 signature length: expected 64 bytes, got ''
              @ show_nat (length sig_bytes)))
      else
        try_bind
          (map_err (\<lambda>e. CryptoError.EcdsaVerify (''Failed to parse signature: '' @ e))
             (p256_signature_from_slice L sig_bytes))
          (\<lambda>sig. map_err (\<lambda>e. CryptoError.EcdsaVerify (''Signature verification failed: '' @ e))
             (p256_verify L vk message sig)))"

definition verifying_key_from_coordinates ::
  "crypto_lib \<Rightarrow> bytes \<Rightarrow> bytes \<Rightarrow> (verifying_key, CryptoError) result" where
  "verifying_key_from_coordinates L x y =
     map_err (\<lambda>e. CryptoError.InvalidPoint (''Invalid P-256 public key point: '' @ e))
       (p256_from_sec1 L (0x04 # x @ y))"

text \<open>Right-aligned copy of a coordinate into a zeroed 32-byte array.\<close>

definition copy_coordinate :: "bytes option \<Rightarrow> bytes" where
  "copy_coordinate c =
     (case c of
        None \<Rightarrow> replicate 32 0
      | Some x \<Rightarrow> (let len = min (length x) 32 in replicate (32 - len) 0 @ take len x))"

definition verifying_key_to_coordinates :: "crypto_lib \<Rightarrow> verifying_key \<Rightarrow> bytes \<times> bytes" where
  "verifying_key_to_coordinates L vk =
     (copy_coordinate (p256_point_x L vk), copy_coordinate (p256_point_y L vk))"

definition quote :: string where
  "quote = [CHR 0x22]"

definition jwk_thumbprint_ec_p256 :: "crypto_lib \<Rightarrow> string \<Rightarrow> string \<Rightarrow> string" where
  "jwk_thumbprint_ec_p256 L x y =
     (let canonical_json =
        ''{'' @ quote @ ''crv'' @ quote @ '':'' @ quote @ ''P-256'' @ quote @ '',''
        @ quote @ ''kty'' @ quote @ '':'' @ quote @ ''EC'' @ quote @ '',''
        @ quote @ ''x'' @ quote @ '':'' @ quote @ x @ quote @ '',''
        @ quote @ ''y'' @ quote @ '':'' @ quote @ y @ quote @ ''}''
      in base64url_encode L (sha256_digest L (as_bytes canonical_json)))"

definition jwk_thumbprint_rsa :: "crypto_lib \<Rightarrow> string \<Rightarrow> string \<Rightarrow> string" where
  "jwk_thumbprint_rsa L e n =
     (let canonical_json =
        ''{'' @ quote @ ''e'' @ quote @ '':'' @ quote @ e @ quote @ '',''
        @ quote @ ''kty'' @ quote @ '':'' @ quote @ ''RSA'' @ quote @ '',''
        @ quote @ ''n'' @ quote @ '':'' @ quote @ n @ quote @ ''}''
      in base64url_encode L (sha256_digest L (as_bytes canonical_json)))"

section \<open>Constant-time comparison\<close>

definition constant_time_eq :: "crypto_lib \<Rightarrow> bytes \<Rightarrow> bytes \<Rightarrow> bool" where
  "constant_time_eq L a b = (if length a \<noteq> length b then False else subtle_ct_eq L a b)"

fun spec_slice_eq :: "bytes \<Rightarrow> bytes \<Rightarrow> bool" where
  "spec_slice_eq a b =
     (if length a \<noteq> length b then False
      else list_all (\<lambda>i. a ! i = b ! i) [0 ..< length a])"

fun spec_constant_time_eq_model :: "bytes \<Rightarrow> bytes \<Rightarrow> bool" where
  "spec_constant_time_eq_model a b =
     (if length a \<noteq> length b then False
      else fold (\<lambda>i diff. diff OR (a ! i XOR b ! i)) [0 ..< length a] 0 = 0)"

definition verify_soundness :: "bytes \<Rightarrow> bytes \<Rightarrow> bool" where
  "verify_soundness a b = (spec_constant_time_eq_model a b = spec_slice_eq a b)"

section \<open>Keys\<close>

record JwkEc =
  jwk_kty :: string
  jwk_crv :: string
  jwk_x :: string
  jwk_y :: string

record DPoPKey =
  key_signing_key :: signing_key

definition thumbprint :: "crypto_lib \<Rightarrow> JwkEc \<Rightarrow> string" where
  "thumbprint L jwk = jwk_thumbprint_ec_p256 L (jwk_x jwk) (jwk_y jwk)"

definition to_verifying_key :: "crypto_lib \<Rightarrow> JwkEc \<Rightarrow> (verifying_key, CryptoError) result" where
  "to_verifying_key L jwk =
     try_bind (base64url_decode_fixed L 32 (jwk_x jwk)) (\<lambda>x.
     try_bind (base64url_decode_fixed L 32 (jwk_y jwk)) (\<lambda>y.
     verifying_key_from_coordinates L x y))"

definition public_jwk :: "crypto_lib \<Rightarrow> DPoPKey \<Rightarrow> JwkEc" where
  "public_jwk L key =
     (let (x, y) = verifying_key_to_coordinates L (p256_verifying_key L (key_signing_key key)) in
      \<lparr> jwk_kty = ''EC'', jwk_crv = ''P-256'',
        jwk_x = base64url_encode L x, jwk_y = base64url_encode L y \<rparr>)"

definition jwk_thumbprint :: "crypto_lib \<Rightarrow> DPoPKey \<Rightarrow> string" where
  "jwk_thumbprint L key = thumbprint L (public_jwk L key)"

definition compute_access_token_hash :: "crypto_lib \<Rightarrow> string \<Rightarrow> string" where
  "compute_access_token_hash L token = base64url_encode L (sha256_digest L (as_bytes token))"

section \<open>Documented behaviour of the crates\<close>

definition is_b64url_char :: "char \<Rightarrow> bool" where
  "is_b64url_char c = (is_ascii_alphanumeric c \<or> c = CHR ''-'' \<or> c = CHR ''_'')"

text \<open>\<open>subtle\<close>: slices of equal length compare as equal iff their contents are.\<close>

definition ct_eq_documented :: "crypto_lib \<Rightarrow> bool" where
  "ct_eq_documented L = (\<forall>a b. length a = length b \<longrightarrow> subtle_ct_eq L a b = (a = b))"

text \<open>\<open>sha2\<close>: a digest has 32 bytes.\<close>

definition sha256_documented :: "crypto_lib \<Rightarrow> bool" where
  "sha256_documented L = (\<forall>d. length (sha256 L d) = 32)"

text \<open>\<open>base64\<close>, the URL-safe alphabet without padding: three bytes give four characters of
  the alphabet, a rest of one or two bytes gives two or three, and decoding inverts it.\<close>

definition b64_documented :: "crypto_lib \<Rightarrow> bool" where
  "b64_documented L =
     (\<forall>d. length (b64_encode_nopad L d) = (4 * length d + 2) div 3
        \<and> list_all is_b64url_char (b64_encode_nopad L d)
        \<and> b64_decode_nopad L (b64_encode_nopad L d) = Ok d)"

text \<open>\<open>p256\<close>: a signature in IEEE P1363 form has 64 bytes, is accepted by the parser, and
  verifies under the public key of the signing key; the coordinates of a public key have 32
  bytes each and determine it.\<close>

definition p256_documented :: "crypto_lib \<Rightarrow> bool" where
  "p256_documented L =
     ((\<forall>k m. length (p256_sign L k m) = 64
        \<and> p256_signature_from_slice L (p256_sign L k m) = Ok (p256_sign L k m)
        \<and> p256_verify L (p256_verifying_key L k) m (p256_sign L k m) = Ok ())
      \<and> (\<forall>k. \<exists>x y. p256_point_x L (p256_verifying_key L k) = Some x
           \<and> p256_point_y L (p256_verifying_key L k) = Some y
           \<and> length x = 32 \<and> length y = 32
           \<and> p256_from_sec1 L (0x04 # x @ y) = Ok (p256_verifying_key L k)))"

section \<open>Lemmas\<close>

lemma constant_time_eq_iff: "ct_eq_documented L \<Longrightarrow> constant_time_eq L a b \<longleftrightarrow> a = b"
  by (auto simp: constant_time_eq_def ct_eq_documented_def)

lemma or_eq_0_iff: "(a :: 'a::len word) OR b = 0 \<longleftrightarrow> a = 0 \<and> b = 0"
  by (auto simp: bit_eq_iff bit_simps)

lemma xor_eq_0_iff: "(a :: 'a::len word) XOR b = 0 \<longleftrightarrow> a = b"
  by (auto simp: bit_eq_iff bit_simps)

lemma fold_or_xor_eq_0:
  "fold (\<lambda>i diff. diff OR (a ! i XOR b ! i)) is (d :: u8) = 0
     \<longleftrightarrow> d = 0 \<and> (\<forall>i \<in> set is. a ! i = b ! i)"
  by (induction "is" arbitrary: d) (auto simp: or_eq_0_iff xor_eq_0_iff)

lemma spec_constant_time_eq_model_iff: "spec_constant_time_eq_model a b \<longleftrightarrow> a = b"
  by (auto simp: fold_or_xor_eq_0 intro: nth_equalityI)

lemma spec_slice_eq_iff: "spec_slice_eq a b \<longleftrightarrow> a = b"
  by (auto simp: list_all_iff intro: nth_equalityI)

lemma length_copy_coordinate [simp]: "length (copy_coordinate c) = 32"
  by (simp add: copy_coordinate_def Let_def split: option.split)

lemma copy_coordinate_32: "length x = 32 \<Longrightarrow> copy_coordinate (Some x) = x"
  by (simp add: copy_coordinate_def)

end
