(* ===== verification/Sample_Crypto.thy ===== *)
theory Sample_Crypto
  imports Crypto
begin

text \<open>
  A concrete value of the parameter that stands for the cryptographic crates: URL-safe
  base64 without padding written out, and otherwise the simplest functions with the
  documented behaviour.  The witnesses of the properties use it to show that their
  hypotheses can hold; nothing in the model depends on it.
\<close>

section \<open>Base64\<close>

definition b64_alphabet :: string where
  "b64_alphabet = ''ABCDEFGHIJKLMNOPQRSTUVWXYZabcdefghijklmnopqrstuvwxyz0123456789-_''"

definition b64_char :: "nat \<Rightarrow> char" where
  "b64_char n = b64_alphabet ! n"

definition b64_value :: "char \<Rightarrow> nat" where
  "b64_value c = length (takeWhile (\<lambda>x. x \<noteq> c) b64_alphabet)"

fun sextets :: "nat list \<Rightarrow> nat list" where
  "sextets [] = []"
| "sextets [a] = [a div 4, a mod 4 * 16]"
| "sextets [a, b] = [a div 4, a mod 4 * 16 + b div 16, b mod 16 * 4]"
| "sextets (a # b # c # r) =
     a div 4 # (a mod 4 * 16 + b div 16) # (b mod 16 * 4 + c div 64) # c mod 64 # sextets r"

fun unsextets :: "nat list \<Rightarrow> nat list option" where
  "unsextets [] = Some []"
| "unsextets [w] = None"
| "unsextets [w, x] = Some [w * 4 + x div 16]"
| "unsextets [w, x, y] = Some [w * 4 + x div 16, x mod 16 * 16 + y div 4]"
| "unsextets (w # x # y # z # r) =
     (case unsextets r of
        None \<Rightarrow> None
      | Some d \<Rightarrow> Some ((w * 4 + x div 16) # (x mod 16 * 16 + y div 4) # (y mod 4 * 64 + z) # d))"

definition sample_encode :: "bytes \<Rightarrow> string" where
  "sample_encode d = map b64_char (sextets (map unat d))"

definition sample_decode :: "string \<Rightarrow> (bytes, string) result" where
  "sample_decode s =
     (if list_all is_b64url_char s
      then (case unsextets (map b64_value s) of
              None \<Rightarrow> Err ''invalid length''
            | Some d \<Rightarrow> Ok (map word_of_nat d))
      else Err ''invalid byte'')"

definition sample_lib :: crypto_lib where
  "sample_lib = \<lparr>
     sha256 = (\<lambda>d. replicate 32 0),
     hmac_new = (\<lambda>k. Ok k),
     hmac_mac = (\<lambda>k m. replicate 32 0),
     b64_encode_nopad = sample_encode,
     b64_decode_nopad = sample_decode,
     b64_decode_pad = (\<lambda>s. Err ''invalid padding''),
     subtle_ct_eq = (=),
     p256_sign = (\<lambda>k m. replicate 64 0),
     p256_signature_from_slice = (\<lambda>s. Ok s),
     p256_verify = (\<lambda>vk m s. if s = replicate 64 0 then Ok () else Err ''signature error''),
     p256_verifying_key = (\<lambda>k. replicate 64 1),
     p256_from_sec1 = (\<lambda>s. if length s = 65 then Ok (drop 1 s) else Err ''crypto error''),
     p256_point_x = (\<lambda>vk. Some (take 32 vk)),
     p256_point_y = (\<lambda>vk. Some (drop 32 vk)) \<rparr>"

section \<open>It has the documented behaviour\<close>

lemma b64_table: "list_all (\<lambda>n. is_b64url_char (b64_char n) \<and> b64_value (b64_char n) = n) [0 ..< 64]"
  by code_simp

lemma b64_char_ok: "n < 64 \<Longrightarrow> is_b64url_char (b64_char n) \<and> b64_value (b64_char n) = n"
  using b64_table by (simp add: list_all_iff)

lemma sextets_less: "list_all (\<lambda>a. a < 256) d \<Longrightarrow> list_all (\<lambda>n. n < 64) (sextets d)"
proof (induction d rule: sextets.induct)
  case (4 a b c r)
  have "a div 4 < 64" "a mod 4 * 16 + b div 16 < 64" "b mod 16 * 4 + c div 64 < 64" "c mod 64 < 64"
    using 4 by auto
  with 4 show ?case
    by simp
qed auto

lemma length_sextets: "length (sextets d) = (4 * length d + 2) div 3"
  by (induction d rule: sextets.induct) auto

lemma unsextets_sextets:
  "list_all (\<lambda>a. a < 256) d \<Longrightarrow> unsextets (sextets d) = Some d"
proof (induction d rule: sextets.induct)
  case (4 a b c r)
  have "b div 16 < 16" "c div 64 < 4"
    using 4 by auto
  hence "a div 4 * 4 + (a mod 4 * 16 + b div 16) div 16 = a"
    "(a mod 4 * 16 + b div 16) mod 16 * 16 + (b mod 16 * 4 + c div 64) div 4 = b"
    "(b mod 16 * 4 + c div 64) mod 4 * 64 + c mod 64 = c"
    by simp_all
  with 4 show ?case
    by simp
next
  case (3 a b)
  hence "b div 16 < 16"
    by auto
  thus ?case
    by simp
qed auto

lemma sextets_unat_less: "list_all (\<lambda>n. n < 64) (sextets (map unat (d :: bytes)))"
  by (rule sextets_less) (simp add: list_all_iff)

lemma sample_decode_encode: "sample_decode (sample_encode d) = Ok d"
proof -
  have "unsextets (sextets (map unat d)) = Some (map unat d)"
    by (intro unsextets_sextets) (simp add: list_all_iff)
  moreover have "map (b64_value \<circ> b64_char) (sextets (map unat d)) = sextets (map unat d)"
    using sextets_unat_less [of d] by (intro map_idI) (auto simp: list_all_iff b64_char_ok)
  moreover have "list_all is_b64url_char (sample_encode d)"
    using sextets_unat_less [of d] by (auto simp: sample_encode_def list_all_iff b64_char_ok)
  ultimately show ?thesis
    by (simp add: sample_decode_def) (simp add: sample_encode_def comp_def)
qed

lemma sample_documented:
  "ct_eq_documented sample_lib" "sha256_documented sample_lib"
  "b64_documented sample_lib" "p256_documented sample_lib"
proof -
  show "ct_eq_documented sample_lib" "sha256_documented sample_lib"
    by (simp_all add: ct_eq_documented_def sha256_documented_def sample_lib_def)
  have "list_all is_b64url_char (sample_encode d)" for d
    using sextets_unat_less [of d] by (auto simp: sample_encode_def list_all_iff b64_char_ok)
  moreover have "length (sample_encode d) = (4 * length d + 2) div 3" for d
    by (simp add: sample_encode_def length_sextets)
  ultimately show "b64_documented sample_lib"
    by (simp add: b64_documented_def sample_lib_def sample_decode_encode)
  show "p256_documented sample_lib"
    by (simp add: p256_documented_def sample_lib_def replicate_add [symmetric])
qed

end
