(* ===== verification/Pkce.thy ===== *)
theory Pkce
  imports Sample_Crypto
begin

text \<open>
  PKCE (RFC 7636): the byte kernel \<open>kernels/pkce_bytes.rs\<close>, the wrappers of \<open>pkce.rs\<close>
  and the specification \<open>PkceFormalSpec\<close> of \<open>formal_models.rs\<close>.  Random bytes are an
  argument of the generating functions.
\<close>

section \<open>The byte kernel\<close>

definition VERIFIER_MIN_LENGTH :: nat where
  "VERIFIER_MIN_LENGTH = 43"

definition VERIFIER_MAX_LENGTH :: nat where
  "VERIFIER_MAX_LENGTH = 128"

definition u8_is_ascii_alphanumeric :: "u8 \<Rightarrow> bool" where
  "u8_is_ascii_alphanumeric b =
     ((97 \<le> b \<and> b \<le> 122) \<or> (65 \<le> b \<and> b \<le> 90) \<or> (48 \<le> b \<and> b \<le> 57))"

definition is_unreserved_byte :: "u8 \<Rightarrow> bool" where
  "is_unreserved_byte b =
     (u8_is_ascii_alphanumeric b \<or> b = 45 \<or> b = 46 \<or> b = 95 \<or> b = 126)"

definition is_valid_verifier_length :: "nat \<Rightarrow> bool" where
  "is_valid_verifier_length len = (len \<ge> VERIFIER_MIN_LENGTH \<and> len \<le> VERIFIER_MAX_LENGTH)"

datatype VerifierByteError =
    InvalidLength nat
  | InvalidCharacter u8 nat

fun scan_verifier :: "nat \<Rightarrow> bytes \<Rightarrow> (unit, VerifierByteError) result" where
  "scan_verifier position [] = Ok ()"
| "scan_verifier position (b # bs) =
     (if \<not> is_unreserved_byte b then Err (InvalidCharacter b position)
      else scan_verifier (Suc position) bs)"

definition validate_verifier_bytes :: "bytes \<Rightarrow> (unit, VerifierByteError) result" where
  "validate_verifier_bytes verifier =
     (if \<not> is_valid_verifier_length (length verifier)
      then Err (InvalidLength (length verifier))
      else scan_verifier 0 verifier)"

section \<open>pkce.rs\<close>

datatype PkceMethod = S256

fun PkceMethod_as_str :: "PkceMethod \<Rightarrow> string" where
  "PkceMethod_as_str S256 = ''S256''"

record PkcePair =
  pkce_verifier :: string
  pkce_challenge :: string
  pkce_method :: PkceMethod

definition derive_s256_challenge :: "crypto_lib \<Rightarrow> string \<Rightarrow> string" where
  "derive_s256_challenge L verifier = base64url_encode L (sha256_digest L (as_bytes verifier))"

definition validate_verifier :: "string \<Rightarrow> (unit, PkceError) result" where
  "validate_verifier verifier =
     (case validate_verifier_bytes (as_bytes verifier) of
        Ok _ \<Rightarrow> Ok ()
      | Err (InvalidLength len) \<Rightarrow>
          Err (PkceError.InvalidVerifierLength len VERIFIER_MIN_LENGTH VERIFIER_MAX_LENGTH)
      | Err (InvalidCharacter byte position) \<Rightarrow>
          Err (PkceError.InvalidVerifierCharacter (char_of (unat byte)) position))"

definition verify_pkce :: "crypto_lib \<Rightarrow> string \<Rightarrow> string \<Rightarrow> (unit, PkceError) result" where
  "verify_pkce L verifier expected_challenge =
     try_bind (validate_verifier verifier) (\<lambda>_.
       if length expected_challenge \<noteq> 43
       then Err (PkceError.InvalidChallengeLength (length expected_challenge))
       else if constant_time_eq L (as_bytes (derive_s256_challenge L verifier))
                 (as_bytes expected_challenge)
            then Ok () else Err PkceError.ChallengeMismatch)"

definition generate_pkce :: "crypto_lib \<Rightarrow> bytes \<Rightarrow> PkcePair" where
  "generate_pkce L entropy =
     (let verifier = base64url_encode L entropy in
      \<lparr> pkce_verifier = verifier, pkce_challenge = derive_s256_challenge L verifier,
        pkce_method = S256 \<rparr>)"

definition from_verifier :: "crypto_lib \<Rightarrow> string \<Rightarrow> (PkcePair, PkceError) result" where
  "from_verifier L verifier =
     try_bind (validate_verifier verifier) (\<lambda>_.
       Ok \<lparr> pkce_verifier = verifier, pkce_challenge = derive_s256_challenge L verifier,
            pkce_method = S256 \<rparr>)"

text \<open>The random generator fills a buffer of \<open>entropy_bytes\<close> bytes.  The product in the
  error value is computed at the width of \<open>usize\<close>.\<close>

definition generate_with_entropy_size ::
  "crypto_lib \<Rightarrow> (nat \<Rightarrow> bytes) \<Rightarrow> nat \<Rightarrow> (PkcePair, PkceError) result" where
  "generate_with_entropy_size L rng entropy_bytes =
     (if \<not> (32 \<le> entropy_bytes \<and> entropy_bytes \<le> 96)
      then Err (PkceError.InvalidVerifierLength ((entropy_bytes * 4 mod 2 ^ 64 + 2) div 3) 43 128)
      else from_verifier L (base64url_encode L (rng entropy_bytes)))"

definition verify_pair :: "crypto_lib \<Rightarrow> PkcePair \<Rightarrow> string \<Rightarrow> (unit, PkceError) result" where
  "verify_pair L pair candidate_verifier = verify_pkce L candidate_verifier (pkce_challenge pair)"

section \<open>PkceFormalSpec\<close>

definition is_unreserved_char :: "u8 \<Rightarrow> bool" where
  "is_unreserved_char b =
     (b \<in> {97..122} \<or> b \<in> {65..90} \<or> b \<in> {48..57} \<or> b = 45 \<or> b = 46 \<or> b = 95 \<or> b = 126)"

definition is_valid_verifier_len :: "nat \<Rightarrow> bool" where
  "is_valid_verifier_len len = (len \<ge> 43 \<and> len \<le> 128)"

definition spec_validate_verifier :: "bytes \<Rightarrow> bool" where
  "spec_validate_verifier verifier =
     (if \<not> is_valid_verifier_len (length verifier) then False
      else list_all is_unreserved_char verifier)"

definition spec_s256_challenge_len :: nat where
  "spec_s256_challenge_len = 43"

section \<open>Lemmas\<close>

lemma is_unreserved_char_eq: "is_unreserved_char b = is_unreserved_byte b"
  by (auto simp: is_unreserved_char_def is_unreserved_byte_def u8_is_ascii_alphanumeric_def)

lemma scan_verifier_Ok: "scan_verifier p bs = Ok () \<longleftrightarrow> list_all is_unreserved_byte bs"
  by (induction p bs rule: scan_verifier.induct) auto

lemma scan_verifier_Err:
  "scan_verifier p bs = Err e \<longleftrightarrow>
     (\<exists>i < length bs. e = InvalidCharacter (bs ! i) (p + i) \<and> \<not> is_unreserved_byte (bs ! i)
        \<and> (\<forall>j < i. is_unreserved_byte (bs ! j)))"
proof (induction p bs rule: scan_verifier.induct)
  case (2 p b bs)
  show ?case
  proof (cases "is_unreserved_byte b")
    case True
    have "(\<exists>i < length (b # bs). e = InvalidCharacter ((b # bs) ! i) (p + i)
            \<and> \<not> is_unreserved_byte ((b # bs) ! i) \<and> (\<forall>j < i. is_unreserved_byte ((b # bs) ! j)))
        \<longleftrightarrow> (\<exists>i < length bs. e = InvalidCharacter (bs ! i) (Suc p + i)
            \<and> \<not> is_unreserved_byte (bs ! i) \<and> (\<forall>j < i. is_unreserved_byte (bs ! j)))"
      using True by (simp add: Ex_less_Suc2 All_less_Suc2)
    with 2 True show ?thesis
      by simp
  next
    case False
    thus ?thesis
      by (auto simp: less_Suc_eq_0_disj)
  qed
qed simp

lemma validate_verifier_bytes_Ok:
  "validate_verifier_bytes v = Ok () \<longleftrightarrow>
     43 \<le> length v \<and> length v \<le> 128 \<and> list_all is_unreserved_byte v"
  by (auto simp: validate_verifier_bytes_def is_valid_verifier_length_def VERIFIER_MIN_LENGTH_def
      VERIFIER_MAX_LENGTH_def scan_verifier_Ok)

lemma validate_verifier_Ok:
  "validate_verifier v = Ok u \<longleftrightarrow>
     43 \<le> length v \<and> length v \<le> 128 \<and> list_all is_unreserved_byte (as_bytes v)"
  using validate_verifier_bytes_Ok [of "as_bytes v"]
  by (auto simp: validate_verifier_def split: result.splits VerifierByteError.splits)

lemma is_unreserved_b64url:
  assumes "is_b64url_char c"
  shows "is_unreserved_byte (word_of_nat (code c))"
proof -
  have "unat (word_of_nat (code c) :: u8) = code c"
    by (simp add: unat_of_nat)
  moreover have "code c = 45 \<longleftrightarrow> c = CHR ''-''" "code c = 95 \<longleftrightarrow> c = CHR ''_''"
    by (simp_all add: code_inj [symmetric]) (simp_all add: code_def)
  ultimately show ?thesis
    using assms
    by (simp add: is_b64url_char_def is_unreserved_byte_def u8_is_ascii_alphanumeric_def
        word_le_nat_alt word_unat_eq_iff ascii_simps)  auto
qed

lemma b64_encoding_unreserved:
  "b64_documented L \<Longrightarrow> list_all is_unreserved_byte (as_bytes (base64url_encode L d))"
  by (auto simp: b64_documented_def base64url_encode_def as_bytes_def list_all_iff
      is_unreserved_b64url)

lemma b64_encoding_length:
  "b64_documented L \<Longrightarrow> length (base64url_encode L d) = (4 * length d + 2) div 3"
  by (simp add: b64_documented_def base64url_encode_def)

lemma length_derive_s256_challenge:
  "b64_documented L \<Longrightarrow> sha256_documented L \<Longrightarrow> length (derive_s256_challenge L v) = 43"
  by (simp add: derive_s256_challenge_def b64_encoding_length sha256_documented_def
      sha256_digest_def)

lemma verify_pkce_Ok:
  assumes "ct_eq_documented L"
  shows "verify_pkce L v ch = Ok u \<longleftrightarrow>
    validate_verifier v = Ok () \<and> length ch = 43 \<and> ch = derive_s256_challenge L v"
  using assms
  by (auto simp: verify_pkce_def constant_time_eq_iff split: if_splits)

section \<open>Properties\<close>

text \<open>The byte kernel accepts exactly the verifiers that RFC 7636 permits, as written in
  \<open>PkceFormalSpec\<close>; it reports a length outside 43 to 128 with that length, and otherwise the
  first byte that is not unreserved, with its position.\<close>

theorem validate_verifier_bytes_correct:
  "(validate_verifier_bytes v = Ok () \<longleftrightarrow> spec_validate_verifier v)
   \<and> (validate_verifier_bytes v = Err (InvalidLength n) \<longleftrightarrow>
        n = length v \<and> (length v < 43 \<or> 128 < length v))
   \<and> (validate_verifier_bytes v = Err (InvalidCharacter b p) \<longleftrightarrow>
        43 \<le> length v \<and> length v \<le> 128 \<and> p < length v \<and> b = v ! p
        \<and> \<not> is_unreserved_char b \<and> list_all is_unreserved_char (take p v))"
proof (intro conjI)
  show "validate_verifier_bytes v = Ok () \<longleftrightarrow> spec_validate_verifier v"
    by (auto simp: validate_verifier_bytes_Ok spec_validate_verifier_def is_valid_verifier_len_def
        is_unreserved_char_eq [abs_def])
  show "validate_verifier_bytes v = Err (InvalidLength n) \<longleftrightarrow>
      n = length v \<and> (length v < 43 \<or> 128 < length v)"
    by (auto simp: validate_verifier_bytes_def is_valid_verifier_length_def
        VERIFIER_MIN_LENGTH_def VERIFIER_MAX_LENGTH_def scan_verifier_Err)
  show "validate_verifier_bytes v = Err (InvalidCharacter b p) \<longleftrightarrow>
      43 \<le> length v \<and> length v \<le> 128 \<and> p < length v \<and> b = v ! p
      \<and> \<not> is_unreserved_char b \<and> list_all is_unreserved_char (take p v)"
    by (auto simp: validate_verifier_bytes_def is_valid_verifier_length_def
        VERIFIER_MIN_LENGTH_def VERIFIER_MAX_LENGTH_def scan_verifier_Err is_unreserved_char_eq
        list_all_length)
qed

text \<open>C26: \<open>verify_pkce\<close> accepts a verifier for a challenge exactly when the verifier is well
  formed and the challenge is its S256 transformation, provided that \<open>subtle\<close> compares as
  documented.\<close>

theorem verify_pkce_iff:
  assumes "ct_eq_documented L" "b64_documented L" "sha256_documented L"
  shows "verify_pkce L v ch = Ok () \<longleftrightarrow>
    spec_validate_verifier (as_bytes v) \<and> ch = derive_s256_challenge L v"
  using assms
  by (auto simp: verify_pkce_Ok validate_verifier_Ok length_derive_s256_challenge
      spec_validate_verifier_def is_valid_verifier_len_def is_unreserved_char_eq [abs_def])

theorem verify_pkce_iff_witness:
  "verify_pkce sample_lib (replicate 43 CHR ''a'') (replicate 43 CHR ''A'') = Ok ()"
proof -
  have "spec_validate_verifier (as_bytes (replicate 43 CHR ''a''))"
    by code_simp
  moreover have "derive_s256_challenge sample_lib (replicate 43 CHR ''a'') = replicate 43 CHR ''A''"
    by code_simp
  ultimately show ?thesis
    using verify_pkce_iff [OF sample_documented(1,3,2)] by simp
qed

text \<open>A pair generated from 32 to 96 bytes of entropy has a verifier of 43 to 128
  characters and a challenge of 43 characters, and its own verifier passes verification.\<close>

theorem generate_with_entropy_size_correct:
  assumes "ct_eq_documented L" "b64_documented L" "sha256_documented L"
    and "length (rng n) = n" "32 \<le> n" "n \<le> 96"
  shows "\<exists>pair. generate_with_entropy_size L rng n = Ok pair
    \<and> length (pkce_verifier pair) = (4 * n + 2) div 3
    \<and> length (pkce_challenge pair) = spec_s256_challenge_len
    \<and> verify_pair L pair (pkce_verifier pair) = Ok ()"
proof -
  let ?v = "base64url_encode L (rng n)"
  have len: "length ?v = (4 * n + 2) div 3"
    using assms by (simp add: b64_encoding_length)
  have "43 \<le> length ?v" "length ?v \<le> 128"
    using assms(5,6) by (simp_all add: len)
  hence "validate_verifier ?v = Ok ()"
    using assms by (simp add: validate_verifier_Ok b64_encoding_unreserved)
  thus ?thesis
    using assms len
    by (simp add: generate_with_entropy_size_def from_verifier_def verify_pair_def verify_pkce_Ok
        length_derive_s256_challenge spec_s256_challenge_len_def)
qed

theorem generate_with_entropy_size_correct_witness:
  "\<exists>pair. generate_with_entropy_size sample_lib (\<lambda>n. replicate n 7) 32 = Ok pair
    \<and> length (pkce_verifier pair) = 43"
  using generate_with_entropy_size_correct [OF sample_documented(1,3,2), of "\<lambda>n. replicate n 7" 32]
  by auto

end
