(* ===== verification/Store_Interface.thy ===== *)
theory Store_Interface
  imports Errors
begin

text \<open>
  The contract of the trait \<open>OAuthStore\<close> (\<open>store.rs\<close>) as a locale.  A store is viewed
  as a finite map from state tokens to records; a record is live or expired at a
  clock reading.  The laws say what each operation does to that view.  The client
  lemmas are about arbitrary sequences of operations, which is what concurrent callers
  produce: every operation of the in-memory store runs under the lock of one shard.
\<close>

section \<open>Sequences of operations\<close>

datatype ('e, 'd, 'c) store_op =
    Insert string 'e 'd 'c 'c
  | Take string 'c
  | Contains string 'c
  | Prune 'c

text \<open>Running a sequence yields the final store and the entries handed out, in order.  An
  insertion that panics leaves the store as it was.\<close>

fun run_ops ::
  "(string \<Rightarrow> 'e \<Rightarrow> 'd \<Rightarrow> 'c \<Rightarrow> 'c \<Rightarrow> 's \<Rightarrow> ('s \<times> (unit, 'err) result) option)
   \<Rightarrow> (string \<Rightarrow> 'c \<Rightarrow> 's \<Rightarrow> 's \<times> 'e option) \<Rightarrow> ('c \<Rightarrow> 's \<Rightarrow> 's \<times> nat)
   \<Rightarrow> ('e, 'd, 'c) store_op list \<Rightarrow> 's \<Rightarrow> 's \<times> (string \<times> 'e) list" where
  "run_ops ins tk pr [] s = (s, [])"
| "run_ops ins tk pr (Insert k e ttl c c' # ops) s =
     (case ins k e ttl c c' s of
        None \<Rightarrow> run_ops ins tk pr ops s
      | Some (s', r) \<Rightarrow> run_ops ins tk pr ops s')"
| "run_ops ins tk pr (Take k c # ops) s =
     (let (s', r) = tk k c s; (s'', out) = run_ops ins tk pr ops s' in
      (s'', case r of None \<Rightarrow> out | Some e \<Rightarrow> (k, e) # out))"
| "run_ops ins tk pr (Contains k c # ops) s = run_ops ins tk pr ops s"
| "run_ops ins tk pr (Prune c # ops) s = run_ops ins tk pr ops (fst (pr c s))"

definition takes_of :: "string \<Rightarrow> (string \<times> 'e) list \<Rightarrow> 'e list" where
  "takes_of k out = map snd (filter (\<lambda>x. fst x = k) out)"

definition inserted :: "string \<Rightarrow> ('e, 'd, 'c) store_op list \<Rightarrow> 'e list" where
  "inserted k ops =
     concat (map (\<lambda>x. case x of Insert k' e ttl c c' \<Rightarrow> if k' = k then [e] else [] | _ \<Rightarrow> []) ops)"

section \<open>The interface\<close>

locale oauth_store =
  fixes insert_state ::
      "string \<Rightarrow> 'e \<Rightarrow> 'd \<Rightarrow> 'c \<Rightarrow> 'c \<Rightarrow> 's \<Rightarrow> ('s \<times> (unit, 'err) result) option"
    and take_state :: "string \<Rightarrow> 'c \<Rightarrow> 's \<Rightarrow> 's \<times> 'e option"
    and contains_state :: "string \<Rightarrow> 'c \<Rightarrow> 's \<Rightarrow> bool"
    and prune_expired :: "'c \<Rightarrow> 's \<Rightarrow> 's \<times> nat"
    and inv :: "'s \<Rightarrow> bool"
    and view :: "'s \<Rightarrow> string \<Rightarrow> 'r option"
    and live :: "'c \<Rightarrow> 'r \<Rightarrow> bool"
    and payload :: "'r \<Rightarrow> 'e"
  assumes insert_inv: "inv s \<Longrightarrow> insert_state k e d c c' s = Some (s', r) \<Longrightarrow> inv s'"
    and insert_other: "inv s \<Longrightarrow> insert_state k e d c c' s = Some (s', r) \<Longrightarrow> k' \<noteq> k \<Longrightarrow>
      view s' k' = view s k'
      \<or> (view s' k' = None \<and> (\<exists>x. view s k' = Some x \<and> \<not> live c' x))"
    and insert_Ok: "inv s \<Longrightarrow> insert_state k e d c c' s = Some (s', Ok u) \<Longrightarrow>
      \<exists>x. view s' k = Some x \<and> payload x = e"
    and insert_Err: "inv s \<Longrightarrow> insert_state k e d c c' s = Some (s', Err err) \<Longrightarrow>
      view s' k = view s k \<or> view s' k = None"
    and take_inv: "inv s \<Longrightarrow> take_state k c s = (s', t) \<Longrightarrow> inv s'"
    and take_view: "inv s \<Longrightarrow> take_state k c s = (s', t) \<Longrightarrow> view s' = (view s)(k := None)"
    and take_result: "inv s \<Longrightarrow> take_state k c s = (s', t) \<Longrightarrow>
      t = (case view s k of None \<Rightarrow> None | Some x \<Rightarrow> if live c x then Some (payload x) else None)"
    and contains_result: "inv s \<Longrightarrow>
      contains_state k c s = (case view s k of None \<Rightarrow> False | Some x \<Rightarrow> live c x)"
    and prune_inv: "inv s \<Longrightarrow> prune_expired c s = (s', n) \<Longrightarrow> inv s'"
    and prune_view: "inv s \<Longrightarrow> prune_expired c s = (s', n) \<Longrightarrow>
      view s' k = (case view s k of None \<Rightarrow> None | Some x \<Rightarrow> if live c x then Some x else None)"
begin

abbreviation run :: "('e, 'd, 'c) store_op list \<Rightarrow> 's \<Rightarrow> 's \<times> (string \<times> 'e) list" where
  "run \<equiv> run_ops insert_state take_state prune_expired"

lemma contains_iff_take: "inv s \<Longrightarrow> contains_state k c s \<longleftrightarrow> snd (take_state k c s) \<noteq> None"
  by (cases "take_state k c s")
    (auto simp: contains_result dest!: take_result split: option.splits if_splits)

lemma take_twice:
  assumes "inv s"
  shows "snd (take_state k c' (fst (take_state k c s))) = None"
proof -
  obtain s1 r1 where 1: "take_state k c s = (s1, r1)"
    by fastforce
  obtain s2 r2 where 2: "take_state k c' s1 = (s2, r2)"
    by fastforce
  show ?thesis
    using take_result [OF take_inv [OF assms 1] 2] take_view [OF assms 1] by (simp add: 1 2)
qed

lemma insert_take:
  assumes "inv s" "insert_state k e d c c' s = Some (s', Ok u)"
  shows "snd (take_state k c'' s') = Some e \<or> snd (take_state k c'' s') = None"
  using insert_Ok [OF assms] take_result [OF insert_inv [OF assms], of k c'']
  by (cases "take_state k c'' s'") (auto split: if_splits)

lemma run_inv: "inv s \<Longrightarrow> run ops s = (s', out) \<Longrightarrow> inv s'"
proof (induction ops arbitrary: s s' out)
  case (Cons x ops)
  show ?case
  proof (cases x)
    case (Insert k e d c c')
    with Cons show ?thesis
      by (fastforce split: option.splits dest: insert_inv)
  next
    case (Take k c)
    obtain s1 r where t: "take_state k c s = (s1, r)"
      by fastforce
    obtain s2 o2 where r: "run ops s1 = (s2, o2)"
      by fastforce
    have "inv s2"
      by (rule Cons.IH [OF take_inv [OF Cons.prems(1) t] r])
    thus ?thesis
      using Cons.prems(2) by (simp add: Take t r)
  next
    case (Contains k c)
    with Cons show ?thesis
      by auto
  next
    case (Prune c)
    with Cons show ?thesis
      by (auto intro: prune_inv [OF _ prod.collapse [symmetric]])
  qed
qed simp

text \<open>The effect of the first operation of a run on the token \<open>k\<close>.\<close>

lemma insert_view:
  assumes "inv s" "insert_state k' e d c c' s = Some (s', r)"
  shows "view s' k = view s k \<or> view s' k = None
    \<or> (k' = k \<and> (\<exists>x. view s' k = Some x \<and> payload x = e))"
proof (cases "k' = k")
  case True
  with assms insert_Ok [OF assms(1)] insert_Err [OF assms(1)] show ?thesis
    by (cases r) blast+
next
  case False
  with insert_other [OF assms, of k] show ?thesis
    by blast
qed

lemma run_Insert:
  assumes "inv s" "run (Insert k' e d c c' # ops) s = (s', out)"
  obtains s1 where "inv s1" "run ops s1 = (s', out)"
    "view s1 k = view s k \<or> view s1 k = None
     \<or> (k' = k \<and> (\<exists>x. view s1 k = Some x \<and> payload x = e))"
proof (cases "insert_state k' e d c c' s")
  case None
  with assms that [of s] show ?thesis
    by simp
next
  case (Some p)
  with assms insert_inv [of s k' e d c c' "fst p" "snd p"] insert_view [of s k' e d c c' "fst p" "snd p" k]
    that [of "fst p"] show ?thesis
    by (auto split: prod.splits)
qed

lemma run_Take:
  assumes "inv s" "run (Take k' c # ops) s = (s', out)"
  obtains s1 r o1 where "inv s1" "run ops s1 = (s', o1)" "view s1 = (view s)(k' := None)"
    "r = (case view s k' of None \<Rightarrow> None | Some x \<Rightarrow> if live c x then Some (payload x) else None)"
    "out = (case r of None \<Rightarrow> o1 | Some e \<Rightarrow> (k', e) # o1)"
proof -
  obtain s1 r where t: "take_state k' c s = (s1, r)"
    by fastforce
  obtain s2 o1 where r: "run ops s1 = (s2, o1)"
    by fastforce
  show thesis
    using that [of s1 o1 r] assms(2) t r take_inv [OF assms(1) t] take_view [OF assms(1) t]
      take_result [OF assms(1) t]
    by simp
qed

lemma run_Prune:
  assumes "inv s" "run (Prune c # ops) s = (s', out)"
  obtains s1 where "inv s1" "run ops s1 = (s', out)" "view s1 k = view s k \<or> view s1 k = None"
proof -
  obtain s1 n where p: "prune_expired c s = (s1, n)"
    by fastforce
  show thesis
    using that [of s1] assms(2) p prune_inv [OF assms(1) p] prune_view [OF assms(1) p, of k]
    by (auto split: option.splits if_splits)
qed

lemma inserted_simps [simp]:
  "inserted k [] = []"
  "inserted k (Insert k' e d c c' # ops) = (if k' = k then [e] else []) @ inserted k ops"
  "inserted k (Take k' c # ops) = inserted k ops"
  "inserted k (Contains k' c # ops) = inserted k ops"
  "inserted k (Prune c # ops) = inserted k ops"
  by (simp_all add: inserted_def)

lemma takes_of_simps [simp]:
  "takes_of k [] = []" "takes_of k ((k', e) # out) = (if k' = k then [e] else []) @ takes_of k out"
  by (simp_all add: takes_of_def)

text \<open>Single use: a run hands out a token at most as often as it was stored.\<close>

lemma single_use:
  assumes "inv s" "run ops s = (s', out)"
  shows "length (takes_of k out) \<le> (if view s k = None then 0 else 1) + length (inserted k ops)"
  using assms
proof (induction ops arbitrary: s s' out)
  case (Cons x ops)
  note IH = Cons.IH and inv = Cons.prems(1) and run = Cons.prems(2)
  show ?case
  proof (cases x)
    case (Insert k' e d c c')
    obtain s1 where "inv s1" "run ops s1 = (s', out)" and v: "view s1 k = view s k
        \<or> view s1 k = None \<or> (k' = k \<and> (\<exists>x. view s1 k = Some x \<and> payload x = e))"
      using run_Insert [OF inv run [unfolded Insert]] by metis
    with IH [of s1 s' out] show ?thesis
      by (auto simp: Insert split: if_splits)
  next
    case (Take k' c)
    obtain s1 r o1 where "inv s1" "run ops s1 = (s', o1)" "view s1 = (view s)(k' := None)"
      "r = (case view s k' of None \<Rightarrow> None | Some x \<Rightarrow> if live c x then Some (payload x) else None)"
      "out = (case r of None \<Rightarrow> o1 | Some e \<Rightarrow> (k', e) # o1)"
      by (rule run_Take [OF inv run [unfolded Take]])
    with IH [of s1 s' o1] show ?thesis
      by (auto simp: Take split: if_splits option.splits)
  next
    case (Prune c)
    obtain s1 where "inv s1" "run ops s1 = (s', out)" "view s1 k = view s k \<or> view s1 k = None"
      by (rule run_Prune [OF inv run [unfolded Prune]])
    with IH [of s1 s' out] show ?thesis
      by (auto simp: Prune split: if_splits)
  qed (use IH [OF inv] run in simp)
qed simp

text \<open>Nothing is invented: an entry handed out for a token was stored for it.\<close>

lemma taken_was_inserted:
  assumes "inv s" "run ops s = (s', out)" "e \<in> set (takes_of k out)"
  shows "e \<in> set (inserted k ops) \<or> (\<exists>x. view s k = Some x \<and> payload x = e)"
  using assms
proof (induction ops arbitrary: s s' out)
  case (Cons x ops)
  note IH = Cons.IH and inv = Cons.prems(1) and run = Cons.prems(2) and mem = Cons.prems(3)
  show ?case
  proof (cases x)
    case (Insert k' e' d c c')
    obtain s1 where "inv s1" "run ops s1 = (s', out)" and v: "view s1 k = view s k
        \<or> view s1 k = None \<or> (k' = k \<and> (\<exists>x. view s1 k = Some x \<and> payload x = e'))"
      using run_Insert [OF inv run [unfolded Insert]] by metis
    with IH [of s1 s' out] mem
    have "e \<in> set (inserted k ops) \<or> (\<exists>x. view s1 k = Some x \<and> payload x = e)"
      by blast
    with v show ?thesis
      by (elim disjE) (auto simp: Insert)
  next
    case (Take k' c)
    obtain s1 r o1 where "inv s1" "run ops s1 = (s', o1)" "view s1 = (view s)(k' := None)"
      "r = (case view s k' of None \<Rightarrow> None | Some x \<Rightarrow> if live c x then Some (payload x) else None)"
      "out = (case r of None \<Rightarrow> o1 | Some e \<Rightarrow> (k', e) # o1)"
      by (rule run_Take [OF inv run [unfolded Take]])
    with IH [of s1 s' o1] mem show ?thesis
      by (auto simp: Take split: if_splits option.splits)
  next
    case (Prune c)
    obtain s1 where "inv s1" "run ops s1 = (s', out)" "view s1 k = view s k \<or> view s1 k = None"
      by (rule run_Prune [OF inv run [unfolded Prune]])
    with IH [of s1 s' out] mem show ?thesis
      by (elim disjE) (auto simp: Prune)
  qed (use IH [OF inv _ mem] run in simp)
qed simp

end

end
