(* ===== verification/Clock.thy ===== *)
theory Clock
  imports Prelude
begin

text \<open>
  The parts of \<open>std::time\<close> the crate uses.  \<open>Instant\<close> and \<open>Duration\<close> are counts of
  nanoseconds; an \<open>Instant\<close> of the platform holds seconds in an \<open>i64\<close>, which bounds
  \<open>checked_add\<close>.  A \<open>SystemTime\<close> is the signed distance from the UNIX epoch in nanoseconds.
\<close>

section \<open>Time\<close>

type_synonym instant = nat
type_synonym duration = nat
type_synonym system_time = int

definition nanos_per_sec :: nat where
  "nanos_per_sec = 1000000000"

definition from_secs :: "nat \<Rightarrow> duration" where
  "from_secs n = n * nanos_per_sec"

definition as_secs :: "duration \<Rightarrow> nat" where
  "as_secs d = d div nanos_per_sec"

definition instant_max :: instant where
  "instant_max = (2 ^ 63 - 1) * nanos_per_sec + (nanos_per_sec - 1)"

definition instant_checked_add :: "instant \<Rightarrow> duration \<Rightarrow> instant option" where
  "instant_checked_add t d = (if t + d \<le> instant_max then Some (t + d) else None)"

definition saturating_duration_since :: "instant \<Rightarrow> instant \<Rightarrow> duration" where
  "saturating_duration_since t earlier = t - earlier"

text \<open>A \<open>SystemTime\<close> holds seconds in an \<open>i64\<close> too, which bounds its \<open>checked_add\<close>.\<close>

definition system_max :: system_time where
  "system_max = int instant_max"

definition system_checked_add :: "system_time \<Rightarrow> duration \<Rightarrow> system_time option" where
  "system_checked_add t d = (if t + int d \<le> system_max then Some (t + int d) else None)"

section \<open>Wall-clock seconds\<close>

text \<open>The seconds of a duration as the \<open>u64\<close> that \<open>as_secs\<close> returns.\<close>

definition secs64 :: "duration \<Rightarrow> u64" where
  "secs64 d = word_of_nat (as_secs d)"

text \<open>\<open>duration_since(UNIX_EPOCH)\<close> in seconds, with the message of its error.\<close>

definition unix_secs :: "system_time \<Rightarrow> (u64, string) result" where
  "unix_secs t =
     (if t < 0 then Err ''second time provided was later than self''
      else Ok (secs64 (nat t)))"

text \<open>The same with \<open>unwrap_or(0)\<close>.\<close>

definition unix_secs_or_0 :: "system_time \<Rightarrow> u64" where
  "unix_secs_or_0 t = (case unix_secs t of Ok s \<Rightarrow> s | Err _ \<Rightarrow> 0)"

end
