(* ===== verification/State_Store.thy ===== *)
theory State_Store
  imports Store_Interface Crypto Clock
begin

text \<open>
  The sharded in-memory state store (\<open>store.rs\<close>) and the entry type of \<open>client.rs\<close> that
  it holds.  A clock reading is an argument of the operation that takes it.  The \<open>ahash\<close> hasher is a parameter.  Each
  operation runs under the lock of the shard it touches, so concurrent callers see some
  sequence of these functions.
\<close>

section \<open>Entries\<close>

record StoredStateEntry =
  sse_state :: string
  sse_client_id :: string
  sse_code_verifier :: string
  sse_dpop_key :: DPoPKey
  sse_issuer :: string
  sse_did :: "string option"
  sse_handle :: "string option"
  sse_redirect_uri :: string
  sse_pds_endpoint :: string
  sse_token_endpoint :: string
  sse_scopes :: string
  sse_created_at :: system_time
  sse_expires_in_secs :: u64

definition zeroize_entry :: "StoredStateEntry \<Rightarrow> StoredStateEntry" where
  "zeroize_entry e = e\<lparr>sse_code_verifier := []\<rparr>"

text \<open>\<open>StoredStateEntry::is_expired\<close>, at the wall-clock reading \<open>now\<close>.\<close>

definition entry_is_expired :: "StoredStateEntry \<Rightarrow> system_time \<Rightarrow> bool" where
  "entry_is_expired e now =
     (let max_age = int (from_secs (unat (sse_expires_in_secs e))) in
      if sse_created_at e \<le> now then now - sse_created_at e > max_age else True)"

record StoredStateRecord =
  rec_entry :: StoredStateEntry
  rec_created_at :: instant
  rec_expires_at :: instant

text \<open>The fallback of \<open>unwrap_or\<close> is evaluated in any case: the addition panics (\<open>None\<close>) when
  the clock is within a year of the largest instant.\<close>

definition StoredStateRecord_new ::
  "StoredStateEntry \<Rightarrow> duration \<Rightarrow> instant \<Rightarrow> StoredStateRecord option" where
  "StoredStateRecord_new entry ttl now =
     (case instant_checked_add now (from_secs (86400 * 365)) of
        None \<Rightarrow> None
      | Some far \<Rightarrow>
          Some \<lparr> rec_entry = entry, rec_created_at = now,
                 rec_expires_at = (case instant_checked_add now ttl of Some t \<Rightarrow> t | None \<Rightarrow> far) \<rparr>)"

definition record_is_expired :: "StoredStateRecord \<Rightarrow> instant \<Rightarrow> bool" where
  "record_is_expired r now =
     (if now \<ge> rec_expires_at r then True
      else
        let elapsed = saturating_duration_since now (rec_created_at r);
            ttl = saturating_duration_since (rec_expires_at r) (rec_created_at r)
        in elapsed \<ge> ttl)"

section \<open>The store\<close>

definition SHARD_ADMISSION_CAPACITY :: nat where
  "SHARD_ADMISSION_CAPACITY = 1024"

definition NUM_SHARDS :: nat where
  "NUM_SHARDS = 64"

definition DEFAULT_STATE_TTL :: duration where
  "DEFAULT_STATE_TTL = from_secs 300"

type_synonym shard = "(string, StoredStateRecord) hmap"

record OAuthStateStore =
  shards :: "shard list"
  default_ttl :: duration

definition OAuthStateStore_new :: "duration \<Rightarrow> OAuthStateStore" where
  "OAuthStateStore_new ttl = \<lparr> shards = replicate NUM_SHARDS [], default_ttl = ttl \<rparr>"

definition OAuthStateStore_default :: OAuthStateStore where
  "OAuthStateStore_default = OAuthStateStore_new DEFAULT_STATE_TTL"

definition shard_index :: "(string \<Rightarrow> u64) \<Rightarrow> string \<Rightarrow> nat" where
  "shard_index h key = unat (h key) mod NUM_SHARDS"

definition retain_live :: "instant \<Rightarrow> shard \<Rightarrow> shard" where
  "retain_live now sh = hm_retain (\<lambda>_ r. \<not> record_is_expired r now) sh"

definition update_shard :: "nat \<Rightarrow> shard \<Rightarrow> OAuthStateStore \<Rightarrow> OAuthStateStore" where
  "update_shard i sh s = s\<lparr>shards := (shards s)[i := sh]\<rparr>"

definition insert_state_sync ::
  "(string \<Rightarrow> u64) \<Rightarrow> string \<Rightarrow> StoredStateEntry \<Rightarrow> duration \<Rightarrow> instant \<Rightarrow> instant
   \<Rightarrow> OAuthStateStore \<Rightarrow> (OAuthStateStore \<times> (unit, StoreError) result) option" where
  "insert_state_sync h state entry ttl now now' s =
     (let idx = shard_index h state in
      case StoredStateRecord_new entry ttl now of
        None \<Rightarrow> None
      | Some record \<Rightarrow>
          (let shard = shards s ! idx in
           if length shard \<ge> SHARD_ADMISSION_CAPACITY then
             (let shard = retain_live now' shard in
              if length shard \<ge> SHARD_ADMISSION_CAPACITY then
                Some (update_shard idx shard s,
                      Err (StoreError.CapacityExceeded SHARD_ADMISSION_CAPACITY))
              else Some (update_shard idx (hm_insert state record shard) s, Ok ()))
           else Some (update_shard idx (hm_insert state record shard) s, Ok ())))"

definition insert_default_sync ::
  "(string \<Rightarrow> u64) \<Rightarrow> string \<Rightarrow> StoredStateEntry \<Rightarrow> instant \<Rightarrow> instant
   \<Rightarrow> OAuthStateStore \<Rightarrow> (OAuthStateStore \<times> (unit, StoreError) result) option" where
  "insert_default_sync h state entry now now' s =
     insert_state_sync h state entry (default_ttl s) now now' s"

definition take_state_sync ::
  "(string \<Rightarrow> u64) \<Rightarrow> string \<Rightarrow> instant \<Rightarrow> OAuthStateStore
   \<Rightarrow> OAuthStateStore \<times> StoredStateEntry option" where
  "take_state_sync h state now s =
     (let idx = shard_index h state; shard = shards s ! idx in
      case hm_get state shard of
        Some record \<Rightarrow>
          (update_shard idx (hm_remove state shard) s,
           if \<not> record_is_expired record now then Some (rec_entry record) else None)
      | None \<Rightarrow> (s, None))"

definition contains_state_sync ::
  "(string \<Rightarrow> u64) \<Rightarrow> string \<Rightarrow> instant \<Rightarrow> OAuthStateStore \<Rightarrow> bool" where
  "contains_state_sync h state now s =
     (case hm_get state (shards s ! shard_index h state) of
        Some record \<Rightarrow> \<not> record_is_expired record now
      | None \<Rightarrow> False)"

fun prune_shards :: "instant \<Rightarrow> shard list \<Rightarrow> nat \<Rightarrow> shard list \<times> nat" where
  "prune_shards now [] total_pruned = ([], total_pruned)"
| "prune_shards now (sh # rest) total_pruned =
     (let initial_count = length sh;
          sh' = retain_live now sh;
          (rest', total) = prune_shards now rest (total_pruned + (initial_count - length sh'))
      in (sh' # rest', total))"

definition prune_expired_sync :: "instant \<Rightarrow> OAuthStateStore \<Rightarrow> OAuthStateStore \<times> nat" where
  "prune_expired_sync now s =
     (let (shs, n) = prune_shards now (shards s) 0 in (s\<lparr>shards := shs\<rparr>, n))"

definition total_entries :: "OAuthStateStore \<Rightarrow> nat" where
  "total_entries s = fold (\<lambda>sh acc. acc + length sh) (shards s) 0"

definition shard_len :: "nat \<Rightarrow> OAuthStateStore \<Rightarrow> nat" where
  "shard_len i s = length (shards s ! (i mod NUM_SHARDS))"

definition store_is_empty :: "OAuthStateStore \<Rightarrow> bool" where
  "store_is_empty s = (total_entries s = 0)"

definition store_clear :: "OAuthStateStore \<Rightarrow> OAuthStateStore" where
  "store_clear s = s\<lparr>shards := map (\<lambda>_. []) (shards s)\<rparr>"

text \<open>The background worker: each tick of the interval prunes at the clock reading of that
  moment, and cancellation ends the loop.  \<open>None\<close> is a failed precondition (a panic).\<close>

datatype worker_event = Cancelled | Tick instant

fun pruning_worker :: "worker_event list \<Rightarrow> OAuthStateStore \<Rightarrow> OAuthStateStore" where
  "pruning_worker [] s = s"
| "pruning_worker (Cancelled # evs) s = s"
| "pruning_worker (Tick now # evs) s = pruning_worker evs (fst (prune_expired_sync now s))"

definition spawn_pruning_task ::
  "duration \<Rightarrow> bool \<Rightarrow> worker_event list \<Rightarrow> OAuthStateStore \<Rightarrow> OAuthStateStore option" where
  "spawn_pruning_task interval_duration in_runtime evs s =
     (if interval_duration = 0 then None
      else if \<not> in_runtime then None
      else Some (pruning_worker evs s))"

section \<open>Invariant and view\<close>

text \<open>There are 64 shards, each a hash map of at most 1024 entries, and every key lies in the
  shard of its hash.\<close>

definition store_inv :: "(string \<Rightarrow> u64) \<Rightarrow> OAuthStateStore \<Rightarrow> bool" where
  "store_inv h s =
     (length (shards s) = NUM_SHARDS
      \<and> (\<forall>i < NUM_SHARDS. hm_ok (shards s ! i)
           \<and> length (shards s ! i) \<le> SHARD_ADMISSION_CAPACITY
           \<and> (\<forall>(k, r) \<in> set (shards s ! i). shard_index h k = i)))"

definition store_view ::
  "(string \<Rightarrow> u64) \<Rightarrow> OAuthStateStore \<Rightarrow> string \<Rightarrow> StoredStateRecord option" where
  "store_view h s k = hm_get k (shards s ! shard_index h k)"

definition record_live :: "instant \<Rightarrow> StoredStateRecord \<Rightarrow> bool" where
  "record_live now r = (\<not> record_is_expired r now)"

text \<open>The shard after the opportunistic pruning of an insertion.\<close>

definition admission_shard :: "instant \<Rightarrow> shard \<Rightarrow> shard" where
  "admission_shard now sh =
     (if length sh \<ge> SHARD_ADMISSION_CAPACITY then retain_live now sh else sh)"

definition sample_entry :: StoredStateEntry where
  "sample_entry = \<lparr> sse_state = ''s1'', sse_client_id = ''c'', sse_code_verifier = ''v'',
     sse_dpop_key = \<lparr> key_signing_key = replicate 32 1 \<rparr>, sse_issuer = ''https://as.example'',
     sse_did = None, sse_handle = None, sse_redirect_uri = ''https://app.example/cb'',
     sse_pds_endpoint = ''https://pds.example'', sse_token_endpoint = ''https://as.example/token'',
     sse_scopes = ''atproto'', sse_created_at = 0, sse_expires_in_secs = 300 \<rparr>"

section \<open>Lemmas\<close>

lemma shard_index_less [simp]: "shard_index h k < NUM_SHARDS"
  by (simp add: shard_index_def NUM_SHARDS_def)

lemma record_is_expired_iff:
  "record_is_expired r now \<longleftrightarrow> rec_expires_at r \<le> now \<or> rec_expires_at r \<le> rec_created_at r"
  by (auto simp: record_is_expired_def saturating_duration_since_def Let_def)

lemma store_inv_new [simp]: "store_inv h (OAuthStateStore_new ttl)"
  by (simp add: store_inv_def OAuthStateStore_new_def)

lemma store_view_new [simp]: "store_view h (OAuthStateStore_new ttl) k = None"
  by (simp add: store_view_def OAuthStateStore_new_def)

lemma store_inv_shard:
  assumes "store_inv h s"
  shows "hm_ok (shards s ! shard_index h k)"
    "length (shards s ! shard_index h k) \<le> SHARD_ADMISSION_CAPACITY"
    "length (shards s) = NUM_SHARDS"
  using assms by (auto simp: store_inv_def)

text \<open>Replacing one shard keeps the invariant, if the new one is a map of bounded size with
  keys of that shard, and changes the view only there.\<close>

lemma store_inv_update_shard:
  assumes "store_inv h s" "i < NUM_SHARDS" "hm_ok sh" "length sh \<le> SHARD_ADMISSION_CAPACITY"
    "\<And>k r. (k, r) \<in> set sh \<Longrightarrow> shard_index h k = i"
  shows "store_inv h (update_shard i sh s)"
  using assms by (auto simp: store_inv_def update_shard_def nth_list_update)

lemma store_view_update_shard:
  assumes "store_inv h s" "i < NUM_SHARDS"
  shows "store_view h (update_shard i sh s) k =
    (if shard_index h k = i then hm_get k sh else store_view h s k)"
  using assms by (auto simp: store_inv_def store_view_def update_shard_def)

lemma store_inv_keys:
  assumes "store_inv h s" "(k, r) \<in> set (shards s ! i)" "i < NUM_SHARDS"
  shows "shard_index h k = i"
  using assms by (fastforce simp: store_inv_def)

lemma retain_live_subset: "set (retain_live now sh) \<subseteq> set sh"
  by (simp add: retain_live_def hm_retain_subset)

lemma hm_get_retain_live:
  "hm_ok sh \<Longrightarrow> hm_get k (retain_live now sh) =
     (case hm_get k sh of None \<Rightarrow> None | Some r \<Rightarrow> if record_live now r then Some r else None)"
  by (simp add: retain_live_def hm_get_retain record_live_def split: option.split)

lemma hm_ok_retain_live [simp]: "hm_ok sh \<Longrightarrow> hm_ok (retain_live now sh)"
  by (simp add: retain_live_def)

lemma length_retain_live [simp]: "length (retain_live now sh) \<le> length sh"
  by (simp add: retain_live_def)

lemma insert_state_sync_eq:
  "insert_state_sync h k e ttl now now' s =
     (case StoredStateRecord_new e ttl now of
        None \<Rightarrow> None
      | Some r \<Rightarrow>
          (let i = shard_index h k; sh = admission_shard now' (shards s ! i) in
           if length sh \<ge> SHARD_ADMISSION_CAPACITY
           then Some (update_shard i sh s, Err (StoreError.CapacityExceeded SHARD_ADMISSION_CAPACITY))
           else Some (update_shard i (hm_insert k r sh) s, Ok ())))"
  by (auto simp: insert_state_sync_def admission_shard_def Let_def split: option.split)

lemma admission_shard_props:
  assumes "store_inv h s" "i < NUM_SHARDS"
  shows "hm_ok (admission_shard now (shards s ! i))"
    "length (admission_shard now (shards s ! i)) \<le> SHARD_ADMISSION_CAPACITY"
    "(k, r) \<in> set (admission_shard now (shards s ! i)) \<Longrightarrow> shard_index h k = i"
    "hm_get k (admission_shard now (shards s ! i)) = hm_get k (shards s ! i)
     \<or> (hm_get k (admission_shard now (shards s ! i)) = None
        \<and> (\<exists>x. hm_get k (shards s ! i) = Some x \<and> \<not> record_live now x))"
proof -
  have ok: "hm_ok (shards s ! i)" and len: "length (shards s ! i) \<le> SHARD_ADMISSION_CAPACITY"
    using assms by (auto simp: store_inv_def)
  show "hm_ok (admission_shard now (shards s ! i))"
    by (simp add: admission_shard_def ok)
  show "length (admission_shard now (shards s ! i)) \<le> SHARD_ADMISSION_CAPACITY"
    using len order_trans [OF length_retain_live len, of now] by (simp add: admission_shard_def)
  show "(k, r) \<in> set (admission_shard now (shards s ! i)) \<Longrightarrow> shard_index h k = i"
    using store_inv_keys [OF assms(1) _ assms(2)] retain_live_subset [of now "shards s ! i"]
    by (auto simp: admission_shard_def split: if_splits)
  show "hm_get k (admission_shard now (shards s ! i)) = hm_get k (shards s ! i)
     \<or> (hm_get k (admission_shard now (shards s ! i)) = None
        \<and> (\<exists>x. hm_get k (shards s ! i) = Some x \<and> \<not> record_live now x))"
    by (auto simp: admission_shard_def hm_get_retain_live ok split: option.splits)
qed

lemma hm_insert_keys:
  assumes "\<And>k r. (k, r) \<in> set sh \<Longrightarrow> P k" "P k0" "(k, r) \<in> set (hm_insert k0 r0 sh)"
  shows "P k"
  using assms set_hm_insert [of k0 r0 sh] by auto

lemma store_inv_insert:
  assumes "store_inv h s" "insert_state_sync h k e ttl now now' s = Some (s', r)"
  shows "store_inv h s'"
proof -
  let ?i = "shard_index h k"
  let ?sh = "admission_shard now' (shards s ! ?i)"
  note props = admission_shard_props [OF assms(1) shard_index_less, where now = now']
  have 1: "store_inv h (update_shard ?i ?sh s)"
    by (rule store_inv_update_shard [OF assms(1)]) (auto intro: props)
  have "store_inv h (update_shard ?i (hm_insert k rec ?sh) s)"
    if "\<not> SHARD_ADMISSION_CAPACITY \<le> length ?sh" for rec
  proof (rule store_inv_update_shard [OF assms(1)])
    show "length (hm_insert k rec ?sh) \<le> SHARD_ADMISSION_CAPACITY"
      using that length_hm_insert_le [of k rec ?sh] by linarith
    show "shard_index h k' = ?i" if "(k', r') \<in> set (hm_insert k rec ?sh)" for k' r'
      using hm_insert_keys [OF _ _ that, of "\<lambda>k'. shard_index h k' = ?i"] props(3) by blast
  qed (simp_all add: props)
  with 1 assms(2) show ?thesis
    by (auto simp: insert_state_sync_eq Let_def split: option.splits if_splits)
qed

lemma store_view_insert:
  assumes "store_inv h s" "insert_state_sync h k e ttl now now' s = Some (s', r)"
  shows "k' \<noteq> k \<Longrightarrow> store_view h s' k' = store_view h s k'
      \<or> (store_view h s' k' = None \<and> (\<exists>x. store_view h s k' = Some x \<and> \<not> record_live now' x))"
    "r = Ok u \<Longrightarrow> \<exists>x. store_view h s' k = Some x \<and> rec_entry x = e
      \<and> StoredStateRecord_new e ttl now = Some x"
    "r = Err err \<Longrightarrow> store_view h s' k = store_view h s k
      \<or> (store_view h s' k = None \<and> (\<exists>x. store_view h s k = Some x \<and> \<not> record_live now' x))"
proof -
  let ?i = "shard_index h k"
  let ?sh = "admission_shard now' (shards s ! ?i)"
  have get: "shard_index h k' = ?i \<Longrightarrow> hm_get k' ?sh = store_view h s k'
      \<or> (hm_get k' ?sh = None \<and> (\<exists>x. store_view h s k' = Some x \<and> \<not> record_live now' x))" for k'
    using admission_shard_props(4) [OF assms(1) shard_index_less, where k = k' and now = now']
    by (metis store_view_def)
  obtain rc where rc: "StoredStateRecord_new e ttl now = Some rc"
    and cs: "(s' = update_shard ?i ?sh s \<and> r = Err (StoreError.CapacityExceeded SHARD_ADMISSION_CAPACITY))
      \<or> (s' = update_shard ?i (hm_insert k rc ?sh) s \<and> r = Ok ())"
    using assms(2) by (auto simp: insert_state_sync_eq Let_def split: option.splits if_splits)
  have "rec_entry rc = e"
    using rc by (auto simp: StoredStateRecord_new_def split: option.splits)
  thus "r = Ok u \<Longrightarrow> \<exists>x. store_view h s' k = Some x \<and> rec_entry x = e
      \<and> StoredStateRecord_new e ttl now = Some x"
    using cs rc by (auto simp: store_view_update_shard [OF assms(1)])
  show "k' \<noteq> k \<Longrightarrow> store_view h s' k' = store_view h s k'
      \<or> (store_view h s' k' = None \<and> (\<exists>x. store_view h s k' = Some x \<and> \<not> record_live now' x))"
    using cs get [of k'] by (auto simp: store_view_update_shard [OF assms(1)] split: if_splits)
  show "r = Err err \<Longrightarrow> store_view h s' k = store_view h s k
      \<or> (store_view h s' k = None \<and> (\<exists>x. store_view h s k = Some x \<and> \<not> record_live now' x))"
    using cs get [of k] by (auto simp: store_view_update_shard [OF assms(1)])
qed

lemma take_state_sync_eq:
  assumes "store_inv h s"
  shows "take_state_sync h k now s =
    (case store_view h s k of
       None \<Rightarrow> (s, None)
     | Some r \<Rightarrow> (update_shard (shard_index h k) (hm_remove k (shards s ! shard_index h k)) s,
                  if record_live now r then Some (rec_entry r) else None))"
  by (simp add: take_state_sync_def store_view_def record_live_def Let_def split: option.split)

lemma store_inv_take:
  assumes "store_inv h s" "take_state_sync h k now s = (s', r)"
  shows "store_inv h s'"
proof -
  let ?i = "shard_index h k"
  have "store_inv h (update_shard ?i (hm_remove k (shards s ! ?i)) s)"
  proof (rule store_inv_update_shard [OF assms(1)])
    show "length (hm_remove k (shards s ! ?i)) \<le> SHARD_ADMISSION_CAPACITY"
      by (rule order_trans [OF length_hm_remove store_inv_shard(2) [OF assms(1)]])
    show "shard_index h k' = ?i" if "(k', r') \<in> set (hm_remove k (shards s ! ?i))" for k' r'
      by (rule store_inv_keys [OF assms(1) subsetD [OF set_hm_remove that] shard_index_less])
  qed (simp_all add: store_inv_shard [OF assms(1)])
  thus ?thesis
    using assms by (auto simp: take_state_sync_eq [OF assms(1)] split: option.splits)
qed

lemma store_view_take:
  assumes "store_inv h s" "take_state_sync h k now s = (s', r)"
  shows "store_view h s' = (store_view h s)(k := None)"
proof
  fix k'
  show "store_view h s' k' = ((store_view h s)(k := None)) k'"
    using assms(2)
    by (auto simp: take_state_sync_eq [OF assms(1)] store_view_update_shard [OF assms(1)]
        split: option.splits) (auto simp: store_view_def)
qed

lemma prune_shards_eq:
  "prune_shards now shs n =
     (map (retain_live now) shs, n + (\<Sum>sh\<leftarrow>shs. length sh - length (retain_live now sh)))"
proof (induction now shs n rule: prune_shards.induct)
  case (2 now sh rest total_pruned)
  have "length (retain_live now sh) \<le> length sh"
    by (rule length_retain_live)
  with 2 show ?case
    by (simp add: Let_def del: length_retain_live)
qed simp

lemma shards_prune: "shards (fst (prune_expired_sync now s)) = map (retain_live now) (shards s)"
  by (simp add: prune_expired_sync_def prune_shards_eq)

lemma store_inv_prune: "store_inv h s \<Longrightarrow> store_inv h (fst (prune_expired_sync now s))"
proof -
  assume inv: "store_inv h s"
  have "length (retain_live now (shards s ! i)) \<le> SHARD_ADMISSION_CAPACITY" if "i < NUM_SHARDS" for i
    using inv that order_trans [OF length_retain_live] by (simp add: store_inv_def)
  moreover have "shard_index h k = i"
    if "i < NUM_SHARDS" "(k, r) \<in> set (retain_live now (shards s ! i))" for i k r
    by (rule store_inv_keys [OF inv subsetD [OF retain_live_subset that(2)] that(1)])
  ultimately show ?thesis
    using inv by (auto simp: store_inv_def shards_prune)
qed

lemma store_view_prune:
  assumes "store_inv h s"
  shows "store_view h (fst (prune_expired_sync now s)) k =
    (case store_view h s k of None \<Rightarrow> None | Some r \<Rightarrow> if record_live now r then Some r else None)"
  using store_inv_shard [OF assms]
  by (simp add: store_view_def shards_prune hm_get_retain_live)

section \<open>The store implements the interface\<close>

interpretation state_store: oauth_store
  "insert_state_sync h" "take_state_sync h" "contains_state_sync h" prune_expired_sync
  "store_inv h" "store_view h" record_live rec_entry
  for h :: "string \<Rightarrow> u64"
proof
  fix s s' :: OAuthStateStore and k k' e d c c' r u err
  show "store_inv h s \<Longrightarrow> insert_state_sync h k e d c c' s = Some (s', r) \<Longrightarrow> store_inv h s'"
    by (rule store_inv_insert)
  show "store_inv h s \<Longrightarrow> insert_state_sync h k e d c c' s = Some (s', r) \<Longrightarrow> k' \<noteq> k \<Longrightarrow>
      store_view h s' k' = store_view h s k'
      \<or> (store_view h s' k' = None \<and> (\<exists>x. store_view h s k' = Some x \<and> \<not> record_live c' x))"
    by (rule store_view_insert(1))
  show "store_inv h s \<Longrightarrow> insert_state_sync h k e d c c' s = Some (s', Ok u) \<Longrightarrow>
      \<exists>x. store_view h s' k = Some x \<and> rec_entry x = e"
    using store_view_insert(2) [OF _ _ refl] by blast
  show "store_inv h s \<Longrightarrow> insert_state_sync h k e d c c' s = Some (s', Err err) \<Longrightarrow>
      store_view h s' k = store_view h s k \<or> store_view h s' k = None"
    by (drule (1) store_view_insert(3) [OF _ _ refl]) auto
next
  fix s s' :: OAuthStateStore and k c t n
  show "store_inv h s \<Longrightarrow> take_state_sync h k c s = (s', t) \<Longrightarrow> store_inv h s'"
    by (rule store_inv_take)
  show "store_inv h s \<Longrightarrow> take_state_sync h k c s = (s', t) \<Longrightarrow>
      store_view h s' = (store_view h s)(k := None)"
    by (rule store_view_take)
  show "store_inv h s \<Longrightarrow> take_state_sync h k c s = (s', t) \<Longrightarrow>
      t = (case store_view h s k of None \<Rightarrow> None
           | Some x \<Rightarrow> if record_live c x then Some (rec_entry x) else None)"
    by (auto simp: take_state_sync_eq split: option.splits)
  show "store_inv h s \<Longrightarrow>
      contains_state_sync h k c s = (case store_view h s k of None \<Rightarrow> False | Some x \<Rightarrow> record_live c x)"
    by (simp add: contains_state_sync_def store_view_def record_live_def split: option.split)
  show "store_inv h s \<Longrightarrow> prune_expired_sync c s = (s', n) \<Longrightarrow> store_inv h s'"
    using store_inv_prune [of h s c] by simp
  show "store_inv h s \<Longrightarrow> prune_expired_sync c s = (s', n) \<Longrightarrow>
      store_view h s' k =
        (case store_view h s k of None \<Rightarrow> None | Some x \<Rightarrow> if record_live c x then Some x else None)"
    using store_view_prune [of h s c k] by simp
qed

lemma fold_add_length: "fold (\<lambda>sh acc. acc + length sh) shs n = n + (\<Sum>sh\<leftarrow>shs. length sh)"
  by (induction shs arbitrary: n) auto

lemma total_entries_eq: "total_entries s = (\<Sum>sh\<leftarrow>shards s. length sh)"
  by (simp add: total_entries_def fold_add_length)

lemma sum_list_bounded: "(\<And>x. x \<in> set xs \<Longrightarrow> f x \<le> (b :: nat)) \<Longrightarrow> (\<Sum>x\<leftarrow>xs. f x) \<le> length xs * b"
  by (induction xs) fastforce+

lemma total_entries_le:
  assumes "store_inv h s"
  shows "total_entries s \<le> NUM_SHARDS * SHARD_ADMISSION_CAPACITY"
proof -
  have "length sh \<le> SHARD_ADMISSION_CAPACITY" if "sh \<in> set (shards s)" for sh
    using assms that by (auto simp: store_inv_def in_set_conv_nth)
  hence "(\<Sum>sh\<leftarrow>shards s. length sh) \<le> length (shards s) * SHARD_ADMISSION_CAPACITY"
    by (rule sum_list_bounded)
  thus ?thesis
    using assms by (simp add: total_entries_eq store_inv_def)
qed

lemma sum_list_diff_map:
  "(\<And>x. x \<in> set xs \<Longrightarrow> g x \<le> (f x :: nat)) \<Longrightarrow>
   (\<Sum>x\<leftarrow>xs. f x - g x) + (\<Sum>x\<leftarrow>xs. g x) = (\<Sum>x\<leftarrow>xs. f x)"
  by (induction xs) fastforce+

lemma prune_count:
  "snd (prune_expired_sync now s) + total_entries (fst (prune_expired_sync now s)) = total_entries s"
proof -
  have "(\<Sum>sh\<leftarrow>shards s. length sh - length (retain_live now sh))
      + (\<Sum>sh\<leftarrow>shards s. length (retain_live now sh)) = (\<Sum>sh\<leftarrow>shards s. length sh)"
    by (rule sum_list_diff_map) simp
  thus ?thesis
    by (simp add: total_entries_eq shards_prune comp_def) (simp add: prune_expired_sync_def prune_shards_eq)
qed

lemma retain_live_full:
  "length (retain_live now sh) = length sh \<longleftrightarrow> list_all (\<lambda>(k, r). record_live now r) sh"
proof -
  have "length (filter p xs) = length xs \<longleftrightarrow> list_all p xs" for p and xs :: shard
    by (metis (no_types, lifting) filter_id_conv length_filter_less list_all_iff nat_neq_iff)
  thus ?thesis
    by (simp add: retain_live_def hm_retain_def record_live_def)
qed

section \<open>Properties\<close>

text \<open>C1: Single use.  In every sequence of insertions, takes, lookups and prunings, at whatever
  clock readings, starting from a fresh store, a token is handed out at most as many times as
  it was inserted, and every entry handed out for it was inserted for it.\<close>

theorem state_single_use:
  "length (takes_of k (snd (run_ops (insert_state_sync h) (take_state_sync h) prune_expired_sync
       ops (OAuthStateStore_new ttl)))) \<le> length (inserted k ops)
   \<and> set (takes_of k (snd (run_ops (insert_state_sync h) (take_state_sync h) prune_expired_sync
       ops (OAuthStateStore_new ttl)))) \<subseteq> set (inserted k ops)"
proof -
  obtain s' out where r: "run_ops (insert_state_sync h) (take_state_sync h) prune_expired_sync ops
      (OAuthStateStore_new ttl) = (s', out)"
    by fastforce
  show ?thesis
    using state_store.single_use [OF store_inv_new r, of k]
      state_store.taken_was_inserted [OF store_inv_new r, of _ k]
    by (auto simp: r)
qed

text \<open>C25: Bounded memory.  After every sequence of operations on a fresh store there are 64
  shards, each a map of at most 1024 entries whose keys hash to that shard, so the store holds
  at most 65536 entries.\<close>

theorem store_bounded:
  "store_inv h (fst (run_ops (insert_state_sync h) (take_state_sync h) prune_expired_sync
       ops (OAuthStateStore_new ttl)))
   \<and> total_entries (fst (run_ops (insert_state_sync h) (take_state_sync h) prune_expired_sync
       ops (OAuthStateStore_new ttl))) \<le> 65536"
proof -
  obtain s' out where r: "run_ops (insert_state_sync h) (take_state_sync h) prune_expired_sync ops
      (OAuthStateStore_new ttl) = (s', out)"
    by fastforce
  have "store_inv h s'"
    by (rule state_store.run_inv [OF store_inv_new r])
  thus ?thesis
    using total_entries_le by (fastforce simp: r NUM_SHARDS_def SHARD_ADMISSION_CAPACITY_def)
qed

text \<open>Insert then take.  After a successful insertion at \<open>now\<close>, taking the token at \<open>t\<close>
  yields the inserted entry when \<open>t\<close> is before \<open>now + ttl\<close> and the TTL is not zero, and nothing
  otherwise, whatever the clock did in between.\<close>

theorem insert_then_take:
  assumes "store_inv h s" "now + ttl \<le> instant_max"
    and "insert_state_sync h k e ttl now now' s = Some (s', Ok ())"
  shows "snd (take_state_sync h k t s') = (if t < now + ttl \<and> 0 < ttl then Some e else None)"
proof -
  obtain x where x: "store_view h s' k = Some x" "rec_entry x = e"
    "StoredStateRecord_new e ttl now = Some x"
    using store_view_insert(2) [OF assms(1,3) refl] by blast
  hence "record_live t x \<longleftrightarrow> t < now + ttl \<and> 0 < ttl"
    using assms(2)
    by (auto simp: record_live_def record_is_expired_iff StoredStateRecord_new_def
        instant_checked_add_def split: option.splits if_splits)
  thus ?thesis
    using x store_inv_insert [OF assms(1,3)] by (simp add: take_state_sync_eq)
qed

theorem insert_then_take_witness:
  "snd (take_state_sync (\<lambda>_. 5) ''s1'' 299
     (fst (the (insert_state_sync (\<lambda>_. 5) ''s1'' sample_entry 300 0 0 (OAuthStateStore_new 300)))))
   = Some sample_entry"
proof -
  obtain s' where ins: "insert_state_sync (\<lambda>_. 5) ''s1'' sample_entry 300 0 0 (OAuthStateStore_new 300)
      = Some (s', Ok ())"
    by (simp add: insert_state_sync_def StoredStateRecord_new_def instant_checked_add_def
        instant_max_def nanos_per_sec_def from_secs_def OAuthStateStore_new_def
        shard_index_def NUM_SHARDS_def SHARD_ADMISSION_CAPACITY_def)
  have "(0 :: nat) + 300 \<le> instant_max"
    by (simp add: instant_max_def nanos_per_sec_def)
  from insert_then_take [OF store_inv_new this ins, of 299] show ?thesis
    by (simp add: ins)
qed

text \<open>Admission fails closed and never displaces a live entry.  An insertion that does not
  panic is refused exactly when its shard already holds 1024 entries that are all live at the
  clock reading of the pruning; it never loses a live entry of another token.\<close>

theorem insert_admission:
  assumes "store_inv h s" "insert_state_sync h k e ttl now now' s = Some (s', r)"
  shows "(r = Err (StoreError.CapacityExceeded 1024) \<longleftrightarrow>
      length (shards s ! shard_index h k) = 1024
      \<and> list_all (\<lambda>(k, r). record_live now' r) (shards s ! shard_index h k))
    \<and> (k' \<noteq> k \<and> store_view h s k' = Some x \<and> record_live now' x \<longrightarrow>
         store_view h s' k' = Some x)"
proof -
  let ?sh = "shards s ! shard_index h k"
  have len: "length ?sh \<le> 1024"
    using store_inv_shard(2) [OF assms(1)] by (simp add: SHARD_ADMISSION_CAPACITY_def)
  have "length (admission_shard now' ?sh) \<ge> 1024 \<longleftrightarrow>
      length ?sh = 1024 \<and> list_all (\<lambda>(k, r). record_live now' r) ?sh"
    using len length_retain_live [of now' ?sh] retain_live_full [of now' ?sh]
    by (auto simp: admission_shard_def SHARD_ADMISSION_CAPACITY_def simp del: length_retain_live)
  hence "r = Err (StoreError.CapacityExceeded 1024) \<longleftrightarrow>
      length ?sh = 1024 \<and> list_all (\<lambda>(k, r). record_live now' r) ?sh"
    using assms(2)
    by (auto simp: insert_state_sync_eq Let_def SHARD_ADMISSION_CAPACITY_def
        split: option.splits if_splits)
  thus ?thesis
    using store_view_insert(1) [OF assms, of k'] by auto
qed

theorem insert_admission_witness:
  "\<exists>s'. insert_state_sync (\<lambda>_. 5) ''s1'' sample_entry 300 0 0 (OAuthStateStore_new 300)
      = Some (s', Ok ()) \<and> shards (OAuthStateStore_new 300) ! 5 = []"
proof -
  obtain s' r where ins: "insert_state_sync (\<lambda>_. 5) ''s1'' sample_entry 300 0 0
      (OAuthStateStore_new 300) = Some (s', r)"
    by (simp add: insert_state_sync_def StoredStateRecord_new_def instant_checked_add_def
        instant_max_def nanos_per_sec_def from_secs_def OAuthStateStore_new_def
        shard_index_def NUM_SHARDS_def SHARD_ADMISSION_CAPACITY_def)
  have sh: "shards (OAuthStateStore_new 300) ! 5 = []"
    by (simp add: OAuthStateStore_new_def NUM_SHARDS_def)
  have "r \<noteq> Err (StoreError.CapacityExceeded 1024)"
    using insert_admission [OF store_inv_new ins]
    by (simp add: OAuthStateStore_new_def shard_index_def NUM_SHARDS_def)
  moreover have "r = Ok () \<or> r = Err (StoreError.CapacityExceeded 1024)"
    using ins by (auto simp: insert_state_sync_def Let_def SHARD_ADMISSION_CAPACITY_def
        split: option.splits if_splits)
  ultimately show ?thesis
    using ins sh by auto
qed

text \<open>Pruning removes exactly the expired entries.  Afterwards the store maps a token to what
  it had before if that record is live and to nothing otherwise, and the returned count is the
  number of entries removed over all shards.\<close>

theorem prune_exact:
  assumes "store_inv h s" "prune_expired_sync now s = (s', n)"
  shows "store_view h s' k =
      (case store_view h s k of None \<Rightarrow> None | Some r \<Rightarrow> if record_live now r then Some r else None)
    \<and> n = total_entries s - total_entries s' \<and> n \<le> total_entries s"
  using store_view_prune [OF assms(1), of now k] prune_count [of now s] assms(2) by auto

theorem prune_exact_witness:
  "snd (prune_expired_sync 7 (OAuthStateStore_new 300)) = 0"
proof -
  obtain s' n where p: "prune_expired_sync 7 (OAuthStateStore_new 300) = (s', n)"
    by fastforce
  have "total_entries (OAuthStateStore_new 300) = 0"
    by (simp add: total_entries_eq OAuthStateStore_new_def)
  thus ?thesis
    using prune_exact [OF store_inv_new p] p by simp
qed

end
