(* ===== verification/State_Model.thy ===== *)
theory State_Model
  imports State_Store
begin

text \<open>
  The executable state machine of \<open>verification/formal_models.rs\<close> (\<open>SingleStateModel\<close> and
  \<open>OAuthStateTransitionModel\<close>), which the crate uses as the specification of its state
  store.  It is a second implementation of the store interface, and the sharded store is
  shown to refine it.
\<close>

section \<open>A single token\<close>

datatype StateTransitionStatus =
    Uninitialized
  | Pending u64 u64
  | Consumed u64
  | Expired u64

record SingleStateModel =
  ss_status :: StateTransitionStatus
  ss_consumption_count :: nat

definition SingleStateModel_new :: SingleStateModel where
  "SingleStateModel_new = \<lparr> ss_status = Uninitialized, ss_consumption_count = 0 \<rparr>"

definition usize_saturating_succ :: "nat \<Rightarrow> nat" where
  "usize_saturating_succ n = min (n + 1) (2 ^ 64 - 1)"

fun single_insert :: "u64 \<Rightarrow> u64 \<Rightarrow> SingleStateModel \<Rightarrow> SingleStateModel \<times> bool" where
  "single_insert ttl_ticks current_tick m =
     (case ss_status m of
        Uninitialized \<Rightarrow> (m\<lparr>ss_status := Pending current_tick ttl_ticks\<rparr>, True)
      | _ \<Rightarrow> (m, False))"

fun single_take :: "u64 \<Rightarrow> SingleStateModel \<Rightarrow> SingleStateModel \<times> u64 option" where
  "single_take current_tick m =
     (case ss_status m of
        Pending created_at ttl \<Rightarrow>
          (if saturating_sub current_tick created_at \<ge> ttl
           then (m\<lparr>ss_status := Expired current_tick\<rparr>, None)
           else (m\<lparr>ss_status := Consumed current_tick,
                   ss_consumption_count := usize_saturating_succ (ss_consumption_count m)\<rparr>,
                 Some created_at))
      | _ \<Rightarrow> (m, None))"

definition single_use_ok :: "SingleStateModel \<Rightarrow> bool" where
  "single_use_ok m = (ss_consumption_count m \<le> 1)"

section \<open>Many tokens\<close>

record ModelStoredEntry =
  me_state_id :: string
  me_client_id :: string
  me_created_at_tick :: u64
  me_ttl_ticks :: u64

record OAuthStateTransitionModel =
  states :: "(string, StateTransitionStatus) hmap"
  payloads :: "(string, ModelStoredEntry) hmap"
  consumption_counts :: "(string, nat) hmap"

definition OAuthStateTransitionModel_new :: OAuthStateTransitionModel where
  "OAuthStateTransitionModel_new = \<lparr> states = [], payloads = [], consumption_counts = [] \<rparr>"

definition model_insert ::
  "string \<Rightarrow> string \<Rightarrow> u64 \<Rightarrow> u64 \<Rightarrow> OAuthStateTransitionModel \<Rightarrow> OAuthStateTransitionModel \<times> bool"
where
  "model_insert state_id client_id ttl_ticks current_tick m =
     (if state_id = [] \<or> ttl_ticks = 0 then (m, False)
      else
        (let entry = \<lparr> me_state_id = state_id, me_client_id = client_id,
                       me_created_at_tick = current_tick, me_ttl_ticks = ttl_ticks \<rparr> in
         (m\<lparr>states := hm_insert state_id (Pending current_tick ttl_ticks) (states m),
            payloads := hm_insert state_id entry (payloads m),
            consumption_counts := hm_remove state_id (consumption_counts m)\<rparr>, True)))"

definition model_status :: "string \<Rightarrow> OAuthStateTransitionModel \<Rightarrow> StateTransitionStatus" where
  "model_status state_id m = (case hm_get state_id (states m) of Some st \<Rightarrow> st | None \<Rightarrow> Uninitialized)"

definition count_of :: "string \<Rightarrow> OAuthStateTransitionModel \<Rightarrow> nat" where
  "count_of state_id m = (case hm_get state_id (consumption_counts m) of Some n \<Rightarrow> n | None \<Rightarrow> 0)"

definition model_take ::
  "string \<Rightarrow> u64 \<Rightarrow> OAuthStateTransitionModel
   \<Rightarrow> OAuthStateTransitionModel \<times> ModelStoredEntry option" where
  "model_take state_id current_tick m =
     (case model_status state_id m of
        Pending created_at ttl \<Rightarrow>
          (if saturating_sub current_tick created_at \<ge> ttl
           then (m\<lparr>states := hm_insert state_id (Expired current_tick) (states m),
                   payloads := hm_remove state_id (payloads m)\<rparr>, None)
           else (m\<lparr>states := hm_insert state_id (Consumed current_tick) (states m),
                   payloads := hm_remove state_id (payloads m),
                   consumption_counts :=
                     hm_insert state_id (usize_saturating_succ (count_of state_id m))
                       (consumption_counts m)\<rparr>,
                 hm_get state_id (payloads m)))
      | _ \<Rightarrow> (m, None))"

definition pending_expired :: "u64 \<Rightarrow> StateTransitionStatus \<Rightarrow> bool" where
  "pending_expired current_tick st =
     (case st of
        Pending created_at ttl \<Rightarrow> saturating_sub current_tick created_at \<ge> ttl
      | _ \<Rightarrow> False)"

definition expire_key :: "u64 \<Rightarrow> string \<Rightarrow> OAuthStateTransitionModel \<Rightarrow> OAuthStateTransitionModel" where
  "expire_key current_tick state_id m =
     m\<lparr>states := hm_insert state_id (Expired current_tick) (states m),
       payloads := hm_remove state_id (payloads m)\<rparr>"

definition model_prune :: "u64 \<Rightarrow> OAuthStateTransitionModel \<Rightarrow> OAuthStateTransitionModel \<times> nat" where
  "model_prune current_tick m =
     (let expired_keys = map fst (filter (\<lambda>(_, st). pending_expired current_tick st) (states m)) in
      (fold (expire_key current_tick) expired_keys m, length expired_keys))"

definition verify_single_use_invariant :: "string \<Rightarrow> OAuthStateTransitionModel \<Rightarrow> bool" where
  "verify_single_use_invariant state_id m = (count_of state_id m \<le> 1)"

definition verify_global_store_invariants :: "OAuthStateTransitionModel \<Rightarrow> bool" where
  "verify_global_store_invariants m =
     list_all (\<lambda>(state_id, count).
         \<not> count > 1
         \<and> (case hm_get state_id (states m) of
              Some st \<Rightarrow> \<not> (count = 1 \<and> \<not> (case st of Consumed _ \<Rightarrow> True | _ \<Rightarrow> False))
            | None \<Rightarrow> True))
       (consumption_counts m)"

fun race_loop ::
  "nat \<Rightarrow> string \<Rightarrow> u64 \<Rightarrow> nat \<Rightarrow> nat \<Rightarrow> OAuthStateTransitionModel
   \<Rightarrow> OAuthStateTransitionModel \<times> nat \<times> nat" where
  "race_loop 0 state_id current_tick ok fail m = (m, ok, fail)"
| "race_loop (Suc n) state_id current_tick ok fail m =
     (case model_take state_id current_tick m of
        (m', Some _) \<Rightarrow> race_loop n state_id current_tick (usize_saturating_succ ok) fail m'
      | (m', None) \<Rightarrow> race_loop n state_id current_tick ok (usize_saturating_succ fail) m')"

definition simulate_concurrent_consumption_race ::
  "string \<Rightarrow> nat \<Rightarrow> u64 \<Rightarrow> OAuthStateTransitionModel \<Rightarrow> OAuthStateTransitionModel \<times> nat \<times> nat" where
  "simulate_concurrent_consumption_race state_id num_racers current_tick m =
     race_loop num_racers state_id current_tick 0 0 m"

section \<open>The model as a store\<close>

text \<open>Adapters to the operations of the interface: the payload of a record is its client
  identifier, and a refused insertion is an error.\<close>

definition model_insert_op ::
  "string \<Rightarrow> string \<Rightarrow> u64 \<Rightarrow> u64 \<Rightarrow> u64 \<Rightarrow> OAuthStateTransitionModel
   \<Rightarrow> (OAuthStateTransitionModel \<times> (unit, unit) result) option" where
  "model_insert_op k client ttl now now' m =
     (let (m', b) = model_insert k client ttl now m in Some (m', if b then Ok () else Err ()))"

definition model_take_op ::
  "string \<Rightarrow> u64 \<Rightarrow> OAuthStateTransitionModel \<Rightarrow> OAuthStateTransitionModel \<times> string option" where
  "model_take_op k now m = (let (m', r) = model_take k now m in (m', map_option me_client_id r))"

definition model_view :: "OAuthStateTransitionModel \<Rightarrow> string \<Rightarrow> ModelStoredEntry option" where
  "model_view m k = (case model_status k m of Pending _ _ \<Rightarrow> hm_get k (payloads m) | _ \<Rightarrow> None)"

definition model_live :: "u64 \<Rightarrow> ModelStoredEntry \<Rightarrow> bool" where
  "model_live now e = (saturating_sub now (me_created_at_tick e) < me_ttl_ticks e)"

definition model_contains :: "string \<Rightarrow> u64 \<Rightarrow> OAuthStateTransitionModel \<Rightarrow> bool" where
  "model_contains k now m = (case model_view m k of None \<Rightarrow> False | Some e \<Rightarrow> model_live now e)"

definition consume_key :: "u64 \<Rightarrow> string \<Rightarrow> OAuthStateTransitionModel \<Rightarrow> OAuthStateTransitionModel" where
  "consume_key now k m =
     m\<lparr>states := hm_insert k (Consumed now) (states m),
       payloads := hm_remove k (payloads m),
       consumption_counts := hm_insert k 1 (consumption_counts m)\<rparr>"

text \<open>The maps are maps, a pending token has the payload that its status describes, and the
  consumption counter of a token is at most one, and zero unless the token is consumed.\<close>

definition model_inv :: "OAuthStateTransitionModel \<Rightarrow> bool" where
  "model_inv m =
     (hm_ok (states m) \<and> hm_ok (payloads m) \<and> hm_ok (consumption_counts m)
      \<and> (\<forall>k c ttl. model_status k m = Pending c ttl \<longrightarrow>
           (\<exists>e. hm_get k (payloads m) = Some e \<and> me_created_at_tick e = c \<and> me_ttl_ticks e = ttl))
      \<and> (\<forall>k. count_of k m \<le> 1 \<and> (count_of k m = 1 \<longrightarrow> (\<exists>t. model_status k m = Consumed t))))"

text \<open>The simulation relation at time \<open>T\<close>: both have the same tokens with the same payload and
  times, except that the store may already have dropped a token that is expired at \<open>T\<close>.\<close>

definition matches :: "StoredStateRecord \<Rightarrow> ModelStoredEntry \<Rightarrow> bool" where
  "matches r e =
     (rec_created_at r = unat (me_created_at_tick e)
      \<and> rec_expires_at r = unat (me_created_at_tick e) + unat (me_ttl_ticks e)
      \<and> sse_client_id (rec_entry r) = me_client_id e)"

definition sim_at :: "instant \<Rightarrow> StoredStateRecord option \<Rightarrow> ModelStoredEntry option \<Rightarrow> bool" where
  "sim_at T x y =
     (case (x, y) of
        (None, None) \<Rightarrow> True
      | (Some r, Some e) \<Rightarrow> matches r e
      | (None, Some e) \<Rightarrow> \<not> model_live (word_of_nat T) e
      | (Some r, None) \<Rightarrow> False)"

definition state_sim ::
  "(string \<Rightarrow> u64) \<Rightarrow> instant \<Rightarrow> OAuthStateStore \<Rightarrow> OAuthStateTransitionModel \<Rightarrow> bool" where
  "state_sim h T s m = (\<forall>k. sim_at T (store_view h s k) (model_view m k))"

section \<open>Lemmas\<close>

lemma model_inv_new [simp]: "model_inv OAuthStateTransitionModel_new"
  by (simp add: model_inv_def OAuthStateTransitionModel_new_def model_status_def count_of_def)

lemma model_view_new [simp]: "model_view OAuthStateTransitionModel_new k = None"
  by (simp add: model_view_def OAuthStateTransitionModel_new_def model_status_def)

lemma model_insert_status:
  assumes "model_insert k client ttl now m = (m', True)"
  shows "model_status k' m' = (if k' = k then Pending now ttl else model_status k' m)"
    "hm_get k' (payloads m') =
       (if k' = k then Some \<lparr> me_state_id = k, me_client_id = client, me_created_at_tick = now,
          me_ttl_ticks = ttl \<rparr> else hm_get k' (payloads m))"
    "count_of k' m' = (if k' = k then 0 else count_of k' m)"
  using assms
  by (auto simp: model_insert_def model_status_def count_of_def Let_def split: if_splits)

lemma model_view_insert:
  assumes "model_insert k client ttl now m = (m', b)"
  shows "model_view m' k' =
    (if b \<and> k' = k then Some \<lparr> me_state_id = k, me_client_id = client, me_created_at_tick = now,
       me_ttl_ticks = ttl \<rparr> else model_view m k')"
proof (cases b)
  case True
  hence "model_insert k client ttl now m = (m', True)"
    using assms by simp
  from model_insert_status [OF this, of k'] True show ?thesis
    by (cases "k' = k") (simp_all add: model_view_def split: StateTransitionStatus.split)
next
  case False
  thus ?thesis
    using assms by (auto simp: model_insert_def Let_def split: if_splits)
qed

lemma model_inv_insert:
  assumes "model_inv m" "model_insert k client ttl now m = (m', b)"
  shows "model_inv m'"
proof (cases b)
  case True
  with assms model_insert_status [of k client ttl now m m'] show ?thesis
    by (auto simp: model_inv_def) (auto simp: model_insert_def Let_def split: if_splits)
next
  case False
  with assms show ?thesis
    by (auto simp: model_insert_def Let_def split: if_splits)
qed

lemma model_invD:
  assumes "model_inv m"
  shows "model_status k m = Pending c ttl \<Longrightarrow>
      \<exists>e. hm_get k (payloads m) = Some e \<and> me_created_at_tick e = c \<and> me_ttl_ticks e = ttl"
    "count_of k m \<le> 1" "count_of k m = 1 \<Longrightarrow> \<exists>t. model_status k m = Consumed t"
  using assms unfolding model_inv_def by blast+

lemma model_take_cases:
  assumes "model_inv m" "model_take k now m = (m', r)"
  obtains (absent) "model_view m k = None" "m' = m" "r = None"
  | (expired) e where "model_view m k = Some e" "\<not> model_live now e" "r = None"
      "m' = expire_key now k m"
  | (taken) e where "model_view m k = Some e" "model_live now e" "r = Some e"
      "m' = consume_key now k m"
proof (cases "model_status k m")
  case (Pending c ttl)
  then obtain e where e: "hm_get k (payloads m) = Some e" "me_created_at_tick e = c" "me_ttl_ticks e = ttl"
    using model_invD(1) [OF assms(1)] by blast
  have "count_of k m \<noteq> 1" "count_of k m \<le> 1"
    using model_invD(2,3) [OF assms(1), of k] Pending by auto
  hence "usize_saturating_succ (count_of k m) = 1"
    by (simp add: usize_saturating_succ_def)
  hence t: "model_take k now m =
      (if model_live now e then (consume_key now k m, Some e) else (expire_key now k m, None))"
    using e Pending
    by (simp add: model_take_def model_live_def expire_key_def consume_key_def linorder_not_less linorder_not_le)
  have v: "model_view m k = Some e"
    using e Pending by (simp add: model_view_def)
  show ?thesis
  proof (cases "model_live now e")
    case True
    with t assms(2) show ?thesis
      by (intro taken [OF v]) simp_all
  next
    case False
    with t assms(2) show ?thesis
      by (intro expired [OF v]) simp_all
  qed
qed (rule absent; use assms(2) in \<open>simp add: model_take_def model_view_def\<close>)+

lemma expire_key_status:
  "model_status k' (expire_key now k m) = (if k' = k then Expired now else model_status k' m)"
  "hm_get k' (payloads (expire_key now k m)) = (if k' = k then None else hm_get k' (payloads m))"
  "count_of k' (expire_key now k m) = count_of k' m"
  by (simp_all add: expire_key_def model_status_def count_of_def)

lemma consume_key_status:
  "model_status k' (consume_key now k m) = (if k' = k then Consumed now else model_status k' m)"
  "hm_get k' (payloads (consume_key now k m)) = (if k' = k then None else hm_get k' (payloads m))"
  "count_of k' (consume_key now k m) = (if k' = k then 1 else count_of k' m)"
  by (simp_all add: consume_key_def model_status_def count_of_def)

lemma model_view_key:
  "model_view (expire_key now k m) = (model_view m)(k := None)"
  "model_view (consume_key now k m) = (model_view m)(k := None)"
  by (auto simp: fun_eq_iff model_view_def expire_key_status consume_key_status
      split: StateTransitionStatus.split)

lemma model_invI:
  assumes "hm_ok (states m)" "hm_ok (payloads m)" "hm_ok (consumption_counts m)"
    and "\<And>k c ttl. model_status k m = Pending c ttl \<Longrightarrow>
      \<exists>e. hm_get k (payloads m) = Some e \<and> me_created_at_tick e = c \<and> me_ttl_ticks e = ttl"
    and "\<And>k. count_of k m \<le> 1" "\<And>k. count_of k m = 1 \<Longrightarrow> \<exists>t. model_status k m = Consumed t"
  shows "model_inv m"
  using assms unfolding model_inv_def by blast

lemma model_inv_maps:
  assumes "model_inv m"
  shows "hm_ok (states m)" "hm_ok (payloads m)" "hm_ok (consumption_counts m)"
  using assms unfolding model_inv_def by blast+

lemma model_inv_expire_key:
  assumes "model_inv m" "count_of k m \<noteq> 1"
  shows "model_inv (expire_key now k m)"
proof (rule model_invI)
  fix k' c ttl
  show "model_status k' (expire_key now k m) = Pending c ttl \<Longrightarrow>
      \<exists>e. hm_get k' (payloads (expire_key now k m)) = Some e
        \<and> me_created_at_tick e = c \<and> me_ttl_ticks e = ttl"
    using model_invD(1) [OF assms(1)] by (simp add: expire_key_status split: if_splits)
  show "count_of k' (expire_key now k m) \<le> 1"
    using model_invD(2) [OF assms(1)] by (simp add: expire_key_status)
  show "count_of k' (expire_key now k m) = 1 \<Longrightarrow> \<exists>t. model_status k' (expire_key now k m) = Consumed t"
    using model_invD(3) [OF assms(1)] assms(2) by (auto simp: expire_key_status)
qed (simp_all add: expire_key_def model_inv_maps [OF assms(1)])

lemma model_inv_consume_key:
  assumes "model_inv m"
  shows "model_inv (consume_key now k m)"
proof (rule model_invI)
  fix k' c ttl
  show "model_status k' (consume_key now k m) = Pending c ttl \<Longrightarrow>
      \<exists>e. hm_get k' (payloads (consume_key now k m)) = Some e
        \<and> me_created_at_tick e = c \<and> me_ttl_ticks e = ttl"
    using model_invD(1) [OF assms, of k' c ttl] by (simp add: consume_key_status split: if_splits)
  show "count_of k' (consume_key now k m) \<le> 1"
    using model_invD(2) [OF assms, of k'] by (simp add: consume_key_status)
  show "count_of k' (consume_key now k m) = 1 \<Longrightarrow> \<exists>t. model_status k' (consume_key now k m) = Consumed t"
    using model_invD(3) [OF assms, of k'] by (auto simp: consume_key_status)
qed (simp_all add: consume_key_def model_inv_maps [OF assms])

lemma pending_not_consumed:
  assumes "model_inv m" "model_view m k = Some e"
  shows "count_of k m \<noteq> 1"
proof
  assume "count_of k m = 1"
  then obtain t where "model_status k m = Consumed t"
    using model_invD(3) [OF assms(1)] by blast
  thus False
    using assms(2) by (simp add: model_view_def)
qed

lemma model_inv_take:
  assumes "model_inv m" "model_take k now m = (m', r)"
  shows "model_inv m'"
  using assms
proof (cases rule: model_take_cases)
  case (expired e)
  show ?thesis
    unfolding expired(4)
    by (rule model_inv_expire_key [OF assms(1) pending_not_consumed [OF assms(1) expired(1)]])
next
  case (taken e)
  thus ?thesis
    by (simp add: model_inv_consume_key assms(1))
qed (use assms in simp)

lemma model_view_take:
  assumes "model_inv m" "model_take k now m = (m', r)"
  shows "model_view m' = (model_view m)(k := None)"
    "r = (case model_view m k of None \<Rightarrow> None | Some e \<Rightarrow> if model_live now e then Some e else None)"
  using assms by (cases rule: model_take_cases; simp add: model_view_key fun_upd_idem)+

text \<open>Pruning expires the collected keys one after the other.\<close>

lemma fold_expire_key:
  "model_view (fold (expire_key now) ks m) k = (if k \<in> set ks then None else model_view m k)"
  "count_of k (fold (expire_key now) ks m) = count_of k m"
  by (induction ks arbitrary: m) (auto simp: expire_key_status model_view_key)

lemma model_inv_fold_expire_key:
  "model_inv m \<Longrightarrow> (\<And>k. k \<in> set ks \<Longrightarrow> count_of k m \<noteq> 1) \<Longrightarrow>
   model_inv (fold (expire_key now) ks m)"
proof (induction ks arbitrary: m)
  case (Cons k ks)
  have "model_inv (expire_key now k m)"
    by (rule model_inv_expire_key) (use Cons.prems in simp_all)
  moreover have "\<And>k'. k' \<in> set ks \<Longrightarrow> count_of k' (expire_key now k m) \<noteq> 1"
    using Cons.prems(2) by (simp add: expire_key_status)
  ultimately show ?case
    using Cons.IH by simp
qed simp

lemma pending_expired_keys:
  assumes "model_inv m"
  shows "k \<in> set (map fst (filter (\<lambda>(_, st). pending_expired now st) (states m))) \<longleftrightarrow>
    (\<exists>e. model_view m k = Some e \<and> \<not> model_live now e)"
proof -
  have in_map: "(k, st) \<in> set (states m) \<longleftrightarrow> hm_get k (states m) = Some st" for st
    using hm_get_in_set hm_in_set_get [OF model_inv_maps(1) [OF assms]] by metis
  have "k \<in> set (map fst (filter (\<lambda>(_, st). pending_expired now st) (states m))) \<longleftrightarrow>
      (\<exists>st. (k, st) \<in> set (states m) \<and> pending_expired now st)"
    by force
  also have "\<dots> \<longleftrightarrow> (\<exists>st. hm_get k (states m) = Some st \<and> pending_expired now st)"
    by (simp add: in_map)
  also have "\<dots> \<longleftrightarrow> (\<exists>c ttl. model_status k m = Pending c ttl \<and> pending_expired now (Pending c ttl))"
  proof (cases "hm_get k (states m)")
    case (Some st)
    thus ?thesis
      by (cases st) (simp_all add: model_status_def pending_expired_def)
  qed (simp add: model_status_def)
  also have "\<dots> \<longleftrightarrow> (\<exists>e. model_view m k = Some e \<and> \<not> model_live now e)"
  proof (cases "model_status k m")
    case (Pending c ttl)
    thus ?thesis
      using model_invD(1) [OF assms Pending]
      by (auto simp: model_view_def pending_expired_def model_live_def linorder_not_less)
  qed (simp_all add: model_view_def)
  finally show ?thesis .
qed

lemma model_prune_props:
  assumes "model_inv m" "model_prune now m = (m', n)"
  shows "model_inv m'"
    "model_view m' k =
      (case model_view m k of None \<Rightarrow> None | Some e \<Rightarrow> if model_live now e then Some e else None)"
proof -
  let ?ks = "map fst (filter (\<lambda>(_, st). pending_expired now st) (states m))"
  have ks: "k \<in> set ?ks \<longleftrightarrow> (\<exists>e. model_view m k = Some e \<and> \<not> model_live now e)" for k
    by (rule pending_expired_keys [OF assms(1)])
  have cnt: "count_of k m \<noteq> 1" if "k \<in> set ?ks" for k
    using ks that pending_not_consumed [OF assms(1)] by metis
  have m': "m' = fold (expire_key now) ?ks m"
    using assms(2) by (simp add: model_prune_def Let_def)
  show "model_inv m'"
    unfolding m' by (rule model_inv_fold_expire_key [OF assms(1) cnt])
  show "model_view m' k =
      (case model_view m k of None \<Rightarrow> None | Some e \<Rightarrow> if model_live now e then Some e else None)"
    unfolding m' fold_expire_key ks by (auto split: option.splits)
qed

section \<open>The model implements the interface\<close>

interpretation state_model: oauth_store
  model_insert_op model_take_op model_contains model_prune model_inv model_view model_live me_client_id
proof
  fix m m' :: OAuthStateTransitionModel and k k' e d c c' r u err
  show "model_inv m \<Longrightarrow> model_insert_op k e d c c' m = Some (m', r) \<Longrightarrow> model_inv m'"
    by (auto simp: model_insert_op_def intro: model_inv_insert split: prod.splits)
  show "model_inv m \<Longrightarrow> model_insert_op k e d c c' m = Some (m', r) \<Longrightarrow> k' \<noteq> k \<Longrightarrow>
      model_view m' k' = model_view m k'
      \<or> (model_view m' k' = None \<and> (\<exists>x. model_view m k' = Some x \<and> \<not> model_live c' x))"
    by (auto simp: model_insert_op_def model_view_insert split: prod.splits)
  show "model_inv m \<Longrightarrow> model_insert_op k e d c c' m = Some (m', Ok u) \<Longrightarrow>
      \<exists>x. model_view m' k = Some x \<and> me_client_id x = e"
    by (auto simp: model_insert_op_def model_view_insert split: prod.splits if_splits)
  show "model_inv m \<Longrightarrow> model_insert_op k e d c c' m = Some (m', Err err) \<Longrightarrow>
      model_view m' k = model_view m k \<or> model_view m' k = None"
    by (auto simp: model_insert_op_def model_view_insert split: prod.splits if_splits)
next
  fix m m' :: OAuthStateTransitionModel and k c t n
  show "model_inv m \<Longrightarrow> model_take_op k c m = (m', t) \<Longrightarrow> model_inv m'"
    by (auto simp: model_take_op_def intro: model_inv_take split: prod.splits)
  show "model_inv m \<Longrightarrow> model_take_op k c m = (m', t) \<Longrightarrow> model_view m' = (model_view m)(k := None)"
    by (auto simp: model_take_op_def dest: model_view_take(1) split: prod.splits)
  show "model_inv m \<Longrightarrow> model_take_op k c m = (m', t) \<Longrightarrow>
      t = (case model_view m k of None \<Rightarrow> None
           | Some x \<Rightarrow> if model_live c x then Some (me_client_id x) else None)"
    by (auto simp: model_take_op_def dest!: model_view_take(2) split: prod.splits option.splits)
  show "model_inv m \<Longrightarrow>
      model_contains k c m = (case model_view m k of None \<Rightarrow> False | Some x \<Rightarrow> model_live c x)"
    by (simp add: model_contains_def)
  show "model_inv m \<Longrightarrow> model_prune c m = (m', n) \<Longrightarrow> model_inv m'"
    by (rule model_prune_props(1))
  show "model_inv m \<Longrightarrow> model_prune c m = (m', n) \<Longrightarrow>
      model_view m' k =
        (case model_view m k of None \<Rightarrow> None | Some x \<Rightarrow> if model_live c x then Some x else None)"
    by (rule model_prune_props(2))
qed

section \<open>Refinement\<close>

lemma model_live_iff:
  "t < 2 ^ 64 \<Longrightarrow> model_live (word_of_nat t) e \<longleftrightarrow>
     t - unat (me_created_at_tick e) < unat (me_ttl_ticks e)"
  by (simp add: model_live_def word_less_nat_alt unat_saturating_sub unat_of_nat)

lemma matches_live:
  "matches r e \<Longrightarrow> t < 2 ^ 64 \<Longrightarrow> record_live t r \<longleftrightarrow> model_live (word_of_nat t) e"
  by (auto simp: matches_def record_live_def record_is_expired_iff model_live_iff)

lemma model_live_mono:
  "\<not> model_live (word_of_nat T) e \<Longrightarrow> T \<le> t \<Longrightarrow> t < 2 ^ 64 \<Longrightarrow> \<not> model_live (word_of_nat t) e"
  by (simp add: model_live_iff)

lemma sim_at_mono: "sim_at T x y \<Longrightarrow> T \<le> t \<Longrightarrow> t < 2 ^ 64 \<Longrightarrow> sim_at t x y"
  by (auto simp: sim_at_def model_live_mono split: option.splits)

lemma sim_at_prune:
  assumes "sim_at T x y" "T \<le> t" "t < 2 ^ 64"
  defines "y' \<equiv> (case y of None \<Rightarrow> None
    | Some e \<Rightarrow> if model_live (word_of_nat t) e then Some e else None)"
  shows "sim_at t (case x of None \<Rightarrow> None | Some r \<Rightarrow> if record_live t r then Some r else None) y'"
  using assms matches_live [OF _ assms(3)] model_live_mono [OF _ assms(2,3)]
  by (auto simp: sim_at_def split: option.splits)

lemma sim_take_result:
  assumes "sim_at T x y" "T \<le> t" "t < 2 ^ 64"
  shows "map_option sse_client_id
      (case x of None \<Rightarrow> None | Some r \<Rightarrow> if record_live t r then Some (rec_entry r) else None)
    = map_option me_client_id
      (case y of None \<Rightarrow> None | Some e \<Rightarrow> if model_live (word_of_nat t) e then Some e else None)"
  using assms matches_live [OF _ assms(3)] model_live_mono [OF _ assms(2,3)]
  by (auto simp: sim_at_def matches_def split: option.splits)

lemma take_refines:
  assumes "store_inv h s" "model_inv m" "state_sim h T s m" "T \<le> t" "t < 2 ^ 64"
  shows "state_sim h t (fst (take_state_sync h k t s)) (fst (model_take k (word_of_nat t) m))"
    "map_option sse_client_id (snd (take_state_sync h k t s))
     = map_option me_client_id (snd (model_take k (word_of_nat t) m))"
proof -
  obtain s' r where s: "take_state_sync h k t s = (s', r)"
    by fastforce
  obtain m' r' where m: "model_take k (word_of_nat t) m = (m', r')"
    by fastforce
  have sim: "sim_at T (store_view h s k) (model_view m k)" for k
    using assms(3) by (simp add: state_sim_def)
  show "state_sim h t (fst (take_state_sync h k t s)) (fst (model_take k (word_of_nat t) m))"
    using sim_at_mono [OF sim assms(4,5)]
    by (simp add: state_sim_def s m store_view_take [OF assms(1) s] model_view_take [OF assms(2) m])
      (simp add: sim_at_def)
  show "map_option sse_client_id (snd (take_state_sync h k t s))
     = map_option me_client_id (snd (model_take k (word_of_nat t) m))"
    using sim_take_result [OF sim [of k] assms(4,5)]
    by (simp add: s m state_store.take_result [OF assms(1) s] model_view_take(2) [OF assms(2) m])
qed

lemma prune_refines:
  assumes "store_inv h s" "model_inv m" "state_sim h T s m" "T \<le> t" "t < 2 ^ 64"
  shows "state_sim h t (fst (prune_expired_sync t s)) (fst (model_prune (word_of_nat t) m))"
proof -
  obtain m' n where m: "model_prune (word_of_nat t) m = (m', n)"
    by fastforce
  show ?thesis
    using assms(3) sim_at_prune [OF _ assms(4,5)]
    by (simp add: state_sim_def store_view_prune [OF assms(1)] m model_prune_props(2) [OF assms(2) m])
qed

lemma insert_refines:
  assumes "store_inv h s" "state_sim h T s m" "T \<le> t" "t \<le> t'" "t' < 2 ^ 64"
    and "insert_state_sync h k e ttl t t' s = Some (s', Ok ())"
    and "k \<noteq> []" "0 < ttl" "ttl < 2 ^ 64"
  shows "state_sim h t' s' (fst (model_insert k (sse_client_id e) (word_of_nat ttl) (word_of_nat t) m))"
proof -
  have ttl: "unat (word_of_nat ttl :: u64) = ttl" and t: "unat (word_of_nat t :: u64) = t"
    using assms by (simp_all add: unat_of_nat)
  hence "(word_of_nat ttl :: u64) \<noteq> 0"
    using assms(8) by (metis less_irrefl unat_0)
  then obtain m' where m: "model_insert k (sse_client_id e) (word_of_nat ttl) (word_of_nat t) m = (m', True)"
    using assms(7) by (simp add: model_insert_def Let_def)
  have "t + ttl \<le> instant_max"
    using assms by (simp add: instant_max_def nanos_per_sec_def)
  obtain x where x: "store_view h s' k = Some x" "StoredStateRecord_new e ttl t = Some x"
    using store_view_insert(2) [OF assms(1,6) refl] by blast
  hence "sim_at t' (store_view h s' k) (model_view m' k)"
    using \<open>t + ttl \<le> instant_max\<close> ttl t
    by (auto simp: model_view_insert [OF m] sim_at_def matches_def StoredStateRecord_new_def
        instant_checked_add_def split: option.splits)
  moreover have "sim_at t' (store_view h s' k') (model_view m' k')" if "k' \<noteq> k" for k'
  proof -
    have "sim_at t' (store_view h s k') (model_view m k')"
      using assms(2) sim_at_mono [OF _ order_trans [OF assms(3,4)] assms(5)] by (simp add: state_sim_def)
    moreover have "sim_at t' None (model_view m k')"
      if "store_view h s k' = Some x" "\<not> record_live t' x" for x
      using calculation that matches_live [OF _ assms(5)] by (auto simp: sim_at_def split: option.splits)
    ultimately show ?thesis
      using store_view_insert(1) [OF assms(1,6) that] that by (auto simp: model_view_insert [OF m])
  qed
  ultimately show ?thesis
    unfolding state_sim_def m fst_conv by metis
qed

section \<open>The race\<close>

lemma race_loop_absent:
  "model_inv m \<Longrightarrow> (case model_view m k of None \<Rightarrow> True | Some e \<Rightarrow> \<not> model_live now e) \<Longrightarrow>
   fail + n < 2 ^ 64 \<Longrightarrow> snd (race_loop n k now ok fail m) = (ok, fail + n)"
proof (induction n arbitrary: m fail)
  case (Suc n)
  obtain m' r where t: "model_take k now m = (m', r)"
    by fastforce
  have "r = None"
    using Suc.prems(2) model_view_take(2) [OF Suc.prems(1) t] by (auto split: option.splits)
  moreover have "model_view m' k = None"
    using model_view_take(1) [OF Suc.prems(1) t] by simp
  moreover have "usize_saturating_succ fail = fail + 1"
    using Suc.prems(3) by (simp add: usize_saturating_succ_def)
  ultimately show ?case
    using Suc.IH [OF model_inv_take [OF Suc.prems(1) t], of "fail + 1"] Suc.prems(3) by (simp add: t)
qed simp

lemma race_loop_live:
  assumes "model_inv m" "model_view m k = Some e" "model_live now e" "n < 2 ^ 64"
  shows "snd (race_loop (Suc n) k now 0 0 m) = (1, n)"
proof -
  obtain m' r where t: "model_take k now m = (m', r)"
    by fastforce
  have "r = Some e" "model_view m' k = None"
    using assms model_view_take [OF assms(1) t] by simp_all
  thus ?thesis
    using race_loop_absent [OF model_inv_take [OF assms(1) t], where k = k and now = now
        and fail = 0 and n = n and ok = 1] assms(4)
    by (simp add: t usize_saturating_succ_def)
qed

lemma model_inv_global:
  assumes "model_inv m"
  shows "verify_single_use_invariant k m" "verify_global_store_invariants m"
proof -
  show "verify_single_use_invariant k m"
    using model_invD(2) [OF assms] by (simp add: verify_single_use_invariant_def)
  have "\<not> n > 1 \<and> (case hm_get k (states m) of
      Some st \<Rightarrow> \<not> (n = 1 \<and> \<not> (case st of Consumed _ \<Rightarrow> True | _ \<Rightarrow> False)) | None \<Rightarrow> True)"
    if "(k, n) \<in> set (consumption_counts m)" for k n
  proof -
    have "count_of k m = n"
      using hm_in_set_get [OF model_inv_maps(3) [OF assms] that] by (simp add: count_of_def)
    thus ?thesis
      using model_invD(2,3) [OF assms, of k] by (auto simp: model_status_def split: option.splits)
  qed
  thus "verify_global_store_invariants m"
    by (auto simp: verify_global_store_invariants_def list_all_iff)
qed

section \<open>Properties\<close>

text \<open>C8: The sharded store refines the crate's state machine.  From related states, with a clock
  that does not run backwards, a take gives the same answer in both and leads to related
  states, a lookup gives the same answer, pruning leads to related states, and so does every
  insertion that the store accepts, for a token and a TTL that the model admits.\<close>

theorem store_refines_model:
  assumes "store_inv h s" "model_inv m" "state_sim h T s m" "T \<le> t" "t \<le> t'" "t' < 2 ^ 64"
  shows "state_sim h t (fst (take_state_sync h k t s)) (fst (model_take k (word_of_nat t) m))
    \<and> map_option sse_client_id (snd (take_state_sync h k t s))
        = map_option me_client_id (snd (model_take k (word_of_nat t) m))
    \<and> contains_state_sync h k t s = model_contains k (word_of_nat t) m
    \<and> state_sim h t (fst (prune_expired_sync t s)) (fst (model_prune (word_of_nat t) m))
    \<and> (insert_state_sync h k e ttl t t' s = Some (s', Ok ()) \<and> k \<noteq> [] \<and> 0 < ttl \<and> ttl < 2 ^ 64 \<longrightarrow>
         state_sim h t' s'
           (fst (model_insert k (sse_client_id e) (word_of_nat ttl) (word_of_nat t) m)))"
proof -
  have t: "t < 2 ^ 64"
    using assms(5,6) by simp
  note ref = take_refines [OF assms(1-4) t] prune_refines [OF assms(1-4) t]
    insert_refines [OF assms(1,3-6)]
  have "contains_state_sync h k t s = model_contains k (word_of_nat t) m"
    using ref(2) [of k] state_store.contains_iff_take [OF assms(1), of k t]
      state_model.contains_iff_take [OF assms(2), of k "word_of_nat t"]
    by (auto simp: model_take_op_def split: prod.splits)
  thus ?thesis
    using ref by blast
qed

theorem store_refines_model_witness:
  "contains_state_sync (\<lambda>_. 5) ''s1'' 0 (OAuthStateStore_new 300)
     = model_contains ''s1'' 0 OAuthStateTransitionModel_new"
proof -
  have "state_sim (\<lambda>_. 5) 0 (OAuthStateStore_new 300) OAuthStateTransitionModel_new"
    by (simp add: state_sim_def sim_at_def)
  from store_refines_model [OF store_inv_new model_inv_new this, of 0 0 "''s1''"] show ?thesis
    by simp
qed

text \<open>In the crate's state machine, every sequence of insertions, takes and prunings keeps the
  two audit predicates true that the crate checks at run time, and a token is handed out at most
  as often as it was inserted.\<close>

theorem model_invariants_hold:
  "verify_global_store_invariants (fst (run_ops model_insert_op model_take_op model_prune ops
       OAuthStateTransitionModel_new))
   \<and> verify_single_use_invariant k (fst (run_ops model_insert_op model_take_op model_prune ops
       OAuthStateTransitionModel_new))
   \<and> length (takes_of k (snd (run_ops model_insert_op model_take_op model_prune ops
       OAuthStateTransitionModel_new))) \<le> length (inserted k ops)"
proof -
  obtain m out where r: "run_ops model_insert_op model_take_op model_prune ops
      OAuthStateTransitionModel_new = (m, out)"
    by fastforce
  show ?thesis
    using model_inv_global [OF state_model.run_inv [OF model_inv_new r]]
      state_model.single_use [OF model_inv_new r, of k]
    by (simp add: r)
qed

text \<open>Of any number of racing takes of a live token exactly one succeeds, and of a token that
  is absent or expired none does.\<close>

theorem race_has_one_winner:
  assumes "model_inv m" "n < 2 ^ 64 - 1"
  shows "snd (simulate_concurrent_consumption_race k (Suc n) now m) =
    (if model_contains k now m then (1, n) else (0, Suc n))"
proof (cases "model_contains k now m")
  case True
  then obtain e where "model_view m k = Some e" "model_live now e"
    by (auto simp: model_contains_def split: option.splits)
  from race_loop_live [OF assms(1) this] assms(2) True show ?thesis
    by (simp add: simulate_concurrent_consumption_race_def)
next
  case False
  thus ?thesis
    using race_loop_absent [OF assms(1), where k = k and now = now and fail = 0
        and n = "Suc n" and ok = 0] assms(2)
    by (simp add: simulate_concurrent_consumption_race_def model_contains_def split: option.splits)
qed

theorem race_has_one_winner_witness:
  "snd (simulate_concurrent_consumption_race ''s1'' 3 7
     (fst (model_insert ''s1'' ''c'' 300 5 OAuthStateTransitionModel_new))) = (1, 2)"
proof -
  obtain m where m: "model_insert ''s1'' ''c'' 300 5 OAuthStateTransitionModel_new = (m, True)"
    by (simp add: model_insert_def)
  have "model_contains ''s1'' 7 m"
    by (simp add: model_contains_def model_view_insert [OF m] model_live_def) code_simp
  moreover have "model_inv m"
    by (rule model_inv_insert [OF model_inv_new m])
  ultimately show ?thesis
    using race_has_one_winner [of m 2 "''s1''" 7] by (simp add: m)
qed

end
