(* ===== verification/Json.thy ===== *)
theory Json
  imports Errors Clock
begin

text \<open>
  JSON values as \<open>serde_json::Value\<close> has them, and Unicode case mapping.  An object is a map from
  member names to values.  Parsing and printing JSON text, and the \<open>Deserialize\<close> code that
  \<open>serde\<close> derives for a struct, are third-party or generated code: the components take them as
  parameters.
\<close>

section \<open>Values\<close>

datatype json_number = PosInt u64 | NegInt int | JFloat u64

datatype json =
    JNull
  | JBool bool
  | JNumber json_number
  | JString string
  | JArray "json list"
  | JObject "string \<Rightarrow> json option"

fun json_get :: "string \<Rightarrow> json \<Rightarrow> json option" where
  "json_get k (JObject m) = m k"
| "json_get k _ = None"

fun json_as_str :: "json \<Rightarrow> string option" where
  "json_as_str (JString s) = Some s"
| "json_as_str _ = None"

fun json_as_u64 :: "json \<Rightarrow> u64 option" where
  "json_as_u64 (JNumber (PosInt n)) = Some n"
| "json_as_u64 _ = None"

fun json_as_array :: "json \<Rightarrow> json list option" where
  "json_as_array (JArray xs) = Some xs"
| "json_as_array _ = None"

text \<open>\<open>get(k).and_then(as_str)\<close>.\<close>

definition json_get_str :: "string \<Rightarrow> json \<Rightarrow> string option" where
  "json_get_str k v = Option.bind (json_get k v) json_as_str"

section \<open>Text\<close>

definition is_ascii :: "char \<Rightarrow> bool" where
  "is_ascii c = (code c < 128)"

text \<open>\<open>str::to_uppercase\<close> and \<open>str::to_lowercase\<close>.  On ASCII text they are the ASCII mappings; on
  other text the Unicode tables of the standard library decide, which are the parameter.\<close>

definition to_uppercase :: "(string \<Rightarrow> string) \<Rightarrow> string \<Rightarrow> string" where
  "to_uppercase up s = (if list_all is_ascii s then to_ascii_uppercase s else up s)"

definition to_lowercase :: "(string \<Rightarrow> string) \<Rightarrow> string \<Rightarrow> string" where
  "to_lowercase low s = (if list_all is_ascii s then to_ascii_lowercase s else low s)"

text \<open>Text between single quotes, as the messages of the crate have it.\<close>

definition sq :: "string \<Rightarrow> string" where
  "sq s = [CHR 0x27] @ s @ [CHR 0x27]"

end
