(* ===== verification/Htu.thy ===== *)
theory Htu
  imports Errors
begin

text \<open>
  Normalisation of the DPoP target URI: the component kernel \<open>kernels/htu_components.rs\<close>,
  the function \<open>normalize_htu\<close> of \<open>dpop.rs\<close> and the predicates \<open>DPoPHtuFormalSpec\<close>.  The
  parser of the \<open>url\<close> crate is a parameter; the record \<open>url\<close> holds what its accessors
  return, and \<open>url_documented\<close> states what the crate documents about parsed HTTP(S) URLs.
\<close>

section \<open>Parsed URLs\<close>

record url =
  url_scheme :: string
  url_username :: string
  url_password :: "string option"
  url_host_str :: "string option"
  url_port :: "u16 option"
  url_path :: string
  url_query :: "string option"
  url_fragment :: "string option"
  url_as_str :: string

type_synonym url_parser = "string \<Rightarrow> (url, string) result"

section \<open>The component kernel\<close>

datatype HtuScheme = Http | Https

fun HtuScheme_as_str :: "HtuScheme \<Rightarrow> string" where
  "HtuScheme_as_str Http = ''http''"
| "HtuScheme_as_str Https = ''https''"

fun default_port :: "HtuScheme \<Rightarrow> u16" where
  "default_port Http = 80"
| "default_port Https = 443"

definition HtuScheme_parse :: "string \<Rightarrow> HtuScheme option" where
  "HtuScheme_parse scheme =
     (if to_ascii_lowercase scheme = ''http'' then Some Http
      else if to_ascii_lowercase scheme = ''https'' then Some Https
      else None)"

text \<open>The digit loop writes into a buffer of six bytes; \<open>None\<close> is an index out of bounds.\<close>

function port_digits :: "nat \<Rightarrow> string \<Rightarrow> nat \<Rightarrow> (string \<times> nat) option" where
  "port_digits n buf len =
     (if n > 0 then
        (if len < length buf
         then port_digits (n div 10) (buf[len := char_of (48 + n mod 10)]) (len + 1)
         else None)
      else Some (buf, len))"
  by pat_completeness auto
termination
  by (relation "measure (\<lambda>(n, _, _). n)") auto

declare port_digits.simps [simp del]

definition decimal_port_str :: "u16 \<Rightarrow> string option" where
  "decimal_port_str port =
     (let buf = replicate 6 (CHR ''0''); n = unat port;
          (buf, len) = (if n = 0 then (buf[0 := CHR ''0''], 1) else (buf, 0)) in
      case port_digits n buf len of
        None \<Rightarrow> None
      | Some (buf, len) \<Rightarrow> Some (CHR '':'' # rev (take len buf)))"

text \<open>The rendering never fails (lemma \<open>decimal_port_str_eq\<close>), so the second case of
  \<open>port_str\<close> is never used.\<close>

definition port_str :: "u16 \<Rightarrow> string" where
  "port_str p = (case decimal_port_str p of Some s \<Rightarrow> s | None \<Rightarrow> [])"

definition build_normalized_htu :: "HtuScheme \<Rightarrow> string \<Rightarrow> u16 option \<Rightarrow> string \<Rightarrow> string" where
  "build_normalized_htu scheme host port path =
     (let ps = (case port of
                  Some p \<Rightarrow> if p = default_port scheme then [] else port_str p
                | None \<Rightarrow> []);
          normalized_path = (if path = [] then ''/'' else path)
      in HtuScheme_as_str scheme @ ''://'' @ host @ ps @ normalized_path)"

definition starts_with_explicit_port :: "string \<Rightarrow> bool" where
  "starts_with_explicit_port s =
     (case s of
        [] \<Rightarrow> False
      | c # r \<Rightarrow> if c \<noteq> CHR '':'' then False
                 else (case r of [] \<Rightarrow> False | d # _ \<Rightarrow> is_ascii_digit d))"

definition has_query_or_fragment_byte :: "string \<Rightarrow> bool" where
  "has_query_or_fragment_byte s = list_ex (\<lambda>b. b = CHR ''?'' \<or> b = CHR ''#'') s"

definition invariants_hold ::
  "HtuScheme \<Rightarrow> string \<Rightarrow> u16 option \<Rightarrow> string \<Rightarrow> string \<Rightarrow> bool" where
  "invariants_hold scheme host port path out =
     (let expected = build_normalized_htu scheme host port path in
      if out \<noteq> expected then False
      else if has_query_or_fragment_byte host \<or> has_query_or_fragment_byte path then False
      else
        (let prefix = HtuScheme_as_str scheme @ ''://''; lower_host = to_ascii_lowercase host in
         if \<not> starts_with out prefix \<or> \<not> starts_with (drop (length prefix) out) lower_host then False
         else
           (let after_host = drop (length prefix + length lower_host) out in
            case port of
              None \<Rightarrow> \<not> starts_with_explicit_port after_host
            | Some p \<Rightarrow>
                if p = default_port scheme then \<not> starts_with_explicit_port after_host
                else starts_with after_host (port_str p))))"

section \<open>normalize_htu\<close>

definition normalize_htu :: "url_parser \<Rightarrow> string \<Rightarrow> (string, DPoPError) result" where
  "normalize_htu parse uri_str =
     (let trimmed = trim uri_str in
      if trimmed = [] then Err (DPoPError.InvalidUri ''URI string cannot be empty'')
      else
        try_bind (map_err (\<lambda>e. DPoPError.InvalidUri (''Malformed URI '' @ [CHR 0x27] @ trimmed
                     @ [CHR 0x27] @ '': '' @ e)) (parse trimmed)) (\<lambda>parsed.
        try_bind (ok_or (DPoPError.InvalidUri (''URI scheme must be '' @ [CHR 0x27] @ ''http''
                     @ [CHR 0x27] @ '' or '' @ [CHR 0x27] @ ''https'' @ [CHR 0x27] @ '', got ''
                     @ [CHR 0x27] @ url_scheme parsed @ [CHR 0x27]))
                   (HtuScheme_parse (url_scheme parsed))) (\<lambda>scheme.
        try_bind (ok_or (DPoPError.InvalidUri ''URI is missing host'') (url_host_str parsed)) (\<lambda>h.
        let host = to_ascii_lowercase h; path = url_path parsed;
            normalized_path = (if path = [] then ''/'' else path)
        in Ok (build_normalized_htu scheme host (url_port parsed) normalized_path)))))"

section \<open>DPoPHtuFormalSpec\<close>

definition spec_has_no_query :: "string \<Rightarrow> bool" where
  "spec_has_no_query uri = (\<not> contains_char uri (CHR ''?''))"

definition spec_has_no_fragment :: "string \<Rightarrow> bool" where
  "spec_has_no_fragment uri = (\<not> contains_char uri (CHR ''#''))"

definition spec_valid_scheme :: "string \<Rightarrow> bool" where
  "spec_valid_scheme uri = (starts_with uri ''https://'' \<or> starts_with uri ''http://'')"

definition spec_no_default_ports :: "string \<Rightarrow> bool" where
  "spec_no_default_ports uri =
     (let is_https = starts_with uri ''https://''; is_http = starts_with uri ''http://'' in
      if is_https then \<not> contains_str uri '':443/'' \<and> \<not> ends_with uri '':443''
      else if is_http then \<not> contains_str uri '':80/'' \<and> \<not> ends_with uri '':80''
      else True)"

section \<open>Documented behaviour of the URL parser\<close>

text \<open>For the special schemes \<open>http\<close> and \<open>https\<close> the parsed path starts with a slash, and
  neither the host nor the path contains a query or fragment delimiter, which are percent-encoded
  or end the component.\<close>

definition url_documented :: "url_parser \<Rightarrow> bool" where
  "url_documented parse =
     (\<forall>s u h. parse s = Ok u \<and> HtuScheme_parse (url_scheme u) \<noteq> None \<and> url_host_str u = Some h \<longrightarrow>
        (\<exists>r. url_path u = CHR ''/'' # r)
        \<and> \<not> has_query_or_fragment_byte h \<and> \<not> has_query_or_fragment_byte (url_path u))"

text \<open>A parsed URL is ASCII without spaces, and the text assembled from the components of a parsed
  URL parses to the same components.\<close>

definition url_canonical :: "url_parser \<Rightarrow> bool" where
  "url_canonical parse =
     (\<forall>s u scheme h. parse s = Ok u \<and> HtuScheme_parse (url_scheme u) = Some scheme
        \<and> url_host_str u = Some h \<longrightarrow>
        list_all is_visible_ascii h \<and> list_all is_visible_ascii (url_path u)
        \<and> (\<exists>u'. parse (build_normalized_htu scheme (to_ascii_lowercase h) (url_port u) (url_path u)) = Ok u'
             \<and> url_scheme u' = HtuScheme_as_str scheme \<and> url_host_str u' = Some (to_ascii_lowercase h)
             \<and> url_port u' = url_port u \<and> url_path u' = url_path u))"

text \<open>The port as it appears in the output.\<close>

definition port_part :: "HtuScheme \<Rightarrow> u16 option \<Rightarrow> string" where
  "port_part scheme port =
     (case port of Some p \<Rightarrow> if p = default_port scheme then [] else port_str p | None \<Rightarrow> [])"

definition sample_parse :: url_parser where
  "sample_parse s = Ok \<lparr> url_scheme = ''https'', url_username = [], url_password = None,
     url_host_str = Some ''as.example'', url_port = Some 81, url_path = ''/token'',
     url_query = Some ''q'', url_fragment = None, url_as_str = s \<rparr>"

section \<open>Lemmas\<close>

text \<open>The loop stores the decimal digits in reverse order.\<close>

lemma port_digits_correct:
  assumes "0 < n" "len + length (show_nat n) \<le> length buf"
  shows "\<exists>buf'. port_digits n buf len = Some (buf', len + length (show_nat n))
    \<and> take (len + length (show_nat n)) buf' = take len buf @ rev (show_nat n)
    \<and> length buf' = length buf"
  using assms
proof (induction n arbitrary: buf len rule: less_induct)
  case (less n)
  let ?c = "char_of (48 + n mod 10)"
  have len: "len < length buf"
    using less.prems show_nat.simps [of n] by (auto split: if_splits)
  have t: "take (Suc len) (buf[len := ?c]) = take len buf @ [?c]"
    using len by (simp add: take_Suc_conv_app_nth)
  have step: "port_digits n buf len = port_digits (n div 10) (buf[len := ?c]) (Suc len)"
    using less.prems(1) len by (subst port_digits.simps) simp
  show ?case
  proof (cases "n < 10")
    case True
    hence s: "show_nat n = [?c]" and z: "n div 10 = 0"
      by (simp_all add: show_nat.simps [of n])
    have "port_digits n buf len = Some (buf[len := ?c], Suc len)"
      by (simp add: step z port_digits.simps [of 0])
    with s t show ?thesis
      by simp
  next
    case False
    hence s: "show_nat n = show_nat (n div 10) @ [?c]"
      by (simp add: show_nat.simps [of n])
    have "\<exists>buf'. port_digits (n div 10) (buf[len := ?c]) (Suc len)
          = Some (buf', Suc len + length (show_nat (n div 10)))
        \<and> take (Suc len + length (show_nat (n div 10))) buf'
          = take (Suc len) (buf[len := ?c]) @ rev (show_nat (n div 10))
        \<and> length buf' = length (buf[len := ?c])"
      by (rule less.IH) (use False less.prems s in auto)
    thus ?thesis
      using t by (auto simp: step s)
  qed
qed

lemma length_show_nat: "n < 10 ^ Suc k \<Longrightarrow> length (show_nat n) \<le> Suc k"
proof (induction k arbitrary: n)
  case 0
  thus ?case
    by (simp add: show_nat.simps [of n])
next
  case (Suc k)
  hence "n div 10 < 10 ^ Suc k"
    by simp
  with Suc.IH [of "n div 10"] show ?case
    by (subst show_nat.simps) simp
qed

lemma decimal_port_str_eq: "decimal_port_str p = Some (CHR '':'' # show_nat (unat p))"
proof (cases "unat p = 0")
  case True
  have "show_nat 0 = ''0''"
    by code_simp
  with True show ?thesis
    by (simp add: decimal_port_str_def port_digits.simps [of 0] numeral_nat)
next
  case False
  have "unat p < 10 ^ Suc 4"
    by (rule order.strict_trans [OF u16_less]) simp
  hence "length (show_nat (unat p)) \<le> 5"
    using length_show_nat [of "unat p" 4] by simp
  with port_digits_correct [of "unat p" 0 "replicate 6 (CHR ''0'')"] False show ?thesis
    by (auto simp: decimal_port_str_def Let_def)
qed

lemma port_str_eq: "port_str p = CHR '':'' # show_nat (unat p)"
  by (simp add: port_str_def decimal_port_str_eq)

lemma lowercase_fixed: "starts_with (h @ r) (to_ascii_lowercase h) \<longleftrightarrow> to_ascii_lowercase h = h"
  by (auto simp: starts_with_def)

lemma build_normalized_htu_eq:
  "build_normalized_htu scheme host port path =
     (HtuScheme_as_str scheme @ ''://'') @ host @ port_part scheme port
       @ (if path = [] then ''/'' else path)"
  by (simp add: build_normalized_htu_def port_part_def Let_def)

lemma invariants_hold_iff:
  "invariants_hold scheme host port path (build_normalized_htu scheme host port path) \<longleftrightarrow>
     to_ascii_lowercase host = host
     \<and> \<not> has_query_or_fragment_byte host \<and> \<not> has_query_or_fragment_byte path
     \<and> (port_part scheme port = [] \<longrightarrow> \<not> starts_with_explicit_port path)"
proof -
  let ?pre = "HtuScheme_as_str scheme @ ''://''"
  let ?out = "build_normalized_htu scheme host port path"
  let ?rest = "port_part scheme port @ (if path = [] then ''/'' else path)"
  have out: "?out = ?pre @ host @ ?rest"
    by (simp only: build_normalized_htu_eq)
  have 1: "starts_with ?out ?pre"
    by (simp only: out starts_with_append)
  have 2: "starts_with (drop (length ?pre) ?out) (to_ascii_lowercase host)
      \<longleftrightarrow> to_ascii_lowercase host = host"
    by (simp only: out append_eq_conv_conj drop_append lowercase_fixed) (simp add: lowercase_fixed)
  have "drop (length p + length h') (p @ h @ r) = r" if "length h' = length h" for p h h' r :: string
    using that by simp
  hence 3: "drop (length ?pre + length (to_ascii_lowercase host)) ?out = ?rest"
    by (simp only: out length_to_ascii_lowercase)
  have "\<not> starts_with_explicit_port ''/''"
    by (simp add: starts_with_explicit_port_def)
  hence 4: "starts_with_explicit_port (if path = [] then ''/'' else path)
      \<longleftrightarrow> starts_with_explicit_port path"
    by (simp add: starts_with_explicit_port_def)
  have "invariants_hold scheme host port path ?out \<longleftrightarrow>
      to_ascii_lowercase host = host
      \<and> \<not> has_query_or_fragment_byte host \<and> \<not> has_query_or_fragment_byte path
      \<and> (case port of
           None \<Rightarrow> \<not> starts_with_explicit_port ?rest
         | Some p \<Rightarrow>
             if p = default_port scheme then \<not> starts_with_explicit_port ?rest
             else starts_with ?rest (port_str p))"
    unfolding invariants_hold_def Let_def 3 using 1 2 by auto
  also have "(case port of
           None \<Rightarrow> \<not> starts_with_explicit_port ?rest
         | Some p \<Rightarrow>
             if p = default_port scheme then \<not> starts_with_explicit_port ?rest
             else starts_with ?rest (port_str p))
      \<longleftrightarrow> (port_part scheme port = [] \<longrightarrow> \<not> starts_with_explicit_port path)"
  proof (cases "port_part scheme port = []")
    case True
    thus ?thesis
      using 4 by (cases port) (simp_all add: port_part_def port_str_eq split: if_splits)
  next
    case False
    then obtain p where "port = Some p" "p \<noteq> default_port scheme" "port_part scheme port = port_str p"
      by (auto simp: port_part_def split: option.splits if_splits)
    thus ?thesis
      using False by (simp only: option.case if_False starts_with_append simp_thms)
  qed
  finally show ?thesis .
qed

lemma has_query_or_fragment_byte_append [simp]:
  "has_query_or_fragment_byte (a @ b) \<longleftrightarrow> has_query_or_fragment_byte a \<or> has_query_or_fragment_byte b"
  by (simp add: has_query_or_fragment_byte_def)

lemma port_part_clean: "\<not> has_query_or_fragment_byte (port_part scheme port)"
proof -
  have "\<not> is_ascii_digit (CHR ''?'')" "\<not> is_ascii_digit (CHR ''#'')"
    by code_simp+
  hence "\<not> has_query_or_fragment_byte (show_nat n)" for n
    by (auto simp: has_query_or_fragment_byte_def list_ex_iff dest: show_nat_digits)
  thus ?thesis
    by (auto simp: port_part_def port_str_eq has_query_or_fragment_byte_def split: option.split)
qed

lemma build_has_no_query_or_fragment:
  assumes "\<not> has_query_or_fragment_byte host" "\<not> has_query_or_fragment_byte path"
  shows "\<not> has_query_or_fragment_byte (build_normalized_htu scheme host port path)"
proof -
  have "\<not> has_query_or_fragment_byte (HtuScheme_as_str scheme @ ''://'')"
    "\<not> has_query_or_fragment_byte ''/''"
    by (cases scheme; simp add: has_query_or_fragment_byte_def)+
  with assms show ?thesis
    unfolding build_normalized_htu_eq has_query_or_fragment_byte_append
    by (simp add: port_part_clean)
qed

lemma no_query_or_fragment_byte:
  "\<not> has_query_or_fragment_byte s \<longleftrightarrow> spec_has_no_query s \<and> spec_has_no_fragment s"
  by (auto simp: has_query_or_fragment_byte_def spec_has_no_query_def spec_has_no_fragment_def
      contains_char_def list_ex_iff)

lemma build_valid_scheme: "spec_valid_scheme (build_normalized_htu scheme host port path)"
  by (cases scheme) (simp_all add: spec_valid_scheme_def build_normalized_htu_eq starts_with_def)

lemma normalize_htu_Ok:
  assumes "normalize_htu parse s = Ok out"
  obtains u scheme h where "parse (trim s) = Ok u" "HtuScheme_parse (url_scheme u) = Some scheme"
    "url_host_str u = Some h"
    "out = build_normalized_htu scheme (to_ascii_lowercase h) (url_port u)
       (if url_path u = [] then ''/'' else url_path u)"
  using assms by (auto simp: normalize_htu_def Let_def split: if_splits)

lemma has_query_or_fragment_byte_lower [simp]:
  "has_query_or_fragment_byte (to_ascii_lowercase h) = has_query_or_fragment_byte h"
proof -
  have "ascii_lower_char c = CHR ''?'' \<longleftrightarrow> c = CHR ''?''" "ascii_lower_char c = CHR ''#'' \<longleftrightarrow> c = CHR ''#''"
    for c
  proof -
    have "code (ascii_lower_char c) = (if 65 \<le> code c \<and> code c \<le> 90 then code c + 32 else code c)"
      by (simp add: ascii_lower_char_def is_ascii_uppercase_def)
    moreover have "code (CHR ''?'') = 63" "code (CHR ''#'') = 35"
      by code_simp+
    ultimately show "ascii_lower_char c = CHR ''?'' \<longleftrightarrow> c = CHR ''?''"
      "ascii_lower_char c = CHR ''#'' \<longleftrightarrow> c = CHR ''#''"
      by (simp_all only: code_inj [symmetric]) (simp_all split: if_split)
  qed
  thus ?thesis
    by (auto simp: has_query_or_fragment_byte_def to_ascii_lowercase_def list_ex_iff)
qed

lemma HtuScheme_parse_as_str [simp]: "HtuScheme_parse (HtuScheme_as_str scheme) = Some scheme"
proof -
  have "to_ascii_lowercase ''http'' = ''http''" "to_ascii_lowercase ''https'' = ''https''"
    by code_simp+
  thus ?thesis
    by (cases scheme) (simp_all add: HtuScheme_parse_def)
qed

lemma visible_lower: "list_all is_visible_ascii h \<Longrightarrow> list_all is_visible_ascii (to_ascii_lowercase h)"
  by (auto simp: list_all_iff to_ascii_lowercase_def ascii_lower_char_def is_visible_ascii_def ascii_simps)

lemma visible_digits: "list_all is_visible_ascii (show_nat n)"
  using show_nat_digits [of _ n] by (fastforce simp: list_all_iff is_visible_ascii_def ascii_simps)

lemma build_visible:
  assumes "list_all is_visible_ascii host" "list_all is_visible_ascii path"
  shows "list_all is_visible_ascii (build_normalized_htu scheme host port path)"
proof -
  have "list_all is_visible_ascii (HtuScheme_as_str scheme @ ''://'')"
    by (cases scheme) (simp_all add: is_visible_ascii_def code_def)
  moreover have "list_all is_visible_ascii (port_part scheme port)"
    using visible_digits
    by (simp add: port_part_def port_str_eq is_visible_ascii_def code_def split: option.split)
  moreover have "is_visible_ascii (CHR ''/'')"
    by (simp add: is_visible_ascii_def code_def)
  ultimately show ?thesis
    using assms unfolding build_normalized_htu_eq by simp
qed

lemma normalize_htu_idem:
  assumes "url_documented parse" "url_canonical parse" "normalize_htu parse s = Ok out"
  shows "normalize_htu parse out = Ok out" "list_all is_visible_ascii out"
proof -
  obtain u scheme h where u: "parse (trim s) = Ok u" "HtuScheme_parse (url_scheme u) = Some scheme"
    "url_host_str u = Some h"
    "out = build_normalized_htu scheme (to_ascii_lowercase h) (url_port u)
       (if url_path u = [] then ''/'' else url_path u)"
    by (rule normalize_htu_Ok [OF assms(3)])
  obtain r where p: "url_path u = CHR ''/'' # r"
    using assms(1) u(1-3) unfolding url_documented_def by (metis option.distinct(1))
  have out: "out = build_normalized_htu scheme (to_ascii_lowercase h) (url_port u) (url_path u)"
    using u(4) p by simp
  obtain u' where u': "parse out = Ok u'" "url_scheme u' = HtuScheme_as_str scheme"
    "url_host_str u' = Some (to_ascii_lowercase h)" "url_port u' = url_port u" "url_path u' = url_path u"
    and vis: "list_all is_visible_ascii h" "list_all is_visible_ascii (url_path u)"
    using assms(2) u(1-3) unfolding url_canonical_def out by blast
  show visible: "list_all is_visible_ascii out"
    unfolding out by (intro build_visible visible_lower vis)
  have "out \<noteq> []"
    unfolding out by (cases scheme) (simp_all add: build_normalized_htu_eq)
  thus "normalize_htu parse out = Ok out"
    using u' p out [unfolded p, symmetric]
    by (simp add: normalize_htu_def trim_visible [OF visible] Let_def)
qed

lemma sample_parse_documented: "url_documented sample_parse" "url_canonical sample_parse"
proof -
  show "url_documented sample_parse"
    by (auto simp: url_documented_def sample_parse_def has_query_or_fragment_byte_def)
  have "list_all is_visible_ascii ''as.example''" "list_all is_visible_ascii ''/token''"
    "to_ascii_lowercase ''as.example'' = ''as.example''" "to_ascii_lowercase ''https'' = ''https''"
    by code_simp+
  thus "url_canonical sample_parse"
    by (auto simp: url_canonical_def sample_parse_def HtuScheme_parse_def)
qed

section \<open>Properties\<close>

text \<open>The port renderer writes its digits inside the six-byte buffer for every 16-bit port and
  returns a colon followed by the decimal representation.\<close>

theorem decimal_port_str_correct: "decimal_port_str p = Some (CHR '':'' # show_nat (unat p))"
  by (rule decimal_port_str_eq)

text \<open>The assembled URI satisfies the kernel's own invariants exactly when the host is in lower
  case, neither host nor path contains a query or fragment delimiter and, if no port is
  printed, the path does not look like a port.\<close>

theorem build_invariants_hold_iff:
  "invariants_hold scheme host port path (build_normalized_htu scheme host port path) \<longleftrightarrow>
     to_ascii_lowercase host = host
     \<and> \<not> has_query_or_fragment_byte host \<and> \<not> has_query_or_fragment_byte path
     \<and> \<not> (port_part scheme port = [] \<and> starts_with_explicit_port path)"
  using invariants_hold_iff [of scheme host port path] by blast

text \<open>Whatever \<open>normalize_htu\<close> returns has an HTTP or HTTPS scheme in lower case and no query or
  fragment, and the debug assertion in the function holds, for a URL parser that behaves as
  documented.\<close>

theorem normalize_htu_meets_spec:
  assumes "url_documented parse" "normalize_htu parse s = Ok out"
  shows "spec_has_no_query out \<and> spec_has_no_fragment out \<and> spec_valid_scheme out
    \<and> (\<exists>scheme host port path. out = build_normalized_htu scheme host port path
         \<and> invariants_hold scheme host port path out)"
proof -
  obtain u scheme h where u: "parse (trim s) = Ok u" "HtuScheme_parse (url_scheme u) = Some scheme"
    "url_host_str u = Some h"
    "out = build_normalized_htu scheme (to_ascii_lowercase h) (url_port u)
       (if url_path u = [] then ''/'' else url_path u)"
    by (rule normalize_htu_Ok [OF assms(2)])
  obtain r where p: "url_path u = CHR ''/'' # r"
    and q: "\<not> has_query_or_fragment_byte h" "\<not> has_query_or_fragment_byte (url_path u)"
    using assms(1) u(1-3) unfolding url_documented_def by (metis option.distinct(1))
  have out: "out = build_normalized_htu scheme (to_ascii_lowercase h) (url_port u) (url_path u)"
    using u(4) p by simp
  have "invariants_hold scheme (to_ascii_lowercase h) (url_port u) (url_path u) out"
    unfolding out invariants_hold_iff using q p by (simp add: starts_with_explicit_port_def)
  moreover have "\<not> has_query_or_fragment_byte out"
    unfolding out by (rule build_has_no_query_or_fragment) (simp_all add: q)
  ultimately show ?thesis
    using build_valid_scheme out by (auto simp: no_query_or_fragment_byte)
qed

theorem normalize_htu_meets_spec_witness:
  "normalize_htu sample_parse ''https://AS.example:81/token?q''
     = Ok ''https://as.example:81/token''
   \<and> spec_has_no_query ''https://as.example:81/token''"
proof -
  have out: "normalize_htu sample_parse ''https://AS.example:81/token?q''
      = Ok ''https://as.example:81/token''"
    by code_simp
  show ?thesis
    using normalize_htu_meets_spec [OF sample_parse_documented(1) out] out by blast
qed

text \<open>Normalisation is idempotent, so a proof made for a normalised URI matches the request it was
  made for, for a URL parser that behaves as documented.\<close>

theorem normalize_htu_idempotent:
  assumes "url_documented parse" "url_canonical parse" "normalize_htu parse s = Ok out"
  shows "normalize_htu parse out = Ok out"
  using assms by (rule normalize_htu_idem)

theorem normalize_htu_idempotent_witness:
  "normalize_htu sample_parse ''https://as.example:81/token'' = Ok ''https://as.example:81/token''"
proof -
  have "normalize_htu sample_parse ''https://AS.example:81/token?q'' = Ok ''https://as.example:81/token''"
    by code_simp
  from normalize_htu_idempotent [OF sample_parse_documented this] show ?thesis .
qed

end
