(* ===== verification/Replay_Interface.thy ===== *)
theory Replay_Interface
  imports Errors
begin

text \<open>
  What the proof verifier relies on from the replay cache, as a locale: a cache is viewed
  as a finite map from composite keys to the second at which the record expires, and
  an admission succeeds only when the key has no record that is live at the given second.
  The client lemmas are about arbitrary sequences of operations by any number of callers,
  whose clock readings need not be ordered.
\<close>

section \<open>Sequences of operations\<close>

datatype replay_op =
    Admit (op_jkt: string) (op_jti: string) (op_exp: u64) (op_now: u64)
  | PruneAt (op_now: u64)

text \<open>Running a sequence yields the final cache and the answer to each operation; pruning
  has none.\<close>

fun run_replay ::
  "(string \<Rightarrow> string \<Rightarrow> u64 \<Rightarrow> u64 \<Rightarrow> 's \<Rightarrow> 's \<times> (unit, DPoPError) result)
   \<Rightarrow> (u64 \<Rightarrow> 's \<Rightarrow> 's) \<Rightarrow> replay_op list \<Rightarrow> 's
   \<Rightarrow> 's \<times> (unit, DPoPError) result option list" where
  "run_replay adm pr [] s = (s, [])"
| "run_replay adm pr (Admit jkt jti expires now # ops) s =
     (let (s', r) = adm jkt jti expires now s; (s'', out) = run_replay adm pr ops s'
      in (s'', Some r # out))"
| "run_replay adm pr (PruneAt now # ops) s =
     (let (s', out) = run_replay adm pr ops (pr now s) in (s', None # out))"

text \<open>The operation at position \<open>i\<close> of a run is an admission of the pair that succeeded.\<close>

definition admitted_at ::
  "replay_op list \<Rightarrow> (unit, DPoPError) result option list \<Rightarrow> string \<Rightarrow> string \<Rightarrow> nat \<Rightarrow> bool" where
  "admitted_at ops out jkt jti i =
     (i < length ops \<and> i < length out \<and> out ! i = Some (Ok ())
      \<and> (\<exists>expires now. ops ! i = Admit jkt jti expires now))"

lemma run_replay_snoc:
  "run_replay adm pr (ops @ [Admit jkt jti e now]) s =
     (case run_replay adm pr ops s of (s1, out) \<Rightarrow>
      case adm jkt jti e now s1 of (s2, r) \<Rightarrow> (s2, out @ [Some r]))"
proof (induction ops arbitrary: s)
  case (Cons x ops)
  thus ?case
    by (cases x) (simp_all add: split_beta)
qed (simp add: split_beta)

section \<open>The interface\<close>

locale replay_guard =
  fixes admit :: "string \<Rightarrow> string \<Rightarrow> u64 \<Rightarrow> u64 \<Rightarrow> 's \<Rightarrow> 's \<times> (unit, DPoPError) result"
    and prune :: "u64 \<Rightarrow> 's \<Rightarrow> 's"
    and key :: "string \<Rightarrow> string \<Rightarrow> string"
    and inv :: "'s \<Rightarrow> bool"
    and expiry :: "'s \<Rightarrow> string \<Rightarrow> u64 option"
  assumes admit_inv: "inv s \<Longrightarrow> admit jkt jti e now s = (s', r) \<Longrightarrow> inv s'"
    and admit_fresh: "inv s \<Longrightarrow> admit jkt jti e now s = (s', Ok u) \<Longrightarrow>
      expiry s (key jkt jti) = Some e0 \<Longrightarrow> e0 \<le> now"
    and admit_records: "inv s \<Longrightarrow> admit jkt jti e now s = (s', Ok u) \<Longrightarrow>
      expiry s' (key jkt jti) = Some e"
    and admit_keeps_live: "inv s \<Longrightarrow> admit jkt jti e now s = (s', r) \<Longrightarrow>
      expiry s k = Some e0 \<Longrightarrow> now < e0 \<Longrightarrow> expiry s' k = Some e0"
    and prune_inv: "inv s \<Longrightarrow> inv (prune now s)"
    and prune_keeps_live: "inv s \<Longrightarrow> expiry s k = Some e0 \<Longrightarrow> now < e0 \<Longrightarrow>
      expiry (prune now s) k = Some e0"
begin

abbreviation run :: "replay_op list \<Rightarrow> 's \<Rightarrow> 's \<times> (unit, DPoPError) result option list" where
  "run \<equiv> run_replay admit prune"

lemma run_inv: "inv s \<Longrightarrow> inv (fst (run ops s))"
proof (induction ops arbitrary: s)
  case (Cons x ops)
  show ?case
  proof (cases x)
    case (Admit jkt jti e now)
    obtain s1 r where a: "admit jkt jti e now s = (s1, r)"
      by fastforce
    show ?thesis
      using Cons.IH [OF admit_inv [OF Cons.prems a]] by (simp add: Admit a split_beta)
  next
    case (PruneAt now)
    show ?thesis
      using Cons.IH [OF prune_inv [OF Cons.prems]] by (simp add: PruneAt split_beta)
  qed
qed simp

lemma length_run: "length (snd (run ops s)) = length ops"
proof (induction ops arbitrary: s)
  case (Cons x ops)
  thus ?case
    by (cases x) (simp_all add: split_beta)
qed simp

text \<open>While a key has a live record, no admission of it succeeds.\<close>

lemma blocked_while_live:
  assumes "inv s" "expiry s (key jkt jti) = Some e0"
    and "admitted_at ops (snd (run ops s)) jkt jti j"
  shows "\<exists>m \<le> j. e0 \<le> op_now (ops ! m)"
  using assms
proof (induction ops arbitrary: s j)
  case Nil
  thus ?case
    by (simp add: admitted_at_def)
next
  case (Cons x ops)
  show ?case
  proof (cases "e0 \<le> op_now x")
    case True
    thus ?thesis
      by (intro exI [of _ 0]) simp
  next
    case False
    obtain s1 out where 1: "inv s1" "expiry s1 (key jkt jti) = Some e0"
      "snd (run (x # ops) s) = out # snd (run ops s1)"
      "out = Some (Ok ()) \<Longrightarrow> \<forall>e now. x \<noteq> Admit jkt jti e now"
    proof (cases x)
      case (Admit jkt' jti' e now)
      obtain s1 r where a: "admit jkt' jti' e now s = (s1, r)"
        by fastforce
      have "expiry s1 (key jkt jti) = Some e0"
        using admit_keeps_live [OF Cons.prems(1) a Cons.prems(2)] False by (simp add: Admit)
      moreover have "jkt' \<noteq> jkt \<or> jti' \<noteq> jti" if "r = Ok ()"
        using admit_fresh [OF Cons.prems(1) a [unfolded that]] Cons.prems(2) False
        by (auto simp: Admit)
      ultimately show ?thesis
        using that [of s1 "Some r"] admit_inv [OF Cons.prems(1) a] by (auto simp: Admit a split_beta)
    next
      case (PruneAt now)
      show ?thesis
        using that [of "prune now s" None] prune_inv [OF Cons.prems(1)]
          prune_keeps_live [OF Cons.prems(1,2)] False
        by (simp add: PruneAt split_beta)
    qed
    have "j \<noteq> 0"
      using Cons.prems(3) 1(4) by (cases j) (auto simp: admitted_at_def 1(3))
    then obtain i where j: "j = Suc i"
      by (cases j) auto
    have "admitted_at ops (snd (run ops s1)) jkt jti i"
      using Cons.prems(3) 1(3) by (auto simp: admitted_at_def j)
    from Cons.IH [OF 1(1,2) this] obtain m where "m \<le> i" "e0 \<le> op_now (ops ! m)"
      by blast
    thus ?thesis
      by (intro exI [of _ "Suc m"]) (simp add: j)
  qed
qed

text \<open>A pair is admitted a second time only after the clock of some caller has reached the expiry
  of the first record.\<close>

lemma no_second_admission:
  assumes "inv s" "i < j"
    and "admitted_at ops (snd (run ops s)) jkt jti i" "admitted_at ops (snd (run ops s)) jkt jti j"
  shows "\<exists>m. i < m \<and> m \<le> j \<and> op_exp (ops ! i) \<le> op_now (ops ! m)"
  using assms
proof (induction ops arbitrary: s i j)
  case Nil
  thus ?case
    by (simp add: admitted_at_def)
next
  case (Cons x ops)
  obtain s1 out where run: "snd (run (x # ops) s) = out # snd (run ops s1)" and inv: "inv s1"
    and step: "\<And>e now. x = Admit jkt jti e now \<Longrightarrow> out = Some (Ok ()) \<Longrightarrow>
      expiry s1 (key jkt jti) = Some e"
  proof (cases x)
    case (Admit jkt' jti' e now)
    obtain s1 r where a: "admit jkt' jti' e now s = (s1, r)"
      by fastforce
    show ?thesis
      using that [of "Some r" s1] admit_inv [OF Cons.prems(1) a] admit_records [OF Cons.prems(1), of jkt' jti' e now s1]
        a
      by (auto simp: Admit split_beta)
  next
    case (PruneAt now)
    show ?thesis
      using that [of None "prune now s"] prune_inv [OF Cons.prems(1)]
      by (simp add: PruneAt split_beta)
  qed
  from Cons.prems(2) obtain j' where j: "j = Suc j'"
    by (cases j) auto
  have adm_j: "admitted_at ops (snd (run ops s1)) jkt jti j'"
    using Cons.prems(4) run by (auto simp: admitted_at_def j)
  show ?case
  proof (cases i)
    case 0
    from Cons.prems(3) run obtain e now where x: "x = Admit jkt jti e now" "out = Some (Ok ())"
      by (auto simp: admitted_at_def 0)
    from blocked_while_live [OF inv step [OF x] adm_j]
    obtain m where "m \<le> j'" "e \<le> op_now (ops ! m)"
      by blast
    thus ?thesis
      by (intro exI [of _ "Suc m"]) (simp add: 0 j x)
  next
    case (Suc i')
    have "admitted_at ops (snd (run ops s1)) jkt jti i'"
      using Cons.prems(3) run by (auto simp: admitted_at_def Suc)
    from Cons.IH [OF inv _ this adm_j] Cons.prems(2) obtain m
      where "i' < m" "m \<le> j'" "op_exp (ops ! i') \<le> op_now (ops ! m)"
      by (auto simp: Suc j)
    thus ?thesis
      by (intro exI [of _ "Suc m"]) (simp add: Suc j)
  qed
qed

end

end
