(* ===== verification/Replay_Cache.thy ===== *)
theory Replay_Cache
  imports Replay_Interface State_Store
begin

text \<open>
  The replay cache of \<open>dpop.rs\<close>: 64 shards of a hash map from \<open>jkt:jti\<close> to the second at which
  the record expires, and a counter of admissions per shard that decides when expired records
  are swept out.  The hasher is a parameter, and an operation runs under the lock of the
  shard it touches.
\<close>

section \<open>Model\<close>

definition REPLAY_PRUNE_HINT_INTERVAL :: u64 where
  "REPLAY_PRUNE_HINT_INTERVAL = 64"

definition REPLAY_PRUNE_THRESHOLD :: nat where
  "REPLAY_PRUNE_THRESHOLD = 512"

definition REPLAY_SHARD_CAPACITY :: nat where
  "REPLAY_SHARD_CAPACITY = 2048"

type_synonym replay_shard = "(string, u64) hmap"

record DPoPReplayCache =
  rc_shards :: "replay_shard list"
  prune_hints :: "u64 list"

definition DPoPReplayCache_new :: DPoPReplayCache where
  "DPoPReplayCache_new =
     \<lparr> rc_shards = replicate NUM_SHARDS [], prune_hints = replicate NUM_SHARDS 0 \<rparr>"

definition replay_shard_index :: "(string \<Rightarrow> u64) \<Rightarrow> string \<Rightarrow> nat" where
  "replay_shard_index h k = unat (h k) mod NUM_SHARDS"

definition composite_key :: "string \<Rightarrow> string \<Rightarrow> string" where
  "composite_key jkt jti = jkt @ '':'' @ jti"

definition retain_unexpired :: "u64 \<Rightarrow> replay_shard \<Rightarrow> replay_shard" where
  "retain_unexpired now sh = hm_retain (\<lambda>_ e. e > now) sh"

definition set_replay_shard :: "nat \<Rightarrow> replay_shard \<Rightarrow> DPoPReplayCache \<Rightarrow> DPoPReplayCache" where
  "set_replay_shard i sh c = c\<lparr>rc_shards := (rc_shards c)[i := sh]\<rparr>"

definition shard_for :: "(string \<Rightarrow> u64) \<Rightarrow> string \<Rightarrow> DPoPReplayCache \<Rightarrow> replay_shard" where
  "shard_for h k c = rc_shards c ! replay_shard_index h k"

definition check_and_record ::
  "(string \<Rightarrow> u64) \<Rightarrow> string \<Rightarrow> string \<Rightarrow> u64 \<Rightarrow> u64 \<Rightarrow> DPoPReplayCache
   \<Rightarrow> DPoPReplayCache \<times> (unit, DPoPError) result" where
  "check_and_record h jkt jti expires_at_secs now_secs c =
     (let k = composite_key jkt jti; i = replay_shard_index h k; guard = rc_shards c ! i in
      if (case hm_get k guard of Some existing_exp \<Rightarrow> existing_exp > now_secs | None \<Rightarrow> False)
      then (c, Err (DPoPError.ReplayDetected jti))
      else
        (let admissions = prune_hints c ! i;
             c = c\<lparr>prune_hints := (prune_hints c)[i := admissions + 1]\<rparr>;
             guard = (if length guard > REPLAY_PRUNE_THRESHOLD
                         \<and> admissions mod REPLAY_PRUNE_HINT_INTERVAL = 0
                      then retain_unexpired now_secs guard else guard)
         in if length guard \<ge> REPLAY_SHARD_CAPACITY then
              (let guard = retain_unexpired now_secs guard in
               if length guard \<ge> REPLAY_SHARD_CAPACITY
               then (set_replay_shard i guard c, Err DPoPError.ReplayCacheSaturated)
               else (set_replay_shard i (hm_insert k expires_at_secs guard) c, Ok ()))
            else (set_replay_shard i (hm_insert k expires_at_secs guard) c, Ok ())))"

definition is_consumed :: "(string \<Rightarrow> u64) \<Rightarrow> string \<Rightarrow> string \<Rightarrow> u64 \<Rightarrow> DPoPReplayCache \<Rightarrow> bool" where
  "is_consumed h jkt jti now_secs c =
     (let k = composite_key jkt jti in
      case hm_get k (shard_for h k c) of Some e \<Rightarrow> e > now_secs | None \<Rightarrow> False)"

definition replay_prune_expired :: "u64 \<Rightarrow> DPoPReplayCache \<Rightarrow> DPoPReplayCache" where
  "replay_prune_expired now_secs c =
     c\<lparr>rc_shards := map (retain_unexpired now_secs) (rc_shards c)\<rparr>"

definition replay_len :: "DPoPReplayCache \<Rightarrow> nat" where
  "replay_len c = sum_list (map length (rc_shards c))"

definition replay_is_empty :: "DPoPReplayCache \<Rightarrow> bool" where
  "replay_is_empty c = (replay_len c = 0)"

definition replay_clear :: "DPoPReplayCache \<Rightarrow> DPoPReplayCache" where
  "replay_clear c = c\<lparr>rc_shards := map (\<lambda>_. []) (rc_shards c)\<rparr>"

section \<open>Invariant and view\<close>

definition replay_inv :: "(string \<Rightarrow> u64) \<Rightarrow> DPoPReplayCache \<Rightarrow> bool" where
  "replay_inv h c =
     (length (rc_shards c) = NUM_SHARDS \<and> length (prune_hints c) = NUM_SHARDS
      \<and> (\<forall>i < NUM_SHARDS. hm_ok (rc_shards c ! i)
           \<and> length (rc_shards c ! i) \<le> REPLAY_SHARD_CAPACITY
           \<and> (\<forall>(k, e) \<in> set (rc_shards c ! i). replay_shard_index h k = i)))"

definition replay_expiry :: "(string \<Rightarrow> u64) \<Rightarrow> DPoPReplayCache \<Rightarrow> string \<Rightarrow> u64 option" where
  "replay_expiry h c k = hm_get k (shard_for h k c)"

text \<open>The records of a shard that are live at a given second.\<close>

definition live_count :: "u64 \<Rightarrow> replay_shard \<Rightarrow> nat" where
  "live_count now sh = length (filter (\<lambda>(k, e). now < e) sh)"

text \<open>The shard an admission works on, after its opportunistic pruning.\<close>

definition swept_shard :: "u64 \<Rightarrow> u64 \<Rightarrow> replay_shard \<Rightarrow> replay_shard" where
  "swept_shard admissions now sh =
     (let sh1 = (if length sh > REPLAY_PRUNE_THRESHOLD \<and> admissions mod REPLAY_PRUNE_HINT_INTERVAL = 0
                 then retain_unexpired now sh else sh)
      in if length sh1 \<ge> REPLAY_SHARD_CAPACITY then retain_unexpired now sh1 else sh1)"

text \<open>A bound on the expiry of all records.\<close>

definition expiries_le :: "u64 \<Rightarrow> DPoPReplayCache \<Rightarrow> bool" where
  "expiries_le b c = (\<forall>sh \<in> set (rc_shards c). \<forall>(k, e) \<in> set sh. e \<le> b)"

fun op_expires_by :: "u64 \<Rightarrow> replay_op \<Rightarrow> bool" where
  "op_expires_by b (Admit jkt jti e now) = (e \<le> b)"
| "op_expires_by b (PruneAt now) = True"

section \<open>Lemmas\<close>

lemma replay_shard_index_less [simp]: "replay_shard_index h k < NUM_SHARDS"
  by (simp add: replay_shard_index_def NUM_SHARDS_def)

lemma retain_unexpired_simps [simp]:
  "length (retain_unexpired now sh) = live_count now sh"
  "hm_ok sh \<Longrightarrow> hm_ok (retain_unexpired now sh)"
  "retain_unexpired now (retain_unexpired now sh) = retain_unexpired now sh"
  by (simp_all add: retain_unexpired_def live_count_def hm_retain_def[of _ sh] hm_ok_retain)
    (simp_all add: hm_retain_def hm_ok_def distinct_map_filter)

lemma live_count_retain [simp]: "live_count now (retain_unexpired now sh) = live_count now sh"
  by (simp add: live_count_def retain_unexpired_def hm_retain_def)

lemma live_count_le: "live_count now sh \<le> length sh"
  by (simp add: live_count_def)

lemma retain_unexpired_subset: "set (retain_unexpired now sh) \<subseteq> set sh"
  by (simp add: retain_unexpired_def hm_retain_subset)

lemma hm_get_retain_unexpired:
  "hm_ok sh \<Longrightarrow> hm_get k (retain_unexpired now sh) =
     (case hm_get k sh of None \<Rightarrow> None | Some e \<Rightarrow> if now < e then Some e else None)"
  by (simp add: retain_unexpired_def hm_get_retain split: option.split)

lemma swept_shard_cases: "swept_shard a now sh = sh \<or> swept_shard a now sh = retain_unexpired now sh"
  by (simp add: swept_shard_def Let_def)

lemma swept_shard_subset: "set (swept_shard a now sh) \<subseteq> set sh"
  using swept_shard_cases [of a now sh] retain_unexpired_subset [of now sh] by auto

lemma hm_ok_swept [simp]: "hm_ok sh \<Longrightarrow> hm_ok (swept_shard a now sh)"
  using swept_shard_cases [of a now sh] by auto

lemma swept_keeps_live:
  "hm_ok sh \<Longrightarrow> hm_get k sh = Some e \<Longrightarrow> now < e \<Longrightarrow> hm_get k (swept_shard a now sh) = Some e"
  using swept_shard_cases [of a now sh] by (auto simp: hm_get_retain_unexpired)

lemma swept_shard_full_iff:
  "length (swept_shard a now sh) \<ge> REPLAY_SHARD_CAPACITY \<longleftrightarrow>
     live_count now sh \<ge> REPLAY_SHARD_CAPACITY"
  using live_count_le [of now sh] by (auto simp: swept_shard_def Let_def)

text \<open>An admission in terms of the swept shard.\<close>

lemma check_and_record_eq:
  "check_and_record h jkt jti e now c =
     (let k = composite_key jkt jti; i = replay_shard_index h k;
          sh = swept_shard (prune_hints c ! i) now (rc_shards c ! i);
          c' = c\<lparr>prune_hints := (prune_hints c)[i := prune_hints c ! i + 1]\<rparr>
      in if (case replay_expiry h c k of Some e0 \<Rightarrow> now < e0 | None \<Rightarrow> False)
         then (c, Err (DPoPError.ReplayDetected jti))
         else if length sh \<ge> REPLAY_SHARD_CAPACITY
         then (set_replay_shard i sh c', Err DPoPError.ReplayCacheSaturated)
         else (set_replay_shard i (hm_insert k e sh) c', Ok ()))"
  unfolding check_and_record_def replay_expiry_def shard_for_def swept_shard_def Let_def
  by (simp split: option.split)

lemma replay_inv_new [simp]: "replay_inv h DPoPReplayCache_new"
  by (simp add: replay_inv_def DPoPReplayCache_new_def)

lemma replay_inv_shard:
  assumes "replay_inv h c" "i < NUM_SHARDS"
  shows "hm_ok (rc_shards c ! i)" "length (rc_shards c ! i) \<le> REPLAY_SHARD_CAPACITY"
    "(k, e) \<in> set (rc_shards c ! i) \<Longrightarrow> replay_shard_index h k = i"
    "length (rc_shards c) = NUM_SHARDS" "length (prune_hints c) = NUM_SHARDS"
  using assms by (fastforce simp: replay_inv_def)+

lemma replay_inv_set_shard:
  assumes "replay_inv h c" "i < NUM_SHARDS" "hm_ok sh" "length sh \<le> REPLAY_SHARD_CAPACITY"
    "\<And>k e. (k, e) \<in> set sh \<Longrightarrow> replay_shard_index h k = i" "length hints = NUM_SHARDS"
  shows "replay_inv h (set_replay_shard i sh (c\<lparr>prune_hints := hints\<rparr>))"
  using assms by (auto simp: replay_inv_def set_replay_shard_def nth_list_update)

lemma replay_expiry_set_shard:
  assumes "replay_inv h c" "i < NUM_SHARDS"
  shows "replay_expiry h (set_replay_shard i sh (c\<lparr>prune_hints := hints\<rparr>)) k =
    (if replay_shard_index h k = i then hm_get k sh else replay_expiry h c k)"
  using assms by (auto simp: replay_inv_def replay_expiry_def shard_for_def set_replay_shard_def)

lemma check_and_record_inv:
  assumes inv: "replay_inv h c" and run: "check_and_record h jkt jti e now c = (c', r)"
  shows "replay_inv h c'"
proof -
  define k i sh where "k = composite_key jkt jti" and "i = replay_shard_index h k"
    and "sh = swept_shard (prune_hints c ! i) now (rc_shards c ! i)"
  note old = replay_inv_shard [OF inv, of i]
  have i: "i < NUM_SHARDS"
    by (simp add: i_def)
  have sh: "hm_ok sh" "length sh \<le> REPLAY_SHARD_CAPACITY"
    using old(1,2) i swept_shard_cases [of "prune_hints c ! i" now "rc_shards c ! i"]
      order_trans [OF live_count_le [of now "rc_shards c ! i"]]
    by (auto simp: sh_def)
  have idx: "replay_shard_index h k' = i" if "(k', e') \<in> set sh" for k' e'
    using that swept_shard_subset [of "prune_hints c ! i" now "rc_shards c ! i"] old(3) [OF i, of k' e']
    by (auto simp: sh_def)
  have idx': "replay_shard_index h k' = i" if "(k', e') \<in> set (hm_insert k e sh)" for k' e'
    using that set_hm_insert [of k e sh] idx by (auto simp: i_def)
  have "length sh < REPLAY_SHARD_CAPACITY \<Longrightarrow> length (hm_insert k e sh) \<le> REPLAY_SHARD_CAPACITY"
    using length_hm_insert_le [of k e sh] by linarith
  with run show ?thesis
    unfolding check_and_record_eq Let_def k_def [symmetric] i_def [symmetric] sh_def [symmetric]
    using inv sh idx idx' i old(5)
    by (auto intro!: replay_inv_set_shard split: if_splits)
qed

lemma check_and_record_Ok:
  assumes inv: "replay_inv h c" and run: "check_and_record h jkt jti e now c = (c', Ok u)"
  shows "replay_expiry h c' (composite_key jkt jti) = Some e"
    and "replay_expiry h c (composite_key jkt jti) = Some e0 \<Longrightarrow> e0 \<le> now"
  using run replay_expiry_set_shard [OF inv replay_shard_index_less]
  by (auto simp: check_and_record_eq Let_def split: if_splits option.splits)

lemma check_and_record_keeps_live:
  assumes inv: "replay_inv h c" and run: "check_and_record h jkt jti e now c = (c', r)"
    and live: "replay_expiry h c k = Some e0" "now < e0"
  shows "replay_expiry h c' k = Some e0"
proof -
  define i where "i = replay_shard_index h (composite_key jkt jti)"
  have i: "i < NUM_SHARDS"
    by (simp add: i_def)
  have sw: "hm_get k (swept_shard a now (rc_shards c ! i)) = Some e0"
    if "replay_shard_index h k = i" for a
    using live that swept_keeps_live [OF replay_inv_shard(1) [OF inv i]]
    by (simp add: replay_expiry_def shard_for_def)
  from run show ?thesis
    unfolding check_and_record_eq Let_def i_def [symmetric]
    using live sw by (auto simp: replay_expiry_set_shard [OF inv i] split: if_splits option.splits)
qed

lemma replay_inv_prune: "replay_inv h c \<Longrightarrow> replay_inv h (replay_prune_expired now c)"
  using retain_unexpired_subset order_trans [OF live_count_le]
  by (fastforce simp: replay_inv_def replay_prune_expired_def)

lemma replay_expiry_prune:
  assumes "replay_inv h c"
  shows "replay_expiry h (replay_prune_expired now c) k =
    (case replay_expiry h c k of None \<Rightarrow> None | Some e \<Rightarrow> if now < e then Some e else None)"
  using replay_inv_shard(1,4) [OF assms, of "replay_shard_index h k"]
  by (simp add: replay_expiry_def shard_for_def replay_prune_expired_def hm_get_retain_unexpired)

interpretation replay_cache: replay_guard "check_and_record h" replay_prune_expired composite_key
  "replay_inv h" "replay_expiry h" for h
proof unfold_locales
  show "replay_inv h c'" if "replay_inv h c" "check_and_record h jkt jti e now c = (c', r)"
    for c jkt jti e now c' r
    using that by (rule check_and_record_inv)
  show "e0 \<le> now" if "replay_inv h c" "check_and_record h jkt jti e now c = (c', Ok u)"
    "replay_expiry h c (composite_key jkt jti) = Some e0" for c jkt jti e now c' u e0
    using that by (rule check_and_record_Ok(2))
  show "replay_expiry h c' (composite_key jkt jti) = Some e"
    if "replay_inv h c" "check_and_record h jkt jti e now c = (c', Ok u)" for c jkt jti e now c' u
    using that by (rule check_and_record_Ok(1))
  show "replay_expiry h c' k = Some e0"
    if "replay_inv h c" "check_and_record h jkt jti e now c = (c', r)"
      "replay_expiry h c k = Some e0" "now < e0" for c jkt jti e now c' r k e0
    using that by (rule check_and_record_keeps_live)
  show "replay_inv h (replay_prune_expired now c)" if "replay_inv h c" for now c
    using that by (rule replay_inv_prune)
  show "replay_expiry h (replay_prune_expired now c) k = Some e0"
    if "replay_inv h c" "replay_expiry h c k = Some e0" "now < e0" for c k e0 now
    using that by (simp add: replay_expiry_prune)
qed

lemma composite_key_inj:
  assumes "CHR '':'' \<notin> set jkt" "CHR '':'' \<notin> set jkt'"
  shows "composite_key jkt jti = composite_key jkt' jti' \<longleftrightarrow> jkt = jkt' \<and> jti = jti'"
proof
  assume eq: "composite_key jkt jti = composite_key jkt' jti'"
  have "takeWhile (\<lambda>c. c \<noteq> CHR '':'') (composite_key j t) = j" if "CHR '':'' \<notin> set j" for j t
    using that by (simp add: composite_key_def takeWhile_append)
  hence "jkt = jkt'"
    using assms eq by metis
  thus "jkt = jkt' \<and> jti = jti'"
    using eq by (simp add: composite_key_def)
qed simp

lemma replay_len_le:
  assumes "replay_inv h c"
  shows "replay_len c \<le> NUM_SHARDS * REPLAY_SHARD_CAPACITY"
proof -
  have "length sh \<le> REPLAY_SHARD_CAPACITY" if "sh \<in> set (rc_shards c)" for sh
    using that assms by (auto simp: replay_inv_def in_set_conv_nth)
  hence "sum_list (map length (rc_shards c)) \<le> sum_list (map (\<lambda>_. REPLAY_SHARD_CAPACITY) (rc_shards c))"
    by (rule sum_list_mono)
  thus ?thesis
    using assms by (simp add: replay_len_def replay_inv_def sum_list_triv)
qed

lemma expiries_le_set_shard:
  assumes "expiries_le b c" "\<forall>(k, e) \<in> set sh. e \<le> b"
  shows "expiries_le b (set_replay_shard i sh (c\<lparr>prune_hints := hints\<rparr>))"
  using assms set_update_subset_insert [of "rc_shards c" i sh]
  by (auto simp: expiries_le_def set_replay_shard_def)

lemma expiries_le_check_and_record:
  assumes inv: "replay_inv h c" and le: "expiries_le b c" "e \<le> b"
  shows "expiries_le b (fst (check_and_record h jkt jti e now c))"
proof -
  define k i sh where "k = composite_key jkt jti" and "i = replay_shard_index h k"
    and "sh = swept_shard (prune_hints c ! i) now (rc_shards c ! i)"
  have "rc_shards c ! i \<in> set (rc_shards c)"
    using replay_inv_shard(4) [OF inv, of i] by (simp add: i_def)
  hence sh: "\<forall>(k, e) \<in> set sh. e \<le> b"
    using le(1) swept_shard_subset [of "prune_hints c ! i" now "rc_shards c ! i"]
    by (fastforce simp: expiries_le_def sh_def)
  hence "\<forall>(k, e) \<in> set (hm_insert k e sh). e \<le> b"
    using set_hm_insert [of k e sh] le(2) by auto
  with sh show ?thesis
    unfolding check_and_record_eq Let_def k_def [symmetric] i_def [symmetric] sh_def [symmetric]
    using le(1) by (auto intro!: expiries_le_set_shard)
qed

lemma expiries_le_run:
  assumes "replay_inv h c" "expiries_le b c" "list_all (op_expires_by b) ops"
  shows "expiries_le b (fst (run_replay (check_and_record h) replay_prune_expired ops c))"
  using assms
proof (induction ops arbitrary: c)
  case (Cons x ops)
  show ?case
  proof (cases x)
    case (Admit jkt jti e now)
    obtain c1 r where a: "check_and_record h jkt jti e now c = (c1, r)"
      by fastforce
    show ?thesis
      using Cons.IH [OF check_and_record_inv [OF Cons.prems(1) a]] Cons.prems
        expiries_le_check_and_record [OF Cons.prems(1,2), of e jkt jti now]
      by (simp add: Admit a split_beta)
  next
    case (PruneAt now)
    have "expiries_le b (replay_prune_expired now c)"
      using Cons.prems(2) retain_unexpired_subset
      by (fastforce simp: expiries_le_def replay_prune_expired_def)
    thus ?thesis
      using Cons.IH [OF replay_inv_prune [OF Cons.prems(1)]] Cons.prems(3)
      by (simp add: PruneAt split_beta)
  qed
qed simp

lemma check_and_record_result:
  "snd (check_and_record h jkt jti e now c) =
     (if (case replay_expiry h c (composite_key jkt jti) of Some e0 \<Rightarrow> now < e0 | None \<Rightarrow> False)
      then Err (DPoPError.ReplayDetected jti)
      else if live_count now (shard_for h (composite_key jkt jti) c) \<ge> REPLAY_SHARD_CAPACITY
      then Err DPoPError.ReplayCacheSaturated
      else Ok ())"
  by (simp add: check_and_record_eq Let_def shard_for_def swept_shard_full_iff [unfolded not_le])

lemma live_count_expired:
  assumes "replay_inv h c" "expiries_le now c"
  shows "live_count now (shard_for h k c) = 0" "replay_expiry h c k = Some e \<Longrightarrow> e \<le> now"
proof -
  have "shard_for h k c \<in> set (rc_shards c)"
    using replay_inv_shard(4) [OF assms(1), of "replay_shard_index h k"] by (simp add: shard_for_def)
  hence le: "\<forall>(k, e) \<in> set (shard_for h k c). e \<le> now"
    using assms(2) by (simp add: expiries_le_def)
  thus "live_count now (shard_for h k c) = 0"
    by (auto simp: live_count_def filter_empty_conv)
  show "e \<le> now" if "replay_expiry h c k = Some e"
    using le hm_get_in_set [of k "shard_for h k c" e] that by (auto simp: replay_expiry_def)
qed

section \<open>Properties\<close>

text \<open>In every sequence of operations on a fresh cache, with the clock readings of any number of
  callers, a pair of key thumbprint and \<open>jti\<close> that was admitted is admitted again only after
  some operation ran at a second that reached the expiry recorded by the first admission.\<close>

theorem no_replay_before_expiry:
  assumes "run_replay (check_and_record h) replay_prune_expired ops DPoPReplayCache_new = (c, out)"
    and "i < j" "admitted_at ops out jkt jti i" "admitted_at ops out jkt jti j"
  shows "\<exists>m. i < m \<and> m \<le> j \<and> op_exp (ops ! i) \<le> op_now (ops ! m)"
  using replay_cache.no_second_admission [OF replay_inv_new assms(2), of ops h jkt jti] assms(1,3,4)
  by simp

theorem no_replay_before_expiry_witness:
  "\<exists>m. 0 < m \<and> m \<le> 2 \<and> op_exp ([Admit ''k'' ''n'' 10 5, Admit ''k'' ''n'' 10 6,
     Admit ''k'' ''n'' 20 10] ! 0) \<le> op_now ([Admit ''k'' ''n'' 10 5, Admit ''k'' ''n'' 10 6,
     Admit ''k'' ''n'' 20 10] ! m)"
proof -
  let ?ops = "[Admit ''k'' ''n'' 10 5, Admit ''k'' ''n'' 10 6, Admit ''k'' ''n'' 20 10]"
  let ?run = "run_replay (check_and_record (\<lambda>_. 3)) replay_prune_expired ?ops DPoPReplayCache_new"
  have out: "snd ?run = [Some (Ok ()), Some (Err (DPoPError.ReplayDetected ''n'')), Some (Ok ())]"
    by code_simp
  have run: "?run = (fst ?run, [Some (Ok ()), Some (Err (DPoPError.ReplayDetected ''n'')), Some (Ok ())])"
    unfolding out [symmetric] by (rule surjective_pairing)
  show ?thesis
    by (rule no_replay_before_expiry [OF run, of 0 2 "''k''" "''n''"])
      (simp_all add: admitted_at_def)
qed

text \<open>What an admission answers: a replay is reported exactly when the pair has a record that is
  still live, the cache is reported saturated exactly when its shard holds 2048 live records,
  and in every other case the admission succeeds.\<close>

theorem check_and_record_decides:
  "snd (check_and_record h jkt jti e now c) =
     (if is_consumed h jkt jti now c then Err (DPoPError.ReplayDetected jti)
      else if live_count now (shard_for h (composite_key jkt jti) c) \<ge> REPLAY_SHARD_CAPACITY
      then Err DPoPError.ReplayCacheSaturated
      else Ok ())"
  unfolding check_and_record_result is_consumed_def Let_def replay_expiry_def by (rule refl)

text \<open>Whatever requests arrive, the cache never holds more than 131072 records.\<close>

theorem replay_cache_bounded:
  "replay_len (fst (run_replay (check_and_record h) replay_prune_expired ops DPoPReplayCache_new))
     \<le> 131072"
  using replay_len_le [OF replay_cache.run_inv [OF replay_inv_new, of h ops]]
  by (simp add: NUM_SHARDS_def REPLAY_SHARD_CAPACITY_def)

text \<open>A flood of requests does not lock callers out for good: once the clock has reached every
  recorded expiry, any pair is admitted.\<close>

theorem admission_recovers:
  assumes "list_all (op_expires_by now) ops"
  shows "snd (check_and_record h jkt jti e now
    (fst (run_replay (check_and_record h) replay_prune_expired ops DPoPReplayCache_new))) = Ok ()"
proof -
  let ?c = "fst (run_replay (check_and_record h) replay_prune_expired ops DPoPReplayCache_new)"
  have inv: "replay_inv h ?c"
    by (rule replay_cache.run_inv) simp
  have "expiries_le now ?c"
    by (rule expiries_le_run [OF replay_inv_new _ assms])
      (simp add: expiries_le_def DPoPReplayCache_new_def)
  from live_count_expired [OF inv this] show ?thesis
    by (auto simp: check_and_record_result REPLAY_SHARD_CAPACITY_def not_less split: option.split)
qed

theorem admission_recovers_witness:
  "snd (check_and_record (\<lambda>_. 3) ''k'' ''n'' 20 10 (fst (run_replay (check_and_record (\<lambda>_. 3))
     replay_prune_expired [Admit ''k'' ''n'' 10 5, PruneAt 7] DPoPReplayCache_new))) = Ok ()"
  by (rule admission_recovers) simp

end
