(* ===== verification/Nonce_Interface.thy ===== *)
theory Nonce_Interface
  imports Errors Clock
begin

text \<open>
  The trait \<open>DPoPServerNonceSource\<close> (\<open>dpop.rs\<close>) as a locale: a source mints challenge nonces
  and later decides whether a presented nonce is one of its own.  The extension
  \<open>single_use_source\<close> adds that a successful verification consumes the nonce.  The random
  bytes and the clock readings are arguments.
\<close>

section \<open>Sequences of calls\<close>

datatype nonce_op =
    Generate (op_time: system_time) (op_raw: bytes)
  | Verify (op_nonce: string) (op_time: system_time)

datatype nonce_out =
    Issued "(string, DPoPError) result"
  | Verified bool

fun run_nonce ::
  "(system_time \<Rightarrow> bytes \<Rightarrow> 's \<Rightarrow> 's \<times> (string, DPoPError) result)
   \<Rightarrow> (string \<Rightarrow> system_time \<Rightarrow> 's \<Rightarrow> 's \<times> bool) \<Rightarrow> nonce_op list \<Rightarrow> 's \<Rightarrow> 's \<times> nonce_out list" where
  "run_nonce gen ver [] s = (s, [])"
| "run_nonce gen ver (Generate t raw # ops) s =
     (let (s', r) = gen t raw s; (s'', out) = run_nonce gen ver ops s' in (s'', Issued r # out))"
| "run_nonce gen ver (Verify n t # ops) s =
     (let (s', b) = ver n t s; (s'', out) = run_nonce gen ver ops s' in (s'', Verified b # out))"

text \<open>How often a nonce was issued, and how often it was presented and accepted; a presented nonce
  is compared after trimming.\<close>

definition times_issued :: "string \<Rightarrow> nonce_out list \<Rightarrow> nat" where
  "times_issued n out = length (filter (\<lambda>x. x = Issued (Ok n)) out)"

fun is_accept :: "string \<Rightarrow> nonce_op \<times> nonce_out \<Rightarrow> bool" where
  "is_accept n (Verify p t, Verified b) = (trim p = n \<and> b)"
| "is_accept n _ = False"

definition times_accepted :: "string \<Rightarrow> nonce_op list \<Rightarrow> nonce_out list \<Rightarrow> nat" where
  "times_accepted n ops out = length (filter (is_accept n) (zip ops out))"

section \<open>The interface\<close>

locale nonce_source =
  fixes generate_nonce :: "system_time \<Rightarrow> bytes \<Rightarrow> 's \<Rightarrow> 's \<times> (string, DPoPError) result"
    and verify_nonce :: "string \<Rightarrow> system_time \<Rightarrow> 's \<Rightarrow> 's \<times> bool"
    and inv :: "'s \<Rightarrow> bool"
    and stored :: "'s \<Rightarrow> string set"
  assumes generate_inv: "inv s \<Longrightarrow> generate_nonce t raw s = (s', r) \<Longrightarrow> inv s'"
    and generate_Ok: "inv s \<Longrightarrow> generate_nonce t raw s = (s', Ok n) \<Longrightarrow>
      stored s' \<subseteq> insert n (stored s)"
    and generate_Err: "inv s \<Longrightarrow> generate_nonce t raw s = (s', Err e) \<Longrightarrow>
      e = DPoPError.NonceCacheSaturated \<and> stored s' \<subseteq> stored s"
    and verify_inv: "inv s \<Longrightarrow> verify_nonce p t s = (s', b) \<Longrightarrow> inv s'"
    and verify_stored: "inv s \<Longrightarrow> verify_nonce p t s = (s', b) \<Longrightarrow> stored s' \<subseteq> stored s"
    and verify_True: "inv s \<Longrightarrow> verify_nonce p t s = (s', True) \<Longrightarrow> trim p \<in> stored s"
begin

abbreviation run :: "nonce_op list \<Rightarrow> 's \<Rightarrow> 's \<times> nonce_out list" where
  "run \<equiv> run_nonce generate_nonce verify_nonce"

text \<open>The first step of a run.\<close>

lemma run_Cons:
  assumes "inv s" "run (x # ops) s = (s', out)"
  obtains s1 a out' where "inv s1" "run ops s1 = (s', out')" "out = a # out'"
    "stored s1 \<subseteq> stored s \<union> {n. a = Issued (Ok n)}"
    "\<And>n. is_accept n (x, a) \<Longrightarrow> n \<in> stored s"
    "\<And>p t b. x = Verify p t \<Longrightarrow> a = Verified b \<Longrightarrow> verify_nonce p t s = (s1, b)"
proof (cases x)
  case (Generate t raw)
  obtain s1 r where g: "generate_nonce t raw s = (s1, r)"
    by fastforce
  obtain s2 out' where o: "run ops s1 = (s2, out')"
    by fastforce
  have "stored s1 \<subseteq> stored s \<union> {n. Issued r = Issued (Ok n)}"
    using generate_Ok [OF assms(1)] generate_Err [OF assms(1)] g by (cases r) fastforce+
  thus thesis
    using that [of s1 out' "Issued r"] generate_inv [OF assms(1) g] assms(2) g o
    by (simp add: Generate)
next
  case (Verify p t)
  obtain s1 b where v: "verify_nonce p t s = (s1, b)"
    by fastforce
  obtain s2 out' where o: "run ops s1 = (s2, out')"
    by fastforce
  show thesis
    using that [of s1 out' "Verified b"] verify_inv [OF assms(1) v] verify_stored [OF assms(1) v]
      verify_True [OF assms(1), of p t s1] assms(2) v o
    by (auto simp: Verify)
qed

text \<open>A nonce that is accepted was issued before, or held at the start.\<close>

lemma accepted_was_issued:
  assumes "inv s" "run ops s = (s', out)"
    and "i < length ops" "is_accept n (ops ! i, out ! i)"
  shows "n \<in> stored s \<or> (\<exists>j < i. out ! j = Issued (Ok n))"
  using assms
proof (induction ops arbitrary: s out i)
  case (Cons x ops)
  obtain s1 a out' where 1: "inv s1" "run ops s1 = (s', out')" "out = a # out'"
    "stored s1 \<subseteq> stored s \<union> {n. a = Issued (Ok n)}" "is_accept n (x, a) \<Longrightarrow> n \<in> stored s"
    using run_Cons [OF Cons.prems(1,2)] by metis
  show ?case
  proof (cases i)
    case 0
    with 1(3,5) Cons.prems(4) show ?thesis
      by simp
  next
    case (Suc i')
    with Cons.IH [OF 1(1,2), of i'] Cons.prems(3,4) 1(3)
    have "n \<in> stored s1 \<or> (\<exists>j < i'. out' ! j = Issued (Ok n))"
      by simp
    thus ?thesis
    proof
      assume "n \<in> stored s1"
      with 1(4) have "n \<in> stored s \<or> a = Issued (Ok n)"
        by blast
      thus ?thesis
        using 1(3) by (auto simp: Suc intro: exI [of _ 0])
    next
      assume "\<exists>j < i'. out' ! j = Issued (Ok n)"
      then obtain j where "j < i'" "out' ! j = Issued (Ok n)"
        by blast
      thus ?thesis
        using 1(3) by (intro disjI2 exI [of _ "Suc j"]) (simp add: Suc)
    qed
  qed
qed simp

end

text \<open>Strict single use (RFC 9449, section 8).\<close>

locale single_use_source = nonce_source +
  assumes verify_consumes: "inv s \<Longrightarrow> verify_nonce p t s = (s', True) \<Longrightarrow> trim p \<notin> stored s'"
begin

lemma accepted_at_most_issued:
  assumes "inv s" "run ops s = (s', out)"
  shows "times_accepted n ops out \<le> (if n \<in> stored s then 1 else 0) + times_issued n out"
  using assms
proof (induction ops arbitrary: s out)
  case (Cons x ops)
  obtain s1 a out' where 1: "inv s1" "run ops s1 = (s', out')" "out = a # out'"
    "stored s1 \<subseteq> stored s \<union> {n. a = Issued (Ok n)}" "is_accept n (x, a) \<Longrightarrow> n \<in> stored s"
    "\<And>p t b. x = Verify p t \<Longrightarrow> a = Verified b \<Longrightarrow> verify_nonce p t s = (s1, b)"
    using run_Cons [OF Cons.prems(1,2)] by metis
  note IH = Cons.IH [OF 1(1,2)]
  show ?case
  proof (cases "is_accept n (x, a)")
    case True
    then obtain p t where x: "x = Verify p t" "a = Verified True" "trim p = n"
      by (cases "(n, (x, a))" rule: is_accept.cases) auto
    have "n \<notin> stored s1"
      using verify_consumes [OF Cons.prems(1) 1(6) [OF x(1,2)]] x(3) by simp
    with IH True 1(3,5) show ?thesis
      by (simp add: times_accepted_def times_issued_def)
  next
    case False
    with IH 1(3,4) show ?thesis
      by (auto simp: times_accepted_def times_issued_def split: if_splits)
  qed
qed (simp add: times_accepted_def)

end

end
