(* ===== verification/Nonce_Source.thy ===== *)
theory Nonce_Source
  imports Nonce_Interface Crypto Sample_Crypto
begin

text \<open>
  Challenge nonces of \<open>dpop.rs\<close>: the cache a client keeps of the nonces it was given, the
  helpers that read the \<open>DPoP-Nonce\<close> header, and the in-memory source of the server side with
  its rate limiter.  A header map is the function that looks up a header by its lower-case
  name and yields the value if it is text.
\<close>

section \<open>Header helpers\<close>

type_synonym header_map = "string \<Rightarrow> string option"

definition require_dpop_nonce :: "header_map \<Rightarrow> (unit, DPoPError) result" where
  "require_dpop_nonce headers =
     (let present = (case headers ''dpop-nonce'' of Some v \<Rightarrow> trim v \<noteq> [] | None \<Rightarrow> False) in
      if present then Ok () else Err DPoPError.ResponseMissingDpopNonce)"

definition extract_dpop_nonce :: "string option \<Rightarrow> string option" where
  "extract_dpop_nonce header_val =
     (case header_val of
        None \<Rightarrow> None
      | Some v \<Rightarrow> (let trimmed = trim v in if trimmed = [] then None else Some trimmed))"

section \<open>The cache of a client\<close>

record DPoPNonceCache =
  nonce_map :: "(string, string) hmap"

definition DPoPNonceCache_new :: DPoPNonceCache where
  "DPoPNonceCache_new = \<lparr> nonce_map = [] \<rparr>"

definition nonce_origin_key :: "string \<Rightarrow> string" where
  "nonce_origin_key origin = to_ascii_lowercase (trim origin)"

definition set_nonce :: "string \<Rightarrow> string \<Rightarrow> DPoPNonceCache \<Rightarrow> DPoPNonceCache" where
  "set_nonce origin nonce c = c\<lparr>nonce_map := hm_insert (nonce_origin_key origin) nonce (nonce_map c)\<rparr>"

definition get_nonce :: "string \<Rightarrow> DPoPNonceCache \<Rightarrow> string option" where
  "get_nonce origin c = hm_get (nonce_origin_key origin) (nonce_map c)"

definition clear_nonce :: "string \<Rightarrow> DPoPNonceCache \<Rightarrow> DPoPNonceCache" where
  "clear_nonce origin c = c\<lparr>nonce_map := hm_remove (nonce_origin_key origin) (nonce_map c)\<rparr>"

section \<open>The source of a server\<close>

definition NONCE_PRUNE_THRESHOLD :: nat where
  "NONCE_PRUNE_THRESHOLD = 1024"

definition NONCE_CACHE_CAPACITY :: nat where
  "NONCE_CACHE_CAPACITY = 4096"

definition CHALLENGE_ISSUANCE_RATE_LIMIT :: u32 where
  "CHALLENGE_ISSUANCE_RATE_LIMIT = 64"

record InMemoryServerNonceSource =
  nonces :: "(string, u64) hmap"
  nonce_ttl :: duration
  single_use :: bool
  issuance_window_secs :: u64
  issuance_count_in_window :: u32
  issuance_rate_limit :: u32

definition InMemoryServerNonceSource_new :: "duration \<Rightarrow> InMemoryServerNonceSource" where
  "InMemoryServerNonceSource_new ttl =
     \<lparr> nonces = [], nonce_ttl = ttl, single_use = False, issuance_window_secs = 0,
       issuance_count_in_window = 0, issuance_rate_limit = CHALLENGE_ISSUANCE_RATE_LIMIT \<rparr>"

definition with_issuance_rate_limit ::
  "u32 \<Rightarrow> InMemoryServerNonceSource \<Rightarrow> InMemoryServerNonceSource" where
  "with_issuance_rate_limit per_second s = s\<lparr>issuance_rate_limit := per_second\<rparr>"

definition with_single_use :: "InMemoryServerNonceSource \<Rightarrow> InMemoryServerNonceSource" where
  "with_single_use s = s\<lparr>single_use := True\<rparr>"

definition retain_fresh :: "u64 \<Rightarrow> (string, u64) hmap \<Rightarrow> (string, u64) hmap" where
  "retain_fresh now_secs m = hm_retain (\<lambda>_ e. e > now_secs) m"

definition nonce_prune_expired ::
  "u64 \<Rightarrow> InMemoryServerNonceSource \<Rightarrow> InMemoryServerNonceSource" where
  "nonce_prune_expired now_secs s = s\<lparr>nonces := retain_fresh now_secs (nonces s)\<rparr>"

definition generate_nonce ::
  "crypto_lib \<Rightarrow> system_time \<Rightarrow> bytes \<Rightarrow> InMemoryServerNonceSource
   \<Rightarrow> InMemoryServerNonceSource \<times> (string, DPoPError) result" where
  "generate_nonce L t raw s =
     (let now_secs = unix_secs_or_0 t;
          s = (if issuance_window_secs s \<noteq> now_secs
               then s\<lparr>issuance_window_secs := now_secs, issuance_count_in_window := 0\<rparr> else s)
      in if issuance_count_in_window s \<ge> issuance_rate_limit s
         then (s, Err DPoPError.NonceCacheSaturated)
         else
           (let s = s\<lparr>issuance_count_in_window := issuance_count_in_window s + 1\<rparr>;
                nonce = base64url_encode L raw;
                e = saturating_add now_secs (secs64 (nonce_ttl s));
                guard = (if length (nonces s) > NONCE_PRUNE_THRESHOLD
                         then retain_fresh now_secs (nonces s) else nonces s)
            in if length guard \<ge> NONCE_CACHE_CAPACITY
               then (s\<lparr>nonces := guard\<rparr>, Err DPoPError.NonceCacheSaturated)
               else (s\<lparr>nonces := hm_insert nonce e guard\<rparr>, Ok nonce)))"

definition verify_nonce ::
  "string \<Rightarrow> system_time \<Rightarrow> InMemoryServerNonceSource \<Rightarrow> InMemoryServerNonceSource \<times> bool" where
  "verify_nonce nonce t s =
     (let now_secs = unix_secs_or_0 t; trimmed = trim nonce in
      if single_use s then
        (case hm_get trimmed (nonces s) of
           Some e \<Rightarrow> if e > now_secs then (s\<lparr>nonces := hm_remove trimmed (nonces s)\<rparr>, True)
                     else (s, False)
         | None \<Rightarrow> (s, False))
      else
        (case hm_get trimmed (nonces s) of
           Some e \<Rightarrow> (s, e > now_secs)
         | None \<Rightarrow> (s, False)))"

section \<open>Invariant and view\<close>

definition nonce_inv :: "InMemoryServerNonceSource \<Rightarrow> bool" where
  "nonce_inv s = (hm_ok (nonces s) \<and> length (nonces s) \<le> NONCE_CACHE_CAPACITY)"

definition nonce_single_inv :: "InMemoryServerNonceSource \<Rightarrow> bool" where
  "nonce_single_inv s = (nonce_inv s \<and> single_use s)"

definition nonce_stored :: "InMemoryServerNonceSource \<Rightarrow> string set" where
  "nonce_stored s = fst ` set (nonces s)"

definition op_secs :: "nonce_op \<Rightarrow> u64" where
  "op_secs x = unix_secs_or_0 (op_time x)"

text \<open>The number of nonces a run issued in the second \<open>w\<close>.\<close>

fun issued_in :: "u64 \<Rightarrow> nonce_op list \<Rightarrow> nonce_out list \<Rightarrow> nat" where
  "issued_in w (Generate t raw # ops) (Issued (Ok n) # out) =
     (if unix_secs_or_0 t = w then 1 else 0) + issued_in w ops out"
| "issued_in w (_ # ops) (_ # out) = issued_in w ops out"
| "issued_in w _ _ = 0"

text \<open>The limiter at the second \<open>w\<close>: the count of an earlier second does not carry over.\<close>

definition window_count :: "u64 \<Rightarrow> InMemoryServerNonceSource \<Rightarrow> u32" where
  "window_count w s = (if issuance_window_secs s = w then issuance_count_in_window s else 0)"

section \<open>Lemmas\<close>

lemma generate_nonce_eq:
  "generate_nonce L t raw s =
     (let w = unix_secs_or_0 t; n = window_count w s;
          m = (if length (nonces s) > NONCE_PRUNE_THRESHOLD then retain_fresh w (nonces s) else nonces s)
      in if issuance_rate_limit s \<le> n
         then (s\<lparr>issuance_window_secs := w, issuance_count_in_window := n\<rparr>,
               Err DPoPError.NonceCacheSaturated)
         else if NONCE_CACHE_CAPACITY \<le> length m
         then (s\<lparr>issuance_window_secs := w, issuance_count_in_window := n + 1, nonces := m\<rparr>,
               Err DPoPError.NonceCacheSaturated)
         else (s\<lparr>issuance_window_secs := w, issuance_count_in_window := n + 1,
                 nonces := hm_insert (base64url_encode L raw)
                   (saturating_add w (secs64 (nonce_ttl s))) m\<rparr>,
               Ok (base64url_encode L raw)))"
  by (cases s) (auto simp: generate_nonce_def window_count_def Let_def)

lemma get_nonce_set:
  "get_nonce o' (set_nonce orig n c) =
     (if nonce_origin_key o' = nonce_origin_key orig then Some n else get_nonce o' c)"
  by (simp add: get_nonce_def set_nonce_def)

lemma get_nonce_clear:
  "get_nonce o' (clear_nonce orig c) =
     (if nonce_origin_key o' = nonce_origin_key orig then None else get_nonce o' c)"
  by (simp add: get_nonce_def clear_nonce_def)

lemma retain_fresh_simps [simp]:
  "hm_ok m \<Longrightarrow> hm_ok (retain_fresh w m)" "length (retain_fresh w m) \<le> length m"
  "set (retain_fresh w m) \<subseteq> set m"
  by (simp_all add: retain_fresh_def hm_retain_subset)

lemma generate_keeps_config:
  "generate_nonce L t raw s = (s', r) \<Longrightarrow>
     nonce_ttl s' = nonce_ttl s \<and> single_use s' = single_use s
     \<and> issuance_rate_limit s' = issuance_rate_limit s"
  by (auto simp: generate_nonce_eq Let_def split: if_splits)

lemma verify_keeps_config:
  "verify_nonce p t s = (s', b) \<Longrightarrow>
     nonce_ttl s' = nonce_ttl s \<and> single_use s' = single_use s
     \<and> issuance_rate_limit s' = issuance_rate_limit s
     \<and> issuance_window_secs s' = issuance_window_secs s
     \<and> issuance_count_in_window s' = issuance_count_in_window s"
  by (auto simp: verify_nonce_def Let_def split: if_splits option.splits)

lemma generate_nonce_inv:
  assumes "nonce_inv s" "generate_nonce L t raw s = (s', r)"
  shows "nonce_inv s'"
proof -
  define w m where "w = unix_secs_or_0 t" and
    "m = (if length (nonces s) > NONCE_PRUNE_THRESHOLD then retain_fresh w (nonces s) else nonces s)"
  have m: "hm_ok m" "length m \<le> NONCE_CACHE_CAPACITY"
    using assms(1) order_trans [OF retain_fresh_simps(2), of "nonces s" NONCE_CACHE_CAPACITY w]
    by (auto simp: m_def nonce_inv_def)
  have "length m < NONCE_CACHE_CAPACITY \<Longrightarrow> length (hm_insert n e m) \<le> NONCE_CACHE_CAPACITY" for n e
    using length_hm_insert_le [of n e m] by linarith
  with assms m show ?thesis
    unfolding generate_nonce_eq Let_def w_def [symmetric] m_def [symmetric]
    by (auto simp: nonce_inv_def split: if_splits)
qed

lemma generate_nonce_stored:
  assumes "generate_nonce L t raw s = (s', r)"
  shows "nonce_stored s' \<subseteq> nonce_stored s \<union> {n. r = Ok n}"
    and "r = Err e \<Longrightarrow> e = DPoPError.NonceCacheSaturated"
proof -
  define w m where "w = unix_secs_or_0 t" and
    "m = (if length (nonces s) > NONCE_PRUNE_THRESHOLD then retain_fresh w (nonces s) else nonces s)"
  have m: "set m \<subseteq> set (nonces s)"
    by (simp add: m_def)
  have ins: "k = n \<or> k \<in> fst ` set (nonces s)" if "(k, v) \<in> set (hm_insert n e m)" for k v n e
    using that set_hm_insert [of n e m] m by force
  from assms m show "nonce_stored s' \<subseteq> nonce_stored s \<union> {n. r = Ok n}"
    unfolding generate_nonce_eq Let_def w_def [symmetric] m_def [symmetric]
    by (auto simp: nonce_stored_def split: if_splits dest: ins)
  show "r = Err e \<Longrightarrow> e = DPoPError.NonceCacheSaturated"
    using assms by (auto simp: generate_nonce_eq Let_def split: if_splits)
qed

lemma verify_nonce_props:
  assumes "nonce_inv s" "verify_nonce p t s = (s', b)"
  shows "nonce_inv s'" "nonce_stored s' \<subseteq> nonce_stored s" "b \<Longrightarrow> trim p \<in> nonce_stored s"
    "single_use s \<Longrightarrow> b \<Longrightarrow> trim p \<notin> nonce_stored s'"
proof -
  have "length (hm_remove (trim p) (nonces s)) \<le> NONCE_CACHE_CAPACITY"
    by (rule order_trans [OF length_hm_remove]) (use assms(1) in \<open>simp add: nonce_inv_def\<close>)
  with assms show "nonce_inv s'"
    by (auto simp: verify_nonce_def nonce_inv_def Let_def split: if_splits option.splits)
  show "nonce_stored s' \<subseteq> nonce_stored s"
    using assms(2) set_hm_remove [of "trim p" "nonces s"]
    by (auto simp: verify_nonce_def nonce_stored_def Let_def split: if_splits option.splits)
  show "trim p \<in> nonce_stored s" if b
  proof -
    from that assms(2) obtain e where "hm_get (trim p) (nonces s) = Some e"
      by (auto simp: verify_nonce_def Let_def split: if_splits option.splits)
    from hm_get_in_set [OF this] show ?thesis
      by (force simp: nonce_stored_def)
  qed
  show "trim p \<notin> nonce_stored s'" if "single_use s" b
  proof -
    have "nonces s' = hm_remove (trim p) (nonces s)"
      using that assms(2) by (auto simp: verify_nonce_def Let_def split: if_splits option.splits)
    hence "hm_get (trim p) (nonces s') = None"
      by simp
    thus ?thesis
      by (simp add: hm_get_None_iff nonce_stored_def)
  qed
qed

interpretation memory_source: nonce_source "generate_nonce L" verify_nonce nonce_inv nonce_stored for L
proof unfold_locales
  show "nonce_inv s'" if "nonce_inv s" "generate_nonce L t raw s = (s', r)" for s t raw s' r
    using that by (rule generate_nonce_inv)
  show "nonce_stored s' \<subseteq> insert n (nonce_stored s)"
    if "nonce_inv s" "generate_nonce L t raw s = (s', Ok n)" for s t raw s' n
    using generate_nonce_stored(1) [OF that(2)] by auto
  show "e = DPoPError.NonceCacheSaturated \<and> nonce_stored s' \<subseteq> nonce_stored s"
    if "nonce_inv s" "generate_nonce L t raw s = (s', Err e)" for s t raw s' e
    using generate_nonce_stored [OF that(2)] by auto
  show "nonce_inv s'" if "nonce_inv s" "verify_nonce p t s = (s', b)" for s p t s' b
    using that by (rule verify_nonce_props(1))
  show "nonce_stored s' \<subseteq> nonce_stored s"
    if "nonce_inv s" "verify_nonce p t s = (s', b)" for s p t s' b
    using that by (rule verify_nonce_props(2))
  show "trim p \<in> nonce_stored s" if "nonce_inv s" "verify_nonce p t s = (s', True)" for s p t s'
    using verify_nonce_props(3) [OF that] by simp
qed

interpretation strict_source: single_use_source "generate_nonce L" verify_nonce nonce_single_inv
  nonce_stored for L
proof unfold_locales
  show "nonce_single_inv s'" if "nonce_single_inv s" "generate_nonce L t raw s = (s', r)"
    for s t raw s' r
    using that generate_nonce_inv generate_keeps_config by (auto simp: nonce_single_inv_def)
  show "nonce_stored s' \<subseteq> insert n (nonce_stored s)"
    if "nonce_single_inv s" "generate_nonce L t raw s = (s', Ok n)" for s t raw s' n
    using generate_nonce_stored(1) [OF that(2)] by auto
  show "e = DPoPError.NonceCacheSaturated \<and> nonce_stored s' \<subseteq> nonce_stored s"
    if "nonce_single_inv s" "generate_nonce L t raw s = (s', Err e)" for s t raw s' e
    using generate_nonce_stored [OF that(2)] by auto
  show "nonce_single_inv s'" if "nonce_single_inv s" "verify_nonce p t s = (s', b)" for s p t s' b
    using that verify_nonce_props(1) verify_keeps_config by (auto simp: nonce_single_inv_def)
  show "nonce_stored s' \<subseteq> nonce_stored s"
    if "nonce_single_inv s" "verify_nonce p t s = (s', b)" for s p t s' b
    using that verify_nonce_props(2) by (simp add: nonce_single_inv_def)
  show "trim p \<in> nonce_stored s" if "nonce_single_inv s" "verify_nonce p t s = (s', True)"
    for s p t s'
    using that verify_nonce_props(3) [of s p t s' True] by (simp add: nonce_single_inv_def)
  show "trim p \<notin> nonce_stored s'" if "nonce_single_inv s" "verify_nonce p t s = (s', True)"
    for s p t s'
    using that verify_nonce_props(4) [of s p t s' True] by (simp add: nonce_single_inv_def)
qed

text \<open>The rate limiter.\<close>

lemma issued_in_later:
  "\<forall>x \<in> set ops. w < op_secs x \<Longrightarrow> issued_in w ops out = 0"
  by (induction w ops out rule: issued_in.induct) (auto simp: op_secs_def)

lemma issued_in_Generate:
  "issued_in w (Generate t raw # ops) (Issued r # out) =
     (if unix_secs_or_0 t = w \<and> is_ok r then 1 else 0) + issued_in w ops out"
  by (cases r) simp_all

lemma generate_window:
  assumes "generate_nonce L t raw s = (s', r)"
  shows "issuance_window_secs s' = unix_secs_or_0 t"
    "issuance_count_in_window s' = window_count (unix_secs_or_0 t) s
     \<or> (issuance_count_in_window s' = window_count (unix_secs_or_0 t) s + 1
        \<and> window_count (unix_secs_or_0 t) s < issuance_rate_limit s)"
    "is_ok r \<Longrightarrow> issuance_count_in_window s' = window_count (unix_secs_or_0 t) s + 1
        \<and> window_count (unix_secs_or_0 t) s < issuance_rate_limit s"
  using assms by (auto simp: generate_nonce_eq Let_def split: if_splits)

lemma unat_Suc_u32: "(n :: u32) < m \<Longrightarrow> unat (n + 1) = Suc (unat n)"
proof -
  assume "n < m"
  moreover have "unat m < 2 ^ 32"
    using unsigned_less [of m] by simp
  ultimately show ?thesis
    using unat_plus_simple [of n 1] by (simp add: no_olen_add_nat word_less_nat_alt)
qed

lemma generate_window_bound:
  assumes "generate_nonce L t raw s = (s', r)"
    and "issuance_count_in_window s \<le> issuance_rate_limit s"
  shows "issuance_count_in_window s' \<le> issuance_rate_limit s'"
proof -
  have "window_count (unix_secs_or_0 t) s \<le> issuance_rate_limit s"
    using assms(2) by (simp add: window_count_def)
  moreover have "window_count (unix_secs_or_0 t) s + 1 \<le> issuance_rate_limit s"
    if "window_count (unix_secs_or_0 t) s < issuance_rate_limit s"
    using that unat_Suc_u32 [OF that] by (simp add: word_le_nat_alt word_less_nat_alt)
  ultimately show ?thesis
    using generate_window(2) [OF assms(1)] generate_keeps_config [OF assms(1)] by auto
qed

lemma rate_limit_run:
  assumes "sorted (map op_secs ops)" "\<forall>x \<in> set ops. issuance_window_secs s \<le> op_secs x"
    and "issuance_count_in_window s \<le> issuance_rate_limit s"
    and "run_nonce (generate_nonce L) verify_nonce ops s = (s', out)"
  shows "issued_in w ops out + unat (window_count w s) \<le> unat (issuance_rate_limit s)"
  using assms
proof (induction ops arbitrary: s out)
  case Nil
  thus ?case
    by (auto simp: window_count_def word_le_nat_alt)
next
  case (Cons x ops)
  show ?case
  proof (cases x)
    case (Verify p t)
    obtain s1 b where v: "verify_nonce p t s = (s1, b)"
      by fastforce
    obtain s2 out' where o: "run_nonce (generate_nonce L) verify_nonce ops s1 = (s2, out')"
      by fastforce
    have "out = Verified b # out'"
      using Cons.prems(4) v o by (simp add: Verify)
    thus ?thesis
      using Cons.IH [of s1 out'] Cons.prems v o verify_keeps_config [OF v]
      by (auto simp: Verify window_count_def split: if_splits)
  next
    case (Generate t raw)
    let ?u = "unix_secs_or_0 t"
    obtain s1 r where g: "generate_nonce L t raw s = (s1, r)"
      by fastforce
    obtain s2 out' where o: "run_nonce (generate_nonce L) verify_nonce ops s1 = (s2, out')"
      by fastforce
    have out: "out = Issued r # out'" "s2 = s'"
      using Cons.prems(4) g o by (simp_all add: Generate)
    have later: "\<forall>y \<in> set ops. ?u \<le> op_secs y"
      using Cons.prems(1) by (simp add: Generate op_secs_def [of "Generate t raw"])
    have IH: "issued_in w ops out' + unat (window_count w s1) \<le> unat (issuance_rate_limit s)"
      using Cons.IH [of s1 out'] Cons.prems o later out(2) generate_window(1) [OF g]
        generate_window_bound [OF g Cons.prems(3)] generate_keeps_config [OF g]
      by simp
    show ?thesis
    proof (cases "?u = w")
      case True
      have "unat (window_count w s1) \<ge> unat (window_count w s) + (if is_ok r then 1 else 0)"
        using generate_window [OF g] unat_Suc_u32 True
        by (auto simp: window_count_def [of _ s1])
      thus ?thesis
        using IH by (auto simp: Generate out issued_in_Generate True)
    next
      case False
      have "issued_in w ops out' = 0" if "issuance_window_secs s = w"
        using that False Cons.prems(2) later
        by (intro issued_in_later) (force simp: Generate op_secs_def [of "Generate t raw"])
      hence "issued_in w ops out' + unat (window_count w s) \<le> unat (issuance_rate_limit s)"
        using IH Cons.prems(3) by (auto simp: window_count_def [of _ s] word_le_nat_alt)
      thus ?thesis
        using False by (simp add: Generate out issued_in_Generate)
    qed
  qed
qed

lemma b64url_visible: "list_all is_b64url_char s \<Longrightarrow> list_all is_visible_ascii s"
  by (auto simp: list_all_iff is_b64url_char_def is_visible_ascii_def ascii_simps code_def)

lemma trim_base64url [simp]: "b64_documented L \<Longrightarrow> trim (base64url_encode L d) = base64url_encode L d"
  by (intro trim_visible b64url_visible) (simp add: b64_documented_def base64url_encode_def)

lemma nonce_inv_new [simp]:
  "nonce_inv (InMemoryServerNonceSource_new ttl)"
  "nonce_single_inv (with_single_use (InMemoryServerNonceSource_new ttl))"
  "nonce_stored (InMemoryServerNonceSource_new ttl) = {}"
  "nonce_stored (with_single_use (InMemoryServerNonceSource_new ttl)) = {}"
  by (simp_all add: nonce_inv_def nonce_single_inv_def nonce_stored_def with_single_use_def
      InMemoryServerNonceSource_new_def)

lemma sample_nonce:
  "base64url_encode sample_lib [0, 0, 0] = ''AAAA''" "base64url_encode sample_lib [0, 0, 1] = ''AAAB''"
  "trim ''AAAA'' = ''AAAA''"
  by code_simp+

lemmas nonce_eval = generate_nonce_def verify_nonce_def InMemoryServerNonceSource_new_def
  with_issuance_rate_limit_def CHALLENGE_ISSUANCE_RATE_LIMIT_def NONCE_PRUNE_THRESHOLD_def
  NONCE_CACHE_CAPACITY_def unix_secs_or_0_def unix_secs_def secs64_def as_secs_def
  nanos_per_sec_def saturating_add_def sample_nonce Let_def

section \<open>Properties\<close>

text \<open>C33: With strict single use, in every sequence of calls on a fresh source a nonce is accepted at
  most as often as it was issued.\<close>

theorem nonce_single_use:
  "times_accepted n ops (snd (run_nonce (generate_nonce L) verify_nonce ops
       (with_single_use (InMemoryServerNonceSource_new ttl))))
   \<le> times_issued n (snd (run_nonce (generate_nonce L) verify_nonce ops
       (with_single_use (InMemoryServerNonceSource_new ttl))))"
  using strict_source.accepted_at_most_issued [OF nonce_inv_new(2) surjective_pairing, of n ops L ttl]
  by simp

text \<open>However the source is configured, a nonce that it accepts was issued by an earlier call.\<close>

theorem accepted_nonce_was_issued:
  assumes "run_nonce (generate_nonce L) verify_nonce ops (InMemoryServerNonceSource_new ttl) = (s, out)"
    and "i < length ops" "is_accept n (ops ! i, out ! i)"
  shows "\<exists>j < i. out ! j = Issued (Ok n)"
  using memory_source.accepted_was_issued [OF nonce_inv_new(1) assms] by simp

theorem accepted_nonce_was_issued_witness:
  "\<exists>j < 1. [Issued (Ok ''AAAA''), Verified True] ! j = Issued (Ok ''AAAA'')"
proof -
  let ?run = "run_nonce (generate_nonce sample_lib) verify_nonce [Generate 0 [0, 0, 0], Verify ''AAAA'' 0]
    (InMemoryServerNonceSource_new 5000000000)"
  have out: "snd ?run = [Issued (Ok ''AAAA''), Verified True]"
    by (simp add: nonce_eval)
  have run: "?run = (fst ?run, [Issued (Ok ''AAAA''), Verified True])"
    unfolding out [symmetric] by (rule surjective_pairing)
  show ?thesis
    by (rule accepted_nonce_was_issued [OF run]) (simp_all add: sample_nonce)
qed

text \<open>C34: With clock readings that do not go backwards, a source never issues more nonces in one
  second than its rate limit, whatever is verified in between.\<close>

theorem issuance_rate_bounded:
  assumes "sorted (map op_secs ops)"
    and "run_nonce (generate_nonce L) verify_nonce ops
      (with_issuance_rate_limit limit (InMemoryServerNonceSource_new ttl)) = (s, out)"
  shows "issued_in w ops out \<le> unat limit"
  using rate_limit_run [OF assms(1) _ _ assms(2), of w]
  by (simp add: with_issuance_rate_limit_def InMemoryServerNonceSource_new_def)

theorem issuance_rate_bounded_witness:
  "issued_in 0 [Generate 0 [0, 0, 0], Generate 0 [0, 0, 1]]
     [Issued (Ok ''AAAA''), Issued (Err DPoPError.NonceCacheSaturated)] \<le> unat (1 :: u32)"
proof -
  let ?run = "run_nonce (generate_nonce sample_lib) verify_nonce [Generate 0 [0, 0, 0], Generate 0 [0, 0, 1]]
    (with_issuance_rate_limit 1 (InMemoryServerNonceSource_new 5000000000))"
  have out: "snd ?run = [Issued (Ok ''AAAA''), Issued (Err DPoPError.NonceCacheSaturated)]"
    by (simp add: nonce_eval)
  have run: "?run = (fst ?run, [Issued (Ok ''AAAA''), Issued (Err DPoPError.NonceCacheSaturated)])"
    unfolding out [symmetric] by (rule surjective_pairing)
  show ?thesis
    by (rule issuance_rate_bounded [OF _ run]) (simp add: op_secs_def)
qed

text \<open>A nonce that was issued is accepted exactly until its time to live has passed; trimming
  does not alter it.\<close>

theorem issued_nonce_verifies:
  assumes "b64_documented L" "generate_nonce L t raw s = (s', Ok n)"
  shows "snd (verify_nonce n t' s') \<longleftrightarrow>
    unix_secs_or_0 t' < saturating_add (unix_secs_or_0 t) (secs64 (nonce_ttl s))"
proof -
  have "hm_get n (nonces s') = Some (saturating_add (unix_secs_or_0 t) (secs64 (nonce_ttl s)))"
    using assms(2) by (auto simp: generate_nonce_eq Let_def split: if_splits)
  moreover have "trim n = n"
    using assms by (auto simp: generate_nonce_eq Let_def split: if_splits)
  ultimately show ?thesis
    by (auto simp: verify_nonce_def Let_def)
qed

theorem issued_nonce_verifies_witness:
  "snd (verify_nonce ''AAAA'' 4000000000
     (fst (generate_nonce sample_lib 0 [0, 0, 0] (InMemoryServerNonceSource_new 5000000000))))"
proof -
  let ?s = "InMemoryServerNonceSource_new 5000000000"
  have "snd (generate_nonce sample_lib 0 [0, 0, 0] ?s) = Ok ''AAAA''"
    by (simp add: nonce_eval)
  hence "generate_nonce sample_lib 0 [0, 0, 0] ?s
      = (fst (generate_nonce sample_lib 0 [0, 0, 0] ?s), Ok ''AAAA'')"
    by (metis surjective_pairing)
  from issued_nonce_verifies [OF sample_documented(3) this, of 4000000000] show ?thesis
    by (simp add: nonce_eval)
qed

end
