(* ===== verification/Dpop.thy ===== *)
theory Dpop
  imports Json Htu Replay_Cache Nonce_Source
begin

text \<open>
  DPoP proofs (\<open>dpop.rs\<close>): the key and its exports, proof and client assertion creation, and
  the verifier with its one-step and two-step replay admission.  The random bytes and the
  clock readings of an operation are arguments; a verifier carries its replay cache as
  state.  The environment collects the parameters that stand for other crates.
\<close>

section \<open>Claims and environment\<close>

record DPoPProofClaims =
  cl_jti :: string
  cl_htm :: string
  cl_htu :: string
  cl_iat :: u64
  cl_exp :: "u64 option"
  cl_nonce :: "string option"
  cl_ath :: "string option"

record dpop_serde =
  json_to_string :: "json \<Rightarrow> (string, string) result"
  json_from_slice :: "bytes \<Rightarrow> (json, string) result"
  jwk_from_value :: "json \<Rightarrow> (JwkEc, string) result"
  claims_from_slice :: "bytes \<Rightarrow> (DPoPProofClaims, string) result"

record pkcs8_lib =
  pkcs8_from_der :: "bytes \<Rightarrow> (signing_key, string) result"
  pkcs8_from_pem :: "string \<Rightarrow> (signing_key, string) result"
  pkcs8_to_pem :: "signing_key \<Rightarrow> (string, string) result"
  scalar_from_slice :: "bytes \<Rightarrow> (signing_key, string) result"
  scalar_to_bytes :: "signing_key \<Rightarrow> bytes"

record dpop_env =
  env_crypto :: crypto_lib
  env_serde :: dpop_serde
  env_url :: url_parser
  env_hash :: "string \<Rightarrow> u64"
  env_upper :: "string \<Rightarrow> string"

definition DEFAULT_MAX_PROOF_AGE :: duration where
  "DEFAULT_MAX_PROOF_AGE = from_secs 300"

definition DEFAULT_CLOCK_SKEW_LEEWAY :: duration where
  "DEFAULT_CLOCK_SKEW_LEEWAY = from_secs 60"

definition MAX_JTI_LENGTH :: nat where
  "MAX_JTI_LENGTH = 256"

section \<open>Keys\<close>

definition generate_key :: "signing_key \<Rightarrow> DPoPKey" where
  "generate_key random_key = \<lparr> key_signing_key = random_key \<rparr>"

definition from_pkcs8_der :: "pkcs8_lib \<Rightarrow> bytes \<Rightarrow> (DPoPKey, CryptoError) result" where
  "from_pkcs8_der K der_bytes =
     try_bind (map_err (\<lambda>e. CryptoError.InvalidKey (''Invalid PKCS#8 DER key: '' @ e))
                (pkcs8_from_der K der_bytes))
       (\<lambda>k. Ok \<lparr> key_signing_key = k \<rparr>)"

definition from_pkcs8_pem :: "pkcs8_lib \<Rightarrow> string \<Rightarrow> (DPoPKey, CryptoError) result" where
  "from_pkcs8_pem K pem =
     try_bind (map_err (\<lambda>e. CryptoError.Pem (''Invalid PKCS#8 PEM key: '' @ e)) (pkcs8_from_pem K pem))
       (\<lambda>k. Ok \<lparr> key_signing_key = k \<rparr>)"

definition to_pkcs8_pem :: "pkcs8_lib \<Rightarrow> DPoPKey \<Rightarrow> (string, CryptoError) result" where
  "to_pkcs8_pem K key =
     map_err (\<lambda>e. CryptoError.Pem (''Failed to export PKCS#8 PEM: '' @ e))
       (pkcs8_to_pem K (key_signing_key key))"

text \<open>A key is persisted as its PEM text; errors are reported by their text.\<close>

definition serialize_key :: "pkcs8_lib \<Rightarrow> DPoPKey \<Rightarrow> (string, string) result" where
  "serialize_key K key = map_err show_crypto_error (to_pkcs8_pem K key)"

definition deserialize_key :: "pkcs8_lib \<Rightarrow> string \<Rightarrow> (DPoPKey, string) result" where
  "deserialize_key K s = map_err show_crypto_error (from_pkcs8_pem K s)"

definition key_to_bytes :: "pkcs8_lib \<Rightarrow> DPoPKey \<Rightarrow> bytes" where
  "key_to_bytes K key = scalar_to_bytes K (key_signing_key key)"

definition to_bytes_b64 :: "crypto_lib \<Rightarrow> pkcs8_lib \<Rightarrow> DPoPKey \<Rightarrow> string" where
  "to_bytes_b64 L K key = base64url_encode L (key_to_bytes K key)"

definition from_slice :: "pkcs8_lib \<Rightarrow> bytes \<Rightarrow> (DPoPKey, CryptoError) result" where
  "from_slice K bs =
     try_bind (map_err (\<lambda>e. CryptoError.InvalidKey (''Invalid P-256 scalar bytes: '' @ e))
                (scalar_from_slice K bs))
       (\<lambda>k. Ok \<lparr> key_signing_key = k \<rparr>)"

definition from_bytes_b64 :: "crypto_lib \<Rightarrow> pkcs8_lib \<Rightarrow> string \<Rightarrow> (DPoPKey, CryptoError) result" where
  "from_bytes_b64 L K b64 = try_bind (base64url_decode L b64) (\<lambda>bs. from_slice K bs)"

section \<open>Creating proofs\<close>

text \<open>The derived \<open>Serialize\<close> of a public key: one member per field.\<close>

definition jwk_to_value :: "JwkEc \<Rightarrow> json" where
  "jwk_to_value j = JObject [''kty'' \<mapsto> JString (jwk_kty j), ''crv'' \<mapsto> JString (jwk_crv j),
     ''x'' \<mapsto> JString (jwk_x j), ''y'' \<mapsto> JString (jwk_y j)]"

definition proof_header :: "JwkEc \<Rightarrow> json" where
  "proof_header j = JObject [''typ'' \<mapsto> JString ''dpop+jwt'', ''alg'' \<mapsto> JString ''ES256'',
     ''jwk'' \<mapsto> jwk_to_value j]"

definition insert_trimmed :: "string \<Rightarrow> string option \<Rightarrow> (string \<Rightarrow> json option) \<Rightarrow> string \<Rightarrow> json option" where
  "insert_trimmed k v payload =
     (case v of
        Some n \<Rightarrow> if trim n \<noteq> [] then payload(k \<mapsto> JString (trim n)) else payload
      | None \<Rightarrow> payload)"

definition proof_payload ::
  "string \<Rightarrow> string \<Rightarrow> string \<Rightarrow> u64 \<Rightarrow> string option \<Rightarrow> string option \<Rightarrow> json" where
  "proof_payload jti htm htu iat nonce ath =
     JObject (insert_trimmed ''ath'' ath (insert_trimmed ''nonce'' nonce
       [''jti'' \<mapsto> JString jti, ''htm'' \<mapsto> JString htm, ''htu'' \<mapsto> JString htu,
        ''iat'' \<mapsto> JNumber (PosInt iat)]))"

text \<open>Serialise, encode and sign the two parts of a compact JWT.\<close>

definition sign_jwt :: "dpop_env \<Rightarrow> DPoPKey \<Rightarrow> json \<Rightarrow> json \<Rightarrow> (string, DPoPError) result" where
  "sign_jwt E key header payload =
     (let L = env_crypto E; J = env_serde E in
      try_bind (map_err DPoPError.Serialization (json_to_string J header)) (\<lambda>header_str.
      try_bind (map_err DPoPError.Serialization (json_to_string J payload)) (\<lambda>payload_str.
      let header_b64 = base64url_encode L (as_bytes header_str);
          payload_b64 = base64url_encode L (as_bytes payload_str);
          signing_input = header_b64 @ ''.'' @ payload_b64
      in try_bind (map_err DPoPError.Crypto (sign_p256_raw L (key_signing_key key) (as_bytes signing_input)))
           (\<lambda>sig_bytes. Ok (signing_input @ ''.'' @ base64url_encode L sig_bytes)))))"

definition jti_or_random :: "crypto_lib \<Rightarrow> string option \<Rightarrow> bytes \<Rightarrow> string" where
  "jti_or_random L jti_override jti_bytes =
     (case jti_override of Some j \<Rightarrow> j | None \<Rightarrow> base64url_encode L jti_bytes)"

definition create_proof_internal ::
  "dpop_env \<Rightarrow> DPoPKey \<Rightarrow> string \<Rightarrow> string \<Rightarrow> string option \<Rightarrow> string option \<Rightarrow> u64 \<Rightarrow> string option
   \<Rightarrow> bytes \<Rightarrow> (string, DPoPError) result" where
  "create_proof_internal E key htm htu nonce ath iat_secs jti_override jti_bytes =
     (let jti = jti_or_random (env_crypto E) jti_override jti_bytes;
          normalized_htm = to_uppercase (env_upper E) (trim htm)
      in try_bind (normalize_htu (env_url E) htu) (\<lambda>normalized_htu.
         sign_jwt E key (proof_header (public_jwk (env_crypto E) key))
           (proof_payload jti normalized_htm normalized_htu iat_secs nonce ath)))"

definition create_proof ::
  "dpop_env \<Rightarrow> DPoPKey \<Rightarrow> string \<Rightarrow> string \<Rightarrow> string option \<Rightarrow> string option \<Rightarrow> system_time
   \<Rightarrow> bytes \<Rightarrow> (string, DPoPError) result" where
  "create_proof E key htm htu nonce ath now jti_bytes =
     try_bind (map_err DPoPError.ClockSkew (unix_secs now)) (\<lambda>now_secs.
     create_proof_internal E key htm htu nonce ath now_secs None jti_bytes)"

definition public_client_jwk :: "crypto_lib \<Rightarrow> DPoPKey \<Rightarrow> json" where
  "public_client_jwk L key =
     (let jwk = public_jwk L key; kid = thumbprint L jwk in
      JObject [''kty'' \<mapsto> JString (jwk_kty jwk), ''crv'' \<mapsto> JString (jwk_crv jwk),
        ''x'' \<mapsto> JString (jwk_x jwk), ''y'' \<mapsto> JString (jwk_y jwk), ''kid'' \<mapsto> JString kid,
        ''use'' \<mapsto> JString ''sig'', ''alg'' \<mapsto> JString ''ES256''])"

definition create_client_assertion_internal ::
  "dpop_env \<Rightarrow> DPoPKey \<Rightarrow> string \<Rightarrow> string \<Rightarrow> u64 \<Rightarrow> string option \<Rightarrow> bytes
   \<Rightarrow> (string, DPoPError) result" where
  "create_client_assertion_internal E key client_id audience iat_secs jti_override jti_bytes =
     (let jti = jti_or_random (env_crypto E) jti_override jti_bytes;
          exp_secs = saturating_add iat_secs 60
      in sign_jwt E key
           (JObject [''alg'' \<mapsto> JString ''ES256'',
              ''kid'' \<mapsto> JString (jwk_thumbprint (env_crypto E) key), ''typ'' \<mapsto> JString ''jwt''])
           (JObject [''iss'' \<mapsto> JString client_id, ''sub'' \<mapsto> JString client_id,
              ''aud'' \<mapsto> JString audience, ''jti'' \<mapsto> JString jti,
              ''iat'' \<mapsto> JNumber (PosInt iat_secs), ''exp'' \<mapsto> JNumber (PosInt exp_secs)]))"

definition create_client_assertion ::
  "dpop_env \<Rightarrow> DPoPKey \<Rightarrow> string \<Rightarrow> string \<Rightarrow> system_time \<Rightarrow> bytes \<Rightarrow> (string, DPoPError) result" where
  "create_client_assertion E key client_id audience now jti_bytes =
     try_bind (map_err DPoPError.ClockSkew (unix_secs now)) (\<lambda>now_secs.
     create_client_assertion_internal E key client_id audience now_secs None jti_bytes)"

section \<open>Verifying proofs\<close>

record DPoPVerifier =
  max_clock_skew :: duration
  max_proof_age :: duration
  replay_cache :: "DPoPReplayCache option"

definition DPoPVerifier_new :: DPoPVerifier where
  "DPoPVerifier_new = \<lparr> max_clock_skew = DEFAULT_CLOCK_SKEW_LEEWAY,
     max_proof_age = DEFAULT_MAX_PROOF_AGE, replay_cache = Some DPoPReplayCache_new \<rparr>"

definition with_max_clock_skew :: "duration \<Rightarrow> DPoPVerifier \<Rightarrow> DPoPVerifier" where
  "with_max_clock_skew skew v = v\<lparr>max_clock_skew := skew\<rparr>"

definition with_max_proof_age :: "duration \<Rightarrow> DPoPVerifier \<Rightarrow> DPoPVerifier" where
  "with_max_proof_age age v = v\<lparr>max_proof_age := age\<rparr>"

definition with_replay_cache :: "DPoPReplayCache \<Rightarrow> DPoPVerifier \<Rightarrow> DPoPVerifier" where
  "with_replay_cache cache v = v\<lparr>replay_cache := Some cache\<rparr>"

definition with_replay_prevention :: "bool \<Rightarrow> DPoPVerifier \<Rightarrow> DPoPVerifier" where
  "with_replay_prevention enabled v =
     (if enabled then
        (if replay_cache v = None then v\<lparr>replay_cache := Some DPoPReplayCache_new\<rparr> else v)
      else v\<lparr>replay_cache := None\<rparr>)"

text \<open>The checks of the JOSE header: \<open>typ\<close>, \<open>alg\<close> and the embedded public key.\<close>

definition check_header :: "dpop_env \<Rightarrow> json \<Rightarrow> (JwkEc, DPoPError) result" where
  "check_header E header_val =
     try_bind (ok_or (DPoPError.InvalidHeaderTyp (''Missing '' @ sq ''typ'' @ '' header''))
       (json_get_str ''typ'' header_val)) (\<lambda>typ.
     try_bind (require (eq_ignore_ascii_case typ ''dpop+jwt'') (DPoPError.InvalidHeaderTyp typ)) (\<lambda>_.
     try_bind (ok_or (DPoPError.UnsupportedAlgorithm (''Missing '' @ sq ''alg'' @ '' header''))
       (json_get_str ''alg'' header_val)) (\<lambda>alg.
     try_bind (require (alg = ''ES256'') (DPoPError.UnsupportedAlgorithm alg)) (\<lambda>_.
     try_bind (ok_or DPoPError.MissingJwk (json_get ''jwk'' header_val)) (\<lambda>jwk_val.
     try_bind (require (json_get ''d'' jwk_val = None) DPoPError.PrivateKeyInJwk) (\<lambda>_.
     try_bind (map_err DPoPError.InvalidJwk (jwk_from_value (env_serde E) jwk_val)) (\<lambda>jwk.
     try_bind (require (jwk_kty jwk = ''EC'')
       (DPoPError.InvalidJwk (''Expected kty '' @ sq ''EC'' @ '', got '' @ sq (jwk_kty jwk)))) (\<lambda>_.
     try_bind (require (jwk_crv jwk = ''P-256'')
       (DPoPError.InvalidJwk (''Expected crv '' @ sq ''P-256'' @ '', got '' @ sq (jwk_crv jwk)))) (\<lambda>_.
     Ok jwk)))))))))"

text \<open>The comparison of an expected nonce or token hash with the claim.\<close>

definition check_bound ::
  "crypto_lib \<Rightarrow> (string \<Rightarrow> string \<Rightarrow> DPoPError) \<Rightarrow> DPoPError \<Rightarrow> string option \<Rightarrow> string option
   \<Rightarrow> (unit, DPoPError) result" where
  "check_bound L mismatch missing expected actual =
     (case expected of
        None \<Rightarrow> Ok ()
      | Some e \<Rightarrow>
          (case actual of
             Some a \<Rightarrow> if \<not> constant_time_eq L (as_bytes e) (as_bytes a) then Err (mismatch e a) else Ok ()
           | None \<Rightarrow> Err missing))"

definition check_times :: "DPoPVerifier \<Rightarrow> DPoPProofClaims \<Rightarrow> u64 \<Rightarrow> (unit, DPoPError) result" where
  "check_times v claims now =
     (let skew_secs = secs64 (max_clock_skew v); max_age_secs = secs64 (max_proof_age v) in
      if cl_iat claims > saturating_add now skew_secs
      then Err (DPoPError.FutureProof (cl_iat claims) now skew_secs)
      else if saturating_sub now (cl_iat claims) > max_age_secs
      then Err (DPoPError.ProofTooOld (cl_iat claims) now max_age_secs)
      else (case cl_exp claims of
              Some e \<Rightarrow> if saturating_add e skew_secs < now then Err (DPoPError.ExpiredProof e now)
                        else Ok ()
            | None \<Rightarrow> Ok ()))"

text \<open>The checks of the claims against the request, \<open>now\<close> being the clock reading of the last one.\<close>

definition check_claims ::
  "dpop_env \<Rightarrow> DPoPVerifier \<Rightarrow> DPoPProofClaims \<Rightarrow> string \<Rightarrow> string \<Rightarrow> string option \<Rightarrow> string option
   \<Rightarrow> system_time \<Rightarrow> (unit, DPoPError) result" where
  "check_claims E v claims expected_htm expected_htu expected_nonce expected_ath now =
     (let L = env_crypto E in
      try_bind (require (trim (cl_jti claims) \<noteq> []) (DPoPError.MissingClaim ''jti'')) (\<lambda>_.
      try_bind (require (length (cl_jti claims) \<le> MAX_JTI_LENGTH)
        (DPoPError.JtiTooLong MAX_JTI_LENGTH (length (cl_jti claims)))) (\<lambda>_.
      try_bind (require (eq_ignore_ascii_case (cl_htm claims) expected_htm)
        (DPoPError.MethodMismatch (to_uppercase (env_upper E) expected_htm) (cl_htm claims))) (\<lambda>_.
      try_bind (normalize_htu (env_url E) expected_htu) (\<lambda>norm_expected_htu.
      try_bind (normalize_htu (env_url E) (cl_htu claims)) (\<lambda>norm_claims_htu.
      try_bind (require (norm_claims_htu = norm_expected_htu)
        (DPoPError.UriMismatch norm_expected_htu (cl_htu claims))) (\<lambda>_.
      try_bind (check_bound L DPoPError.NonceMismatch DPoPError.MissingNonce
        expected_nonce (cl_nonce claims)) (\<lambda>_.
      try_bind (check_bound L DPoPError.AthMismatch DPoPError.MissingAth
        expected_ath (cl_ath claims)) (\<lambda>_.
      try_bind (map_err DPoPError.ClockSkew (unix_secs now)) (\<lambda>now_secs.
      check_times v claims now_secs))))))))))"

definition verify_proof_no_replay ::
  "dpop_env \<Rightarrow> DPoPVerifier \<Rightarrow> string \<Rightarrow> string \<Rightarrow> string \<Rightarrow> string option \<Rightarrow> string option
   \<Rightarrow> system_time option \<Rightarrow> system_time \<Rightarrow> (DPoPProofClaims \<times> JwkEc, DPoPError) result" where
  "verify_proof_no_replay E v proof_jwt expected_htm expected_htu expected_nonce expected_ath
     now_override clock =
     (let L = env_crypto E; J = env_serde E in
      case split_on (CHR ''.'') (trim proof_jwt) of
        [p0, p1, p2] \<Rightarrow>
          try_bind (map_err DPoPError.Crypto (base64url_decode L p0)) (\<lambda>header_bytes.
          try_bind (map_err DPoPError.Crypto (base64url_decode L p1)) (\<lambda>payload_bytes.
          try_bind (map_err DPoPError.Crypto (base64url_decode L p2)) (\<lambda>signature_bytes.
          try_bind (map_err (\<lambda>e. DPoPError.MalformedJwt (''Failed to parse header JSON: '' @ e))
            (json_from_slice J header_bytes)) (\<lambda>header_val.
          try_bind (check_header E header_val) (\<lambda>jwk.
          try_bind (map_err DPoPError.Crypto (to_verifying_key L jwk)) (\<lambda>verifying_key.
          try_bind (map_err (\<lambda>_. DPoPError.SignatureVerificationFailed)
            (verify_p256_raw L verifying_key (as_bytes (p0 @ ''.'' @ p1)) signature_bytes)) (\<lambda>_.
          try_bind (map_err (\<lambda>e. DPoPError.MalformedJwt (''Failed to parse payload JSON: '' @ e))
            (claims_from_slice J payload_bytes)) (\<lambda>claims.
          try_bind (check_claims E v claims expected_htm expected_htu expected_nonce expected_ath
            (case now_override of Some t \<Rightarrow> t | None \<Rightarrow> clock)) (\<lambda>_.
          Ok (claims, jwk))))))))))
      | parts \<Rightarrow> Err (DPoPError.MalformedJwt
          (''Expected 3 parts in compact JWT, got '' @ show_nat (length parts))))"

definition admission_expiry :: "DPoPVerifier \<Rightarrow> u64 \<Rightarrow> u64" where
  "admission_expiry v now =
     saturating_add (saturating_add now (secs64 (max_proof_age v))) (secs64 (max_clock_skew v))"

definition record_admission ::
  "dpop_env \<Rightarrow> string \<Rightarrow> string \<Rightarrow> u64 \<Rightarrow> u64 \<Rightarrow> DPoPVerifier \<Rightarrow> DPoPVerifier \<times> (unit, DPoPError) result" where
  "record_admission E jkt jti expires_at now v =
     (case replay_cache v of
        None \<Rightarrow> (v, Ok ())
      | Some cache \<Rightarrow>
          (let (cache', r) = check_and_record (env_hash E) jkt jti expires_at now cache in
           (v\<lparr>replay_cache := Some cache'\<rparr>, r)))"

text \<open>\<open>clock\<close> is the reading of the time check and \<open>clock'\<close> that of the replay admission.\<close>

definition verify_proof ::
  "dpop_env \<Rightarrow> string \<Rightarrow> string \<Rightarrow> string \<Rightarrow> string option \<Rightarrow> string option \<Rightarrow> system_time option
   \<Rightarrow> system_time \<Rightarrow> system_time \<Rightarrow> DPoPVerifier
   \<Rightarrow> DPoPVerifier \<times> (DPoPProofClaims \<times> JwkEc, DPoPError) result" where
  "verify_proof E proof_jwt expected_htm expected_htu expected_nonce expected_ath now_override
     clock clock' v =
     (case verify_proof_no_replay E v proof_jwt expected_htm expected_htu expected_nonce expected_ath
             now_override clock of
        Err e \<Rightarrow> (v, Err e)
      | Ok (claims, jwk) \<Rightarrow>
          (case unix_secs clock' of
             Err e \<Rightarrow> (v, Err (DPoPError.ClockSkew e))
           | Ok now \<Rightarrow>
               (let (v', r) = record_admission E (thumbprint (env_crypto E) jwk) (cl_jti claims)
                      (admission_expiry v now) now v
                in (v', try_bind r (\<lambda>_. Ok (claims, jwk))))))"

record ReplayAdmission =
  adm_jkt :: string
  adm_jti :: string
  adm_expires_at :: u64
  adm_now :: u64

definition verify_proof_deferred ::
  "dpop_env \<Rightarrow> string \<Rightarrow> string \<Rightarrow> string \<Rightarrow> string option \<Rightarrow> string option \<Rightarrow> system_time option
   \<Rightarrow> system_time \<Rightarrow> system_time \<Rightarrow> DPoPVerifier
   \<Rightarrow> (DPoPProofClaims \<times> JwkEc \<times> ReplayAdmission, DPoPError) result" where
  "verify_proof_deferred E proof_jwt expected_htm expected_htu expected_nonce expected_ath
     now_override clock clock' v =
     try_bind (verify_proof_no_replay E v proof_jwt expected_htm expected_htu expected_nonce
       expected_ath now_override clock) (\<lambda>(claims, jwk).
     let jkt = thumbprint (env_crypto E) jwk in
     try_bind (map_err DPoPError.ClockSkew (unix_secs clock')) (\<lambda>now.
     Ok (claims, jwk,
       \<lparr> adm_jkt = jkt, adm_jti = cl_jti claims, adm_expires_at = admission_expiry v now,
         adm_now = now \<rparr>)))"

definition commit_replay_admission ::
  "dpop_env \<Rightarrow> ReplayAdmission \<Rightarrow> DPoPVerifier \<Rightarrow> DPoPVerifier \<times> (unit, DPoPError) result" where
  "commit_replay_admission E admission v =
     record_admission E (adm_jkt admission) (adm_jti admission) (adm_expires_at admission)
       (adm_now admission) v"

end
