(* ===== verification/Dpop_Props.thy ===== *)
theory Dpop_Props
  imports Dpop
begin

text \<open>
  Properties of DPoP proofs: what an accepted proof guarantees, that the proofs the crate
  creates are accepted, that the two-step admission is the one-step admission, and how far
  the replay cache protects the acceptance window.
\<close>

section \<open>Documented behaviour of serde at given values\<close>

definition opt_member :: "string \<Rightarrow> json option \<Rightarrow> (string \<Rightarrow> json option) \<Rightarrow> string \<Rightarrow> json option" where
  "opt_member k v m = (case v of Some x \<Rightarrow> m(k \<mapsto> x) | None \<Rightarrow> m)"

text \<open>The derived \<open>Serialize\<close> of the claims: one member per field, absent options skipped.\<close>

definition claims_to_value :: "DPoPProofClaims \<Rightarrow> json" where
  "claims_to_value c = JObject
     (opt_member ''ath'' (map_option JString (cl_ath c))
     (opt_member ''nonce'' (map_option JString (cl_nonce c))
     (opt_member ''exp'' (map_option (\<lambda>n. JNumber (PosInt n)) (cl_exp c))
       [''jti'' \<mapsto> JString (cl_jti c), ''htm'' \<mapsto> JString (cl_htm c), ''htu'' \<mapsto> JString (cl_htu c),
        ''iat'' \<mapsto> JNumber (PosInt (cl_iat c))])))"

text \<open>A value, a public key and a claims struct are read back from what was written.\<close>

definition serde_value_ok :: "dpop_serde \<Rightarrow> json \<Rightarrow> bool" where
  "serde_value_ok J v = (\<exists>t. json_to_string J v = Ok t \<and> json_from_slice J (as_bytes t) = Ok v)"

definition serde_jwk_ok :: "dpop_serde \<Rightarrow> JwkEc \<Rightarrow> bool" where
  "serde_jwk_ok J j = (jwk_from_value J (jwk_to_value j) = Ok j)"

definition serde_claims_ok :: "dpop_serde \<Rightarrow> DPoPProofClaims \<Rightarrow> bool" where
  "serde_claims_ok J c =
     (\<exists>t. json_to_string J (claims_to_value c) = Ok t \<and> claims_from_slice J (as_bytes t) = Ok c)"

section \<open>Sequences of requests\<close>

record dpop_request =
  rq_proof :: string
  rq_htm :: string
  rq_htu :: string
  rq_nonce :: "string option"
  rq_ath :: "string option"
  rq_clock :: system_time
  rq_clock' :: system_time

definition handle_request ::
  "dpop_env \<Rightarrow> dpop_request \<Rightarrow> DPoPVerifier \<Rightarrow> DPoPVerifier \<times> (DPoPProofClaims \<times> JwkEc, DPoPError) result" where
  "handle_request E rq v =
     verify_proof E (rq_proof rq) (rq_htm rq) (rq_htu rq) (rq_nonce rq) (rq_ath rq) None
       (rq_clock rq) (rq_clock' rq) v"

fun handle_requests :: "dpop_env \<Rightarrow> dpop_request list \<Rightarrow> DPoPVerifier \<Rightarrow> DPoPVerifier" where
  "handle_requests E [] v = v"
| "handle_requests E (rq # rqs) v = handle_requests E rqs (fst (handle_request E rq v))"

text \<open>The claims a created proof carries.\<close>

definition trimmed_opt :: "string option \<Rightarrow> string option" where
  "trimmed_opt v = (case v of Some n \<Rightarrow> if trim n \<noteq> [] then Some (trim n) else None | None \<Rightarrow> None)"

definition created_claims ::
  "dpop_env \<Rightarrow> string \<Rightarrow> string \<Rightarrow> string option \<Rightarrow> string option \<Rightarrow> u64 \<Rightarrow> bytes \<Rightarrow> DPoPProofClaims" where
  "created_claims E htm norm_htu nonce ath iat jti_bytes =
     \<lparr> cl_jti = base64url_encode (env_crypto E) jti_bytes,
       cl_htm = to_uppercase (env_upper E) (trim htm), cl_htu = norm_htu, cl_iat = iat,
       cl_exp = None, cl_nonce = trimmed_opt nonce, cl_ath = trimmed_opt ath \<rparr>"

section \<open>The verifier's cache\<close>

definition verifier_inv :: "dpop_env \<Rightarrow> DPoPVerifier \<Rightarrow> bool" where
  "verifier_inv E v = (\<forall>c. replay_cache v = Some c \<longrightarrow> replay_inv (env_hash E) c)"

definition verifier_expiry :: "dpop_env \<Rightarrow> DPoPVerifier \<Rightarrow> string \<Rightarrow> u64 option" where
  "verifier_expiry E v k =
     (case replay_cache v of Some c \<Rightarrow> replay_expiry (env_hash E) c k | None \<Rightarrow> None)"

definition admission_before :: "u64 \<Rightarrow> dpop_request \<Rightarrow> bool" where
  "admission_before e0 rq =
     (case unix_secs (rq_clock' rq) of Ok now \<Rightarrow> now < e0 | Err _ \<Rightarrow> True)"

section \<open>A concrete environment\<close>

definition sample_key :: DPoPKey where
  "sample_key = \<lparr> key_signing_key = replicate 32 7 \<rparr>"

definition sample_claims :: DPoPProofClaims where
  "sample_claims = \<lparr> cl_jti = base64url_encode sample_lib (replicate 16 0),
     cl_htm = to_uppercase id (trim ''GET''), cl_htu = ''https://as.example:81/token'', cl_iat = 60,
     cl_exp = None, cl_nonce = None, cl_ath = None \<rparr>"

definition sample_serde :: dpop_serde where
  "sample_serde = \<lparr>
     json_to_string = (\<lambda>v. Ok (if json_get ''typ'' v = None then ''P'' else ''H'')),
     json_from_slice = (\<lambda>bs. if bs = as_bytes ''H''
       then Ok (proof_header (public_jwk sample_lib sample_key)) else Err ''expected value''),
     jwk_from_value = (\<lambda>v. Ok (public_jwk sample_lib sample_key)),
     claims_from_slice = (\<lambda>bs. if bs = as_bytes ''P'' then Ok sample_claims else Err ''expected value'') \<rparr>"

definition sample_env :: dpop_env where
  "sample_env = \<lparr> env_crypto = sample_lib, env_serde = sample_serde, env_url = sample_parse,
     env_hash = (\<lambda>_. 3), env_upper = id \<rparr>"

definition sample_request :: "string \<Rightarrow> dpop_request" where
  "sample_request pr = \<lparr> rq_proof = pr, rq_htm = ''GET'', rq_htu = ''u'', rq_nonce = None,
     rq_ath = None, rq_clock = 0, rq_clock' = 0 \<rparr>"

section \<open>Lemmas: what acceptance means\<close>

lemma check_bound_Ok:
  assumes "ct_eq_documented L"
  shows "check_bound L mm ms expected actual = Ok u \<longleftrightarrow> (expected = None \<or> actual = expected)"
  using assms
  by (auto simp: check_bound_def constant_time_eq_iff split: option.splits)

lemma check_times_Ok:
  "check_times v c now = Ok u \<longleftrightarrow>
     unat (cl_iat c) \<le> unat now + unat (secs64 (max_clock_skew v))
     \<and> unat now \<le> unat (cl_iat c) + unat (secs64 (max_proof_age v))
     \<and> (\<forall>e. cl_exp c = Some e \<longrightarrow> unat now \<le> unat e + unat (secs64 (max_clock_skew v)))"
proof -
  have "unat (cl_iat c) \<le> 2 ^ 64 - 1" "unat now \<le> 2 ^ 64 - 1"
    using unat_u64_less [of "cl_iat c"] unat_u64_less [of now] by simp_all
  thus ?thesis
    by (auto simp: check_times_def Let_def word_less_nat_alt unat_saturating_add unat_saturating_sub
        not_less split: option.split)
qed

lemma check_header_Ok:
  "check_header E hv = Ok jwk \<longleftrightarrow>
     (\<exists>typ jv. json_get_str ''typ'' hv = Some typ \<and> eq_ignore_ascii_case typ ''dpop+jwt''
        \<and> json_get_str ''alg'' hv = Some ''ES256'' \<and> json_get ''jwk'' hv = Some jv
        \<and> json_get ''d'' jv = None \<and> jwk_from_value (env_serde E) jv = Ok jwk
        \<and> jwk_kty jwk = ''EC'' \<and> jwk_crv jwk = ''P-256'')"
  by (auto simp: check_header_def)

lemma verify_no_replay_Ok:
  "verify_proof_no_replay E v p m u n a ov clk = Ok (claims, jwk) \<longleftrightarrow>
     (\<exists>p0 p1 p2 hb pb sb hv vk. split_on (CHR ''.'') (trim p) = [p0, p1, p2]
        \<and> base64url_decode (env_crypto E) p0 = Ok hb \<and> base64url_decode (env_crypto E) p1 = Ok pb
        \<and> base64url_decode (env_crypto E) p2 = Ok sb
        \<and> json_from_slice (env_serde E) hb = Ok hv \<and> check_header E hv = Ok jwk
        \<and> to_verifying_key (env_crypto E) jwk = Ok vk
        \<and> verify_p256_raw (env_crypto E) vk (as_bytes (p0 @ ''.'' @ p1)) sb = Ok ()
        \<and> claims_from_slice (env_serde E) pb = Ok claims
        \<and> check_claims E v claims m u n a (case ov of Some t \<Rightarrow> t | None \<Rightarrow> clk) = Ok ())"
  unfolding verify_proof_no_replay_def Let_def
  by (auto split: list.split)

lemma check_claims_Ok:
  assumes "ct_eq_documented (env_crypto E)"
  shows "check_claims E v c m u n a t = Ok x \<longleftrightarrow>
    trim (cl_jti c) \<noteq> [] \<and> length (cl_jti c) \<le> MAX_JTI_LENGTH
    \<and> eq_ignore_ascii_case (cl_htm c) m
    \<and> (\<exists>h. normalize_htu (env_url E) u = Ok h \<and> normalize_htu (env_url E) (cl_htu c) = Ok h)
    \<and> (n = None \<or> cl_nonce c = n) \<and> (a = None \<or> cl_ath c = a)
    \<and> (\<exists>now. unix_secs t = Ok now \<and> check_times v c now = Ok ())"
  by (auto simp: check_claims_def Let_def check_bound_Ok [OF assms])

lemma split_three_join:
  "split_on c s = [x, y, z] \<Longrightarrow> s = x @ [c] @ y @ [c] @ z"
  using join_split_on [of c s] by simp

lemma verify_proof_eq:
  "verify_proof E p m u n a ov clk clk' v =
     (case verify_proof_deferred E p m u n a ov clk clk' v of
        Err e \<Rightarrow> (v, Err e)
      | Ok (claims, jwk, adm) \<Rightarrow>
          (case commit_replay_admission E adm v of
             (v', r) \<Rightarrow> (v', try_bind r (\<lambda>_. Ok (claims, jwk)))))"
proof (cases "verify_proof_no_replay E v p m u n a ov clk")
  case (Ok x)
  obtain claims jwk where "x = (claims, jwk)"
    by fastforce
  with Ok show ?thesis
    by (cases "unix_secs clk'")
      (simp_all add: verify_proof_def verify_proof_deferred_def commit_replay_admission_def Let_def)
next
  case (Err e)
  thus ?thesis
    by (simp add: verify_proof_def verify_proof_deferred_def)
qed

section \<open>Lemmas: created proofs\<close>

lemma insert_trimmed_eq:
  "insert_trimmed k v m = opt_member k (map_option JString (trimmed_opt v)) m"
  by (simp add: insert_trimmed_def opt_member_def trimmed_opt_def split: option.split)

lemma proof_payload_eq:
  "proof_payload (base64url_encode (env_crypto E) jti_bytes) (to_uppercase (env_upper E) (trim htm)) nh
     iat nonce ath = claims_to_value (created_claims E htm nh nonce ath iat jti_bytes)"
  by (simp add: proof_payload_def claims_to_value_def created_claims_def insert_trimmed_eq
      opt_member_def [of "''exp''"])

lemma base64url_props:
  assumes "b64_documented L"
  shows "list_all is_b64url_char (base64url_encode L d)"
    "length (base64url_encode L d) = (4 * length d + 2) div 3"
    "base64url_decode L (base64url_encode L d) = Ok d"
proof -
  show "list_all is_b64url_char (base64url_encode L d)"
    "length (base64url_encode L d) = (4 * length d + 2) div 3"
    using assms by (simp_all add: b64_documented_def base64url_encode_def)
  have "b64_decode_nopad L (base64url_encode L d) = Ok d"
    using assms by (simp add: b64_documented_def base64url_encode_def)
  thus "base64url_decode L (base64url_encode L d) = Ok d"
    by (simp add: base64url_decode_def trim_base64url [OF assms])
qed

lemma b64_no_sep:
  assumes "b64_documented L"
  shows "CHR ''.'' \<notin> set (base64url_encode L d)" "CHR '':'' \<notin> set (base64url_encode L d)"
proof -
  have "\<not> is_b64url_char (CHR ''.'')" "\<not> is_b64url_char (CHR '':'')"
    by code_simp+
  thus "CHR ''.'' \<notin> set (base64url_encode L d)" "CHR '':'' \<notin> set (base64url_encode L d)"
    using base64url_props(1) [OF assms, of d] by (auto simp: list_all_iff)
qed

lemma to_verifying_key_public_jwk:
  assumes "b64_documented L" "p256_documented L"
  shows "to_verifying_key L (public_jwk L key) = Ok (p256_verifying_key L (key_signing_key key))"
proof -
  let ?vk = "p256_verifying_key L (key_signing_key key)"
  obtain x y where xy: "p256_point_x L ?vk = Some x" "p256_point_y L ?vk = Some y"
    "length x = 32" "length y = 32" "p256_from_sec1 L (0x04 # x @ y) = Ok ?vk"
    using assms(2) unfolding p256_documented_def by blast
  hence "verifying_key_to_coordinates L ?vk = (x, y)"
    by (simp add: verifying_key_to_coordinates_def copy_coordinate_32)
  thus ?thesis
    using xy by (simp add: to_verifying_key_def public_jwk_def base64url_decode_fixed_def
        base64url_props(3) [OF assms(1)] verifying_key_from_coordinates_def)
qed

lemma verify_own_signature:
  assumes "p256_documented L"
  shows "sign_p256_raw L k m = Ok (p256_sign L k m)"
    "verify_p256_raw L (p256_verifying_key L k) m (p256_sign L k m) = Ok ()"
proof -
  have "length (p256_sign L k m) = 64"
    "p256_signature_from_slice L (p256_sign L k m) = Ok (p256_sign L k m)"
    "p256_verify L (p256_verifying_key L k) m (p256_sign L k m) = Ok ()"
    using assms by (simp_all add: p256_documented_def)
  thus "sign_p256_raw L k m = Ok (p256_sign L k m)"
    "verify_p256_raw L (p256_verifying_key L k) m (p256_sign L k m) = Ok ()"
    by (simp_all add: sign_p256_raw_def verify_p256_raw_def)
qed

text \<open>A compact JWT of three encoded parts has just these parts.\<close>

lemma trim_compact:
  assumes "b64_documented L"
  shows "trim (base64url_encode L a @ ''.'' @ base64url_encode L b @ ''.'' @ base64url_encode L c)
    = base64url_encode L a @ ''.'' @ base64url_encode L b @ ''.'' @ base64url_encode L c"
proof -
  have "list_all is_visible_ascii (base64url_encode L x)" for x
    using base64url_props(1) [OF assms] by (rule b64url_visible)
  moreover have "is_visible_ascii (CHR ''.'')"
    by code_simp
  ultimately show ?thesis
    by (intro trim_visible) simp
qed

lemma split_compact:
  assumes "b64_documented L"
  shows "split_on (CHR ''.'') (trim (base64url_encode L a @ ''.'' @ base64url_encode L b @ ''.'' @ base64url_encode L c))
    = [base64url_encode L a, base64url_encode L b, base64url_encode L c]"
  unfolding trim_compact [OF assms] using b64_no_sep(1) [OF assms] by (simp add: split_on_append split_on_single)

text \<open>The parts of a signed JWT.\<close>

lemma sign_jwt_parts:
  assumes "b64_documented (env_crypto E)" "p256_documented (env_crypto E)"
    and "json_to_string (env_serde E) hv = Ok ht" "json_to_string (env_serde E) pv = Ok pt"
  defines "h \<equiv> base64url_encode (env_crypto E) (as_bytes ht)"
    and "p \<equiv> base64url_encode (env_crypto E) (as_bytes pt)"
  obtains s where "sign_jwt E key hv pv = Ok s" "split_on (CHR ''.'') (trim s) =
      [h, p, base64url_encode (env_crypto E)
        (p256_sign (env_crypto E) (key_signing_key key) (as_bytes (h @ ''.'' @ p)))]"
proof -
  let ?sig = "base64url_encode (env_crypto E)
    (p256_sign (env_crypto E) (key_signing_key key) (as_bytes (h @ ''.'' @ p)))"
  let ?s = "h @ ''.'' @ p @ ''.'' @ ?sig"
  have "split_on (CHR ''.'') (trim ?s) = [h, p, ?sig]"
    unfolding h_def p_def by (rule split_compact [OF assms(1)])
  moreover have "sign_jwt E key hv pv = Ok ?s"
    using verify_own_signature(1) [OF assms(2)] assms(3,4)
    by (simp add: sign_jwt_def h_def p_def Let_def)
  ultimately show thesis
    using that [of ?s] by simp
qed

lemma method_matches:
  assumes "list_all is_visible_ascii htm"
  shows "eq_ignore_ascii_case (to_uppercase up (trim htm)) htm"
proof -
  have "ascii_lower_char (ascii_upper_char c) = ascii_lower_char c" if "is_visible_ascii c" for c
  proof -
    have "(code c - 32) mod 256 = code c - 32"
      using code_less_256 [of c] by (intro mod_less) linarith
    thus ?thesis
      using that by (auto simp: ascii_lower_char_def ascii_upper_char_def is_visible_ascii_def
          ascii_simps code_inj [symmetric])
  qed
  hence "map (ascii_lower_char \<circ> ascii_upper_char) htm = map ascii_lower_char htm"
    using assms by (auto simp: list_all_iff)
  moreover have "list_all is_ascii htm"
    using assms by (auto simp: list_all_iff is_visible_ascii_def is_ascii_def)
  ultimately show ?thesis
    by (simp add: eq_ignore_ascii_case_def to_uppercase_def trim_visible [OF assms]
        to_ascii_lowercase_def to_ascii_uppercase_def)
qed

lemma header_checks:
  "serde_jwk_ok (env_serde E) (public_jwk L key) \<Longrightarrow>
     check_header E (proof_header (public_jwk L key)) = Ok (public_jwk L key)"
proof -
  have "eq_ignore_ascii_case ''dpop+jwt'' ''dpop+jwt''"
    by (simp add: eq_ignore_ascii_case_def)
  thus "serde_jwk_ok (env_serde E) (public_jwk L key) \<Longrightarrow>
     check_header E (proof_header (public_jwk L key)) = Ok (public_jwk L key)"
    by (auto simp: check_header_Ok proof_header_def json_get_str_def jwk_to_value_def serde_jwk_ok_def
        public_jwk_def split_beta)
qed

lemma created_proof_accepted:
  assumes crypto: "b64_documented (env_crypto E)" "p256_documented (env_crypto E)"
      "ct_eq_documented (env_crypto E)"
    and url: "url_documented (env_url E)" "url_canonical (env_url E)"
    and serde: "serde_value_ok (env_serde E) (proof_header (public_jwk (env_crypto E) key))"
      "serde_jwk_ok (env_serde E) (public_jwk (env_crypto E) key)"
      "serde_claims_ok (env_serde E) (created_claims E htm nh nonce ath iat jti_bytes)"
    and input: "normalize_htu (env_url E) htu = Ok nh" "list_all is_visible_ascii htm"
      "length jti_bytes = 16" "unix_secs now = Ok iat"
    and window: "unix_secs clk = Ok now'" "unat iat \<le> unat now' + unat (secs64 (max_clock_skew v))"
      "unat now' \<le> unat iat + unat (secs64 (max_proof_age v))"
    and expected: "en = None \<or> en = trimmed_opt nonce" "ea = None \<or> ea = trimmed_opt ath"
  obtains pr where "create_proof E key htm htu nonce ath now jti_bytes = Ok pr"
    "verify_proof_no_replay E v pr htm htu en ea None clk =
       Ok (created_claims E htm nh nonce ath iat jti_bytes, public_jwk (env_crypto E) key)"
proof -
  let ?L = "env_crypto E" and ?J = "env_serde E"
  let ?c = "created_claims E htm nh nonce ath iat jti_bytes" and ?jwk = "public_jwk ?L key"
  obtain ht where ht: "json_to_string ?J (proof_header ?jwk) = Ok ht"
    "json_from_slice ?J (as_bytes ht) = Ok (proof_header ?jwk)"
    using serde(1) by (auto simp: serde_value_ok_def)
  obtain pt where pt: "json_to_string ?J (claims_to_value ?c) = Ok pt"
    "claims_from_slice ?J (as_bytes pt) = Ok ?c"
    using serde(3) by (auto simp: serde_claims_ok_def)
  obtain pr where pr: "sign_jwt E key (proof_header ?jwk) (claims_to_value ?c) = Ok pr"
    "split_on (CHR ''.'') (trim pr) = [base64url_encode ?L (as_bytes ht), base64url_encode ?L (as_bytes pt),
       base64url_encode ?L (p256_sign ?L (key_signing_key key)
         (as_bytes (base64url_encode ?L (as_bytes ht) @ ''.'' @ base64url_encode ?L (as_bytes pt))))]"
    by (rule sign_jwt_parts [OF crypto(1,2) ht(1) pt(1), of key])
  have "length (cl_jti ?c) = 22" "trim (cl_jti ?c) = cl_jti ?c"
    using base64url_props(2) [OF crypto(1), of jti_bytes] crypto(1) input(3)
    by (simp_all add: created_claims_def)
  hence jti: "trim (cl_jti ?c) \<noteq> []" "length (cl_jti ?c) \<le> MAX_JTI_LENGTH"
    by (auto simp: MAX_JTI_LENGTH_def)
  have "check_claims E v ?c htm htu en ea clk = Ok ()"
    unfolding check_claims_Ok [OF crypto(3)] check_times_Ok
    using jti method_matches [OF input(2), of "env_upper E"] input(1) normalize_htu_idem(1) [OF url input(1)]
      expected window
    by (auto simp: created_claims_def)
  hence "verify_proof_no_replay E v pr htm htu en ea None clk = Ok (?c, ?jwk)"
    unfolding verify_no_replay_Ok pr(2)
    using ht(2) pt(2) header_checks [OF serde(2)] to_verifying_key_public_jwk [OF crypto(1,2), of key]
      verify_own_signature(2) [OF crypto(2)] base64url_props(3) [OF crypto(1)]
    by simp
  moreover have "create_proof E key htm htu nonce ath now jti_bytes = Ok pr"
    using pr(1) input(1,4)
    by (simp add: create_proof_def create_proof_internal_def jti_or_random_def proof_payload_eq)
  ultimately show thesis
    by (rule that [rotated])
qed

section \<open>Lemmas: replay\<close>

lemma record_admission_props:
  assumes inv: "verifier_inv E v" and run: "record_admission E jkt jti e now v = (v', r)"
  shows "verifier_inv E v'" "max_clock_skew v' = max_clock_skew v" "max_proof_age v' = max_proof_age v"
    "replay_cache v' = None \<longleftrightarrow> replay_cache v = None"
    "verifier_expiry E v k = Some e0 \<Longrightarrow> now < e0 \<Longrightarrow> verifier_expiry E v' k = Some e0"
    "r = Ok u \<Longrightarrow> verifier_expiry E v (composite_key jkt jti) = Some e0 \<Longrightarrow> e0 \<le> now"
    "r = Ok u \<Longrightarrow> replay_cache v \<noteq> None \<Longrightarrow> verifier_expiry E v' (composite_key jkt jti) = Some e"
proof -
  have *: "replay_cache v = None \<and> v' = v
    \<or> (\<exists>c c'. replay_cache v = Some c \<and> v' = v\<lparr>replay_cache := Some c'\<rparr> \<and> replay_inv (env_hash E) c
         \<and> check_and_record (env_hash E) jkt jti e now c = (c', r))"
    using run inv by (auto simp: record_admission_def verifier_inv_def split: option.splits prod.splits)
  show "verifier_inv E v'" "max_clock_skew v' = max_clock_skew v" "max_proof_age v' = max_proof_age v"
    "replay_cache v' = None \<longleftrightarrow> replay_cache v = None"
    using * inv check_and_record_inv by (auto simp: verifier_inv_def)
  show "verifier_expiry E v k = Some e0 \<Longrightarrow> now < e0 \<Longrightarrow> verifier_expiry E v' k = Some e0"
    using * check_and_record_keeps_live by (auto simp: verifier_expiry_def)
  show "r = Ok u \<Longrightarrow> verifier_expiry E v (composite_key jkt jti) = Some e0 \<Longrightarrow> e0 \<le> now"
    using * check_and_record_Ok(2) by (auto simp: verifier_expiry_def)
  show "r = Ok u \<Longrightarrow> replay_cache v \<noteq> None \<Longrightarrow> verifier_expiry E v' (composite_key jkt jti) = Some e"
    using * check_and_record_Ok(1) by (auto simp: verifier_expiry_def)
qed

text \<open>A request leaves the verifier alone or admits its pair.\<close>

lemma handle_request_cases:
  assumes "handle_request E rq v = (v', r)"
  obtains (kept) e where "v' = v" "r = Err e"
  | (admission) claims jwk now ra where "unix_secs (rq_clock' rq) = Ok now"
      "verify_proof_no_replay E v (rq_proof rq) (rq_htm rq) (rq_htu rq) (rq_nonce rq) (rq_ath rq) None
         (rq_clock rq) = Ok (claims, jwk)"
      "record_admission E (thumbprint (env_crypto E) jwk) (cl_jti claims) (admission_expiry v now) now v
         = (v', ra)"
      "try_bind ra (\<lambda>_. Ok (claims, jwk)) = r"
proof (cases "verify_proof_no_replay E v (rq_proof rq) (rq_htm rq) (rq_htu rq) (rq_nonce rq) (rq_ath rq)
    None (rq_clock rq)")
  case (Err e)
  with assms show ?thesis
    by (intro kept [of e]) (simp_all add: handle_request_def verify_proof_def)
next
  case (Ok x)
  obtain claims jwk where x: "x = (claims, jwk)"
    by fastforce
  show ?thesis
  proof (cases "unix_secs (rq_clock' rq)")
    case (Err e)
    with assms Ok x show ?thesis
      by (intro kept [of "DPoPError.ClockSkew e"]) (simp_all add: handle_request_def verify_proof_def)
  next
    case now: (Ok now)
    obtain v1 ra where "record_admission E (thumbprint (env_crypto E) jwk) (cl_jti claims)
        (admission_expiry v now) now v = (v1, ra)"
      by fastforce
    with assms Ok x now show ?thesis
      by (intro admission [of now claims jwk ra]) (simp_all add: handle_request_def verify_proof_def)
  qed
qed

lemma handle_request_keeps:
  assumes "verifier_inv E v"
  shows "verifier_inv E (fst (handle_request E rq v))"
    "max_clock_skew (fst (handle_request E rq v)) = max_clock_skew v"
    "max_proof_age (fst (handle_request E rq v)) = max_proof_age v"
    "verifier_expiry E v k = Some e0 \<Longrightarrow> admission_before e0 rq \<Longrightarrow>
       verifier_expiry E (fst (handle_request E rq v)) k = Some e0"
proof -
  obtain v' r where run: "handle_request E rq v = (v', r)"
    by fastforce
  have "verifier_inv E v' \<and> max_clock_skew v' = max_clock_skew v \<and> max_proof_age v' = max_proof_age v
    \<and> (verifier_expiry E v k = Some e0 \<longrightarrow> admission_before e0 rq \<longrightarrow> verifier_expiry E v' k = Some e0)"
    using run
  proof (cases rule: handle_request_cases)
    case kept
    with assms show ?thesis
      by simp
  next
    case (admission claims jwk now ra)
    show ?thesis
      using record_admission_props(1,2,3,5) [OF assms admission(3)] admission(1)
      by (auto simp: admission_before_def)
  qed
  thus "verifier_inv E (fst (handle_request E rq v))"
    "max_clock_skew (fst (handle_request E rq v)) = max_clock_skew v"
    "max_proof_age (fst (handle_request E rq v)) = max_proof_age v"
    "verifier_expiry E v k = Some e0 \<Longrightarrow> admission_before e0 rq \<Longrightarrow>
       verifier_expiry E (fst (handle_request E rq v)) k = Some e0"
    by (simp_all add: run)
qed

lemma handle_requests_keeps:
  assumes "verifier_inv E v"
  shows "verifier_inv E (handle_requests E rqs v)"
    "max_clock_skew (handle_requests E rqs v) = max_clock_skew v"
    "max_proof_age (handle_requests E rqs v) = max_proof_age v"
    "verifier_expiry E v k = Some e0 \<Longrightarrow> list_all (admission_before e0) rqs \<Longrightarrow>
       verifier_expiry E (handle_requests E rqs v) k = Some e0"
  using assms
  by (induction rqs arbitrary: v) (simp_all add: handle_request_keeps)

lemma verify_no_replay_unique:
  assumes "verify_proof_no_replay E v p m u n a ov clk = Ok (c, j)"
    and "verify_proof_no_replay E v' p m' u' n' a' ov' clk' = Ok (c', j')"
  shows "c' = c \<and> j' = j"
  using assms unfolding verify_no_replay_Ok by auto

lemma accepted_request:
  assumes "handle_request E rq v = (v', Ok (claims, jwk))" "unix_secs (rq_clock' rq) = Ok now"
  shows "verify_proof_no_replay E v (rq_proof rq) (rq_htm rq) (rq_htu rq) (rq_nonce rq) (rq_ath rq) None
      (rq_clock rq) = Ok (claims, jwk)"
    "record_admission E (thumbprint (env_crypto E) jwk) (cl_jti claims) (admission_expiry v now) now v
      = (v', Ok ())"
proof -
  from assms(1) have "verify_proof_no_replay E v (rq_proof rq) (rq_htm rq) (rq_htu rq) (rq_nonce rq)
      (rq_ath rq) None (rq_clock rq) = Ok (claims, jwk)
    \<and> record_admission E (thumbprint (env_crypto E) jwk) (cl_jti claims) (admission_expiry v now) now v
      = (v', Ok ())"
    by (cases rule: handle_request_cases) (use assms(2) in auto)
  thus "verify_proof_no_replay E v (rq_proof rq) (rq_htm rq) (rq_htu rq) (rq_nonce rq) (rq_ath rq) None
      (rq_clock rq) = Ok (claims, jwk)"
    "record_admission E (thumbprint (env_crypto E) jwk) (cl_jti claims) (admission_expiry v now) now v
      = (v', Ok ())"
    by auto
qed

lemma accepted_times:
  assumes "ct_eq_documented (env_crypto E)" "unix_secs clk = Ok now"
    and "verify_proof_no_replay E v p m u n a None clk = Ok (claims, jwk)"
  shows "unat (cl_iat claims) \<le> unat now + unat (secs64 (max_clock_skew v))"
    "unat now \<le> unat (cl_iat claims) + unat (secs64 (max_proof_age v))"
  using assms(3) unfolding verify_no_replay_Ok check_claims_Ok [OF assms(1)] check_times_Ok
  by (auto simp: assms(2))

lemma verify_no_replay_at:
  assumes "ct_eq_documented (env_crypto E)"
    and "verify_proof_no_replay E v p m u n a None clk = Ok (claims, jwk)"
    and "unix_secs clk' = Ok now" "check_times v' claims now = Ok ()"
  shows "verify_proof_no_replay E v' p m u n a None clk' = Ok (claims, jwk)"
  using assms(2-4) unfolding verify_no_replay_Ok check_claims_Ok [OF assms(1)] by auto

text \<open>Acceptance of the same proof twice, before any saturation of the clock arithmetic.\<close>

lemma unat_admission_expiry:
  "unat now + unat (secs64 (max_proof_age v)) + unat (secs64 (max_clock_skew v)) < 2 ^ 64 \<Longrightarrow>
   unat (admission_expiry v now) =
     unat now + unat (secs64 (max_proof_age v)) + unat (secs64 (max_clock_skew v))"
  by (simp add: admission_expiry_def unat_saturating_add)

lemma second_acceptance:
  assumes inv: "verifier_inv E v" "replay_cache v \<noteq> None"
    and first: "handle_request E rq1 v = (v1, Ok (c1, j1))" "unix_secs (rq_clock' rq1) = Ok a"
    and between: "list_all (admission_before (admission_expiry v a)) rqs"
    and second: "handle_request E rq2 (handle_requests E rqs v1) = (v2, Ok (c2, j2))"
      "unix_secs (rq_clock' rq2) = Ok b"
    and same: "rq_proof rq2 = rq_proof rq1"
  shows "admission_expiry v a \<le> b" "c2 = c1" "verifier_inv E v1"
    "max_clock_skew (handle_requests E rqs v1) = max_clock_skew v"
    "max_proof_age (handle_requests E rqs v1) = max_proof_age v"
proof -
  let ?k = "composite_key (thumbprint (env_crypto E) j1) (cl_jti c1)"
  note first' = accepted_request [OF first] and second' = accepted_request [OF second]
  show inv1: "verifier_inv E v1"
    using record_admission_props(1) [OF inv(1) first'(2)] .
  have e1: "verifier_expiry E v1 ?k = Some (admission_expiry v a)"
    using record_admission_props(7) [OF inv(1) first'(2) refl inv(2)] .
  have e2: "verifier_expiry E (handle_requests E rqs v1) ?k = Some (admission_expiry v a)"
    by (rule handle_requests_keeps(4) [OF inv1 e1 between])
  show c2: "c2 = c1"
    using verify_no_replay_unique [OF first'(1) second'(1) [unfolded same]] by simp
  show "admission_expiry v a \<le> b"
    using record_admission_props(6) [OF handle_requests_keeps(1) [OF inv1] second'(2) refl] e2
      verify_no_replay_unique [OF first'(1) second'(1) [unfolded same]]
    by simp
  show "max_clock_skew (handle_requests E rqs v1) = max_clock_skew v"
    "max_proof_age (handle_requests E rqs v1) = max_proof_age v"
    using handle_requests_keeps(2,3) [OF inv1] record_admission_props(2,3) [OF inv(1) first'(2)]
    by simp_all
qed

lemma replay_window_end:
  assumes ct: "ct_eq_documented (env_crypto E)" and fresh: "replay_cache v = Some DPoPReplayCache_new"
    and first: "handle_request E rq v = (v1, Ok (claims, jwk))" "unix_secs (rq_clock' rq) = Ok a"
    and late: "unat (cl_iat claims) = unat a + unat (secs64 (max_clock_skew v))" "cl_exp claims = None"
    and t: "unix_secs t = Ok b"
      "unat b = unat a + unat (secs64 (max_proof_age v)) + unat (secs64 (max_clock_skew v))"
  shows "snd (handle_request E (rq\<lparr>rq_clock := t, rq_clock' := t\<rparr>) v1) = Ok (claims, jwk)"
proof -
  let ?h = "env_hash E" and ?jkt = "thumbprint (env_crypto E) jwk"
  let ?run = "check_and_record ?h ?jkt (cl_jti claims) (admission_expiry v a) a DPoPReplayCache_new"
  note first' = accepted_request [OF first]
  have v1: "v1 = v\<lparr>replay_cache := Some (fst ?run)\<rparr>"
    using first'(2) fresh by (auto simp: record_admission_def split: prod.splits)
  have inv: "replay_inv ?h (fst ?run)"
    by (rule check_and_record_inv [OF replay_inv_new surjective_pairing])
  have "unat (admission_expiry v a) = unat b"
    using unat_admission_expiry [of a v] t(2) unat_u64_less [of b] by simp
  hence b: "admission_expiry v a = b"
    by (simp add: word_unat_eq_iff)
  have "expiries_le b (fst ?run)"
    by (rule expiries_le_check_and_record [OF replay_inv_new])
      (simp_all add: b expiries_le_def DPoPReplayCache_new_def)
  from live_count_expired [OF inv this]
  have admitted: "snd (check_and_record ?h ?jkt (cl_jti claims) e b (fst ?run)) = Ok ()" for e
    by (auto simp: check_and_record_result REPLAY_SHARD_CAPACITY_def not_less split: option.split)
  have "check_times v1 claims b = Ok ()"
    unfolding check_times_Ok using late t(2) by (simp add: v1)
  from verify_no_replay_at [OF ct first'(1) t(1) this] t(1)
  show ?thesis
    using admitted
    by (simp add: handle_request_def verify_proof_def record_admission_def v1 split_beta)
qed

section \<open>The concrete environment\<close>

lemma sample_env_documented:
  "b64_documented (env_crypto sample_env)" "p256_documented (env_crypto sample_env)"
  "ct_eq_documented (env_crypto sample_env)" "url_documented (env_url sample_env)"
  "url_canonical (env_url sample_env)"
  "serde_value_ok (env_serde sample_env) (proof_header (public_jwk sample_lib sample_key))"
  "serde_jwk_ok (env_serde sample_env) (public_jwk sample_lib sample_key)"
  "serde_claims_ok (env_serde sample_env) sample_claims"
  using sample_documented sample_parse_documented
  by (simp_all add: sample_env_def sample_serde_def serde_value_ok_def serde_jwk_ok_def
      serde_claims_ok_def proof_header_def claims_to_value_def opt_member_def sample_claims_def)

lemma sample_created_claims:
  "created_claims sample_env ''GET'' ''https://as.example:81/token'' None None 60 (replicate 16 0)
     = sample_claims"
  by (simp add: created_claims_def sample_claims_def sample_env_def trimmed_opt_def)

lemma sample_normalize: "normalize_htu (env_url sample_env) ''u'' = Ok ''https://as.example:81/token''"
  by (simp add: sample_env_def) code_simp

lemma sample_default_times:
  "secs64 (max_clock_skew DPoPVerifier_new) = 60" "secs64 (max_proof_age DPoPVerifier_new) = 300"
  "unix_secs 0 = Ok 0" "unix_secs 60000000000 = Ok 60" "unix_secs 360000000000 = Ok 360"
  by (simp_all add: DPoPVerifier_new_def DEFAULT_CLOCK_SKEW_LEEWAY_def DEFAULT_MAX_PROOF_AGE_def
      secs64_def from_secs_def as_secs_def nanos_per_sec_def unix_secs_def)

lemma sample_visible:
  "is_visible_ascii CHR ''G''" "is_visible_ascii CHR ''E''" "is_visible_ascii CHR ''T''"
  by code_simp+

lemma sample_env_crypto: "env_crypto sample_env = sample_lib"
  by (simp add: sample_env_def)

lemma sample_proof:
  obtains pr where "create_proof sample_env sample_key ''GET'' ''u'' None None 60000000000 (replicate 16 0) = Ok pr"
    "verify_proof_no_replay sample_env DPoPVerifier_new pr ''GET'' ''u'' None None None 0
       = Ok (sample_claims, public_jwk sample_lib sample_key)"
  by (rule created_proof_accepted [OF sample_env_documented(1-5), of sample_key "''GET''"
        "''https://as.example:81/token''" None None 60 "replicate 16 0" "''u''" 60000000000 0 0
        DPoPVerifier_new None None])
    (use sample_env_documented(6-8) in \<open>simp_all add: sample_env_crypto sample_created_claims sample_normalize sample_default_times sample_visible\<close>)

lemma fresh_cache_admits: "snd (check_and_record h jkt jti e now DPoPReplayCache_new) = Ok ()"
  using live_count_expired [OF replay_inv_new, of now]
  by (auto simp: check_and_record_result expiries_le_def DPoPReplayCache_new_def
      REPLAY_SHARD_CAPACITY_def not_less split: option.split)

lemma sample_first_request:
  assumes "verify_proof_no_replay sample_env DPoPVerifier_new pr ''GET'' ''u'' None None None 0
       = Ok (sample_claims, public_jwk sample_lib sample_key)"
  shows "snd (handle_request sample_env (sample_request pr) DPoPVerifier_new)
    = Ok (sample_claims, public_jwk sample_lib sample_key)"
proof -
  note fresh_cache_admits
  thus ?thesis
    using assms
    by (simp add: handle_request_def verify_proof_def sample_request_def record_admission_def
        sample_default_times split_beta) (simp add: DPoPVerifier_new_def split_beta)
qed

section \<open>Properties\<close>

text \<open>C2: A proof that the verifier accepts is a compact JWT with three parts whose signature verifies, under
  the public key it carries, over exactly the header and the claims that were read; its header
  names ES256 and carries no private key; and the claims are bound to the request: the method
  up to case, the normalised target, the expected nonce and token hash, a non-empty \<open>jti\<close> of at
  most 256 bytes, and a creation time inside the window.\<close>

theorem verify_proof_sound:
  assumes "ct_eq_documented (env_crypto E)"
    and "verify_proof_no_replay E v pr htm htu en ea ov clk = Ok (claims, jwk)"
  shows "\<exists>h p s hb pb sb hv jv vk now. trim pr = h @ ''.'' @ p @ ''.'' @ s
    \<and> base64url_decode (env_crypto E) h = Ok hb \<and> json_from_slice (env_serde E) hb = Ok hv
    \<and> json_get_str ''alg'' hv = Some ''ES256'' \<and> json_get ''jwk'' hv = Some jv
    \<and> json_get ''d'' jv = None \<and> jwk_from_value (env_serde E) jv = Ok jwk
    \<and> base64url_decode (env_crypto E) p = Ok pb \<and> claims_from_slice (env_serde E) pb = Ok claims
    \<and> base64url_decode (env_crypto E) s = Ok sb \<and> to_verifying_key (env_crypto E) jwk = Ok vk
    \<and> verify_p256_raw (env_crypto E) vk (as_bytes (h @ ''.'' @ p)) sb = Ok ()
    \<and> eq_ignore_ascii_case (cl_htm claims) htm
    \<and> normalize_htu (env_url E) (cl_htu claims) = normalize_htu (env_url E) htu
    \<and> (en = None \<or> cl_nonce claims = en) \<and> (ea = None \<or> cl_ath claims = ea)
    \<and> trim (cl_jti claims) \<noteq> [] \<and> length (cl_jti claims) \<le> 256
    \<and> unix_secs (case ov of Some t \<Rightarrow> t | None \<Rightarrow> clk) = Ok now
    \<and> unat (cl_iat claims) \<le> unat now + unat (secs64 (max_clock_skew v))
    \<and> unat now \<le> unat (cl_iat claims) + unat (secs64 (max_proof_age v))"
proof -
  obtain p0 p1 p2 hb pb sb hv vk where p: "split_on (CHR ''.'') (trim pr) = [p0, p1, p2]"
    "base64url_decode (env_crypto E) p0 = Ok hb" "base64url_decode (env_crypto E) p1 = Ok pb"
    "base64url_decode (env_crypto E) p2 = Ok sb" "json_from_slice (env_serde E) hb = Ok hv"
    "check_header E hv = Ok jwk" "to_verifying_key (env_crypto E) jwk = Ok vk"
    "verify_p256_raw (env_crypto E) vk (as_bytes (p0 @ ''.'' @ p1)) sb = Ok ()"
    "claims_from_slice (env_serde E) pb = Ok claims"
    and c: "check_claims E v claims htm htu en ea (case ov of Some t \<Rightarrow> t | None \<Rightarrow> clk) = Ok ()"
    using assms(2) unfolding verify_no_replay_Ok by blast
  have s: "trim pr = p0 @ ''.'' @ p1 @ ''.'' @ p2"
    by (rule split_three_join [OF p(1)])
  obtain jv where j: "json_get_str ''alg'' hv = Some ''ES256''" "json_get ''jwk'' hv = Some jv"
    "json_get ''d'' jv = None" "jwk_from_value (env_serde E) jv = Ok jwk"
    using p(6) unfolding check_header_Ok by blast
  obtain x now where c: "trim (cl_jti claims) \<noteq> []" "length (cl_jti claims) \<le> 256"
    "eq_ignore_ascii_case (cl_htm claims) htm" "normalize_htu (env_url E) htu = Ok x"
    "normalize_htu (env_url E) (cl_htu claims) = Ok x" "en = None \<or> cl_nonce claims = en"
    "ea = None \<or> cl_ath claims = ea" "unix_secs (case ov of Some t \<Rightarrow> t | None \<Rightarrow> clk) = Ok now"
    "unat (cl_iat claims) \<le> unat now + unat (secs64 (max_clock_skew v))"
    "unat now \<le> unat (cl_iat claims) + unat (secs64 (max_proof_age v))"
    using c unfolding check_claims_Ok [OF assms(1)] check_times_Ok MAX_JTI_LENGTH_def by blast
  show ?thesis
    by (intro exI [of _ p0] exI [of _ p1] exI [of _ p2] exI [of _ hb] exI [of _ pb] exI [of _ sb]
        exI [of _ hv] exI [of _ jv] exI [of _ vk] exI [of _ now] conjI)
      (fact s p j c | simp only: c(4,5))+
qed

theorem verify_proof_sound_witness:
  "\<exists>pr h p s. verify_proof_no_replay sample_env DPoPVerifier_new pr ''GET'' ''u'' None None None 0
       = Ok (sample_claims, public_jwk sample_lib sample_key) \<and> trim pr = h @ ''.'' @ p @ ''.'' @ s"
proof -
  obtain pr where pr: "verify_proof_no_replay sample_env DPoPVerifier_new pr ''GET'' ''u'' None None None 0
       = Ok (sample_claims, public_jwk sample_lib sample_key)"
    by (rule sample_proof)
  from verify_proof_sound [OF sample_env_documented(3) pr] pr show ?thesis
    by blast
qed

text \<open>The proof that \<open>create_proof\<close> makes for a request is accepted by a verifier that expects that
  request, as long as its creation time lies in the window, and the verifier then returns the
  claims and the public key that went into it.\<close>

theorem created_proof_verifies:
  assumes "b64_documented (env_crypto E)" "p256_documented (env_crypto E)"
      "ct_eq_documented (env_crypto E)" "url_documented (env_url E)" "url_canonical (env_url E)"
    and "serde_value_ok (env_serde E) (proof_header (public_jwk (env_crypto E) key))"
      "serde_jwk_ok (env_serde E) (public_jwk (env_crypto E) key)"
      "serde_claims_ok (env_serde E) (created_claims E htm nh nonce ath iat jti_bytes)"
    and "normalize_htu (env_url E) htu = Ok nh" "list_all is_visible_ascii htm"
      "length jti_bytes = 16" "unix_secs now = Ok iat"
    and "unix_secs clk = Ok now'" "unat iat \<le> unat now' + unat (secs64 (max_clock_skew v))"
      "unat now' \<le> unat iat + unat (secs64 (max_proof_age v))"
    and "en = None \<or> en = trimmed_opt nonce" "ea = None \<or> ea = trimmed_opt ath"
  shows "\<exists>pr. create_proof E key htm htu nonce ath now jti_bytes = Ok pr
    \<and> verify_proof_no_replay E v pr htm htu en ea None clk =
       Ok (created_claims E htm nh nonce ath iat jti_bytes, public_jwk (env_crypto E) key)"
  by (rule created_proof_accepted [OF assms]) blast

theorem created_proof_verifies_witness:
  "\<exists>pr. create_proof sample_env sample_key ''GET'' ''u'' None None 60000000000 (replicate 16 0) = Ok pr
     \<and> verify_proof_no_replay sample_env DPoPVerifier_new pr ''GET'' ''u'' None None None 0 =
       Ok (sample_claims, public_jwk (env_crypto sample_env) sample_key)"
  unfolding sample_created_claims [symmetric]
  by (rule created_proof_verifies [OF sample_env_documented(1-5), where now' = 0])
    (use sample_env_documented(6-8) in \<open>simp_all add: sample_env_crypto sample_created_claims sample_normalize sample_default_times sample_visible\<close>)

text \<open>The two-step protocol of the middleware is the one-step check: verifying a proof with deferred
  admission and committing the admission right away leaves the same verifier and gives the same
  answer as \<open>verify_proof\<close>.\<close>

theorem deferred_then_commit:
  "verify_proof E pr htm htu en ea ov clk clk' v =
     (case verify_proof_deferred E pr htm htu en ea ov clk clk' v of
        Err e \<Rightarrow> (v, Err e)
      | Ok (claims, jwk, adm) \<Rightarrow>
          (case commit_replay_admission E adm v of
             (v', r) \<Rightarrow> (v', try_bind r (\<lambda>_. Ok (claims, jwk)))))"
  by (rule verify_proof_eq)

text \<open>C9: The replay cache covers the acceptance window up to its last second.  A request reads the clock
  twice, once to check the times of the proof and once to record it.  If a proof is accepted at \<open>a\<close> and
  \<open>a'\<close>, and accepted again by the same verifier at \<open>b\<close> and \<open>b'\<close>, after any other requests none of which is
  recorded at or after the expiry of the first record, then the times were checked no later than the
  window ends and recorded no earlier than it ends: \<open>b\<close> is at most the date of the proof plus the
  maximum age, the proof is dated at most the skew after \<open>a\<close>, and \<open>b'\<close> is at least \<open>a'\<close> plus age and skew (or
  the last second that 64 bits can represent).  So if neither request crosses a second between its
  readings, the second acceptance is in exactly the last second of the window, and, unless the clock
  arithmetic saturates, the proof was dated as far ahead as the skew permits.\<close>

theorem replay_only_at_window_end:
  assumes "ct_eq_documented (env_crypto E)" "verifier_inv E v" "replay_cache v \<noteq> None"
    and "handle_request E rq1 v = (v1, Ok (c1, j1))"
      "unix_secs (rq_clock rq1) = Ok a" "unix_secs (rq_clock' rq1) = Ok a'"
    and "list_all (admission_before (admission_expiry v a')) rqs"
    and "handle_request E rq2 (handle_requests E rqs v1) = (v2, Ok (c2, j2))"
      "unix_secs (rq_clock rq2) = Ok b" "unix_secs (rq_clock' rq2) = Ok b'"
    and "rq_proof rq2 = rq_proof rq1"
    and "age = unat (secs64 (max_proof_age v))" "skew = unat (secs64 (max_clock_skew v))"
  shows "unat b \<le> unat (cl_iat c1) + age \<and> unat (cl_iat c1) \<le> unat a + skew
    \<and> min (2 ^ 64 - 1) (unat a' + age + skew) \<le> unat b'
    \<and> (a = a' \<and> b = b' \<longrightarrow> unat b = min (2 ^ 64 - 1) (unat a + age + skew)
         \<and> (unat a + age + skew < 2 ^ 64 \<longrightarrow> unat (cl_iat c1) = unat a + skew))"
proof -
  note sec = second_acceptance [OF assms(2,3,4,6,7,8,10,11)]
  have "min (2 ^ 64 - 1) (unat a' + age + skew) \<le> unat b'"
    using sec(1) by (simp add: word_le_nat_alt admission_expiry_def unat_saturating_add assms(12,13))
  moreover have "unat (cl_iat c1) \<le> unat a + skew"
    using accepted_times(1) [OF assms(1,5) accepted_request(1) [OF assms(4,6)]] assms(13) by simp
  moreover have "unat b \<le> unat (cl_iat c1) + age"
    using accepted_times(2) [OF assms(1,9) accepted_request(1) [OF assms(8,10)]] sec(2,5) assms(12) by simp
  moreover have "unat b < 2 ^ 64"
    using unat_u64_less [of b] by simp
  ultimately show ?thesis
    by auto
qed

text \<open>Both outcomes on concrete requests: the same proof accepted at second 0 and again at second 360.\<close>

theorem replay_only_at_window_end_witness:
  "\<exists>pr v1 v2. handle_request sample_env (sample_request pr) DPoPVerifier_new
       = (v1, Ok (sample_claims, public_jwk sample_lib sample_key))
     \<and> handle_request sample_env ((sample_request pr)\<lparr>rq_clock := 360000000000, rq_clock' := 360000000000\<rparr>) v1
       = (v2, Ok (sample_claims, public_jwk sample_lib sample_key))
     \<and> unat (360 :: u64) = min (2 ^ 64 - 1) (unat (0 :: u64) + 300 + 60) \<and> unat (cl_iat sample_claims) = unat (0 :: u64) + 60"
proof -
  obtain pr where pr: "verify_proof_no_replay sample_env DPoPVerifier_new pr ''GET'' ''u'' None None None 0
       = Ok (sample_claims, public_jwk sample_lib sample_key)"
    by (rule sample_proof)
  let ?rq = "sample_request pr" and ?rq' = "(sample_request pr)\<lparr>rq_clock := 360000000000, rq_clock' := 360000000000\<rparr>"
  obtain v1 where first: "handle_request sample_env ?rq DPoPVerifier_new
       = (v1, Ok (sample_claims, public_jwk sample_lib sample_key))"
    using sample_first_request [OF pr] by (metis surjective_pairing)
  have cache: "replay_cache DPoPVerifier_new = Some DPoPReplayCache_new"
    by (simp add: DPoPVerifier_new_def)
  have "snd (handle_request sample_env ?rq' v1) = Ok (sample_claims, public_jwk sample_lib sample_key)"
    by (rule replay_window_end [OF sample_env_documented(3) cache first, of 0 360000000000 360])
      (simp_all add: sample_default_times sample_request_def sample_claims_def)
  then obtain v2 where second: "handle_request sample_env ?rq' (handle_requests sample_env [] v1)
       = (v2, Ok (sample_claims, public_jwk sample_lib sample_key))"
    by (metis surjective_pairing handle_requests.simps(1))
  have inv: "verifier_inv sample_env DPoPVerifier_new"
    by (simp add: verifier_inv_def cache)
  have "unat (360 :: u64) \<le> unat (cl_iat sample_claims) + 300 \<and> unat (cl_iat sample_claims) \<le> unat (0 :: u64) + 60
    \<and> min (2 ^ 64 - 1) (unat (0 :: u64) + 300 + 60) \<le> unat (360 :: u64)
    \<and> ((0 :: u64) = 0 \<and> (360 :: u64) = 360 \<longrightarrow> unat (360 :: u64) = min (2 ^ 64 - 1) (unat (0 :: u64) + 300 + 60)
         \<and> (unat (0 :: u64) + 300 + 60 < 2 ^ 64 \<longrightarrow> unat (cl_iat sample_claims) = unat (0 :: u64) + 60))"
    by (rule replay_only_at_window_end [OF sample_env_documented(3) inv _ first _ _ _ second])
      (simp_all add: cache sample_default_times sample_request_def)
  hence "unat (360 :: u64) = min (2 ^ 64 - 1) (unat (0 :: u64) + 300 + 60)" "unat (cl_iat sample_claims) = unat (0 :: u64) + 60"
    by simp_all
  with first second [unfolded handle_requests.simps(1)] show ?thesis
    by blast
qed

text \<open>C29: In that last second the proof is indeed accepted again: a proof dated ahead by the full skew
  and accepted by a verifier with a fresh cache is accepted a second time when the maximum age
  and the skew have passed.\<close>

theorem replay_accepted_at_window_end:
  assumes "ct_eq_documented (env_crypto E)" "replay_cache v = Some DPoPReplayCache_new"
    and "handle_request E rq v = (v1, Ok (claims, jwk))" "unix_secs (rq_clock' rq) = Ok a"
    and "unat (cl_iat claims) = unat a + unat (secs64 (max_clock_skew v))" "cl_exp claims = None"
    and "unix_secs t = Ok b"
      "unat b = unat a + unat (secs64 (max_proof_age v)) + unat (secs64 (max_clock_skew v))"
  shows "snd (handle_request E (rq\<lparr>rq_clock := t, rq_clock' := t\<rparr>) v1) = Ok (claims, jwk)"
  using assms by (rule replay_window_end)

theorem replay_accepted_at_window_end_witness:
  "\<exists>pr v1. handle_request sample_env (sample_request pr) DPoPVerifier_new
       = (v1, Ok (sample_claims, public_jwk sample_lib sample_key))
     \<and> snd (handle_request sample_env
         ((sample_request pr)\<lparr>rq_clock := 360000000000, rq_clock' := 360000000000\<rparr>) v1)
       = Ok (sample_claims, public_jwk sample_lib sample_key)"
proof -
  obtain pr where pr: "verify_proof_no_replay sample_env DPoPVerifier_new pr ''GET'' ''u'' None None None 0
       = Ok (sample_claims, public_jwk sample_lib sample_key)"
    by (rule sample_proof)
  obtain v1 where first: "handle_request sample_env (sample_request pr) DPoPVerifier_new
       = (v1, Ok (sample_claims, public_jwk sample_lib sample_key))"
    using sample_first_request [OF pr] by (metis surjective_pairing)
  have "replay_cache DPoPVerifier_new = Some DPoPReplayCache_new"
    by (simp add: DPoPVerifier_new_def)
  from replay_accepted_at_window_end [OF sample_env_documented(3) this first, of 0 360000000000 360] first
  show ?thesis
    by (auto simp: sample_default_times sample_request_def sample_claims_def)
qed

end
