(* ===== verification/Base58.thy ===== *)
theory Base58
  imports Errors
begin

text \<open>
  Base58 of \<open>service_auth.rs\<close>.  The digit loops work on bytes with carries in 32 bits, as in the
  code; the lemmas show that the carries stay below the base, so no product or sum wraps, and that
  the loops compute the digits of one number in base 256 and base 58.
\<close>

unbundle bit_operations_syntax

section \<open>Model\<close>

definition ALPHABET :: string where
  "ALPHABET = ''123456789ABCDEFGHJKLMNPQRSTUVWXYZabcdefghijkmnopqrstuvwxyz''"

text \<open>\<open>Iterator::position\<close>.\<close>

fun position :: "'a \<Rightarrow> 'a list \<Rightarrow> nat option" where
  "position c [] = None"
| "position c (x # xs) = (if x = c then Some 0 else map_option Suc (position c xs))"

text \<open>The format \<open>{:#04x}\<close> of a byte.\<close>

definition hex_digit :: "nat \<Rightarrow> char" where
  "hex_digit n = (if n < 10 then char_of (48 + n) else char_of (87 + n))"

definition show_hex_byte :: "char \<Rightarrow> string" where
  "show_hex_byte c = ''0x'' @ [hex_digit (code c div 16), hex_digit (code c mod 16)]"

fun decode_carry :: "u32 \<Rightarrow> u8 list \<Rightarrow> u8 list \<times> u32" where
  "decode_carry carry [] = ([], carry)"
| "decode_carry carry (b # bs) =
     (let acc = ucast b * 58 + carry; (bs', carry') = decode_carry (drop_bit 8 acc) bs
      in (ucast (acc AND 0xff) # bs', carry'))"

function decode_push :: "u32 \<Rightarrow> u8 list" where
  "decode_push carry =
     (if carry > 0 then ucast (carry AND 0xff) # decode_push (drop_bit 8 carry) else [])"
  by pat_completeness auto
termination
proof (relation "measure unat")
  fix carry :: u32
  assume "carry > 0"
  hence "unat carry > 0"
    by (simp add: unat_gt_0)
  thus "(drop_bit 8 carry, carry) \<in> measure unat"
    by (simp add: unat_drop_bit_eq drop_bit_eq_div unat_div_distrib)
qed simp

declare decode_push.simps [simp del]

definition decode_step :: "nat \<Rightarrow> u8 list \<Rightarrow> u8 list" where
  "decode_step digit out =
     (let (out', carry) = decode_carry (word_of_nat digit) out in out' @ decode_push carry)"

fun decode_loop :: "u8 list \<Rightarrow> string \<Rightarrow> (u8 list, AtprotoOAuthError) result" where
  "decode_loop out [] = Ok out"
| "decode_loop out (byte # rest) =
     (case position byte ALPHABET of
        None \<Rightarrow> Err (AtprotoOAuthError.Crypto (CryptoError.InvalidKey
          (''Invalid base58 character '' @ show_hex_byte byte)))
      | Some digit \<Rightarrow> decode_loop (decode_step digit out) rest)"

definition bs58_decode :: "string \<Rightarrow> (bytes, AtprotoOAuthError) result" where
  "bs58_decode input =
     (if input = [] then Ok []
      else if starts_with input ''1'' then
        Err (AtprotoOAuthError.Crypto (CryptoError.InvalidKey ''Malformed base58 key: leading zero byte''))
      else try_bind (decode_loop [] input) (\<lambda>out. Ok (rev out)))"

fun encode_carry :: "u32 \<Rightarrow> u8 list \<Rightarrow> u8 list \<times> u32" where
  "encode_carry carry [] = ([], carry)"
| "encode_carry carry (d # ds) =
     (let val = ucast d * 256 + carry; (ds', carry') = encode_carry (val div 58) ds
      in (ucast (val mod 58) # ds', carry'))"

function encode_push :: "u32 \<Rightarrow> u8 list" where
  "encode_push carry = (if carry > 0 then ucast (carry mod 58) # encode_push (carry div 58) else [])"
  by pat_completeness auto
termination
proof (relation "measure unat")
  fix carry :: u32
  assume "carry > 0"
  hence "unat carry > 0"
    by (simp add: unat_gt_0)
  thus "(carry div 58, carry) \<in> measure unat"
    by (simp add: unat_div_distrib)
qed simp

declare encode_push.simps [simp del]

definition encode_step :: "u8 list \<Rightarrow> u8 \<Rightarrow> u8 list" where
  "encode_step digits b =
     (let (digits', carry) = encode_carry (ucast b) digits in digits' @ encode_push carry)"

definition bs58_encode :: "bytes \<Rightarrow> string" where
  "bs58_encode bs =
     (let digits = foldl encode_step [0] bs
      in map (\<lambda>_. CHR ''1'') (takeWhile (\<lambda>b. b = 0) bs) @ map (\<lambda>d. ALPHABET ! unat d) (rev digits))"

section \<open>Numbers and their digits\<close>

text \<open>Digits with the least significant first.\<close>

abbreviation le_value :: "nat \<Rightarrow> nat list \<Rightarrow> nat" where
  "le_value \<equiv> horner_sum (\<lambda>x. x)"

lemma le_value_append: "le_value b (xs @ ys) = le_value b xs + b ^ length xs * le_value b ys"
  by (simp add: horner_sum_append)

lemma le_value_less: "(\<forall>x \<in> set xs. x < b) \<Longrightarrow> le_value b xs < b ^ length xs"
proof (induction xs)
  case (Cons x xs)
  hence "le_value b xs + 1 \<le> b ^ length xs" "x < b"
    by auto
  hence "b * (le_value b xs + 1) \<le> b * b ^ length xs"
    by (intro mult_le_mono2)
  with \<open>x < b\<close> show ?case
    by simp
qed simp

text \<open>Digit lists without leading zeros are determined by their value.\<close>

definition canonical :: "nat \<Rightarrow> nat list \<Rightarrow> bool" where
  "canonical b xs = ((\<forall>x \<in> set xs. x < b) \<and> (xs = [] \<or> last xs \<noteq> 0))"

lemma canonical_value_0: "canonical b xs \<Longrightarrow> le_value b xs = 0 \<Longrightarrow> xs = []"
  by (induction xs) (auto simp: canonical_def split: if_splits)

lemma canonical_unique:
  assumes "canonical b xs" "canonical b ys" "le_value b xs = le_value b ys"
  shows "xs = ys"
  using assms
proof (induction xs arbitrary: ys)
  case Nil
  thus ?case
    using canonical_value_0 [of b ys] by simp
next
  case (Cons x xs)
  have "ys \<noteq> []"
    using Cons.prems canonical_value_0 [of b "x # xs"] by auto
  then obtain y zs where ys: "ys = y # zs"
    by (cases ys) auto
  have lt: "x < b" "y < b"
    using Cons.prems ys by (auto simp: canonical_def)
  have eq: "x + b * le_value b xs = y + b * le_value b zs"
    using Cons.prems ys by simp
  have "(x + b * le_value b xs) mod b = x" "(y + b * le_value b zs) mod b = y"
    using lt by simp_all
  hence "x = y"
    using eq by simp
  moreover from this eq lt have "le_value b xs = le_value b zs"
    by simp
  moreover have "canonical b xs" "canonical b zs"
    using Cons.prems ys by (auto simp: canonical_def split: if_splits)
  ultimately show ?case
    using Cons.IH ys by blast
qed

text \<open>The value of a digit list decides whether its last digit is zero.\<close>

lemma canonical_iff_large:
  assumes "xs \<noteq> []" "\<forall>x \<in> set xs. x < b"
  shows "canonical b xs \<longleftrightarrow> b ^ (length xs - 1) \<le> le_value b xs"
proof -
  obtain ys y where xs: "xs = ys @ [y]"
    using assms(1) by (cases xs rule: rev_cases) auto
  have "le_value b ys < b ^ length ys"
    using assms(2) xs by (intro le_value_less) auto
  thus ?thesis
    using assms(2) by (cases "y = 0") (auto simp: canonical_def xs le_value_append intro!: trans_le_add2)
qed

abbreviation unats :: "u8 list \<Rightarrow> nat list" where
  "unats \<equiv> map unat"

section \<open>The carry loops\<close>

lemma unat_acc:
  assumes "unat (c :: u32) < 256" "k \<le> 256"
  shows "unat (ucast (b :: u8) * word_of_nat k + c) = unat b * k + unat c"
proof -
  have b: "unat b \<le> 255"
    using u8_less [of b] by linarith
  have "unat b * k \<le> 255 * 256"
    using b assms(2) by (intro mult_le_mono)
  hence small: "unat b * k + unat c < 2 ^ 32"
    using assms by simp
  have eq: "ucast b * word_of_nat k + c = (word_of_nat (unat b * k + unat c) :: u32)"
    by simp
  show ?thesis
    unfolding eq unat_of_nat using small by simp
qed

lemma unat_low_byte: "unat (ucast ((w :: u32) AND 0xff) :: u8) = unat w mod 256"
proof -
  have "w AND 0xff = take_bit 8 w"
    by (simp add: take_bit_eq_mask mask_eq_exp_minus_1)
  thus ?thesis
    by (simp add: unsigned_ucast_eq unsigned_take_bit_eq take_bit_eq_mod unat_mod_distrib)
qed

lemma unat_high: "unat (drop_bit 8 (w :: u32)) = unat w div 256"
  by (simp add: unat_drop_bit_eq drop_bit_eq_div unat_div_distrib)

lemma unat_digit: "unat (ucast ((w :: u32) mod 58) :: u8) = unat w mod 58"
  by (simp add: unsigned_ucast_eq take_bit_eq_mod unat_mod_distrib)

text \<open>One position of a carry loop.\<close>

lemma carry_step:
  assumes "v' + P * c = k * v + q" "r + B * q = d * k + c0"
  shows "(r + B * v') + (B * P) * c = k * (d + B * v) + (c0 :: nat)"
proof -
  have "(r + B * v') + (B * P) * c = r + B * (v' + P * c)"
    by (simp add: algebra_simps)
  also have "\<dots> = (r + B * q) + B * k * v"
    by (simp add: assms(1) algebra_simps)
  finally show ?thesis
    by (simp add: assms(2) algebra_simps)
qed

lemma decode_carry_value:
  assumes "unat carry < 58" "decode_carry carry bs = (bs', carry')"
  shows "length bs' = length bs \<and> unat carry' < 58
    \<and> le_value 256 (unats bs') + 256 ^ length bs * unat carry' = 58 * le_value 256 (unats bs) + unat carry"
  using assms
proof (induction bs arbitrary: carry bs')
  case (Cons b bs)
  define acc :: u32 where "acc = ucast b * 58 + carry"
  obtain ds where ds: "decode_carry (drop_bit 8 acc) bs = (ds, carry')" "bs' = ucast (acc AND 0xff) # ds"
    using Cons.prems(2) by (auto simp: acc_def [symmetric] Let_def split: prod.splits)
  have acc: "unat acc = unat b * 58 + unat carry"
    using unat_acc [of carry 58 b] Cons.prems(1) by (simp add: acc_def)
  have lo: "unat (ucast (acc AND 0xff) :: u8) = unat acc mod 256"
    by (rule unat_low_byte)
  have hi: "unat (drop_bit 8 acc) = unat acc div 256"
    by (rule unat_high)
  have "unat acc div 256 < 58"
    using acc Cons.prems(1) u8_less [of b] by linarith
  with Cons.IH [OF _ ds(1)] hi have IH: "length ds = length bs" "unat carry' < 58"
    "le_value 256 (unats ds) + 256 ^ length bs * unat carry' = 58 * le_value 256 (unats bs) + unat acc div 256"
    by auto
  have "unat acc mod 256 + 256 * (unat acc div 256) = unat b * 58 + unat carry"
    using acc by simp
  from carry_step [OF IH(3) this] IH(1,2) lo show ?case
    by (simp add: ds(2))
qed simp

lemma encode_carry_value:
  assumes "unat carry < 256" "\<forall>d \<in> set ds. unat d < 58" "encode_carry carry ds = (ds', carry')"
  shows "length ds' = length ds \<and> unat carry' < 256 \<and> (\<forall>d \<in> set ds'. unat d < 58)
    \<and> le_value 58 (unats ds') + 58 ^ length ds * unat carry' = 256 * le_value 58 (unats ds) + unat carry"
  using assms
proof (induction ds arbitrary: carry ds')
  case (Cons d ds)
  define val :: u32 where "val = ucast d * 256 + carry"
  obtain es where es: "encode_carry (val div 58) ds = (es, carry')" "ds' = ucast (val mod 58) # es"
    using Cons.prems(3) by (auto simp: val_def [symmetric] Let_def split: prod.splits)
  have val: "unat val = unat d * 256 + unat carry"
    using unat_acc [of carry 256 d] Cons.prems(1) by (simp add: val_def)
  have lo: "unat (ucast (val mod 58) :: u8) = unat val mod 58"
    by (rule unat_digit)
  have hi: "unat (val div 58) = unat val div 58"
    by (simp add: unat_div_distrib)
  have "unat val div 58 < 256"
    using val Cons.prems(1,2) by (auto simp: div_less_iff_less_mult)
  with Cons.IH [OF _ _ es(1)] hi Cons.prems(2) have IH: "length es = length ds" "unat carry' < 256"
    "\<forall>d \<in> set es. unat d < 58"
    "le_value 58 (unats es) + 58 ^ length ds * unat carry' = 256 * le_value 58 (unats ds) + unat val div 58"
    by auto
  have "unat val mod 58 + 58 * (unat val div 58) = unat d * 256 + unat carry"
    using val by simp
  from carry_step [OF IH(4) this] IH(1-3) lo show ?case
    by (simp add: es(2))
qed simp

lemma canonical_Cons:
  assumes "canonical b r" "le_value b r = n div b" "0 < n" "0 < b"
  shows "canonical b ((n mod b) # r)"
proof (cases "r = []")
  case True
  hence "n < b"
    using assms(2,4) by (simp add: div_eq_0_iff)
  thus ?thesis
    using True assms(3) by (simp add: canonical_def)
next
  case False
  thus ?thesis
    using assms(1,4) by (simp add: canonical_def)
qed

lemma decode_push_value:
  "le_value 256 (unats (decode_push carry)) = unat carry \<and> canonical 256 (unats (decode_push carry))"
proof (induction carry rule: decode_push.induct)
  case (1 carry)
  show ?case
  proof (cases "carry > 0")
    case True
    with 1 canonical_Cons [of 256 "unats (decode_push (drop_bit 8 carry))" "unat carry"] show ?thesis
      by (subst (1 2) decode_push.simps) (simp add: unat_low_byte unat_high unat_gt_0 word_gt_0)
  next
    case False
    thus ?thesis
      by (subst (1 2) decode_push.simps) (simp add: canonical_def word_gt_0)
  qed
qed

lemma encode_push_value:
  "le_value 58 (unats (encode_push carry)) = unat carry \<and> canonical 58 (unats (encode_push carry))"
proof (induction carry rule: encode_push.induct)
  case (1 carry)
  show ?case
  proof (cases "carry > 0")
    case True
    with 1 canonical_Cons [of 58 "unats (encode_push (carry div 58))" "unat carry"] show ?thesis
      by (subst (1 2) encode_push.simps) (simp add: unat_digit unat_div_distrib unat_gt_0 word_gt_0)
  next
    case False
    thus ?thesis
      by (subst (1 2) encode_push.simps) (simp add: canonical_def word_gt_0)
  qed
qed

section \<open>The digit loops\<close>

text \<open>Appending the pushed carry: the value is the sum, and there is no leading zero when the value
  is large enough for the old length.\<close>

lemma append_push:
  assumes xs: "\<forall>x \<in> set xs. x < b" and p: "canonical b p" "le_value b p = c"
    and v: "le_value b xs + b ^ length xs * c = v" and large: "xs \<noteq> [] \<Longrightarrow> b ^ (length xs - 1) \<le> v"
  shows "le_value b (xs @ p) = v \<and> canonical b (xs @ p)"
proof -
  have "canonical b (xs @ p)"
  proof (cases "p = []")
    case True
    hence "xs = [] \<or> canonical b xs"
      using canonical_iff_large [OF _ xs] large p(2) v by auto
    thus ?thesis
      using True by (auto simp: canonical_def)
  next
    case False
    thus ?thesis
      using xs p(1) by (auto simp: canonical_def)
  qed
  thus ?thesis
    using p(2) v by (simp add: le_value_append)
qed

lemma decode_step_value:
  assumes "digit < 58" "canonical 256 (unats out)"
  shows "le_value 256 (unats (decode_step digit out)) = 58 * le_value 256 (unats out) + digit
    \<and> canonical 256 (unats (decode_step digit out))"
proof -
  obtain out' carry where c: "decode_carry (word_of_nat digit) out = (out', carry)"
    by fastforce
  have d: "unat (word_of_nat digit :: u32) = digit"
    using assms(1) by (simp add: unat_of_nat)
  from decode_carry_value [OF _ c] d assms(1) have v: "length out' = length out"
    "le_value 256 (unats out') + 256 ^ length out * unat carry = 58 * le_value 256 (unats out) + digit"
    by auto
  have "256 ^ (length out - 1) \<le> 58 * le_value 256 (unats out) + digit" if "out \<noteq> []"
    using canonical_iff_large [of "unats out" 256] assms(2) that by auto
  with append_push [of "unats out'" 256 "unats (decode_push carry)" "unat carry" "58 * le_value 256 (unats out) + digit"]
    decode_push_value [of carry] v length_0_conv [of out'] length_0_conv [of out] show ?thesis
    by (auto simp: decode_step_def c)
qed

lemma encode_step_value:
  assumes "\<forall>d \<in> set ds. unat d < 58" "ds \<noteq> []" "length ds = 1 \<or> canonical 58 (unats ds)"
  shows "le_value 58 (unats (encode_step ds b)) = 256 * le_value 58 (unats ds) + unat b
    \<and> (\<forall>d \<in> set (encode_step ds b). unat d < 58) \<and> encode_step ds b \<noteq> []
    \<and> (length (encode_step ds b) = 1 \<or> canonical 58 (unats (encode_step ds b)))"
proof -
  obtain ds' carry where c: "encode_carry (ucast b) ds = (ds', carry)"
    by fastforce
  have "unat (ucast b :: u32) = unat b"
    by (subst unsigned_ucast_eq, subst take_bit_nat_eq_self) (simp_all add: order_less_trans [OF u8_less])
  with encode_carry_value [OF _ assms(1) c] have v: "length ds' = length ds" "\<forall>d \<in> set ds'. unat d < 58"
    "le_value 58 (unats ds') + 58 ^ length ds * unat carry = 256 * le_value 58 (unats ds) + unat b"
    by auto
  show ?thesis
  proof (cases "length ds = 1 \<and> encode_push carry = []")
    case True
    thus ?thesis
      using v assms(2) encode_push_value [of carry] by (auto simp: encode_step_def c)
  next
    case False
    have "le_value 58 (unats ds' @ unats (encode_push carry)) = 256 * le_value 58 (unats ds) + unat b
      \<and> canonical 58 (unats ds' @ unats (encode_push carry))"
    proof (cases "encode_push carry = []")
      case True
      hence "58 ^ (length ds - 1) \<le> 256 * le_value 58 (unats ds) + unat b"
        using False assms canonical_iff_large [of "unats ds" 58] by auto
      thus ?thesis
        using append_push [of "unats ds'" 58 "unats (encode_push carry)" "unat carry"
            "256 * le_value 58 (unats ds) + unat b"] v encode_push_value [of carry] by auto
    next
      case push: False
      thus ?thesis
        using v encode_push_value [of carry] by (auto simp: canonical_def le_value_append)
    qed
    thus ?thesis
      using v assms(2) by (auto simp: encode_step_def c canonical_def)
  qed
qed

lemma foldl_horner: "foldl (\<lambda>n d. b * n + d) a ds = a * b ^ length ds + le_value b (rev ds)"
  by (induction ds arbitrary: a) (simp_all add: le_value_append algebra_simps)

lemma encode_fold:
  assumes "\<forall>d \<in> set ds. unat d < 58" "ds \<noteq> []" "length ds = 1 \<or> canonical 58 (unats ds)"
  shows "le_value 58 (unats (foldl encode_step ds bs)) = foldl (\<lambda>n d. 256 * n + d) (le_value 58 (unats ds)) (unats bs)
    \<and> (\<forall>d \<in> set (foldl encode_step ds bs). unat d < 58)
    \<and> (length (foldl encode_step ds bs) = 1 \<or> canonical 58 (unats (foldl encode_step ds bs)))"
  using assms
proof (induction bs arbitrary: ds)
  case (Cons b bs)
  from encode_step_value [OF Cons.prems, of b] Cons.IH [of "encode_step ds b"] show ?case
    by auto
qed simp

lemma position_Some: "distinct xs \<Longrightarrow> position c xs = Some i \<longleftrightarrow> i < length xs \<and> xs ! i = c"
proof (induction xs arbitrary: i)
  case (Cons x xs)
  thus ?case
    by (cases i) (auto simp: in_set_conv_nth)
qed simp

lemma ALPHABET_props: "distinct ALPHABET" "length ALPHABET = 58" "ALPHABET ! 0 = CHR ''1''"
  by code_simp+

lemma position_ALPHABET: "position c ALPHABET = Some i \<longleftrightarrow> i < 58 \<and> ALPHABET ! i = c"
  using position_Some [OF ALPHABET_props(1)] ALPHABET_props(2) by simp

lemma unats_inj: "unats a = unats b \<Longrightarrow> a = b"
  by (erule map_injective) (rule injI, erule unsigned_word_eqI)

lemma decode_loop_Ok:
  assumes "canonical 256 (unats out)"
  shows "decode_loop out s = Ok r \<longleftrightarrow>
    (\<exists>ds. s = map ((!) ALPHABET) ds \<and> (\<forall>d \<in> set ds. d < 58) \<and> canonical 256 (unats r)
       \<and> le_value 256 (unats r) = foldl (\<lambda>n d. 58 * n + d) (le_value 256 (unats out)) ds)"
  using assms
proof (induction s arbitrary: out)
  case Nil
  have "r = out" if "canonical 256 (unats r)" "le_value 256 (unats r) = le_value 256 (unats out)"
    using canonical_unique [OF that(1) Nil that(2)] by (rule unats_inj)
  thus ?case
    using Nil by auto
next
  case (Cons c s)
  show ?case
  proof (cases "position c ALPHABET")
    case None
    hence "\<not> (\<exists>d < 58. c = ALPHABET ! d)"
      using position_ALPHABET [of c] by auto
    thus ?thesis
      using None by (auto simp: Cons_eq_map_conv)
  next
    case (Some d)
    hence d: "d < 58" "c = ALPHABET ! d"
      using position_ALPHABET by auto
    have uniq: "d' = d" if "d' < 58" "c = ALPHABET ! d'" for d'
      using position_ALPHABET [of c d'] that Some by simp
    note st = decode_step_value [OF d(1) Cons.prems]
    have "decode_loop out (c # s) = Ok r \<longleftrightarrow> (\<exists>ds. s = map ((!) ALPHABET) ds \<and> (\<forall>d \<in> set ds. d < 58)
       \<and> canonical 256 (unats r)
       \<and> le_value 256 (unats r) = foldl (\<lambda>n d. 58 * n + d) (58 * le_value 256 (unats out) + d) ds)"
      using Cons.IH st by (simp add: Some)
    also have "\<dots> \<longleftrightarrow> (\<exists>ds. c # s = map ((!) ALPHABET) ds \<and> (\<forall>d \<in> set ds. d < 58) \<and> canonical 256 (unats r)
       \<and> le_value 256 (unats r) = foldl (\<lambda>n d. 58 * n + d) (le_value 256 (unats out)) ds)"
      (is "(\<exists>ds. ?A ds) \<longleftrightarrow> (\<exists>ds. ?B ds)")
    proof
      assume "\<exists>ds. ?A ds"
      then obtain ds where "?A ds" ..
      hence "?B (d # ds)"
        using d by simp
      thus "\<exists>ds. ?B ds" ..
    next
      assume "\<exists>ds. ?B ds"
      then obtain ds where B: "?B ds" ..
      then obtain d' es where es: "ds = d' # es"
        by (cases ds) auto
      with B uniq have "d' = d"
        by simp
      with B es have "?A es"
        by simp
      thus "\<exists>ds. ?A ds" ..
    qed
    finally show ?thesis .
  qed
qed

text \<open>The digits of the encoder.\<close>

lemma encode_digits:
  assumes "bs \<noteq> []" "hd bs \<noteq> 0"
  defines "D \<equiv> foldl encode_step [0] bs"
  shows "canonical 58 (unats D)" "le_value 58 (unats D) = le_value 256 (rev (unats bs))" "D \<noteq> []"
    and "bs58_encode bs = map ((!) ALPHABET) (rev (unats D))" "canonical 256 (rev (unats bs))"
proof -
  from encode_fold [of "[0]" bs] have e: "le_value 58 (unats D) = le_value 256 (rev (unats bs))"
    "\<forall>d \<in> set D. unat d < 58" "length D = 1 \<or> canonical 58 (unats D)"
    by (auto simp: D_def foldl_horner rev_map)
  show c: "canonical 256 (rev (unats bs))"
    using assms(1,2) by (cases bs) (auto simp: canonical_def unat_eq_0)
  have "le_value 256 (rev (unats bs)) \<noteq> 0"
    using canonical_value_0 [OF c] assms(1) by auto
  hence nz: "le_value 58 (unats D) \<noteq> 0"
    using e(1) by simp
  thus "D \<noteq> []"
    by auto
  show "canonical 58 (unats D)"
  proof (cases "length D = 1")
    case True
    then obtain d where "D = [d]"
      by (auto simp: length_Suc_conv)
    thus ?thesis
      using nz e(2) by (simp add: canonical_def)
  qed (use e(3) in simp)
  show "le_value 58 (unats D) = le_value 256 (rev (unats bs))"
    by (rule e(1))
  have "takeWhile (\<lambda>b. b = 0) bs = []"
    using assms(1,2) by (cases bs) auto
  thus "bs58_encode bs = map ((!) ALPHABET) (rev (unats D))"
    by (simp add: bs58_encode_def D_def rev_map)
qed

lemma starts_with_1: "starts_with s ''1'' \<longleftrightarrow> s \<noteq> [] \<and> hd s = CHR ''1''"
  by (cases s) (auto simp: starts_with_def)

lemma ALPHABET_1: "d < 58 \<Longrightarrow> ALPHABET ! d = CHR ''1'' \<longleftrightarrow> d = 0"
  using nth_eq_iff_index_eq [OF ALPHABET_props(1), of d 0] ALPHABET_props by simp

lemma bs58_decode_digits:
  assumes "s \<noteq> []"
  shows "bs58_decode s = Ok b \<longleftrightarrow>
    (\<exists>ds. s = map ((!) ALPHABET) ds \<and> canonical 58 (rev ds) \<and> canonical 256 (rev (unats b))
       \<and> le_value 256 (rev (unats b)) = le_value 58 (rev ds))"
proof -
  have "canonical 58 (rev ds) \<longleftrightarrow> (\<forall>d \<in> set ds. d < 58) \<and> \<not> starts_with s ''1''"
    if "s = map ((!) ALPHABET) ds" for ds
    using that assms by (cases ds) (auto simp: canonical_def starts_with_1 ALPHABET_1)
  moreover have "bs58_decode s = Ok b \<longleftrightarrow> \<not> starts_with s ''1'' \<and> decode_loop [] s = Ok (rev b)"
    using assms by (auto simp: bs58_decode_def)
  ultimately show ?thesis
    using decode_loop_Ok [of "[]" s "rev b"]
    by (auto simp: canonical_def [of _ "[]"] foldl_horner rev_map)
qed

lemma bs58_inverse:
  assumes "s \<noteq> []"
  shows "bs58_decode s = Ok b \<longleftrightarrow> b \<noteq> [] \<and> hd b \<noteq> 0 \<and> bs58_encode b = s"
proof
  assume "bs58_decode s = Ok b"
  then obtain ds where ds: "s = map ((!) ALPHABET) ds" "canonical 58 (rev ds)" "canonical 256 (rev (unats b))"
    "le_value 256 (rev (unats b)) = le_value 58 (rev ds)"
    unfolding bs58_decode_digits [OF assms] by blast
  have "le_value 58 (rev ds) \<noteq> 0"
    using canonical_value_0 [OF ds(2)] ds(1) assms by auto
  hence b: "b \<noteq> []"
    using ds(4) by auto
  moreover from this ds(3) have hd: "hd b \<noteq> 0"
    by (cases b) (auto simp: canonical_def)
  moreover have "unats (foldl encode_step [0] b) = rev ds"
    using canonical_unique [OF encode_digits(1) [OF b hd] ds(2)] encode_digits(2) [OF b hd] ds(4) by simp
  hence "bs58_encode b = s"
    using encode_digits(4) [OF b hd] ds(1) by simp
  ultimately show "b \<noteq> [] \<and> hd b \<noteq> 0 \<and> bs58_encode b = s"
    by simp
next
  assume b: "b \<noteq> [] \<and> hd b \<noteq> 0 \<and> bs58_encode b = s"
  note e = encode_digits [of b, OF conjunct1 [OF b] conjunct1 [OF conjunct2 [OF b]]]
  show "bs58_decode s = Ok b"
    unfolding bs58_decode_digits [OF assms]
    using e b by (intro exI [of _ "rev (unats (foldl encode_step [0] b))"]) simp
qed

end
