(* ===== verification/Cache_Interface.thy ===== *)
theory Cache_Interface
  imports Prelude
begin

text \<open>
  What the service-auth verifier relies on from its cache of signing keys, as a locale: an entry
  is viewed as a key with the second at which it was stored.  The cache may forget any entry, but
  what it returns was stored last for that DID, after its last invalidation, and is fresh.
\<close>

section \<open>Sequences of operations\<close>

datatype 'k cache_op =
    Put string 'k u64
  | Invalidate string
  | Clear

fun run_cache ::
  "(string \<Rightarrow> 'k \<Rightarrow> u64 \<Rightarrow> 's \<Rightarrow> 's) \<Rightarrow> (string \<Rightarrow> 's \<Rightarrow> 's) \<Rightarrow> ('s \<Rightarrow> 's) \<Rightarrow> 'k cache_op list \<Rightarrow> 's \<Rightarrow> 's" where
  "run_cache ins inval clr [] s = s"
| "run_cache ins inval clr (Put did k now # ops) s = run_cache ins inval clr ops (ins did k now s)"
| "run_cache ins inval clr (Invalidate did # ops) s = run_cache ins inval clr ops (inval did s)"
| "run_cache ins inval clr (Clear # ops) s = run_cache ins inval clr ops (clr s)"

text \<open>The key a sequence stored last for a DID, unless it was invalidated afterwards; the second
  argument is what was stored before the sequence.\<close>

fun last_put :: "string \<Rightarrow> ('k \<times> u64) option \<Rightarrow> 'k cache_op list \<Rightarrow> ('k \<times> u64) option" where
  "last_put did acc [] = acc"
| "last_put did acc (Put d k now # ops) = last_put did (if d = did then Some (k, now) else acc) ops"
| "last_put did acc (Invalidate d # ops) = last_put did (if d = did then None else acc) ops"
| "last_put did acc (Clear # ops) = last_put did None ops"

section \<open>The interface\<close>

locale key_cache =
  fixes entry :: "'s \<Rightarrow> string \<Rightarrow> ('k \<times> u64) option"
    and lookup :: "string \<Rightarrow> u64 \<Rightarrow> 's \<Rightarrow> 'k option"
    and insert_key :: "string \<Rightarrow> 'k \<Rightarrow> u64 \<Rightarrow> 's \<Rightarrow> 's"
    and invalidate_key :: "string \<Rightarrow> 's \<Rightarrow> 's"
    and clear_all :: "'s \<Rightarrow> 's"
    and inv :: "'s \<Rightarrow> bool"
    and ttl :: "'s \<Rightarrow> u64"
  assumes lookup_entry: "inv s \<Longrightarrow> lookup did now s = Some k \<longleftrightarrow>
      (\<exists>t. entry s did = Some (k, t) \<and> unat now - unat t < unat (ttl s))"
    and insert_same: "inv s \<Longrightarrow> entry (insert_key did k now s) did = Some (k, now)"
    and insert_other: "inv s \<Longrightarrow> did' \<noteq> did \<Longrightarrow> entry (insert_key did k now s) did' = Some e \<Longrightarrow>
      entry s did' = Some e"
    and invalidate_same: "inv s \<Longrightarrow> entry (invalidate_key did s) did = None"
    and invalidate_other: "inv s \<Longrightarrow> did' \<noteq> did \<Longrightarrow> entry (invalidate_key did s) did' = entry s did'"
    and clear_entry: "inv s \<Longrightarrow> entry (clear_all s) did = None"
    and keep_inv: "inv s \<Longrightarrow> inv (insert_key did k now s)" "inv s \<Longrightarrow> inv (invalidate_key did s)"
      "inv s \<Longrightarrow> inv (clear_all s)"
    and keep_ttl: "ttl (insert_key did k now s) = ttl s" "ttl (invalidate_key did s) = ttl s"
      "ttl (clear_all s) = ttl s"
begin

abbreviation run :: "'k cache_op list \<Rightarrow> 's \<Rightarrow> 's" where
  "run \<equiv> run_cache insert_key invalidate_key clear_all"

lemma run_inv: "inv s \<Longrightarrow> inv (run ops s)"
proof (induction ops arbitrary: s)
  case (Cons x ops)
  thus ?case
    by (cases x) (auto intro: keep_inv)
qed simp

lemma run_ttl: "ttl (run ops s) = ttl s"
proof (induction ops arbitrary: s)
  case (Cons x ops)
  thus ?case
    by (cases x) (auto simp: keep_ttl)
qed simp

lemma run_entry:
  assumes "inv s" "\<And>e. entry s did = Some e \<Longrightarrow> acc = Some e" "entry (run ops s) did = Some e"
  shows "last_put did acc ops = Some e"
  using assms
proof (induction ops arbitrary: s acc)
  case (Cons x ops)
  show ?case
  proof (cases x)
    case (Put d k now)
    show ?thesis
      using Cons.IH [of "insert_key d k now s" "if d = did then Some (k, now) else acc"] Cons.prems
        insert_same [of s did k now] insert_other [of s did d k now]
      by (auto simp: Put keep_inv)
  next
    case (Invalidate d)
    show ?thesis
      using Cons.IH [of "invalidate_key d s" "if d = did then None else acc"] Cons.prems
        invalidate_same [of s did] invalidate_other [of s did d]
      by (auto simp: Invalidate keep_inv)
  next
    case Clear
    show ?thesis
      using Cons.IH [of "clear_all s" None] Cons.prems clear_entry [of s did]
      by (simp add: Clear keep_inv)
  qed
qed simp

text \<open>What a lookup returns after any sequence of operations was stored last and is fresh.\<close>

lemma lookup_last_put:
  assumes "inv s" "\<And>did. entry s did = None" "lookup did now (run ops s) = Some k"
  shows "\<exists>t. last_put did None ops = Some (k, t) \<and> unat now - unat t < unat (ttl s)"
proof -
  from assms(3) obtain t where "entry (run ops s) did = Some (k, t)" "unat now - unat t < unat (ttl s)"
    using lookup_entry [OF run_inv [OF assms(1)]] by (auto simp: run_ttl)
  thus ?thesis
    using run_entry [OF assms(1), of did None ops "(k, t)"] assms(2) by auto
qed

end

end
