(* ===== verification/Key_Cache.thy ===== *)
theory Key_Cache
  imports Cache_Interface State_Store
begin

text \<open>
  The cache of signing keys of \<open>service_auth.rs\<close>: 64 shards of at most 512 entries.  The hash
  function is a parameter.  A full shard first drops its expired entries and then, if it is still
  full, the oldest one.
\<close>

section \<open>Model\<close>

text \<open>The verifying keys of \<open>k256\<close> and \<open>p256\<close> are represented by their encodings.\<close>

datatype AtprotoVerifyingKey = Secp256k1 bytes | P256 bytes

definition DID_KEY_CACHE_TTL_SECS :: u64 where
  "DID_KEY_CACHE_TTL_SECS = 15 * 60"

definition DID_KEY_CACHE_SHARDS :: nat where
  "DID_KEY_CACHE_SHARDS = NUM_SHARDS"

definition MAX_DID_KEY_CACHE_PER_SHARD :: nat where
  "MAX_DID_KEY_CACHE_PER_SHARD = 512"

record CachedSigningKey =
  csk_verifying_key :: "bytes option"
  csk_atproto_key :: AtprotoVerifyingKey
  csk_resolved_at_secs :: u64

type_synonym key_shard = "(string, CachedSigningKey) hmap"

record DidKeyCache =
  kc_shards :: "key_shard list"
  kc_ttl_secs :: u64

definition DidKeyCache_new :: "u64 \<Rightarrow> DidKeyCache" where
  "DidKeyCache_new ttl = \<lparr> kc_shards = replicate DID_KEY_CACHE_SHARDS [], kc_ttl_secs = ttl \<rparr>"

definition DidKeyCache_default :: DidKeyCache where
  "DidKeyCache_default = DidKeyCache_new DID_KEY_CACHE_TTL_SECS"

definition shard_idx :: "(string \<Rightarrow> u64) \<Rightarrow> string \<Rightarrow> nat" where
  "shard_idx h did = unat (and (h did) 63)"

definition get_signing_key :: "(string \<Rightarrow> u64) \<Rightarrow> string \<Rightarrow> u64 \<Rightarrow> DidKeyCache \<Rightarrow> bytes option" where
  "get_signing_key h did now c =
     (case hm_get did (kc_shards c ! shard_idx h did) of
        None \<Rightarrow> None
      | Some e \<Rightarrow>
          if saturating_sub now (csk_resolved_at_secs e) \<ge> kc_ttl_secs c then None
          else csk_verifying_key e)"

definition get_atproto_key ::
  "(string \<Rightarrow> u64) \<Rightarrow> string \<Rightarrow> u64 \<Rightarrow> DidKeyCache \<Rightarrow> AtprotoVerifyingKey option" where
  "get_atproto_key h did now c =
     (case hm_get did (kc_shards c ! shard_idx h did) of
        None \<Rightarrow> None
      | Some e \<Rightarrow>
          if saturating_sub now (csk_resolved_at_secs e) \<ge> kc_ttl_secs c then None
          else Some (csk_atproto_key e))"

text \<open>\<open>min_by_key\<close>: the first entry with the least time.\<close>

fun oldest :: "key_shard \<Rightarrow> (string \<times> CachedSigningKey) option" where
  "oldest [] = None"
| "oldest (e # es) =
     (case oldest es of
        None \<Rightarrow> Some e
      | Some e' \<Rightarrow> if csk_resolved_at_secs (snd e) \<le> csk_resolved_at_secs (snd e') then Some e else Some e')"

definition make_room :: "u64 \<Rightarrow> u64 \<Rightarrow> string \<Rightarrow> key_shard \<Rightarrow> key_shard" where
  "make_room ttl now did sh =
     (if length sh \<ge> MAX_DID_KEY_CACHE_PER_SHARD \<and> \<not> hm_contains did sh then
        (let sh = hm_retain (\<lambda>_ v. saturating_sub now (csk_resolved_at_secs v) < ttl) sh in
         if length sh \<ge> MAX_DID_KEY_CACHE_PER_SHARD
         then (case oldest sh of Some (k, _) \<Rightarrow> hm_remove k sh | None \<Rightarrow> sh)
         else sh)
      else sh)"

definition cached_signing_key :: "AtprotoVerifyingKey \<Rightarrow> u64 \<Rightarrow> CachedSigningKey" where
  "cached_signing_key k now =
     \<lparr> csk_verifying_key = (case k of Secp256k1 vk \<Rightarrow> Some vk | P256 _ \<Rightarrow> None),
       csk_atproto_key = k, csk_resolved_at_secs = now \<rparr>"

definition insert_atproto_key ::
  "(string \<Rightarrow> u64) \<Rightarrow> string \<Rightarrow> AtprotoVerifyingKey \<Rightarrow> u64 \<Rightarrow> DidKeyCache \<Rightarrow> DidKeyCache" where
  "insert_atproto_key h did k now c =
     (let i = shard_idx h did; sh = make_room (kc_ttl_secs c) now did (kc_shards c ! i)
      in c\<lparr>kc_shards := (kc_shards c)[i := hm_insert did (cached_signing_key k now) sh]\<rparr>)"

definition insert_signing_key ::
  "(string \<Rightarrow> u64) \<Rightarrow> string \<Rightarrow> bytes \<Rightarrow> u64 \<Rightarrow> DidKeyCache \<Rightarrow> DidKeyCache" where
  "insert_signing_key h did k now c = insert_atproto_key h did (Secp256k1 k) now c"

definition invalidate :: "(string \<Rightarrow> u64) \<Rightarrow> string \<Rightarrow> DidKeyCache \<Rightarrow> DidKeyCache" where
  "invalidate h did c =
     (let i = shard_idx h did in c\<lparr>kc_shards := (kc_shards c)[i := hm_remove did (kc_shards c ! i)]\<rparr>)"

definition key_cache_len :: "DidKeyCache \<Rightarrow> nat" where
  "key_cache_len c = sum_list (map length (kc_shards c))"

definition key_cache_is_empty :: "DidKeyCache \<Rightarrow> bool" where
  "key_cache_is_empty c = (key_cache_len c = 0)"

definition key_cache_clear :: "DidKeyCache \<Rightarrow> DidKeyCache" where
  "key_cache_clear c = c\<lparr>kc_shards := map (\<lambda>_. []) (kc_shards c)\<rparr>"

section \<open>Invariant and view\<close>

text \<open>Besides the shape and the bound: the curve-specific copy of a key is the key.\<close>

definition cached_ok :: "CachedSigningKey \<Rightarrow> bool" where
  "cached_ok e = (csk_verifying_key e = (case csk_atproto_key e of Secp256k1 vk \<Rightarrow> Some vk | P256 _ \<Rightarrow> None))"

definition key_shard_ok :: "key_shard \<Rightarrow> bool" where
  "key_shard_ok sh =
     (hm_ok sh \<and> length sh \<le> MAX_DID_KEY_CACHE_PER_SHARD \<and> list_all (\<lambda>(_, e). cached_ok e) sh)"

definition key_cache_inv :: "DidKeyCache \<Rightarrow> bool" where
  "key_cache_inv c = (length (kc_shards c) = DID_KEY_CACHE_SHARDS \<and> list_all key_shard_ok (kc_shards c))"

definition key_entry :: "(string \<Rightarrow> u64) \<Rightarrow> DidKeyCache \<Rightarrow> string \<Rightarrow> (AtprotoVerifyingKey \<times> u64) option" where
  "key_entry h c did =
     map_option (\<lambda>e. (csk_atproto_key e, csk_resolved_at_secs e)) (hm_get did (kc_shards c ! shard_idx h did))"

section \<open>Lemmas\<close>

lemma shard_idx_less: "shard_idx h did < DID_KEY_CACHE_SHARDS"
proof -
  have "and (h did) 63 = take_bit 6 (h did)"
    by (simp add: take_bit_eq_mask mask_eq_exp_minus_1)
  hence "unat (and (h did) 63) = unat (h did) mod 64"
    by (simp add: unsigned_take_bit_eq take_bit_eq_mod unat_mod_distrib)
  thus ?thesis
    by (simp add: shard_idx_def DID_KEY_CACHE_SHARDS_def NUM_SHARDS_def)
qed

lemma oldest_in: "oldest sh = Some e \<Longrightarrow> e \<in> set sh"
  by (induction sh arbitrary: e) (auto split: option.splits if_splits)

lemma oldest_nonempty: "sh \<noteq> [] \<Longrightarrow> \<exists>k v. oldest sh = Some (k, v)"
  by (cases sh) (auto split: option.splits)

lemma length_hm_remove_less: "(k, v) \<in> set m \<Longrightarrow> length (hm_remove k m) < length m"
  unfolding hm_remove_def AList.delete_eq by (rule length_filter_less [where x = "(k, v)"]) auto

lemma key_shard_ok_subset:
  assumes "key_shard_ok sh" "set sh' \<subseteq> set sh" "hm_ok sh'" "length sh' \<le> length sh"
  shows "key_shard_ok sh'"
  using assms by (auto simp: key_shard_ok_def list_all_iff)

lemma key_shard_ok_retain: "key_shard_ok sh \<Longrightarrow> key_shard_ok (hm_retain p sh)"
  by (rule key_shard_ok_subset [OF _ hm_retain_subset]) (auto simp: key_shard_ok_def)

lemma key_shard_ok_remove: "key_shard_ok sh \<Longrightarrow> key_shard_ok (hm_remove k sh)"
  by (rule key_shard_ok_subset [OF _ set_hm_remove]) (auto simp: key_shard_ok_def)

lemma make_room_ok:
  assumes "key_shard_ok sh"
  shows "key_shard_ok (make_room ttl now did sh)"
    and "length (hm_insert did e (make_room ttl now did sh)) \<le> MAX_DID_KEY_CACHE_PER_SHARD"
proof -
  let ?r = "hm_retain (\<lambda>_ v. saturating_sub now (csk_resolved_at_secs v) < ttl) sh"
  have r: "key_shard_ok ?r"
    by (rule key_shard_ok_retain [OF assms])
  show "key_shard_ok (make_room ttl now did sh)"
    using assms r key_shard_ok_remove by (auto simp: make_room_def Let_def split: option.split)
  show "length (hm_insert did e (make_room ttl now did sh)) \<le> MAX_DID_KEY_CACHE_PER_SHARD"
  proof (cases "length sh \<ge> MAX_DID_KEY_CACHE_PER_SHARD \<and> \<not> hm_contains did sh")
    case False
    hence "length (hm_insert did e sh) \<le> MAX_DID_KEY_CACHE_PER_SHARD"
      using assms by (auto simp: key_shard_ok_def length_hm_insert hm_contains_def)
    thus ?thesis
      using False by (auto simp: make_room_def)
  next
    case True
    have "length (make_room ttl now did sh) < MAX_DID_KEY_CACHE_PER_SHARD"
    proof (cases "length ?r \<ge> MAX_DID_KEY_CACHE_PER_SHARD")
      case big: True
      hence "?r \<noteq> []"
        by (auto simp: MAX_DID_KEY_CACHE_PER_SHARD_def)
      then obtain k v where o: "oldest ?r = Some (k, v)"
        using oldest_nonempty by blast
      have "length (hm_remove k ?r) < length ?r"
        by (rule length_hm_remove_less [OF oldest_in [OF o]])
      thus ?thesis
        using True big o r by (auto simp: make_room_def key_shard_ok_def)
    next
      case small: False
      thus ?thesis
        using True by (simp add: make_room_def)
    qed
    thus ?thesis
      using length_hm_insert_le [of did e "make_room ttl now did sh"] by linarith
  qed
qed

lemma hm_get_make_room:
  assumes "key_shard_ok sh" "hm_get d (make_room ttl now did sh) = Some e"
  shows "hm_get d sh = Some e"
proof -
  have "set (make_room ttl now did sh) \<subseteq> set sh"
    unfolding make_room_def Let_def
    by (auto split: option.split dest!: subsetD [OF set_hm_remove] subsetD [OF hm_retain_subset])
  thus ?thesis
    using assms hm_get_in_set [OF assms(2)] hm_in_set_get [of sh d e] by (auto simp: key_shard_ok_def)
qed

lemma key_shard_ok_insert:
  assumes "key_shard_ok sh"
  shows "key_shard_ok (hm_insert did (cached_signing_key k now) (make_room ttl now did sh))"
proof -
  let ?e = "cached_signing_key k now" and ?m = "make_room ttl now did sh"
  have "cached_ok ?e"
    by (simp add: cached_ok_def cached_signing_key_def)
  hence "list_all (\<lambda>(_, e). cached_ok e) (hm_insert did ?e ?m)"
    using make_room_ok(1) [OF assms, of ttl now did]
    by (auto simp: key_shard_ok_def list_all_iff dest!: subsetD [OF set_hm_insert])
  thus ?thesis
    using make_room_ok(1) [OF assms, of ttl now did] make_room_ok(2) [OF assms] by (simp add: key_shard_ok_def)
qed

lemma key_cache_nth: "key_cache_inv c \<Longrightarrow> key_shard_ok (kc_shards c ! shard_idx h did)"
  using shard_idx_less [of h did] by (auto simp: key_cache_inv_def list_all_length)

lemma key_cache_set:
  assumes "key_cache_inv c" "key_shard_ok sh"
  shows "key_cache_inv (c\<lparr>kc_shards := (kc_shards c)[i := sh]\<rparr>)"
  using assms set_update_subset_insert [of "kc_shards c" i sh]
  by (auto simp: key_cache_inv_def list_all_iff)

lemma key_cache_new [simp]: "key_cache_inv (DidKeyCache_new ttl)" "key_entry h (DidKeyCache_new ttl) did = None"
  using shard_idx_less [of h did]
  by (auto simp: key_cache_inv_def DidKeyCache_new_def key_shard_ok_def key_entry_def list_all_iff)

section \<open>The cache keeps the contract\<close>

lemma key_entry_insert:
  assumes "key_cache_inv c"
  shows "key_entry h (insert_atproto_key h did k now c) did = Some (k, now)"
    and "did' \<noteq> did \<Longrightarrow> key_entry h (insert_atproto_key h did k now c) did' = Some e \<Longrightarrow> key_entry h c did' = Some e"
proof -
  have len: "shard_idx h did < length (kc_shards c)" "shard_idx h did' < length (kc_shards c)"
    using assms shard_idx_less by (simp_all add: key_cache_inv_def)
  show "key_entry h (insert_atproto_key h did k now c) did = Some (k, now)"
    using len by (simp add: key_entry_def insert_atproto_key_def Let_def cached_signing_key_def)
  show "key_entry h c did' = Some e" if "did' \<noteq> did" "key_entry h (insert_atproto_key h did k now c) did' = Some e"
    using that len hm_get_make_room [OF key_cache_nth [OF assms, of h did], of did']
    by (cases "shard_idx h did' = shard_idx h did") (auto simp: key_entry_def insert_atproto_key_def Let_def)
qed

interpretation did_keys: key_cache "key_entry h" "get_atproto_key h" "insert_atproto_key h" "invalidate h"
  key_cache_clear key_cache_inv kc_ttl_secs for h
proof
  fix s :: DidKeyCache and did did' :: string and now :: u64 and k :: AtprotoVerifyingKey
    and e :: "AtprotoVerifyingKey \<times> u64"
  assume inv: "key_cache_inv s"
  have len: "shard_idx h d < length (kc_shards s)" for d
    using inv shard_idx_less by (simp add: key_cache_inv_def)
  show "get_atproto_key h did now s = Some k \<longleftrightarrow>
      (\<exists>t. key_entry h s did = Some (k, t) \<and> unat now - unat t < unat (kc_ttl_secs s))"
    by (auto simp: get_atproto_key_def key_entry_def word_le_nat_alt unat_saturating_sub split: option.splits)
  show "key_entry h (insert_atproto_key h did k now s) did = Some (k, now)"
    by (rule key_entry_insert(1) [OF inv])
  show "key_entry h s did' = Some e"
    if "did' \<noteq> did" "key_entry h (insert_atproto_key h did k now s) did' = Some e"
    by (rule key_entry_insert(2) [OF inv that])
  show "key_entry h (invalidate h did s) did = None"
    by (simp add: key_entry_def invalidate_def Let_def len)
  show "key_entry h (invalidate h did s) did' = key_entry h s did'" if "did' \<noteq> did"
    using that by (cases "shard_idx h did' = shard_idx h did") (auto simp: key_entry_def invalidate_def Let_def len)
  show "key_entry h (key_cache_clear s) did = None"
    by (simp add: key_entry_def key_cache_clear_def len)
  show "key_cache_inv (insert_atproto_key h did k now s)"
    unfolding insert_atproto_key_def Let_def
    by (rule key_cache_set [OF inv key_shard_ok_insert [OF key_cache_nth [OF inv]]])
  show "key_cache_inv (invalidate h did s)"
    unfolding invalidate_def Let_def
    by (rule key_cache_set [OF inv key_shard_ok_remove [OF key_cache_nth [OF inv]]])
  show "key_cache_inv (key_cache_clear s)"
    using inv by (auto simp: key_cache_inv_def key_cache_clear_def list_all_iff key_shard_ok_def)
qed (simp_all add: insert_atproto_key_def invalidate_def key_cache_clear_def Let_def)

lemma key_cache_len_le: "key_cache_inv c \<Longrightarrow> key_cache_len c \<le> 64 * 512"
proof -
  assume c: "key_cache_inv c"
  have "sum_list (map length (kc_shards c)) \<le> sum_list (map (\<lambda>_. 512) (kc_shards c))"
    using c by (intro sum_list_mono) (auto simp: key_cache_inv_def list_all_iff key_shard_ok_def
        MAX_DID_KEY_CACHE_PER_SHARD_def)
  thus "key_cache_len c \<le> 64 * 512"
    using c by (simp add: key_cache_len_def key_cache_inv_def DID_KEY_CACHE_SHARDS_def NUM_SHARDS_def
        sum_list_triv)
qed

section \<open>Properties\<close>

text \<open>C37: After any sequence of insertions, invalidations and clearings, a lookup returns only the key
  that was stored last for that DID, not invalidated since, and younger than the time to live.\<close>

theorem cached_key_is_current:
  assumes "get_atproto_key h did now
    (run_cache (insert_atproto_key h) (invalidate h) key_cache_clear ops (DidKeyCache_new ttl)) = Some k"
  shows "\<exists>t. last_put did None ops = Some (k, t) \<and> unat now - unat t < unat ttl"
  using did_keys.lookup_last_put [of "DidKeyCache_new ttl" h did now ops k] assms
  by (auto simp: DidKeyCache_new_def [of ttl, THEN arg_cong, of kc_ttl_secs])

theorem cached_key_is_current_witness:
  "\<exists>t. last_put ''did:web:a.b'' None [Put ''did:web:a.b'' (P256 [1]) 5] = Some (P256 [1], t) \<and> unat (6 :: u64) - unat t < 900"
proof -
  have "get_atproto_key (\<lambda>_. 0) ''did:web:a.b'' 6
      (run_cache (insert_atproto_key (\<lambda>_. 0)) (invalidate (\<lambda>_. 0)) key_cache_clear
         [Put ''did:web:a.b'' (P256 [1]) 5] (DidKeyCache_new 900)) = Some (P256 [1])"
    by (subst did_keys.lookup_entry)
      (auto simp: did_keys.keep_inv did_keys.insert_same did_keys.keep_ttl DidKeyCache_new_def [of 900, THEN arg_cong, of kc_ttl_secs])
  from cached_key_is_current [OF this] show ?thesis
    by simp
qed

text \<open>However it is used, the cache holds at most 512 keys per shard and 32768 in all.\<close>

theorem key_cache_bounded:
  "let c = run_cache (insert_atproto_key h) (invalidate h) key_cache_clear ops (DidKeyCache_new ttl)
   in list_all (\<lambda>sh. length sh \<le> 512) (kc_shards c) \<and> key_cache_len c \<le> 32768"
proof -
  let ?c = "run_cache (insert_atproto_key h) (invalidate h) key_cache_clear ops (DidKeyCache_new ttl)"
  have "key_cache_inv ?c"
    by (rule did_keys.run_inv) simp
  thus ?thesis
    using key_cache_len_le [of ?c]
    by (auto simp: Let_def key_cache_inv_def list_all_iff key_shard_ok_def MAX_DID_KEY_CACHE_PER_SHARD_def)
qed

end
