(* ===== verification/Multikey.thy ===== *)
theory Multikey
  imports Base58 Key_Cache Crypto
begin

text \<open>
  The byte kernels of service authentication (\<open>kernels/service_auth_bytes.rs\<close>), with the
  specifications stated beside them in the source, and the multibase encoding of public keys
  (\<open>service_auth.rs\<close>).  The functions of \<open>k256\<close> and the compressed encoding of \<open>p256\<close> keys are a
  parameter.
\<close>

section \<open>Kernels\<close>

definition CURVE_NONE :: u8 where "CURVE_NONE = 0"
definition CURVE_SECP256K1 :: u8 where "CURVE_SECP256K1 = 1"
definition CURVE_P256 :: u8 where "CURVE_P256 = 2"
definition ALG_NONE :: u8 where "ALG_NONE = 0"
definition ALG_ES256K :: u8 where "ALG_ES256K = 1"
definition ALG_ES256 :: u8 where "ALG_ES256 = 2"

definition is_compressed_sec1_tag :: "u8 \<Rightarrow> bool" where
  "is_compressed_sec1_tag tag = (tag = 0x02 \<or> tag = 0x03)"

definition classify_multikey_header :: "nat \<Rightarrow> u8 \<Rightarrow> u8 \<Rightarrow> u8 \<Rightarrow> u8" where
  "classify_multikey_header len b0 b1 b2 =
     (if (len = 35 \<and> b0 = 0xe7 \<and> b1 = 0x01 \<and> (b2 = 0x02 \<or> b2 = 0x03))
         \<or> (len = 34 \<and> b0 = 0xe7 \<and> (b1 = 0x02 \<or> b1 = 0x03)) then 1
      else if len = 35 \<and> b0 = 0x80 \<and> b1 = 0x24 \<and> (b2 = 0x02 \<or> b2 = 0x03) then 2
      else 0)"

definition multikey_sec1_offset :: "nat \<Rightarrow> u8 \<Rightarrow> u8 \<Rightarrow> u8 \<Rightarrow> nat" where
  "multikey_sec1_offset len b0 b1 b2 =
     (if len = 35 \<and> (b2 = 0x02 \<or> b2 = 0x03) \<and> ((b0 = 0xe7 \<and> b1 = 0x01) \<or> (b0 = 0x80 \<and> b1 = 0x24)) then 2
      else if len = 34 \<and> b0 = 0xe7 \<and> (b1 = 0x02 \<or> b1 = 0x03) then 1
      else 0)"

definition is_alg_bound_to_curve :: "u8 \<Rightarrow> u8 \<Rightarrow> bool" where
  "is_alg_bound_to_curve curve_id alg_id = ((curve_id = 1 \<and> alg_id = 1) \<or> (curve_id = 2 \<and> alg_id = 2))"

definition is_service_jwt_exp_valid :: "u64 \<Rightarrow> u64 \<Rightarrow> u64 \<Rightarrow> bool" where
  "is_service_jwt_exp_valid expires now_secs leeway_secs =
     (if expires > u64_max - leeway_secs then True else now_secs \<le> expires + leeway_secs)"

definition classify_multikey_bytes :: "bytes \<Rightarrow> (u8 \<times> bytes) option" where
  "classify_multikey_bytes bs =
     (if length bs < 3 then None
      else
        (let len = length bs; b0 = bs ! 0; b1 = bs ! 1; b2 = bs ! 2;
             curve = classify_multikey_header len b0 b1 b2;
             offset = multikey_sec1_offset len b0 b1 b2
         in if curve = CURVE_NONE \<or> offset = 0 then None else Some (curve, drop offset bs)))"

definition alg_id_from_str :: "string \<Rightarrow> u8" where
  "alg_id_from_str alg =
     (if alg = ''ES256K'' then ALG_ES256K else if alg = ''ES256'' then ALG_ES256 else ALG_NONE)"

text \<open>The specifications of the source.\<close>

definition spec_is_compressed_sec1_tag :: "u8 \<Rightarrow> bool" where
  "spec_is_compressed_sec1_tag tag = (tag = 0x02 \<or> tag = 0x03)"

definition spec_classify_multikey_header :: "nat \<Rightarrow> u8 \<Rightarrow> u8 \<Rightarrow> u8 \<Rightarrow> u8" where
  "spec_classify_multikey_header len b0 b1 b2 =
     (if len = 35 \<and> b0 = 0xe7 \<and> b1 = 0x01 \<and> spec_is_compressed_sec1_tag b2 then 1
      else if len = 34 \<and> b0 = 0xe7 \<and> spec_is_compressed_sec1_tag b1 then 1
      else if len = 35 \<and> b0 = 0x80 \<and> b1 = 0x24 \<and> spec_is_compressed_sec1_tag b2 then 2
      else 0)"

definition spec_multikey_sec1_offset :: "nat \<Rightarrow> u8 \<Rightarrow> u8 \<Rightarrow> u8 \<Rightarrow> nat" where
  "spec_multikey_sec1_offset len b0 b1 b2 =
     (if len = 35 \<and> b0 = 0xe7 \<and> b1 = 0x01 \<and> spec_is_compressed_sec1_tag b2 then 2
      else if len = 34 \<and> b0 = 0xe7 \<and> spec_is_compressed_sec1_tag b1 then 1
      else if len = 35 \<and> b0 = 0x80 \<and> b1 = 0x24 \<and> spec_is_compressed_sec1_tag b2 then 2
      else 0)"

definition spec_is_alg_bound_to_curve :: "u8 \<Rightarrow> u8 \<Rightarrow> bool" where
  "spec_is_alg_bound_to_curve curve_id alg_id = ((curve_id = 1 \<and> alg_id = 1) \<or> (curve_id = 2 \<and> alg_id = 2))"

definition spec_is_service_jwt_exp_valid :: "u64 \<Rightarrow> u64 \<Rightarrow> u64 \<Rightarrow> bool" where
  "spec_is_service_jwt_exp_valid expires now_secs leeway_secs =
     (uint now_secs \<le> uint expires + uint leeway_secs)"

section \<open>Keys\<close>

definition curve_id :: "AtprotoVerifyingKey \<Rightarrow> u8" where
  "curve_id k = (case k of Secp256k1 _ \<Rightarrow> CURVE_SECP256K1 | P256 _ \<Rightarrow> CURVE_P256)"

definition COMPRESSED_EC_PUBLIC_KEY_LEN :: nat where
  "COMPRESSED_EC_PUBLIC_KEY_LEN = 33"

definition MULTIKEY_SECP256K1_VARINT :: bytes where
  "MULTIKEY_SECP256K1_VARINT = [0xe7, 0x01]"

definition MULTIKEY_SECP256K1_LEGACY_PREFIX :: u8 where
  "MULTIKEY_SECP256K1_LEGACY_PREFIX = 0xe7"

definition MULTIKEY_P256_VARINT :: bytes where
  "MULTIKEY_P256_VARINT = [0x80, 0x24]"

record ec_lib =
  k256_from_sec1 :: "bytes \<Rightarrow> (bytes, string) result"
  k256_to_sec1 :: "bytes \<Rightarrow> bytes"
  k256_signature_from_slice :: "bytes \<Rightarrow> (bytes, string) result"
  k256_verify :: "bytes \<Rightarrow> bytes \<Rightarrow> bytes \<Rightarrow> (unit, string) result"
  p256_to_sec1 :: "bytes \<Rightarrow> bytes"

definition decode_multikey :: "crypto_lib \<Rightarrow> string \<Rightarrow> (bytes, AtprotoOAuthError) result" where
  "decode_multikey L multibase =
     (case multibase of
        c # rest \<Rightarrow>
          if rest = [] then Err (AtprotoOAuthError.Crypto (CryptoError.InvalidKey ''Malformed multibase key: too short''))
          else
            try_bind
              (if c = CHR ''z'' then bs58_decode rest
               else if c = CHR ''u'' then
                 map_err (\<lambda>e. AtprotoOAuthError.Crypto (CryptoError.Base64Decode
                     (''Malformed base64url multibase: '' @ e))) (b64_decode_nopad L rest)
               else Err (AtprotoOAuthError.Crypto (CryptoError.InvalidKey
                 (''Unsupported multibase prefix byte '' @ show_hex_byte c))))
              (\<lambda>decoded. Ok (case decoded of b # bs \<Rightarrow> if b = 0x00 then bs else decoded | [] \<Rightarrow> decoded))
      | [] \<Rightarrow> Err (AtprotoOAuthError.Crypto (CryptoError.InvalidKey ''Malformed multibase key: too short'')))"

definition encode_multikey_secp256k1 :: "ec_lib \<Rightarrow> bytes \<Rightarrow> string" where
  "encode_multikey_secp256k1 C k = ''z'' @ bs58_encode (MULTIKEY_SECP256K1_VARINT @ k256_to_sec1 C k)"

definition encode_multikey_p256 :: "ec_lib \<Rightarrow> bytes \<Rightarrow> string" where
  "encode_multikey_p256 C k = ''z'' @ bs58_encode (MULTIKEY_P256_VARINT @ p256_to_sec1 C k)"

section \<open>Documented behaviour of the curve libraries\<close>

text \<open>A compressed point has 33 bytes, the first of which is 2 or 3, and decodes to the key.\<close>

definition compressed :: "bytes \<Rightarrow> bool" where
  "compressed s = (\<exists>t r. s = t # r \<and> length r = 32 \<and> is_compressed_sec1_tag t)"

definition k256_documented :: "ec_lib \<Rightarrow> bytes \<Rightarrow> bool" where
  "k256_documented C k = (compressed (k256_to_sec1 C k) \<and> k256_from_sec1 C (k256_to_sec1 C k) = Ok k)"

definition p256_sec1_documented :: "crypto_lib \<Rightarrow> ec_lib \<Rightarrow> bytes \<Rightarrow> bool" where
  "p256_sec1_documented L C k = (compressed (p256_to_sec1 C k) \<and> p256_from_sec1 L (p256_to_sec1 C k) = Ok k)"

section \<open>Lemmas\<close>

lemma classify_multikey_iff:
  "classify_multikey_bytes bs = Some (c, s) \<longleftrightarrow>
     compressed s \<and> ((c = CURVE_SECP256K1 \<and> (bs = MULTIKEY_SECP256K1_VARINT @ s \<or> bs = MULTIKEY_SECP256K1_LEGACY_PREFIX # s))
        \<or> (c = CURVE_P256 \<and> bs = MULTIKEY_P256_VARINT @ s))"
proof (cases bs)
  case (Cons b0 r0)
  show ?thesis
  proof (cases r0)
    case c1: (Cons b1 r1)
    show ?thesis
    proof (cases r1)
      case c2: (Cons b2 r2)
      show ?thesis
        by (auto simp: Cons c1 c2 classify_multikey_bytes_def classify_multikey_header_def
            multikey_sec1_offset_def compressed_def is_compressed_sec1_tag_def Let_def CURVE_NONE_def
            CURVE_SECP256K1_def CURVE_P256_def MULTIKEY_SECP256K1_VARINT_def
            MULTIKEY_SECP256K1_LEGACY_PREFIX_def MULTIKEY_P256_VARINT_def)
    qed (auto simp: Cons c1 classify_multikey_bytes_def compressed_def MULTIKEY_SECP256K1_VARINT_def
        MULTIKEY_SECP256K1_LEGACY_PREFIX_def MULTIKEY_P256_VARINT_def)
  qed (auto simp: Cons classify_multikey_bytes_def compressed_def MULTIKEY_SECP256K1_VARINT_def
      MULTIKEY_SECP256K1_LEGACY_PREFIX_def MULTIKEY_P256_VARINT_def)
qed (auto simp: classify_multikey_bytes_def MULTIKEY_SECP256K1_VARINT_def MULTIKEY_P256_VARINT_def)

lemma exp_valid_iff:
  "is_service_jwt_exp_valid expires now leeway \<longleftrightarrow> unat now \<le> unat expires + unat leeway"
proof (cases "unat expires + unat leeway < 2 ^ 64")
  case True
  hence "\<not> expires > u64_max - leeway"
    using u64_le_max_minus [of expires leeway] by (simp add: not_less add.commute)
  moreover have "unat (expires + leeway) = unat expires + unat leeway"
    using True by (simp add: unat_word_ariths)
  ultimately show ?thesis
    by (simp add: is_service_jwt_exp_valid_def word_le_nat_alt)
next
  case False
  hence "expires > u64_max - leeway"
    using u64_le_max_minus [of expires leeway] by (simp add: not_le [symmetric] add.commute)
  moreover have "unat now < 2 ^ 64"
    by (rule unat_u64_less)
  ultimately show ?thesis
    using False by (simp add: is_service_jwt_exp_valid_def)
qed

lemma decode_z: "b \<noteq> [] \<Longrightarrow> hd b \<noteq> 0 \<Longrightarrow> decode_multikey L (''z'' @ bs58_encode b) = Ok b"
proof -
  assume b: "b \<noteq> []" "hd b \<noteq> 0"
  have ne: "bs58_encode b \<noteq> []"
    using encode_digits [OF b] by auto
  have "bs58_decode (bs58_encode b) = Ok b"
    using bs58_inverse [OF ne] b by simp
  thus ?thesis
    using ne b by (cases b) (auto simp: decode_multikey_def)
qed

end
