(* ===== verification/Net_Addr.thy ===== *)
theory Net_Addr
  imports Ip_Filter
begin

text \<open>
  The textual form of IP addresses, as \<open>std::net\<close> parses and prints it.  The parser follows the
  reader functions of the standard library: a reader takes a prefix of the text and yields the
  rest, or fails and consumes nothing.
\<close>

section \<open>Parsing\<close>

definition digit_value :: "char \<Rightarrow> nat" where
  "digit_value c =
     (if is_ascii_digit c then code c - 48
      else if is_ascii_lowercase c then code c - 87
      else if is_ascii_uppercase c then code c - 55
      else 36)"

definition is_digit :: "nat \<Rightarrow> char \<Rightarrow> bool" where
  "is_digit radix c = (digit_value c < radix)"

definition digits_value :: "nat \<Rightarrow> string \<Rightarrow> nat" where
  "digits_value radix ds = fold (\<lambda>c n. n * radix + digit_value c) ds 0"

text \<open>\<open>read_number\<close> with a bound on the number of digits, for a type with \<open>bound\<close> values.\<close>

definition read_number ::
  "nat \<Rightarrow> nat \<Rightarrow> bool \<Rightarrow> nat \<Rightarrow> string \<Rightarrow> (nat \<times> string) option" where
  "read_number radix max_digits allow_zero_prefix bound s =
     (let ds = takeWhile (is_digit radix) s; n = digits_value radix ds in
      if ds = [] \<or> length ds > max_digits \<or> (\<not> allow_zero_prefix \<and> hd ds = CHR ''0'' \<and> length ds > 1)
         \<or> n \<ge> bound
      then None else Some (n, dropWhile (is_digit radix) s))"

definition read_separator ::
  "char \<Rightarrow> nat \<Rightarrow> (string \<Rightarrow> ('a \<times> string) option) \<Rightarrow> string \<Rightarrow> ('a \<times> string) option" where
  "read_separator sep index inner s =
     (if index = 0 then inner s
      else (case s of [] \<Rightarrow> None | c # r \<Rightarrow> if c = sep then inner r else None))"

definition read_octet :: "nat \<Rightarrow> string \<Rightarrow> (nat \<times> string) option" where
  "read_octet i s = read_separator (CHR ''.'') i (read_number 10 3 False 256) s"

definition read_ipv4_addr :: "string \<Rightarrow> (octets \<times> string) option" where
  "read_ipv4_addr s =
     (case read_octet 0 s of None \<Rightarrow> None | Some (a, s) \<Rightarrow>
     (case read_octet 1 s of None \<Rightarrow> None | Some (b, s) \<Rightarrow>
     (case read_octet 2 s of None \<Rightarrow> None | Some (c, s) \<Rightarrow>
     (case read_octet 3 s of None \<Rightarrow> None | Some (d, s) \<Rightarrow>
        Some ((word_of_nat a, word_of_nat b, word_of_nat c, word_of_nat d), s)))))"

text \<open>Groups of an IPv6 address from index \<open>i\<close> on, with whether an embedded IPv4 address ended
  them.\<close>

function read_groups :: "nat \<Rightarrow> nat \<Rightarrow> string \<Rightarrow> u16 list \<times> bool \<times> string" where
  "read_groups i limit s =
     (if i \<ge> limit then ([], False, s)
      else
        (case (if i < limit - 1 then read_separator (CHR '':'') i read_ipv4_addr s else None) of
           Some ((a, b, c, d), r) \<Rightarrow>
             ([ucast a * 256 + ucast b, ucast c * 256 + ucast d], True, r)
         | None \<Rightarrow>
             (case read_separator (CHR '':'') i (read_number 16 4 True 65536) s of
                None \<Rightarrow> ([], False, s)
              | Some (g, r) \<Rightarrow>
                  (let (gs, v4, r') = read_groups (i + 1) limit r in (word_of_nat g # gs, v4, r')))))"
  by pat_completeness auto
termination
  by (relation "measure (\<lambda>(i, limit, s). limit - i)") auto

declare read_groups.simps [simp del]

definition segments_of_list :: "u16 list \<Rightarrow> segments" where
  "segments_of_list gs = (gs ! 0, gs ! 1, gs ! 2, gs ! 3, gs ! 4, gs ! 5, gs ! 6, gs ! 7)"

definition read_ipv6_addr :: "string \<Rightarrow> (segments \<times> string) option" where
  "read_ipv6_addr s =
     (let (head, head_ipv4, s) = read_groups 0 8 s in
      if length head = 8 then Some (segments_of_list head, s)
      else if head_ipv4 then None
      else (case strip_prefix ''::'' s of
              None \<Rightarrow> None
            | Some s \<Rightarrow>
                (let (tail, _, s) = read_groups 0 (8 - (length head + 1)) s in
                 Some (segments_of_list
                   (head @ replicate (8 - length head - length tail) 0 @ tail), s))))"

text \<open>\<open>str::parse::<IpAddr>\<close>: the whole text must be an address.\<close>

definition parse_ip :: "string \<Rightarrow> ip_addr option" where
  "parse_ip s =
     (case read_ipv4_addr s of
        Some (v4, r) \<Rightarrow> if r = [] then Some (V4 v4) else None
      | None \<Rightarrow>
          (case read_ipv6_addr s of
             Some (v6, r) \<Rightarrow> if r = [] then Some (V6 v6) else None
           | None \<Rightarrow> None))"

section \<open>Printing\<close>

fun show_ipv4 :: "octets \<Rightarrow> string" where
  "show_ipv4 (a, b, c, d) =
     show_nat (unat a) @ ''.'' @ show_nat (unat b) @ ''.'' @ show_nat (unat c) @ ''.''
       @ show_nat (unat d)"

definition hex_char :: "nat \<Rightarrow> char" where
  "hex_char n = (if n < 10 then char_of (48 + n) else char_of (87 + n))"

function show_hex :: "nat \<Rightarrow> string" where
  "show_hex n = (if n < 16 then [hex_char n] else show_hex (n div 16) @ [hex_char (n mod 16)])"
  by pat_completeness auto
termination
  by (relation "measure id") auto

declare show_hex.simps [simp del]

text \<open>The first of the longest runs of zero segments: its start and length.\<close>

fun longest_zeroes :: "nat \<Rightarrow> u16 list \<Rightarrow> nat \<times> nat \<Rightarrow> nat \<times> nat \<Rightarrow> nat \<times> nat" where
  "longest_zeroes i [] current longest = longest"
| "longest_zeroes i (s # ss) current longest =
     (if s = 0 then
        (let current = (if snd current = 0 then i else fst current, snd current + 1) in
         longest_zeroes (i + 1) ss current (if snd current > snd longest then current else longest))
      else longest_zeroes (i + 1) ss (0, 0) longest)"

definition show_subslice :: "u16 list \<Rightarrow> string" where
  "show_subslice ss = join_with '':'' (map (\<lambda>s. show_hex (unat s)) ss)"

fun segment_list :: "segments \<Rightarrow> u16 list" where
  "segment_list (s0, s1, s2, s3, s4, s5, s6, s7) = [s0, s1, s2, s3, s4, s5, s6, s7]"

definition show_ipv6 :: "segments \<Rightarrow> string" where
  "show_ipv6 ip =
     (case to_ipv4_mapped ip of
        Some v4 \<Rightarrow> ''::ffff:'' @ show_ipv4 v4
      | None \<Rightarrow>
          (let ss = segment_list ip; (start, len) = longest_zeroes 0 ss (0, 0) (0, 0) in
           if len > 1 then show_subslice (take start ss) @ ''::'' @ show_subslice (drop (start + len) ss)
           else show_subslice ss))"

fun show_ip :: "ip_addr \<Rightarrow> string" where
  "show_ip (V4 v4) = show_ipv4 v4"
| "show_ip (V6 v6) = show_ipv6 v6"

section \<open>Reading back a printed IPv4 address\<close>

lemma digit_value_decimal: "n < 10 \<Longrightarrow> digit_value (char_of (48 + n)) = n"
  by (simp add: digit_value_def ascii_simps)

lemma is_digit_decimal: "is_ascii_digit c \<Longrightarrow> is_digit 10 c"
  by (auto simp: is_digit_def digit_value_def ascii_simps)

lemma digits_value_append:
  "digits_value r (a @ [c]) = digits_value r a * r + digit_value c"
  by (simp add: digits_value_def)

lemma digits_value_show_nat: "digits_value 10 (show_nat n) = n"
proof (induction n rule: show_nat.induct)
  case (1 n)
  show ?case
  proof (cases "n < 10")
    case True
    thus ?thesis
      using digit_value_decimal [OF True] by (simp add: show_nat.simps [of n] digits_value_def)
  next
    case False
    thus ?thesis
      using 1 digit_value_decimal [of "n mod 10"]
      by (simp add: show_nat.simps [of n] digits_value_append)
  qed
qed

lemma show_nat_nonempty [simp]: "show_nat n \<noteq> []"
  by (simp add: show_nat.simps [of n])

lemma hd_show_nat_zero: "hd (show_nat n) = CHR ''0'' \<Longrightarrow> n = 0"
proof (induction n rule: show_nat.induct)
  case (1 n)
  show ?case
  proof (cases "n < 10")
    case True
    with "1.prems" have "code (char_of (48 + n)) = code (CHR ''0'')"
      by (simp add: show_nat.simps [of n])
    with True show ?thesis
      by (simp add: code_def)
  next
    case False
    with "1.prems" have "hd (show_nat (n div 10)) = CHR ''0''"
      by (simp add: show_nat.simps [of n])
    with 1 False show ?thesis
      by (auto simp: div_eq_0_iff)
  qed
qed

lemma length_show_nat_3: "n < 256 \<Longrightarrow> length (show_nat n) \<le> 3"
  by (simp add: show_nat.simps [of n] show_nat.simps [of "n div 10"] show_nat.simps [of "n div 10 div 10"])

lemma read_number_show_nat:
  assumes "n < 256" "r = [] \<or> \<not> is_digit 10 (hd r)"
  shows "read_number 10 3 False 256 (show_nat n @ r) = Some (n, r)"
proof -
  have d: "\<forall>c \<in> set (show_nat n). is_digit 10 c"
    using show_nat_digits is_digit_decimal by blast
  have "takeWhile (is_digit 10) (show_nat n @ r) = show_nat n"
    "dropWhile (is_digit 10) (show_nat n @ r) = r"
    using d assms(2) by (cases r; simp)+
  moreover have "hd (show_nat n) = CHR ''0'' \<Longrightarrow> length (show_nat n) = 1"
    using hd_show_nat_zero [of n] by (auto simp: show_nat.simps [of 0])
  ultimately show ?thesis
    using assms(1) length_show_nat_3 [OF assms(1)]
    by (auto simp: read_number_def digits_value_show_nat not_less Let_def)
qed

lemma parse_show_ipv4: "parse_ip (show_ipv4 v4) = Some (V4 v4)"
proof -
  obtain a b c d where v4: "v4 = (a, b, c, d)"
    by (cases v4)
  have dot: "\<not> is_digit 10 (CHR ''.'')"
    by code_simp
  have "read_ipv4_addr (show_ipv4 v4) = Some (v4, [])"
    by (simp add: v4 read_ipv4_addr_def read_octet_def read_separator_def read_number_show_nat dot
        read_number_show_nat [where r = "[]", simplified])
  thus ?thesis
    by (simp add: parse_ip_def)
qed

end
