(* ===== verification/Net.thy ===== *)
theory Net
  imports Net_Addr Htu Nonce_Source Json
begin

text \<open>
  The network as the crate sees it.  The URL parser, the resolver of the operating system and the
  HTTP client are third-party code and the rest of the world, so they are the fields of a record
  that the operations take as an argument; a value of type \<open>'w\<close> is the state of that world, which
  every network operation may change.  The client asks a hook for the addresses of a host name,
  as \<open>reqwest\<close> does with a custom resolver; \<open>net_send_plain\<close> is a client without such a hook.  The
  record also holds the \<open>Display\<close> of a status code and the identifier of the async runtime.
\<close>

type_synonym sock_addr = "ip_addr \<times> u16"

datatype lookup_result =
    LookupTimeout
  | LookupError string
  | LookupAddrs "sock_addr list"

record http_request =
  hr_method :: string
  hr_url :: string
  hr_headers :: "(string \<times> string) list"
  hr_body :: "string option"

text \<open>The values of a header in the order of the response: each is text, or not (with the error of
  \<open>to_str\<close>).  The body arrives in chunks and may break off with an error.\<close>

record http_response =
  resp_status :: nat
  resp_headers :: "string \<Rightarrow> (string, string) result list"
  resp_content_length :: "u64 option"
  resp_chunks :: "(bytes, string) result list"

type_synonym 'w dns_hook = "string \<Rightarrow> 'w \<Rightarrow> 'w \<times> (sock_addr list, SsrfError) result"

record 'w net =
  net_url :: url_parser
  net_join :: "url \<Rightarrow> string \<Rightarrow> (url, string) result"
  net_known_port :: "url \<Rightarrow> u16 option"
  net_lookup :: "string \<Rightarrow> 'w \<Rightarrow> 'w \<times> lookup_result"
  net_lookup_host :: "string \<Rightarrow> u16 \<Rightarrow> 'w \<Rightarrow> 'w \<times> lookup_result"
  net_send :: "'w dns_hook \<Rightarrow> http_request \<Rightarrow> 'w \<Rightarrow> 'w \<times> (http_response, string) result"
  net_send_plain :: "http_request \<Rightarrow> 'w \<Rightarrow> 'w \<times> (http_response, string) result"
  net_show_status :: "nat \<Rightarrow> string"
  net_runtime :: "nat option"

text \<open>\<open>HeaderMap::get\<close> yields the first value; \<open>header_text\<close> is \<open>get\<close> followed by \<open>to_str().ok()\<close>.\<close>

definition header_get :: "http_response \<Rightarrow> string \<Rightarrow> (string, string) result option" where
  "header_get resp name = (case resp_headers resp name of [] \<Rightarrow> None | v # _ \<Rightarrow> Some v)"

definition header_text :: "http_response \<Rightarrow> header_map" where
  "header_text resp name = (case header_get resp name of Some (Ok v) \<Rightarrow> Some v | _ \<Rightarrow> None)"

definition is_redirection :: "nat \<Rightarrow> bool" where
  "is_redirection status = (300 \<le> status \<and> status < 400)"

definition is_success :: "nat \<Rightarrow> bool" where
  "is_success status = (200 \<le> status \<and> status < 300)"

section \<open>Fallible operations on a state\<close>

text \<open>An operation changes the state whether it succeeds or fails; \<open>io_bind\<close> is the question mark
  operator after an awaited call.\<close>

type_synonym ('s, 'a, 'e) io_op = "'s \<Rightarrow> 's \<times> ('a, 'e) result"

definition io_lift :: "('a, 'e) result \<Rightarrow> ('s, 'a, 'e) io_op" where
  "io_lift r s = (s, r)"

definition io_bind :: "('s, 'a, 'e) io_op \<Rightarrow> ('a \<Rightarrow> ('s, 'b, 'e) io_op) \<Rightarrow> ('s, 'b, 'e) io_op" where
  "io_bind m k s = (case m s of (s', Ok a) \<Rightarrow> k a s' | (s', Err e) \<Rightarrow> (s', Err e))"

definition io_map_err :: "('e \<Rightarrow> 'f) \<Rightarrow> ('s, 'a, 'e) io_op \<Rightarrow> ('s, 'a, 'f) io_op" where
  "io_map_err g m s = (case m s of (s', r) \<Rightarrow> (s', map_err g r))"

text \<open>An operation on the first part of the state.\<close>

definition io_fst :: "('s, 'a, 'e) io_op \<Rightarrow> ('s \<times> 'c, 'a, 'e) io_op" where
  "io_fst m s = (case m (fst s) of (s', r) \<Rightarrow> ((s', snd s), r))"

lemma io_fst_Ok [simp]: "io_fst m s = (s', Ok a) \<longleftrightarrow> m (fst s) = (fst s', Ok a) \<and> snd s' = snd s"
  by (cases s, cases s') (auto simp: io_fst_def split: prod.splits)

lemma io_lift_simp [simp]: "io_lift r s = (s, r)"
  by (simp add: io_lift_def)

lemma io_bind_Ok_iff [simp]:
  "io_bind m k s = (s', Ok b) \<longleftrightarrow> (\<exists>s1 a. m s = (s1, Ok a) \<and> k a s1 = (s', Ok b))"
  by (auto simp: io_bind_def split: prod.split result.split)

lemma io_bind_Err_iff:
  "io_bind m k s = (s', Err e) \<longleftrightarrow> m s = (s', Err e) \<or> (\<exists>s1 a. m s = (s1, Ok a) \<and> k a s1 = (s', Err e))"
  by (auto simp: io_bind_def split: prod.split result.split)

lemma io_map_err_Ok_iff [simp]: "io_map_err g m s = (s', Ok b) \<longleftrightarrow> m s = (s', Ok b)"
  by (auto simp: io_map_err_def split: prod.split)

lemma fst_io_map_err [simp]: "fst (io_map_err g m s) = fst (m s)"
  by (simp add: io_map_err_def split_beta)

lemma io_bind_fst:
  assumes "P s" "\<And>s. P s \<Longrightarrow> P (fst (m s))" "\<And>a s. P s \<Longrightarrow> P (fst (k a s))"
  shows "P (fst (io_bind m k s))"
proof -
  obtain s' r where m: "m s = (s', r)"
    by fastforce
  have "P s'"
    using assms(2) [OF assms(1)] m by simp
  thus ?thesis
    using assms(3) by (cases r) (simp_all add: io_bind_def m)
qed

end
