(* ===== verification/Ssrf.thy ===== *)
theory Ssrf
  imports Net
begin

text \<open>
  The boundary against server-side request forgery (\<open>ssrf.rs\<close>): host name and address filter,
  resolution with pinning, the resolver hook of the pooled HTTP client, the bounded body reader
  and the GET loop that follows redirects.  The pool of clients is the state of the component:
  a map from the runtime and the mode to the resolver of that client.
\<close>

section \<open>Host names and addresses\<close>

definition is_internal_hostname :: "string \<Rightarrow> bool" where
  "is_internal_hostname host =
     (host = ''metadata.google.internal'' \<or> host = ''instance-data'' \<or> host = ''metadata.internal''
      \<or> host = ''169.254.169.254'' \<or> ends_with host ''.internal'' \<or> ends_with host ''.local''
      \<or> ends_with host ''.localhost'')"

definition is_blocked_hostname :: "string \<Rightarrow> bool" where
  "is_blocked_hostname host =
     (let trimmed = trim_end_matches (CHR ''.'') (to_ascii_lowercase host) in
      trimmed = ''localhost'' \<or> is_internal_hostname trimmed)"

record SsrfFilter =
  allow_insecure_localhost :: bool

definition SsrfFilter_new :: "bool \<Rightarrow> SsrfFilter" where
  "SsrfFilter_new allow = \<lparr> allow_insecure_localhost = allow \<rparr>"

fun ip_is_loopback :: "ip_addr \<Rightarrow> bool" where
  "ip_is_loopback (V4 (a, b, c, d)) = (a = 127)"
| "ip_is_loopback (V6 v6) = is_loopback v6"

definition is_ip_restricted :: "SsrfFilter \<Rightarrow> ip_addr \<Rightarrow> bool" where
  "is_ip_restricted f ip =
     (if allow_insecure_localhost f \<and> ip_is_loopback ip then False else is_restricted_ip ip)"

definition validate_ip :: "SsrfFilter \<Rightarrow> ip_addr \<Rightarrow> (unit, SsrfError) result" where
  "validate_ip f ip = (if is_ip_restricted f ip then Err (SsrfError.BlockedIp (show_ip ip)) else Ok ())"

text \<open>The hosts for which test mode admits plain HTTP.\<close>

definition is_local_name :: "string \<Rightarrow> bool" where
  "is_local_name host = (host = ''localhost'' \<or> host = ''127.0.0.1'' \<or> host = ''::1'' \<or> host = ''[::1]'')"

definition validate_url :: "SsrfFilter \<Rightarrow> url \<Rightarrow> (unit, SsrfError) result" where
  "validate_url f u =
     try_bind (ok_or (SsrfError.InvalidUrl ''Missing hostname in URL'') (url_host_str u)) (\<lambda>host.
     try_bind
       (if url_scheme u \<noteq> ''https'' then
          (if url_scheme u = ''http'' then
             (if \<not> allow_insecure_localhost f then Err (SsrfError.InsecureScheme (url_as_str u))
              else if \<not> is_local_name host then Err (SsrfError.InsecureScheme (url_as_str u)) else Ok ())
           else Err (SsrfError.InsecureScheme (url_as_str u)))
        else Ok ()) (\<lambda>_.
     if \<not> allow_insecure_localhost f \<and> is_blocked_hostname host
     then Err (SsrfError.BlockedHost host)
     else if allow_insecure_localhost f
             \<and> is_internal_hostname (trim_end_matches (CHR ''.'') (to_ascii_lowercase host))
     then Err (SsrfError.BlockedHost host)
     else (case parse_ip host of
             Some ip \<Rightarrow> try_bind (validate_ip f ip) (\<lambda>_. Ok ())
           | None \<Rightarrow> Ok ())))"

text \<open>Every address of a list must pass.\<close>

fun validate_addrs :: "SsrfFilter \<Rightarrow> sock_addr list \<Rightarrow> (unit, SsrfError) result" where
  "validate_addrs f [] = Ok ()"
| "validate_addrs f (a # as) = try_bind (validate_ip f (fst a)) (\<lambda>_. validate_addrs f as)"

definition is_ipv4 :: "sock_addr \<Rightarrow> bool" where
  "is_ipv4 a = (case fst a of V4 _ \<Rightarrow> True | V6 _ \<Rightarrow> False)"

text \<open>The stable sort of test mode: IPv4 first.\<close>

definition prefer_ipv4 :: "SsrfFilter \<Rightarrow> sock_addr list \<Rightarrow> sock_addr list" where
  "prefer_ipv4 f addrs =
     (if allow_insecure_localhost f then sort_key (\<lambda>a. if is_ipv4 a then 0 else 1 :: nat) addrs else addrs)"

text \<open>What both resolvers do with the outcome of a lookup.\<close>

definition checked_addrs ::
  "SsrfFilter \<Rightarrow> string \<Rightarrow> lookup_result \<Rightarrow> (sock_addr list, SsrfError) result" where
  "checked_addrs f host r =
     (case r of
        LookupTimeout \<Rightarrow> Err (SsrfError.DnsResolutionFailed (''DNS resolution for '' @ host @ '' timed out after 5s''))
      | LookupError e \<Rightarrow> Err (SsrfError.DnsResolutionFailed (host @ '': '' @ e))
      | LookupAddrs addrs \<Rightarrow>
          if addrs = [] then Err (SsrfError.DnsResolutionFailed (''No DNS records returned for '' @ host))
          else try_bind (validate_addrs f addrs) (\<lambda>_. Ok (prefer_ipv4 f addrs)))"

section \<open>The resolver hook\<close>

definition MAX_PINNED_HOSTS :: nat where
  "MAX_PINNED_HOSTS = 1024"

record SsrfDnsResolver =
  res_filter :: SsrfFilter
  pinned_ips :: "(string, ip_addr) hmap"

definition SsrfDnsResolver_new :: "bool \<Rightarrow> SsrfDnsResolver" where
  "SsrfDnsResolver_new allow = \<lparr> res_filter = SsrfFilter_new allow, pinned_ips = [] \<rparr>"

definition pin_key :: "string \<Rightarrow> string" where
  "pin_key host = to_ascii_lowercase (trim_end_matches (CHR ''.'') host)"

definition pin_host :: "string \<Rightarrow> ip_addr \<Rightarrow> SsrfDnsResolver \<Rightarrow> SsrfDnsResolver" where
  "pin_host host ip r =
     (case validate_ip (res_filter r) ip of
        Err _ \<Rightarrow> r
      | Ok _ \<Rightarrow>
          (let k = pin_key host; m = pinned_ips r;
               m = (if \<not> hm_contains k m \<and> length m \<ge> MAX_PINNED_HOSTS
                    then (case m of (victim, _) # _ \<Rightarrow> hm_remove victim m | [] \<Rightarrow> m) else m)
           in r\<lparr>pinned_ips := hm_insert k ip m\<rparr>))"

definition get_pinned_ip :: "string \<Rightarrow> SsrfDnsResolver \<Rightarrow> ip_addr option" where
  "get_pinned_ip host r = hm_get (pin_key host) (pinned_ips r)"

definition dns_resolve :: "'w net \<Rightarrow> SsrfDnsResolver \<Rightarrow> 'w dns_hook" where
  "dns_resolve N r name w =
     (let host = pin_key name; f = res_filter r; pinned = get_pinned_ip host r in
      if \<not> allow_insecure_localhost f \<and> is_blocked_hostname host
      then (w, Err (SsrfError.BlockedHost host))
      else if allow_insecure_localhost f \<and> is_internal_hostname host
      then (w, Err (SsrfError.BlockedHost host))
      else (case pinned of
              Some ip \<Rightarrow> (w, try_bind (validate_ip f ip) (\<lambda>_. Ok [(ip, 0)]))
            | None \<Rightarrow>
                (let (w', r') = net_lookup_host N host 0 w in (w', checked_addrs f host r'))))"

section \<open>The pool of clients\<close>

type_synonym pool_key = "nat option \<times> bool"
type_synonym pool = "(pool_key, SsrfDnsResolver) hmap"

definition runtime_scoped_client_and_resolver ::
  "nat option \<Rightarrow> bool \<Rightarrow> pool \<Rightarrow> pool \<times> SsrfDnsResolver" where
  "runtime_scoped_client_and_resolver runtime_id allow p =
     (let k = (runtime_id, allow) in
      case hm_get k p of
        Some r \<Rightarrow> (p, r)
      | None \<Rightarrow>
          (let built = SsrfDnsResolver_new allow;
               p = (if length p \<ge> 64
                    then (case p of (victim, _) # _ \<Rightarrow> hm_remove victim p | [] \<Rightarrow> p) else p)
           in (hm_insert k built p, built)))"

section \<open>Resolution and requests\<close>

definition resolve_and_pin ::
  "'w net \<Rightarrow> SsrfFilter \<Rightarrow> url \<Rightarrow> 'w \<Rightarrow> 'w \<times> (sock_addr \<times> string, SsrfError) result" where
  "resolve_and_pin N f u w =
     (case validate_url f u of
        Err e \<Rightarrow> (w, Err e)
      | Ok _ \<Rightarrow>
          (case url_host_str u of
             None \<Rightarrow> (w, Err (SsrfError.InvalidUrl ''Missing host in URL''))
           | Some host \<Rightarrow>
               (let port = (case net_known_port N u of Some p \<Rightarrow> p | None \<Rightarrow> 443);
                    host_header = (case url_port u of Some p \<Rightarrow> host @ '':'' @ show_nat (unat p) | None \<Rightarrow> host)
                in case parse_ip host of
                     Some ip \<Rightarrow> (w, try_bind (validate_ip f ip) (\<lambda>_. Ok ((ip, port), host_header)))
                   | None \<Rightarrow>
                       (let (w', r) = net_lookup N (host @ '':'' @ show_nat (unat port)) w in
                        (w', try_bind (checked_addrs f host r) (\<lambda>addrs. Ok (hd addrs, host_header)))))))"

definition validate_url_and_dns ::
  "'w net \<Rightarrow> SsrfFilter \<Rightarrow> url \<Rightarrow> 'w \<Rightarrow> 'w \<times> (sock_addr, SsrfError) result" where
  "validate_url_and_dns N f u w =
     (let (w', r) = resolve_and_pin N f u w in (w', try_bind r (\<lambda>(pinned_addr, _). Ok pinned_addr)))"

text \<open>The client that is returned is identified by the resolver it asks.\<close>

definition build_pinned_client ::
  "'w net \<Rightarrow> SsrfFilter \<Rightarrow> url \<Rightarrow> pool \<Rightarrow> 'w
   \<Rightarrow> pool \<times> 'w \<times> (SsrfDnsResolver \<times> sock_addr \<times> string, SsrfError) result" where
  "build_pinned_client N f u p w =
     (let (w', r) = resolve_and_pin N f u w in
      case r of
        Err e \<Rightarrow> (p, w', Err e)
      | Ok (pinned_addr, host_header) \<Rightarrow>
          (let host_only = (case url_host_str u of Some h \<Rightarrow> h | None \<Rightarrow> ''localhost'');
               (p', resolver) = runtime_scoped_client_and_resolver (net_runtime N) (allow_insecure_localhost f) p;
               resolver' = (if parse_ip host_only = None then pin_host host_only (fst pinned_addr) resolver
                            else resolver)
           in (hm_insert (net_runtime N, allow_insecure_localhost f) resolver' p', w',
               Ok (resolver', pinned_addr, host_header))))"

definition MAX_OAUTH_RESPONSE_BYTES :: nat where
  "MAX_OAUTH_RESPONSE_BYTES = 1048576"

fun read_chunks ::
  "u64 option \<Rightarrow> nat \<Rightarrow> bytes \<Rightarrow> (bytes, string) result list \<Rightarrow> (bytes, SsrfError) result" where
  "read_chunks content_length max_bytes buffer [] = Ok buffer"
| "read_chunks content_length max_bytes buffer (Err e # rest) = Err (SsrfError.Http e)"
| "read_chunks content_length max_bytes buffer (Ok chunk # rest) =
     (if length buffer + length chunk > max_bytes then
        Err (SsrfError.ResponseTooLarge max_bytes
          (case content_length of Some cl \<Rightarrow> unat cl | None \<Rightarrow> length buffer + length chunk))
      else read_chunks content_length max_bytes (buffer @ chunk) rest)"

definition read_bounded_body :: "http_response \<Rightarrow> nat \<Rightarrow> (bytes, SsrfError) result" where
  "read_bounded_body resp max_bytes =
     (case resp_content_length resp of
        Some content_length \<Rightarrow>
          if unat content_length > max_bytes
          then Err (SsrfError.ResponseTooLarge max_bytes (unat content_length))
          else read_chunks (resp_content_length resp) max_bytes [] (resp_chunks resp)
      | None \<Rightarrow> read_chunks (resp_content_length resp) max_bytes [] (resp_chunks resp))"

definition get_request :: "string \<Rightarrow> string \<Rightarrow> http_request" where
  "get_request u host_header = \<lparr> hr_method = ''GET'', hr_url = u,
     hr_headers = [(''host'', host_header), (''accept'', ''application/json, text/plain, */*'')],
     hr_body = None \<rparr>"

text \<open>The loop of \<open>safe_get\<close>, with the number of redirects that remain.\<close>

fun safe_get_loop ::
  "'w net \<Rightarrow> SsrfFilter \<Rightarrow> nat \<Rightarrow> nat \<Rightarrow> url \<Rightarrow> pool \<Rightarrow> 'w
   \<Rightarrow> pool \<times> 'w \<times> (bytes, SsrfError) result" where
  "safe_get_loop N f max_bytes redirects_remaining current_url p w =
     (case build_pinned_client N f current_url p w of
        (p, w, Err e) \<Rightarrow> (p, w, Err e)
      | (p, w, Ok (client, _, host_header)) \<Rightarrow>
          (case net_send N (dns_resolve N client) (get_request (url_as_str current_url) host_header) w of
             (w, Err e) \<Rightarrow> (p, w, Err (SsrfError.Http e))
           | (w, Ok resp) \<Rightarrow>
               if is_redirection (resp_status resp) then
                 (case redirects_remaining of
                    0 \<Rightarrow> (p, w, Err SsrfError.TooManyRedirects)
                  | Suc n \<Rightarrow>
                      (case header_get resp ''location'' of
                         None \<Rightarrow> (p, w, Err (SsrfError.Http ''Redirect missing Location header''))
                       | Some (Err e) \<Rightarrow> (p, w, Err (SsrfError.Http (''Invalid Location header: '' @ e)))
                       | Some (Ok location) \<Rightarrow>
                           (case net_join N current_url location of
                              Err e \<Rightarrow> (p, w, Err (SsrfError.InvalidUrl
                                (''Invalid redirect location '' @ sq location @ '': '' @ e)))
                            | Ok next_url \<Rightarrow>
                                safe_get_loop N f max_bytes n next_url p w)))
               else if \<not> is_success (resp_status resp) then
                 (p, w, Err (SsrfError.HttpStatus (resp_status resp)
                    (''HTTP status '' @ net_show_status N (resp_status resp) @ '' from '' @ url_as_str current_url)))
               else (p, w, read_bounded_body resp max_bytes)))"

declare safe_get_loop.simps [simp del]

text \<open>The state of an operation that uses the network: the pool and the world.\<close>

type_synonym 'w io = "pool \<times> 'w"

definition safe_get ::
  "'w net \<Rightarrow> SsrfFilter \<Rightarrow> string \<Rightarrow> nat \<Rightarrow> ('w io, bytes, SsrfError) io_op" where
  "safe_get N f url_str max_bytes s =
     (case net_url N url_str of
        Err e \<Rightarrow> (s, Err (SsrfError.InvalidUrl (''Failed to parse URL '' @ sq url_str @ '': '' @ e)))
      | Ok u \<Rightarrow>
          (case safe_get_loop N f max_bytes 3 u (fst s) (snd s) of (p, w, r) \<Rightarrow> ((p, w), r)))"

definition safe_get_json ::
  "'w net \<Rightarrow> SsrfFilter \<Rightarrow> (bytes \<Rightarrow> ('a, string) result) \<Rightarrow> string \<Rightarrow> nat
   \<Rightarrow> ('w io, 'a, SsrfError) io_op" where
  "safe_get_json N f from_json url_str max_bytes =
     io_bind (safe_get N f url_str max_bytes) (\<lambda>bs. io_lift (map_err SsrfError.Json (from_json bs)))"

fun show_SsrfError :: "SsrfError \<Rightarrow> string" where
  "show_SsrfError (SsrfError.BlockedIp ip) =
     ''SSRF violation: blocked attempt to connect to restricted IP '' @ ip"
| "show_SsrfError (SsrfError.BlockedHost h) =
     ''SSRF violation: blocked attempt to connect to restricted host '' @ sq h"
| "show_SsrfError (SsrfError.InsecureScheme u) =
     ''SSRF violation: insecure URL scheme in '' @ sq u @ '' (HTTPS required)''"
| "show_SsrfError (SsrfError.DnsResolutionFailed e) = ''DNS resolution failed: '' @ e"
| "show_SsrfError (SsrfError.InvalidUrl e) = ''Invalid URL: '' @ e"
| "show_SsrfError SsrfError.TooManyRedirects =
     ''Too many redirects: exceeded maximum permitted redirect limit''"
| "show_SsrfError (SsrfError.ResponseTooLarge mx actual) =
     ''Response body too large: max '' @ show_nat mx @ '' bytes allowed, received '' @ show_nat actual
       @ '' bytes''"
| "show_SsrfError (SsrfError.HttpStatus st e) = ''HTTP status '' @ show_nat st @ '': '' @ e"
| "show_SsrfError (SsrfError.Http e) = ''HTTP transport error: '' @ e"
| "show_SsrfError (SsrfError.Io e) = ''I/O error: '' @ e"
| "show_SsrfError (SsrfError.Json e) = ''JSON error: '' @ e"

section \<open>Invariants\<close>

definition resolver_ok :: "SsrfDnsResolver \<Rightarrow> bool" where
  "resolver_ok r =
     (hm_ok (pinned_ips r) \<and> length (pinned_ips r) \<le> MAX_PINNED_HOSTS
      \<and> (\<forall>(k, ip) \<in> set (pinned_ips r). \<not> is_ip_restricted (res_filter r) ip))"

definition pool_ok :: "pool \<Rightarrow> bool" where
  "pool_ok p =
     (hm_ok p \<and> length p \<le> 64
      \<and> (\<forall>(k, r) \<in> set p. resolver_ok r \<and> allow_insecure_localhost (res_filter r) = snd k))"

text \<open>A hook that only yields addresses the filter admits.\<close>

definition hook_safe :: "SsrfFilter \<Rightarrow> 'w dns_hook \<Rightarrow> bool" where
  "hook_safe f hook =
     (\<forall>name w addrs. snd (hook name w) = Ok addrs \<longrightarrow> (\<forall>a \<in> set addrs. \<not> is_ip_restricted f (fst a)))"

definition body_of :: "http_response \<Rightarrow> bytes" where
  "body_of resp = concat (map (\<lambda>c. case c of Ok b \<Rightarrow> b | Err _ \<Rightarrow> []) (resp_chunks resp))"

text \<open>A world that records the requests it receives, and answers each with two bytes.\<close>

definition sample_url :: url where
  "sample_url = \<lparr> url_scheme = ''https'', url_username = [], url_password = None,
     url_host_str = Some ''8.8.8.8'', url_port = None, url_path = ''/'', url_query = None,
     url_fragment = None, url_as_str = ''https://8.8.8.8/'' \<rparr>"

definition sample_net :: "(bool \<times> http_request) list net" where
  "sample_net = \<lparr> net_url = (\<lambda>s. Ok sample_url), net_join = (\<lambda>u s. Err ''relative''),
     net_known_port = (\<lambda>u. Some 443), net_lookup = (\<lambda>t w. (w, LookupTimeout)),
     net_lookup_host = (\<lambda>h p w. (w, LookupTimeout)),
     net_send = (\<lambda>hook req w. (w @ [(hook_safe (SsrfFilter_new False) hook, req)],
       Ok \<lparr> resp_status = 200, resp_headers = (\<lambda>_. []), resp_content_length = Some 2,
             resp_chunks = [Ok [1], Ok [2]] \<rparr>)),
     net_send_plain = (\<lambda>req w. (w, Err ''refused'')), net_show_status = show_nat,
     net_runtime = None \<rparr>"

section \<open>Lemmas\<close>

lemma validate_ip_Ok [simp]: "validate_ip f ip = Ok u \<longleftrightarrow> \<not> is_ip_restricted f ip"
  by (simp add: validate_ip_def)

lemma validate_addrs_Ok: "validate_addrs f as = Ok u \<longleftrightarrow> (\<forall>a \<in> set as. \<not> is_ip_restricted f (fst a))"
  by (induction as) auto

lemma set_prefer_ipv4 [simp]: "set (prefer_ipv4 f as) = set as"
  by (simp add: prefer_ipv4_def)

lemma prefer_ipv4_empty [simp]: "prefer_ipv4 f as = [] \<longleftrightarrow> as = []"
  by (metis set_empty set_prefer_ipv4)

lemma checked_addrs_Ok:
  assumes "checked_addrs f host r = Ok as"
  obtains as0 where "r = LookupAddrs as0" "as0 \<noteq> []" "as = prefer_ipv4 f as0"
    "\<forall>a \<in> set as0. \<not> is_ip_restricted f (fst a)"
  using assms by (auto simp: checked_addrs_def validate_addrs_Ok split: lookup_result.splits if_splits)

lemma validate_url_Ok:
  "validate_url f u = Ok x \<longleftrightarrow>
     (\<exists>host. url_host_str u = Some host
       \<and> (url_scheme u = ''https''
          \<or> (url_scheme u = ''http'' \<and> allow_insecure_localhost f \<and> is_local_name host))
       \<and> \<not> is_internal_hostname (trim_end_matches (CHR ''.'') (to_ascii_lowercase host))
       \<and> (allow_insecure_localhost f \<or> \<not> is_blocked_hostname host)
       \<and> (\<forall>ip. parse_ip host = Some ip \<longrightarrow> \<not> is_ip_restricted f ip))"
proof (cases "url_host_str u")
  case None
  thus ?thesis
    by (simp add: validate_url_def)
next
  case (Some host)
  show ?thesis
    by (cases "url_scheme u = ''https''"; cases "url_scheme u = ''http''"; cases "allow_insecure_localhost f";
        cases "is_local_name host"; cases "parse_ip host")
      (simp_all add: validate_url_def Some is_blocked_hostname_def Let_def)
qed

lemma dns_resolve_safe: "hook_safe (res_filter r) (dns_resolve N r)"
proof -
  have "\<forall>a \<in> set as. \<not> is_ip_restricted (res_filter r) (fst a)"
    if "checked_addrs (res_filter r) h l = Ok as" for h l as
    using that by (rule checked_addrs_Ok) auto
  thus ?thesis
    by (auto simp: hook_safe_def dns_resolve_def Let_def split_beta split: if_splits option.splits)
qed

lemma resolver_ok_new [simp]: "resolver_ok (SsrfDnsResolver_new allow)"
  by (simp add: resolver_ok_def SsrfDnsResolver_new_def)

lemma allow_resolver_new [simp]: "allow_insecure_localhost (res_filter (SsrfDnsResolver_new allow)) = allow"
  by (simp add: SsrfDnsResolver_new_def SsrfFilter_new_def)

lemma res_filter_pin_host [simp]: "res_filter (pin_host h ip r) = res_filter r"
  by (simp add: pin_host_def Let_def split: result.split)

text \<open>Making room in a bounded map: the first entry goes.\<close>

lemma evict_first:
  fixes m :: "('k, 'v) hmap" and k :: 'k and v :: 'v
  assumes "hm_ok m" "length m \<le> cap" "0 < cap"
  defines "m' \<equiv> (if \<not> hm_contains k m \<and> length m \<ge> cap
      then (case m of (victim, _) # _ \<Rightarrow> hm_remove victim m | [] \<Rightarrow> m) else m)"
  shows "hm_ok m'" "set m' \<subseteq> set m" "length (hm_insert k v m') \<le> cap"
proof -
  show ok: "hm_ok m'"
    using assms(1) by (auto simp: m'_def split: list.split)
  show "set m' \<subseteq> set m"
    unfolding m'_def by (auto split: list.split dest: subsetD [OF set_hm_remove])
  show "length (hm_insert k v m') \<le> cap"
  proof (cases "\<not> hm_contains k m \<and> length m \<ge> cap")
    case True
    then obtain victim x rest where m: "m = (victim, x) # rest"
      using assms(3) by (cases m) auto
    have "hm_remove victim m = rest"
      using assms(1) by (auto simp: m hm_remove_def hm_ok_def intro: delete_id)
    hence "length m' < cap"
      using True assms(2) by (auto simp: m'_def m)
    thus ?thesis
      using length_hm_insert_le [of k v m'] by linarith
  next
    case False
    thus ?thesis
      using assms(2) by (auto simp: m'_def length_hm_insert)
  qed
qed

lemma resolver_ok_pin_host:
  assumes "resolver_ok r"
  shows "resolver_ok (pin_host h ip r)"
proof (cases "is_ip_restricted (res_filter r) ip")
  case True
  thus ?thesis
    using assms by (simp add: pin_host_def validate_ip_def)
next
  case False
  define m' where "m' = (if \<not> hm_contains (pin_key h) (pinned_ips r) \<and> length (pinned_ips r) \<ge> MAX_PINNED_HOSTS
      then (case pinned_ips r of (victim, _) # _ \<Rightarrow> hm_remove victim (pinned_ips r) | [] \<Rightarrow> pinned_ips r)
      else pinned_ips r)"
  have r: "pin_host h ip r = r\<lparr>pinned_ips := hm_insert (pin_key h) ip m'\<rparr>"
    using False by (simp add: pin_host_def validate_ip_def Let_def m'_def)
  have "0 < MAX_PINNED_HOSTS"
    by (simp add: MAX_PINNED_HOSTS_def)
  note ev = evict_first [OF _ _ this, of "pinned_ips r" "pin_key h", folded m'_def]
  have "hm_ok m'" "set m' \<subseteq> set (pinned_ips r)" "length (hm_insert (pin_key h) ip m') \<le> MAX_PINNED_HOSTS"
    using ev assms by (simp_all add: resolver_ok_def)
  thus ?thesis
    using assms False set_hm_insert [of "pin_key h" ip m'] by (auto simp: resolver_ok_def r)
qed

lemma pool_ok_get:
  "pool_ok p \<Longrightarrow> hm_get k p = Some r \<Longrightarrow> resolver_ok r \<and> allow_insecure_localhost (res_filter r) = snd k"
  by (auto simp: pool_ok_def dest!: hm_get_in_set)

lemma runtime_scoped_ok:
  assumes "pool_ok p" "runtime_scoped_client_and_resolver rt allow p = (p', r)"
  shows "pool_ok p'" "resolver_ok r" "allow_insecure_localhost (res_filter r) = allow"
    "hm_get (rt, allow) p' = Some r"
proof -
  have "pool_ok p' \<and> resolver_ok r \<and> allow_insecure_localhost (res_filter r) = allow
    \<and> hm_get (rt, allow) p' = Some r"
  proof (cases "hm_get (rt, allow) p")
    case (Some r0)
    thus ?thesis
      using assms pool_ok_get [OF assms(1) Some]
      by (simp add: runtime_scoped_client_and_resolver_def)
  next
    case None
    hence nk: "\<not> hm_contains (rt, allow) p"
      by (simp add: hm_contains_def)
    define m' where "m' = (if \<not> hm_contains (rt, allow) p \<and> length p \<ge> 64
        then (case p of (victim, _) # _ \<Rightarrow> hm_remove victim p | [] \<Rightarrow> p) else p)"
    have p': "p' = hm_insert (rt, allow) (SsrfDnsResolver_new allow) m'" "r = SsrfDnsResolver_new allow"
      using assms(2) None nk
      by (auto simp: runtime_scoped_client_and_resolver_def Let_def m'_def)
    have m': "hm_ok m'" "set m' \<subseteq> set p" "length p' \<le> 64"
      using evict_first [of p 64 "(rt, allow)", folded m'_def] assms(1) by (simp_all add: pool_ok_def p')
    have "resolver_ok r' \<and> allow_insecure_localhost (res_filter r') = snd k'"
      if "(k', r') \<in> set p'" for k' r'
    proof -
      from that set_hm_insert [of "(rt, allow)" "SsrfDnsResolver_new allow" m'] m'(2)
      have "(k', r') = ((rt, allow), SsrfDnsResolver_new allow) \<or> (k', r') \<in> set p"
        by (auto simp: p')
      thus ?thesis
        using assms(1) by (auto simp: pool_ok_def)
    qed
    thus ?thesis
      using m' by (auto simp: pool_ok_def p')
  qed
  thus "pool_ok p'" "resolver_ok r" "allow_insecure_localhost (res_filter r) = allow"
    "hm_get (rt, allow) p' = Some r"
    by auto
qed

lemma pool_ok_put:
  assumes "pool_ok p" "hm_get k p = Some r0" "resolver_ok r" "allow_insecure_localhost (res_filter r) = snd k"
  shows "pool_ok (hm_insert k r p)"
  using assms set_hm_insert [of k r p] by (auto simp: pool_ok_def length_hm_insert hm_contains_def)

lemma resolve_and_pin_Ok:
  assumes "resolve_and_pin N f u w = (w', Ok (addr, hh))"
  shows "validate_url f u = Ok () \<and> \<not> is_ip_restricted f (fst addr)"
    "\<exists>host. url_host_str u = Some host
      \<and> (parse_ip host = Some (fst addr)
         \<or> (\<exists>target addrs. net_lookup N target w = (w', LookupAddrs addrs) \<and> addr \<in> set addrs
              \<and> (\<forall>a \<in> set addrs. \<not> is_ip_restricted f (fst a))))"
proof -
  from assms obtain host where v: "validate_url f u = Ok ()" "url_host_str u = Some host"
    by (auto simp: resolve_and_pin_def split: result.splits option.splits)
  have "\<not> is_ip_restricted f (fst addr) \<and> (parse_ip host = Some (fst addr)
         \<or> (\<exists>target addrs. net_lookup N target w = (w', LookupAddrs addrs) \<and> addr \<in> set addrs
              \<and> (\<forall>a \<in> set addrs. \<not> is_ip_restricted f (fst a))))"
  proof (cases "parse_ip host")
    case (Some ip)
    thus ?thesis
      using assms v by (auto simp: resolve_and_pin_def Let_def)
  next
    case None
    then obtain target l addrs where l: "net_lookup N target w = (w', l)" "checked_addrs f host l = Ok addrs"
      "addr = hd addrs"
      using assms v by (auto simp: resolve_and_pin_def Let_def split: prod.splits)
    from l(2) obtain as0 where as0: "l = LookupAddrs as0" "as0 \<noteq> []" "addrs = prefer_ipv4 f as0"
      "\<forall>a \<in> set as0. \<not> is_ip_restricted f (fst a)"
      by (rule checked_addrs_Ok)
    have "addr \<in> set as0"
      using as0(2,3) l(3) hd_in_set [of addrs] by simp
    with as0 l show ?thesis
      by blast
  qed
  with v show "validate_url f u = Ok () \<and> \<not> is_ip_restricted f (fst addr)"
    "\<exists>host. url_host_str u = Some host
      \<and> (parse_ip host = Some (fst addr)
         \<or> (\<exists>target addrs. net_lookup N target w = (w', LookupAddrs addrs) \<and> addr \<in> set addrs
              \<and> (\<forall>a \<in> set addrs. \<not> is_ip_restricted f (fst a))))"
    by auto
qed

lemma resolve_and_pin_world:
  "fst (resolve_and_pin N f u w) = w \<or> (\<exists>t. fst (resolve_and_pin N f u w) = fst (net_lookup N t w))"
  by (auto simp: resolve_and_pin_def Let_def split_beta split: result.split option.split)

lemma build_pinned_client_props:
  assumes "build_pinned_client N f u p w = (p', w', r)"
  shows "w' = w \<or> (\<exists>t. w' = fst (net_lookup N t w))"
    "pool_ok p \<Longrightarrow> pool_ok p'"
    "pool_ok p \<Longrightarrow> r = Ok (client, addr, hh) \<Longrightarrow>
       validate_url f u = Ok () \<and> \<not> is_ip_restricted f (fst addr) \<and> resolver_ok client \<and> res_filter client = f"
proof -
  obtain w1 r1 where rp: "resolve_and_pin N f u w = (w1, r1)"
    by fastforce
  have w': "w' = w1"
    using assms rp by (auto simp: build_pinned_client_def Let_def split: result.splits prod.splits)
  show "w' = w \<or> (\<exists>t. w' = fst (net_lookup N t w))"
    using resolve_and_pin_world [of N f u w] rp w' by simp
  have "(pool_ok p \<longrightarrow> pool_ok p') \<and> (pool_ok p \<longrightarrow> r = Ok (client, addr, hh) \<longrightarrow>
       validate_url f u = Ok () \<and> \<not> is_ip_restricted f (fst addr) \<and> resolver_ok client \<and> res_filter client = f)"
  proof (cases r1)
    case (Err e)
    thus ?thesis
      using assms rp by (auto simp: build_pinned_client_def)
  next
    case (Ok x)
    obtain a h where x: "x = (a, h)"
      by fastforce
    obtain p1 res where rs: "runtime_scoped_client_and_resolver (net_runtime N) (allow_insecure_localhost f) p = (p1, res)"
      by fastforce
    define host_only where "host_only = (case url_host_str u of Some h \<Rightarrow> h | None \<Rightarrow> ''localhost'')"
    define res' where "res' = (if parse_ip host_only = None then pin_host host_only (fst a) res else res)"
    have out: "p' = hm_insert (net_runtime N, allow_insecure_localhost f) res' p1" "r = Ok (res', a, h)"
      using assms rp Ok x rs by (auto simp: build_pinned_client_def Let_def res'_def host_only_def)
    have "pool_ok p' \<and> resolver_ok res' \<and> res_filter res' = f" if "pool_ok p"
    proof -
      note ok = runtime_scoped_ok [OF that rs]
      have "res_filter res = f"
        using ok(3) by simp
      moreover have "resolver_ok res'"
        using ok(2) resolver_ok_pin_host by (simp add: res'_def)
      ultimately show ?thesis
        using pool_ok_put [OF ok(1,4), of res'] by (simp add: out res'_def)
    qed
    thus ?thesis
      using resolve_and_pin_Ok(1) [OF rp [unfolded Ok x]] out by auto
  qed
  thus "pool_ok p \<Longrightarrow> pool_ok p'"
    "pool_ok p \<Longrightarrow> r = Ok (client, addr, hh) \<Longrightarrow>
       validate_url f u = Ok () \<and> \<not> is_ip_restricted f (fst addr) \<and> resolver_ok client \<and> res_filter client = f"
    by auto
qed

text \<open>An induction principle for the GET loop: what every lookup and every admissible request keep
  of the world is kept by the whole loop.\<close>

lemma safe_get_loop_keeps:
  assumes "pool_ok p" "I (Suc n) w"
    and lookup: "\<And>t k w. I k w \<Longrightarrow> I k (fst (net_lookup N t w))"
    and send: "\<And>k u hook hh w. I (Suc k) w \<Longrightarrow> validate_url f u = Ok () \<Longrightarrow> hook_safe f hook \<Longrightarrow>
      I k (fst (net_send N hook (get_request (url_as_str u) hh) w))"
    and run: "safe_get_loop N f mx n u p w = (p', w', r)"
  shows "pool_ok p' \<and> (\<exists>k. I k w')"
  using assms(1,2) run
proof (induction n arbitrary: u p w)
  case 0
  obtain p1 w1 r1 where b: "build_pinned_client N f u p w = (p1, w1, r1)"
    by (metis prod_cases3)
  note bp = build_pinned_client_props [OF b]
  have w1: "I (Suc 0) w1" "pool_ok p1"
    using bp(1,2) 0 lookup by auto
  show ?case
  proof (cases r1)
    case (Err e)
    with 0 b w1 show ?thesis
      by (auto simp: safe_get_loop.simps [of _ _ _ 0])
  next
    case (Ok x)
    obtain client a hh where x: "x = (client, a, hh)"
      by (metis prod_cases3)
    have ok: "validate_url f u = Ok ()" "hook_safe f (dns_resolve N client)"
      using bp(3) [OF 0(1), of client a hh] Ok x dns_resolve_safe [of client N] by auto
    obtain w2 r2 where s: "net_send N (dns_resolve N client) (get_request (url_as_str u) hh) w1 = (w2, r2)"
      by fastforce
    have "I 0 w2"
      using send [OF w1(1) ok] s by (metis fst_conv)
    thus ?thesis
      using 0(3) b Ok x s w1(2)
      by (auto simp: safe_get_loop.simps [of _ _ _ 0] split: result.splits if_splits)
  qed
next
  case (Suc n)
  obtain p1 w1 r1 where b: "build_pinned_client N f u p w = (p1, w1, r1)"
    by (metis prod_cases3)
  note bp = build_pinned_client_props [OF b]
  have w1: "I (Suc (Suc n)) w1" "pool_ok p1"
    using bp(1,2) Suc.prems lookup by auto
  show ?case
  proof (cases r1)
    case (Err e)
    with Suc.prems b w1 show ?thesis
      by (auto simp: safe_get_loop.simps [of _ _ _ "Suc n"])
  next
    case (Ok x)
    obtain client a hh where x: "x = (client, a, hh)"
      by (metis prod_cases3)
    have ok: "validate_url f u = Ok ()" "hook_safe f (dns_resolve N client)"
      using bp(3) [OF Suc.prems(1), of client a hh] Ok x dns_resolve_safe [of client N] by auto
    obtain w2 r2 where s: "net_send N (dns_resolve N client) (get_request (url_as_str u) hh) w1 = (w2, r2)"
      by fastforce
    have w2: "I (Suc n) w2"
      using send [OF w1(1) ok] s by (metis fst_conv)
    show ?thesis
      using Suc.prems(3) b Ok x s w1(2) w2 Suc.IH [OF w1(2) w2]
      by (auto simp: safe_get_loop.simps [of _ _ _ "Suc n"]
          split: result.splits if_splits option.splits)
  qed
qed

lemma read_chunks_Ok:
  assumes "length buf \<le> mx"
  shows "read_chunks cl mx buf cs = Ok b \<longleftrightarrow>
    list_all is_ok cs \<and> b = buf @ concat (map (\<lambda>c. case c of Ok b \<Rightarrow> b | Err _ \<Rightarrow> []) cs) \<and> length b \<le> mx"
  using assms
proof (induction cs arbitrary: buf)
  case (Cons c cs)
  show ?case
  proof (cases c)
    case (Ok chunk)
    show ?thesis
    proof (cases "length buf + length chunk > mx")
      case True
      thus ?thesis
        by (auto simp: Ok)
    next
      case False
      thus ?thesis
        using Cons.IH [of "buf @ chunk"] by (auto simp: Ok)
    qed
  qed simp
qed auto

lemma read_bounded_body_iff:
  "read_bounded_body resp mx = Ok b \<longleftrightarrow>
     b = body_of resp \<and> length b \<le> mx \<and> list_all is_ok (resp_chunks resp)
     \<and> (case resp_content_length resp of Some cl \<Rightarrow> unat cl \<le> mx | None \<Rightarrow> True)"
  by (auto simp: read_bounded_body_def read_chunks_Ok body_of_def split: option.split)

lemma safe_get_loop_body:
  "safe_get_loop N f mx n u p w = (p', w', Ok b) \<Longrightarrow> length b \<le> mx"
proof (induction n arbitrary: u p w)
  case 0
  thus ?case
    by (auto simp: safe_get_loop.simps [of _ _ _ 0] read_bounded_body_iff
        split: result.splits prod.splits if_splits)
next
  case (Suc n)
  thus ?case
    by (auto simp: safe_get_loop.simps [of _ _ _ "Suc n"] read_bounded_body_iff
        split: result.splits prod.splits if_splits option.splits)
qed

lemma safe_get_requests:
  assumes "pool_ok p"
    and "\<And>t w. sent (fst (net_lookup N t w)) = sent w"
    and "\<And>hook req w. sent (fst (net_send N hook req w)) = sent w @ [(hook_safe f hook, req)]"
    and "safe_get N f url_str max_bytes (p, w) = ((p', w'), r)"
  shows "pool_ok p' \<and> (\<forall>b. r = Ok b \<longrightarrow> length b \<le> max_bytes)
    \<and> (\<exists>reqs. sent w' = sent w @ reqs \<and> length reqs \<le> 4
         \<and> (\<forall>(safe, req) \<in> set reqs. safe \<and> hr_method req = ''GET''
              \<and> (\<exists>u. validate_url f u = Ok () \<and> hr_url req = url_as_str u)))"
proof (cases "net_url N url_str")
  case (Err e)
  thus ?thesis
    using assms(1,4) by (auto simp: safe_get_def)
next
  case (Ok u)
  let ?I = "\<lambda>k w'. \<exists>reqs. sent w' = sent w @ reqs \<and> length reqs + k \<le> 4
         \<and> (\<forall>(safe, req) \<in> set reqs. safe \<and> hr_method req = ''GET''
              \<and> (\<exists>u. validate_url f u = Ok () \<and> hr_url req = url_as_str u))"
  have run: "safe_get_loop N f max_bytes 3 u p w = (p', w', r)"
    using assms(4) Ok by (simp add: safe_get_def split: prod.splits)
  have step: "?I k (fst (net_send N hook (get_request (url_as_str u) hh) w1))"
    if "?I (Suc k) w1" "validate_url f u = Ok ()" "hook_safe f hook" for k u hook hh w1
  proof -
    from that(1) obtain reqs where reqs: "sent w1 = sent w @ reqs" "length reqs + Suc k \<le> 4"
      "\<forall>(safe, req) \<in> set reqs. safe \<and> hr_method req = ''GET''
              \<and> (\<exists>u. validate_url f u = Ok () \<and> hr_url req = url_as_str u)"
      by blast
    show ?thesis
      using reqs that(2,3)
      by (intro exI [of _ "reqs @ [(hook_safe f hook, get_request (url_as_str u) hh)]"])
        (auto simp: assms(3) get_request_def)
  qed
  have "pool_ok p' \<and> (\<exists>k. ?I k w')"
    by (rule safe_get_loop_keeps [where I = ?I, OF assms(1) _ _ step run]) (auto simp: assms(2))
  thus ?thesis
    using safe_get_loop_body [of N f max_bytes 3 u p w p' w'] run by fastforce
qed

section \<open>Properties\<close>

text \<open>Resolution never hands out a restricted address: the pinned address is admitted by the filter, the
  URL passed validation, and for a host name every address the lookup returned was admitted, so one
  harmless record cannot hide a restricted one.\<close>

theorem resolve_and_pin_safe:
  assumes "resolve_and_pin N f u w = (w', Ok (addr, host_header))"
  shows "validate_url f u = Ok () \<and> \<not> is_ip_restricted f (fst addr)
    \<and> (\<exists>host. url_host_str u = Some host
        \<and> (parse_ip host = Some (fst addr)
           \<or> (\<exists>target addrs. net_lookup N target w = (w', LookupAddrs addrs) \<and> addr \<in> set addrs
                \<and> (\<forall>a \<in> set addrs. \<not> is_ip_restricted f (fst a)))))"
  using resolve_and_pin_Ok [OF assms] by blast

theorem resolve_and_pin_safe_witness:
  "resolve_and_pin sample_net (SsrfFilter_new False) sample_url [] = ([], Ok ((V4 (8, 8, 8, 8), 443), ''8.8.8.8''))
   \<and> \<not> is_ip_restricted (SsrfFilter_new False) (V4 (8, 8, 8, 8))"
proof -
  have run: "resolve_and_pin sample_net (SsrfFilter_new False) sample_url []
      = ([], Ok ((V4 (8, 8, 8, 8), 443), ''8.8.8.8''))"
  proof -
    have "validate_url (SsrfFilter_new False) sample_url = Ok ()" "parse_ip ''8.8.8.8'' = Some (V4 (8, 8, 8, 8))"
      "validate_ip (SsrfFilter_new False) (V4 (8, 8, 8, 8)) = Ok ()"
      by code_simp+
    thus ?thesis
      by (simp add: resolve_and_pin_def sample_net_def sample_url_def Let_def del: validate_ip_Ok)
  qed
  from resolve_and_pin_safe [OF run] run show ?thesis
    by simp
qed

text \<open>C5: Whatever the servers answer, a safe GET sends at most four requests; each is a GET for a URL that
  passed validation, sent through a resolver hook that yields only admitted addresses; and a body
  it returns is no longer than the limit.\<close>

theorem safe_get_confined:
  assumes "pool_ok p"
    and "\<And>t w. sent (fst (net_lookup N t w)) = sent w"
    and "\<And>hook req w. sent (fst (net_send N hook req w)) = sent w @ [(hook_safe f hook, req)]"
    and "safe_get N f url_str max_bytes (p, w) = ((p', w'), r)"
  shows "pool_ok p' \<and> (\<forall>b. r = Ok b \<longrightarrow> length b \<le> max_bytes)
    \<and> (\<exists>reqs. sent w' = sent w @ reqs \<and> length reqs \<le> 4
         \<and> (\<forall>(safe, req) \<in> set reqs. safe \<and> hr_method req = ''GET''
              \<and> (\<exists>u. validate_url f u = Ok () \<and> hr_url req = url_as_str u)))"
  by (rule safe_get_requests [OF assms])

theorem safe_get_confined_witness:
  "\<exists>reqs. snd (fst (safe_get sample_net (SsrfFilter_new False) ''u'' 5 ([], []))) = [] @ reqs
     \<and> length reqs \<le> 4"
proof -
  let ?run = "safe_get sample_net (SsrfFilter_new False) ''u'' 5 ([], [])"
  have run: "?run = ((fst (fst ?run), snd (fst ?run)), snd ?run)"
    by simp
  have "pool_ok []"
    by (simp add: pool_ok_def)
  from safe_get_confined [OF this _ _ run, of id] show ?thesis
    by (auto simp: sample_net_def)
qed

text \<open>The bounded reader returns a body exactly when all chunks arrive, neither the announced nor the
  actual length exceeds the limit, and then it returns the concatenation of the chunks.\<close>

theorem read_bounded_body_exact:
  "read_bounded_body resp max_bytes = Ok b \<longleftrightarrow>
     b = body_of resp \<and> length b \<le> max_bytes \<and> list_all is_ok (resp_chunks resp)
     \<and> (case resp_content_length resp of Some cl \<Rightarrow> unat cl \<le> max_bytes | None \<Rightarrow> True)"
  by (rule read_bounded_body_iff)

text \<open>URL validation admits only HTTPS, or HTTP to a loopback name in test mode, never an internal host
  name, outside test mode no blocked host name, and never an IPv4 literal of a restricted address.\<close>

theorem validate_url_admits:
  assumes "validate_url f u = Ok x"
  shows "\<exists>host. url_host_str u = Some host
    \<and> (url_scheme u = ''https''
       \<or> (url_scheme u = ''http'' \<and> allow_insecure_localhost f \<and> is_local_name host))
    \<and> \<not> is_internal_hostname (trim_end_matches (CHR ''.'') (to_ascii_lowercase host))
    \<and> (allow_insecure_localhost f \<or> \<not> is_blocked_hostname host)
    \<and> (\<forall>v4. host = show_ipv4 v4 \<longrightarrow> \<not> is_ip_restricted f (V4 v4))"
proof -
  from assms obtain host where "url_host_str u = Some host" "url_scheme u = ''https''
       \<or> (url_scheme u = ''http'' \<and> allow_insecure_localhost f \<and> is_local_name host)"
    "\<not> is_internal_hostname (trim_end_matches (CHR ''.'') (to_ascii_lowercase host))"
    "allow_insecure_localhost f \<or> \<not> is_blocked_hostname host"
    "\<forall>ip. parse_ip host = Some ip \<longrightarrow> \<not> is_ip_restricted f ip"
    unfolding validate_url_Ok by blast
  thus ?thesis
    by (intro exI [of _ host]) (simp add: parse_show_ipv4)
qed

theorem validate_url_admits_witness:
  "validate_url (SsrfFilter_new False) sample_url = Ok () \<and> (\<exists>host. url_host_str sample_url = Some host)"
proof -
  have "validate_url (SsrfFilter_new False) sample_url = Ok ()"
    by code_simp
  from validate_url_admits [OF this] this show ?thesis
    by blast
qed

end
