(* ===== verification/Confine.thy ===== *)
theory Confine
  imports Ssrf
begin

text \<open>
  Confinement of network access.  An operation is confined when it sends a bounded number of
  requests and each of them meets a condition; the condition of interest is that the request goes
  through the hook of the boundary to a URL that the filter admits.  The rules follow the
  structure of the operations, so a composite operation is confined because its parts are.
\<close>

text \<open>\<open>pr\<close> is the part of the state that the network uses, and \<open>sent\<close> reads the log of a world: for
  each request whether its hook was safe.\<close>

definition confined_on ::
  "('s \<Rightarrow> 'w io) \<Rightarrow> ('w \<Rightarrow> (bool \<times> http_request) list) \<Rightarrow> (bool \<times> http_request \<Rightarrow> bool) \<Rightarrow> nat
   \<Rightarrow> ('s, 'a, 'e) io_op \<Rightarrow> bool" where
  "confined_on pr sent ok k m =
     (\<forall>s. pool_ok (fst (pr s)) \<longrightarrow> pool_ok (fst (pr (fst (m s))))
        \<and> (\<exists>reqs. sent (snd (pr (fst (m s)))) = sent (snd (pr s)) @ reqs \<and> length reqs \<le> k
             \<and> (\<forall>e \<in> set reqs. ok e)))"

abbreviation confined ::
  "('w \<Rightarrow> (bool \<times> http_request) list) \<Rightarrow> (bool \<times> http_request \<Rightarrow> bool) \<Rightarrow> nat \<Rightarrow> ('w io, 'a, 'e) io_op \<Rightarrow> bool" where
  "confined \<equiv> confined_on (\<lambda>s. s)"

definition ssrf_ok :: "SsrfFilter \<Rightarrow> bool \<times> http_request \<Rightarrow> bool" where
  "ssrf_ok f e = (fst e \<and> (\<exists>u. validate_url f u = Ok () \<and> hr_url (snd e) = url_as_str u))"

lemma confined_onI:
  assumes "\<And>s s' r. pool_ok (fst (pr s)) \<Longrightarrow> m s = (s', r) \<Longrightarrow>
    pool_ok (fst (pr s')) \<and> (\<exists>reqs. sent (snd (pr s')) = sent (snd (pr s)) @ reqs \<and> length reqs \<le> k
      \<and> (\<forall>e \<in> set reqs. ok e))"
  shows "confined_on pr sent ok k m"
  unfolding confined_on_def using assms by (metis prod.collapse)

lemma confined_onD:
  assumes "confined_on pr sent ok k m" "pool_ok (fst (pr s))" "m s = (s', r)"
  shows "pool_ok (fst (pr s')) \<and> (\<exists>reqs. sent (snd (pr s')) = sent (snd (pr s)) @ reqs \<and> length reqs \<le> k
      \<and> (\<forall>e \<in> set reqs. ok e))"
  using assms unfolding confined_on_def by (metis fst_conv)

lemma confinedI:
  assumes "\<And>p w p' w' r. pool_ok p \<Longrightarrow> m (p, w) = ((p', w'), r) \<Longrightarrow>
    pool_ok p' \<and> (\<exists>reqs. sent w' = sent w @ reqs \<and> length reqs \<le> k \<and> (\<forall>e \<in> set reqs. ok e))"
  shows "confined sent ok k m"
  by (rule confined_onI) (metis assms prod.collapse)

lemma confinedD:
  assumes "confined sent ok k m" "pool_ok p" "m (p, w) = ((p', w'), r)"
  shows "pool_ok p' \<and> (\<exists>reqs. sent w' = sent w @ reqs \<and> length reqs \<le> k \<and> (\<forall>e \<in> set reqs. ok e))"
  using confined_onD [OF assms(1) _ assms(3)] assms(2) by simp

lemma confined_mono:
  assumes "confined_on pr sent ok k m" "k \<le> n" "\<And>e. ok e \<Longrightarrow> ok' e"
  shows "confined_on pr sent ok' n m"
proof (rule confined_onI)
  fix s s' r
  assume "pool_ok (fst (pr s))" "m s = (s', r)"
  from confined_onD [OF assms(1) this] assms(2,3)
  show "pool_ok (fst (pr s')) \<and> (\<exists>reqs. sent (snd (pr s')) = sent (snd (pr s)) @ reqs \<and> length reqs \<le> n
      \<and> (\<forall>e \<in> set reqs. ok' e))"
    by (meson order_trans)
qed

lemma confined_silent:
  assumes "\<And>s. pr (fst (m s)) = pr s"
  shows "confined_on pr sent ok k m"
  by (rule confined_onI) (metis assms append_Nil2 empty_iff empty_set fst_conv le0 list.size(3))

lemma confined_lift [simp, intro]: "confined_on pr sent ok k (io_lift r)"
  by (rule confined_silent) simp

lemma confined_map_err [simp]: "confined_on pr sent ok k (io_map_err g m) = confined_on pr sent ok k m"
  by (simp add: confined_on_def)

lemma confined_fst: "confined_on pr sent ok k m \<Longrightarrow> confined_on (\<lambda>s. pr (fst s)) sent ok k (io_fst m)"
  by (simp add: confined_on_def io_fst_def split_beta)

text \<open>Sequencing, whatever the outcome of the first operation; the continuation may rely on it.\<close>

lemma confined_seq_post:
  assumes m: "confined_on pr sent ok k m"
    and cont: "\<And>s s' r. pool_ok (fst (pr s)) \<Longrightarrow> m s = (s', r) \<Longrightarrow> confined_on pr sent ok n (c r)"
  shows "confined_on pr sent ok (k + n) (\<lambda>s. case m s of (s', r) \<Rightarrow> c r s')"
proof (rule confined_onI)
  fix s s' r
  assume p: "pool_ok (fst (pr s))" and run: "(case m s of (s', r) \<Rightarrow> c r s') = (s', r)"
  obtain s1 r1 where m1: "m s = (s1, r1)"
    by fastforce
  from confined_onD [OF m p m1] obtain qs where qs: "pool_ok (fst (pr s1))"
    "sent (snd (pr s1)) = sent (snd (pr s)) @ qs" "length qs \<le> k" "\<forall>e \<in> set qs. ok e"
    by blast
  have "c r1 s1 = (s', r)"
    using run m1 by simp
  from confined_onD [OF cont [OF p m1] qs(1) this] obtain qs' where "pool_ok (fst (pr s'))"
    "sent (snd (pr s')) = sent (snd (pr s1)) @ qs'" "length qs' \<le> n" "\<forall>e \<in> set qs'. ok e"
    by blast
  thus "pool_ok (fst (pr s')) \<and> (\<exists>reqs. sent (snd (pr s')) = sent (snd (pr s)) @ reqs
      \<and> length reqs \<le> k + n \<and> (\<forall>e \<in> set reqs. ok e))"
    using qs by (intro conjI exI [of _ "qs @ qs'"]) auto
qed

lemma confined_seq:
  assumes "confined_on pr sent ok k m" and "\<And>r. confined_on pr sent ok n (c r)"
  shows "confined_on pr sent ok (k + n) (\<lambda>s. case m s of (s', r) \<Rightarrow> c r s')"
  by (rule confined_seq_post [OF assms])

lemma confined_bind_post:
  assumes "confined_on pr sent ok k m"
    and "\<And>s s' a. pool_ok (fst (pr s)) \<Longrightarrow> m s = (s', Ok a) \<Longrightarrow> confined_on pr sent ok n (c a)"
  shows "confined_on pr sent ok (k + n) (io_bind m c)"
proof -
  have "io_bind m c = (\<lambda>s. case m s of (s', r) \<Rightarrow> (case r of Ok a \<Rightarrow> c a | Err e \<Rightarrow> io_lift (Err e)) s')"
    by (auto simp: io_bind_def fun_eq_iff split: prod.split result.split)
  moreover have "confined_on pr sent ok n (case r of Ok a \<Rightarrow> c a | Err e \<Rightarrow> io_lift (Err e))"
    if "pool_ok (fst (pr s))" "m s = (s', r)" for s s' r
    using assms(2) [OF that(1)] that(2) by (simp split: result.split)
  ultimately show ?thesis
    by (simp only:) (rule confined_seq_post [OF assms(1)])
qed

lemma confined_bind:
  assumes "confined_on pr sent ok k m" and "\<And>a. confined_on pr sent ok n (c a)"
  shows "confined_on pr sent ok (k + n) (io_bind m c)"
  by (rule confined_bind_post [OF assms])

lemma confined_bind_lift [intro]:
  assumes "\<And>a. r = Ok a \<Longrightarrow> confined_on pr sent ok n (c a)"
  shows "confined_on pr sent ok n (io_bind (io_lift r) c)"
  using confined_bind_post [of pr sent ok 0 "io_lift r" n c] assms by simp

lemma confined_bind_pure:
  assumes "confined_on pr sent ok k m" "\<And>a. confined_on pr sent ok 0 (c a)"
  shows "confined_on pr sent ok k (io_bind m c)"
  using confined_bind [OF assms] by simp

text \<open>An operation that sends nothing, before one that does.\<close>

lemma confined_bind_silent:
  assumes "\<And>s. pr (fst (m s)) = pr s"
    and "\<And>s s' a. m s = (s', Ok a) \<Longrightarrow> confined_on pr sent ok n (c a)"
  shows "confined_on pr sent ok n (io_bind m c)"
proof -
  have "confined_on pr sent ok 0 m"
    by (rule confined_silent) (rule assms(1))
  from confined_bind_post [OF this] assms(2) show ?thesis
    by force
qed

text \<open>A world that logs the requests sent through a hook and leaves lookups out of the log.\<close>

definition logs :: "('w \<Rightarrow> (bool \<times> http_request) list) \<Rightarrow> SsrfFilter \<Rightarrow> 'w net \<Rightarrow> bool" where
  "logs sent f N =
     ((\<forall>t w. sent (fst (net_lookup N t w)) = sent w)
      \<and> (\<forall>hook req w. sent (fst (net_send N hook req w)) = sent w @ [(hook_safe f hook, req)]))"

lemma safe_get_is_confined:
  assumes "logs sent f N"
  shows "confined sent (ssrf_ok f) 4 (safe_get N f u mx)"
proof (rule confinedI)
  fix p w p' w' r
  assume "pool_ok p" "safe_get N f u mx (p, w) = ((p', w'), r)"
  from safe_get_requests [OF this(1) _ _ this(2), of sent] assms obtain reqs where
    "pool_ok p'" "sent w' = sent w @ reqs" "length reqs \<le> 4"
    "\<forall>(safe, req) \<in> set reqs. safe \<and> hr_method req = ''GET''
       \<and> (\<exists>u. validate_url f u = Ok () \<and> hr_url req = url_as_str u)"
    unfolding logs_def by auto
  thus "pool_ok p' \<and> (\<exists>reqs. sent w' = sent w @ reqs \<and> length reqs \<le> 4 \<and> (\<forall>e \<in> set reqs. ssrf_ok f e))"
    by (intro conjI exI [of _ reqs]) (auto simp: ssrf_ok_def)
qed

lemma safe_get_json_is_confined:
  assumes "logs sent f N"
  shows "confined sent (ssrf_ok f) 4 (safe_get_json N f fj u mx)"
  unfolding safe_get_json_def by (rule confined_bind_pure [OF safe_get_is_confined [OF assms]]) simp

end
