(* ===== verification/Utf8.thy ===== *)
theory Utf8
  imports Prelude
begin

text \<open>
  UTF-8 validation and hexadecimal parsing of the standard library, as the crate uses them.  Validation
  reports the offset of the first sequence that is not well formed, and the number of its bytes that
  are to be skipped, unless the input ends inside the sequence.
\<close>

section \<open>Validation\<close>

definition is_continuation :: "u8 \<Rightarrow> bool" where
  "is_continuation b = (0x80 \<le> b \<and> b \<le> 0xBF)"

text \<open>The second byte of a sequence of three or four bytes.\<close>

definition second_of_3 :: "u8 \<Rightarrow> u8 \<Rightarrow> bool" where
  "second_of_3 b b1 =
     ((b = 0xE0 \<and> 0xA0 \<le> b1 \<and> b1 \<le> 0xBF) \<or> (0xE1 \<le> b \<and> b \<le> 0xEC \<and> is_continuation b1)
      \<or> (b = 0xED \<and> 0x80 \<le> b1 \<and> b1 \<le> 0x9F) \<or> (0xEE \<le> b \<and> b \<le> 0xEF \<and> is_continuation b1))"

definition second_of_4 :: "u8 \<Rightarrow> u8 \<Rightarrow> bool" where
  "second_of_4 b b1 =
     ((b = 0xF0 \<and> 0x90 \<le> b1 \<and> b1 \<le> 0xBF) \<or> (0xF1 \<le> b \<and> b \<le> 0xF3 \<and> is_continuation b1)
      \<or> (b = 0xF4 \<and> 0x80 \<le> b1 \<and> b1 \<le> 0x8F))"

fun utf8_error :: "nat \<Rightarrow> bytes \<Rightarrow> (nat \<times> nat option) option" where
  "utf8_error i [] = None"
| "utf8_error i (b # r) =
     (if b < 0x80 then utf8_error (i + 1) r
      else if 0xC2 \<le> b \<and> b \<le> 0xDF then
        (case r of [] \<Rightarrow> Some (i, None)
         | b1 # r1 \<Rightarrow> if \<not> is_continuation b1 then Some (i, Some 1) else utf8_error (i + 2) r1)
      else if 0xE0 \<le> b \<and> b \<le> 0xEF then
        (case r of [] \<Rightarrow> Some (i, None)
         | b1 # r1 \<Rightarrow>
             if \<not> second_of_3 b b1 then Some (i, Some 1)
             else (case r1 of [] \<Rightarrow> Some (i, None)
               | b2 # r2 \<Rightarrow> if \<not> is_continuation b2 then Some (i, Some 2) else utf8_error (i + 3) r2))
      else if 0xF0 \<le> b \<and> b \<le> 0xF4 then
        (case r of [] \<Rightarrow> Some (i, None)
         | b1 # r1 \<Rightarrow>
             if \<not> second_of_4 b b1 then Some (i, Some 1)
             else (case r1 of [] \<Rightarrow> Some (i, None)
               | b2 # r2 \<Rightarrow>
                   if \<not> is_continuation b2 then Some (i, Some 2)
                   else (case r2 of [] \<Rightarrow> Some (i, None)
                     | b3 # r3 \<Rightarrow> if \<not> is_continuation b3 then Some (i, Some 3) else utf8_error (i + 4) r3)))
      else Some (i, Some 1))"

definition from_utf8 :: "bytes \<Rightarrow> (string, string) result" where
  "from_utf8 bs =
     (case utf8_error 0 bs of
        None \<Rightarrow> Ok (from_bytes bs)
      | Some (i, Some n) \<Rightarrow> Err (''invalid utf-8 sequence of '' @ show_nat n @ '' bytes from index '' @ show_nat i)
      | Some (i, None) \<Rightarrow> Err (''incomplete utf-8 byte sequence from index '' @ show_nat i))"

section \<open>Hexadecimal digits\<close>

definition hex_digit :: "char \<Rightarrow> nat option" where
  "hex_digit c =
     (if 48 \<le> code c \<and> code c \<le> 57 then Some (code c - 48)
      else if 97 \<le> code c \<and> code c \<le> 102 then Some (code c - 87)
      else if 65 \<le> code c \<and> code c \<le> 70 then Some (code c - 55) else None)"

fun hex_value :: "nat \<Rightarrow> string \<Rightarrow> nat option" where
  "hex_value acc [] = Some acc"
| "hex_value acc (c # s) = (case hex_digit c of Some d \<Rightarrow> hex_value (acc * 16 + d) s | None \<Rightarrow> None)"

text \<open>\<open>u8::from_str_radix(s, 16)\<close>: an optional plus sign, then digits.\<close>

definition u8_from_hex :: "string \<Rightarrow> (u8, string) result" where
  "u8_from_hex s =
     (if s = [] then Err ''cannot parse integer from empty string''
      else if s = ''+'' \<or> s = ''-'' then Err ''invalid digit found in string''
      else (case hex_value 0 (case strip_prefix ''+'' s of Some r \<Rightarrow> r | None \<Rightarrow> s) of
              None \<Rightarrow> Err ''invalid digit found in string''
            | Some n \<Rightarrow> if n > 255 then Err ''number too large to fit in target type'' else Ok (word_of_nat n)))"

section \<open>Lemmas\<close>

lemma utf8_error_ascii: "list_all (\<lambda>b. b < 0x80) bs \<Longrightarrow> utf8_error i bs = None"
  by (induction bs arbitrary: i) auto

lemma from_utf8_ascii: "list_all (\<lambda>b. b < 0x80) bs \<Longrightarrow> from_utf8 bs = Ok (from_bytes bs)"
  by (simp add: from_utf8_def utf8_error_ascii)

lemma from_utf8_Ok: "from_utf8 bs = Ok s \<longleftrightarrow> utf8_error 0 bs = None \<and> s = from_bytes bs"
  by (auto simp: from_utf8_def split: option.split)

lemma hex_digit_iff: "hex_digit c \<noteq> None \<longleftrightarrow> is_ascii_hexdigit c"
  by (auto simp: hex_digit_def ascii_simps)

lemma hex_digit_less: "hex_digit c = Some d \<Longrightarrow> d < 16"
  by (auto simp: hex_digit_def split: if_splits)

end
