(* ===== verification/Identity.thy ===== *)
theory Identity
  imports Confine Utf8
begin

text \<open>
  Handles, DIDs and DID documents (\<open>identity.rs\<close>): normalisation of handles, validation of DID
  syntax, what a DID document says, and the resolver.  A custom resolver of DNS TXT records is an
  optional function; without one the DNS-over-HTTPS client of the crate is used.  The
  \<open>Deserialize\<close> code that \<open>serde\<close> derives is a parameter.
\<close>

section \<open>DID documents\<close>

definition DEFAULT_PLC_DIRECTORY :: string where
  "DEFAULT_PLC_DIRECTORY = ''https://plc.directory''"

definition DEFAULT_HANDLE_DOMAIN :: string where
  "DEFAULT_HANDLE_DOMAIN = ''bsky.social''"

datatype DidMethod = Plc | Web

record VerificationMethod =
  vm_id :: string
  vm_key_type :: string
  vm_controller :: string
  vm_public_key_multibase :: "string option"

record DidService =
  svc_id :: string
  svc_service_type :: string
  svc_service_endpoint :: string

record DidDocument =
  doc_id :: string
  also_known_as :: "string list"
  verification_method :: "VerificationMethod list"
  doc_service :: "DidService list"

definition validate_id :: "DidDocument \<Rightarrow> string \<Rightarrow> (unit, IdentityError) result" where
  "validate_id doc expected_did =
     (if doc_id doc = expected_did then Ok ()
      else Err (IdentityError.DidDocumentIdMismatch expected_did (doc_id doc)))"

definition matches_handle :: "DidDocument \<Rightarrow> string \<Rightarrow> bool" where
  "matches_handle doc handle =
     (let normalized = to_ascii_lowercase (trim_start_matches (CHR ''@'') (trim handle));
          expected_uri = ''at://'' @ normalized
      in list_ex (\<lambda>aka. to_ascii_lowercase aka = expected_uri) (also_known_as doc))"

definition verify_handle_bidirectional :: "DidDocument \<Rightarrow> string \<Rightarrow> (unit, IdentityError) result" where
  "verify_handle_bidirectional doc handle =
     (if matches_handle doc handle then Ok () else Err (IdentityError.HandleDidMismatch handle))"

definition extract_pds_endpoint :: "url_parser \<Rightarrow> DidDocument \<Rightarrow> (string, IdentityError) result" where
  "extract_pds_endpoint parse doc =
     (case find (\<lambda>s. (svc_id s = ''#atproto_pds'' \<or> ends_with (svc_id s) ''#atproto_pds'')
                   \<and> svc_service_type s = ''AtprotoPersonalDataServer'') (doc_service doc) of
        Some svc \<Rightarrow>
          (let trimmed = trim_end_matches (CHR ''/'') (trim (svc_service_endpoint svc)) in
           try_bind (map_err (\<lambda>e. IdentityError.InvalidPdsEndpoint (trimmed @ '': '' @ e)) (parse trimmed)) (\<lambda>parsed.
           if url_scheme parsed \<noteq> ''https'' \<and> url_scheme parsed \<noteq> ''http''
           then Err (IdentityError.InvalidPdsEndpoint (''Invalid scheme in PDS endpoint '' @ sq trimmed))
           else Ok trimmed))
      | None \<Rightarrow> Err (IdentityError.MissingPdsEndpoint (doc_id doc)))"

definition extract_signing_key :: "DidDocument \<Rightarrow> VerificationMethod option" where
  "extract_signing_key doc =
     find (\<lambda>vm. vm_id vm = ''#atproto'' \<or> ends_with (vm_id vm) ''#atproto'') (verification_method doc)"

record ResolvedIdentity =
  ri_did :: string
  ri_handle :: "string option"
  ri_did_doc :: DidDocument
  ri_pds_endpoint :: string

section \<open>Handles\<close>

definition DISALLOWED_HANDLE_TLDS :: "string list" where
  "DISALLOWED_HANDLE_TLDS = [''alt'', ''arpa'', ''example'', ''internal'', ''invalid'', ''local'',
     ''localhost'', ''onion'']"

definition check_label :: "string \<Rightarrow> (unit, IdentityError) result" where
  "check_label label =
     (if label = [] \<or> length label > 63 then
        Err (IdentityError.InvalidHandleSyntax (''Domain label '' @ sq label @ '' length ''
          @ show_nat (length label) @ '' is outside valid range (1..=63)''))
      else if starts_with label ''-'' \<or> ends_with label ''-'' then
        Err (IdentityError.InvalidHandleSyntax (''Domain label '' @ sq label
          @ '' must not start or end with a hyphen''))
      else if \<not> is_ascii_alphanumeric (case label of c # _ \<Rightarrow> c | [] \<Rightarrow> CHR 0x00) then
        Err (IdentityError.InvalidHandleSyntax (''Domain label '' @ sq label
          @ '' must start with an alphanumeric character''))
      else if \<not> list_all (\<lambda>c. is_ascii_alphanumeric c \<or> c = CHR ''-'') label then
        Err (IdentityError.InvalidHandleSyntax (''Domain label '' @ sq label
          @ '' contains illegal characters (only [a-z0-9-] allowed)''))
      else Ok ())"

fun check_labels :: "string list \<Rightarrow> (unit, IdentityError) result" where
  "check_labels [] = Ok ()"
| "check_labels (l # ls) = try_bind (check_label l) (\<lambda>_. check_labels ls)"

definition normalize_handle :: "string \<Rightarrow> (string, IdentityError) result" where
  "normalize_handle raw_handle =
     (let normalized = to_ascii_lowercase (trim_start_matches (CHR ''@'') (trim raw_handle)) in
      if normalized = [] then Err (IdentityError.InvalidHandleSyntax ''Handle cannot be empty'')
      else if length normalized > 244 then
        Err (IdentityError.InvalidHandleSyntax (''Handle length '' @ show_nat (length normalized)
          @ '' exceeds maximum allowed length of 244 characters''))
      else if parse_ip normalized \<noteq> None \<or> starts_with normalized ''[''
              \<or> list_all (\<lambda>c. is_ascii_digit c \<or> c = CHR ''.'') normalized then
        Err (IdentityError.InvalidHandleSyntax ''Handle cannot be an IP address'')
      else
        (let labels = split_on (CHR ''.'') normalized in
         if length labels < 2 then
           Err (IdentityError.InvalidHandleSyntax ''Handle must contain at least two domain labels'')
         else
           try_bind (check_labels labels) (\<lambda>_.
           let tld = last labels in
           if tld \<in> set DISALLOWED_HANDLE_TLDS then Err (IdentityError.DisallowedHandleTld tld)
           else if normalized = ''handle.invalid'' then Err (IdentityError.DisallowedHandleTld ''handle.invalid'')
           else Ok normalized)))"

definition normalize_handle_with_default_domain :: "string \<Rightarrow> string \<Rightarrow> (string, IdentityError) result" where
  "normalize_handle_with_default_domain raw_handle default_domain =
     (let normalized = to_ascii_lowercase (trim (trim_start_matches (CHR ''@'') (trim raw_handle))) in
      if normalized = [] then Err (IdentityError.InvalidHandleSyntax ''Handle cannot be empty'')
      else if \<not> contains_char normalized (CHR ''.'') then
        (if normalized \<in> set DISALLOWED_HANDLE_TLDS then
           Err (IdentityError.InvalidHandleSyntax (''Reserved single-label name '' @ sq normalized
             @ '' cannot be expanded to a handle''))
         else if list_all is_ascii_digit normalized then
           Err (IdentityError.InvalidHandleSyntax ''Handle cannot be a numeric literal'')
         else
           (let suffix = trim_start_matches (CHR ''.'') (trim default_domain) in
            normalize_handle (normalized @ ''.'' @ suffix)))
      else normalize_handle raw_handle)"

definition normalize_user_handle :: "string \<Rightarrow> (string, IdentityError) result" where
  "normalize_user_handle raw_handle = normalize_handle_with_default_domain raw_handle DEFAULT_HANDLE_DOMAIN"

fun find_handle :: "string list \<Rightarrow> string option" where
  "find_handle [] = None"
| "find_handle (aka # rest) =
     (case strip_prefix ''at://'' aka of
        None \<Rightarrow> find_handle rest
      | Some candidate \<Rightarrow>
          (case normalize_handle candidate of Ok h \<Rightarrow> Some h | Err _ \<Rightarrow> find_handle rest))"

definition extract_primary_handle :: "DidDocument \<Rightarrow> string option" where
  "extract_primary_handle doc = find_handle (also_known_as doc)"

section \<open>DID syntax\<close>

definition is_did_web_char :: "char \<Rightarrow> bool" where
  "is_did_web_char c = (is_ascii_alphanumeric c \<or> c = CHR ''.'' \<or> c = CHR ''-'' \<or> c = CHR ''%'')"

definition validate_did_syntax :: "string \<Rightarrow> (DidMethod, IdentityError) result" where
  "validate_did_syntax did =
     (let trimmed = trim did in
      if \<not> starts_with trimmed ''did:'' then
        Err (IdentityError.InvalidDidSyntax (''DID must start with '' @ sq ''did:''))
      else
        (let parts = split_on (CHR '':'') trimmed in
         if length parts < 3 then
           Err (IdentityError.InvalidDidSyntax (''Malformed DID structure '' @ sq trimmed))
         else if parts ! 1 = ''plc'' then
           (let hash = parts ! 2 in
            if \<not> (length hash = 24 \<and> list_all (\<lambda>c. is_ascii_lowercase c \<or> is_ascii_digit c) hash) then
              Err (IdentityError.InvalidDidSyntax
                (''did:plc identifier must be exactly 24 lowercase alphanumeric characters, got '' @ sq hash))
            else Ok DidMethod.Plc)
         else if parts ! 1 = ''web'' then
           (let domain = parts ! 2;
                segments = split_on (CHR '':'')
                  (case strip_prefix ''did:web:'' trimmed of Some r \<Rightarrow> r | None \<Rightarrow> domain);
                valid = (domain \<noteq> [] \<and> \<not> contains_char domain (CHR ''@'')
                  \<and> list_all (\<lambda>seg. seg \<noteq> [] \<and> \<not> contains_char seg (CHR ''@'')
                       \<and> list_all is_did_web_char seg) segments)
            in if \<not> valid then
                 Err (IdentityError.InvalidDidSyntax (''did:web identifier '' @ sq domain
                   @ '' is not a valid domain (no userinfo, ports, empty segments, or non-domain characters)''))
               else Ok DidMethod.Web)
         else Err (IdentityError.UnsupportedDidMethod (parts ! 1))))"

section \<open>DNS over HTTPS\<close>

definition DOH_MAX_RESPONSE_BYTES :: nat where
  "DOH_MAX_RESPONSE_BYTES = 64 * 1024"

definition trim_matches :: "char \<Rightarrow> string \<Rightarrow> string" where
  "trim_matches c s = trim_end_matches c (trim_start_matches c s)"

record identity_serde =
  doh_from_slice :: "bytes \<Rightarrow> ((u16 \<times> string) list, string) result"
  did_document_from_slice :: "bytes \<Rightarrow> (DidDocument, string) result"

definition doh_request :: "string \<Rightarrow> http_request" where
  "doh_request query_name = \<lparr> hr_method = ''GET'',
     hr_url = ''https://cloudflare-dns.com/dns-query?name='' @ query_name @ ''&type=TXT'',
     hr_headers = [(''accept'', ''application/dns-json'')], hr_body = None \<rparr>"

text \<open>\<open>client\<close> is the outcome of building the shared client.\<close>

definition standard_resolve_txt ::
  "'w net \<Rightarrow> identity_serde \<Rightarrow> (unit, string) result \<Rightarrow> string \<Rightarrow> ('w io, string list, IdentityError) io_op" where
  "standard_resolve_txt N J client query_name =
     io_bind (io_lift (map_err IdentityError.Dns client)) (\<lambda>_.
     io_bind (\<lambda>(p, w). case net_send_plain N (doh_request query_name) w of
                         (w', r) \<Rightarrow> ((p, w'), map_err IdentityError.Dns r)) (\<lambda>resp.
     if \<not> is_success (resp_status resp) then
       io_lift (Err (IdentityError.Dns (''DoH resolver returned HTTP '' @ net_show_status N (resp_status resp)
         @ '' for query '' @ sq query_name)))
     else
       io_bind (io_lift (map_err (\<lambda>e. IdentityError.Dns (show_SsrfError e))
         (read_bounded_body resp DOH_MAX_RESPONSE_BYTES))) (\<lambda>bs.
       io_bind (io_lift (map_err IdentityError.Dns (doh_from_slice J bs))) (\<lambda>answer.
       io_lift (Ok (map (\<lambda>(_, d). trim_matches (CHR 0x22) d)
         (filter (\<lambda>(answer_type, _). answer_type = 16) answer)))))))"

section \<open>The resolver\<close>

record 'w IdentityResolver =
  idr_ssrf_filter :: SsrfFilter
  idr_plc_directory_url :: string
  idr_dns_resolver :: "(string \<Rightarrow> ('w io, string list, IdentityError) io_op) option"

definition IdentityResolver_new :: "SsrfFilter \<Rightarrow> 'w IdentityResolver" where
  "IdentityResolver_new f = \<lparr> idr_ssrf_filter = f, idr_plc_directory_url = DEFAULT_PLC_DIRECTORY,
     idr_dns_resolver = None \<rparr>"

text \<open>The builder: every setter replaces one field.\<close>

record 'w IdentityResolverBuilder =
  idb_ssrf_filter :: SsrfFilter
  idb_plc_directory_url :: string
  idb_dns_resolver :: "(string \<Rightarrow> ('w io, string list, IdentityError) io_op) option"

definition IdentityResolverBuilder_default :: "'w IdentityResolverBuilder" where
  "IdentityResolverBuilder_default = \<lparr> idb_ssrf_filter = SsrfFilter_new False,
     idb_plc_directory_url = DEFAULT_PLC_DIRECTORY, idb_dns_resolver = None \<rparr>"

definition idb_set_ssrf_filter ::
  "SsrfFilter \<Rightarrow> 'w IdentityResolverBuilder \<Rightarrow> 'w IdentityResolverBuilder" where
  "idb_set_ssrf_filter f b = b\<lparr>idb_ssrf_filter := f\<rparr>"

definition idb_set_allow_insecure_localhost ::
  "bool \<Rightarrow> 'w IdentityResolverBuilder \<Rightarrow> 'w IdentityResolverBuilder" where
  "idb_set_allow_insecure_localhost allow b =
     b\<lparr>idb_ssrf_filter := (idb_ssrf_filter b)\<lparr>allow_insecure_localhost := allow\<rparr>\<rparr>"

definition idb_set_plc_directory_url ::
  "string \<Rightarrow> 'w IdentityResolverBuilder \<Rightarrow> 'w IdentityResolverBuilder" where
  "idb_set_plc_directory_url u b = b\<lparr>idb_plc_directory_url := u\<rparr>"

definition idb_set_dns_resolver ::
  "(string \<Rightarrow> ('w io, string list, IdentityError) io_op) \<Rightarrow> 'w IdentityResolverBuilder \<Rightarrow> 'w IdentityResolverBuilder" where
  "idb_set_dns_resolver r b = b\<lparr>idb_dns_resolver := Some r\<rparr>"

definition idb_build :: "'w IdentityResolverBuilder \<Rightarrow> 'w IdentityResolver" where
  "idb_build b = \<lparr> idr_ssrf_filter = idb_ssrf_filter b, idr_plc_directory_url = idb_plc_directory_url b,
     idr_dns_resolver = idb_dns_resolver b \<rparr>"

record 'w id_env =
  ie_net :: "'w net"
  ie_serde :: identity_serde
  ie_doh_client :: "(unit, string) result"

definition dids_of_records :: "string list \<Rightarrow> string list" where
  "dids_of_records records =
     filter (\<lambda>d. d \<noteq> [])
       (map (\<lambda>r. case strip_prefix ''did='' r of Some d \<Rightarrow> d | None \<Rightarrow> [])
         (filter (\<lambda>r. starts_with r ''did='') records))"

definition resolve_handle_dns ::
  "'w id_env \<Rightarrow> 'w IdentityResolver \<Rightarrow> string \<Rightarrow> ('w io, string option, IdentityError) io_op" where
  "resolve_handle_dns E R handle =
     io_bind (io_lift (normalize_handle handle)) (\<lambda>normalized.
     let query_name = ''_atproto.'' @ normalized in
     io_bind (case idr_dns_resolver R of
                Some resolver \<Rightarrow> resolver query_name
              | None \<Rightarrow> standard_resolve_txt (ie_net E) (ie_serde E) (ie_doh_client E) query_name) (\<lambda>records.
     io_lift
       (case dids_of_records records of
          [] \<Rightarrow> Ok None
        | first_did # rest \<Rightarrow>
            try_bind (validate_did_syntax first_did) (\<lambda>_.
            if list_ex (\<lambda>did. did \<noteq> first_did) rest
            then Err (IdentityError.AmbiguousHandleResolution normalized)
            else Ok (Some first_did)))))"

definition resolve_handle_https ::
  "'w id_env \<Rightarrow> 'w IdentityResolver \<Rightarrow> string \<Rightarrow> ('w io, string, IdentityError) io_op" where
  "resolve_handle_https E R handle =
     io_bind (io_lift (normalize_handle handle)) (\<lambda>normalized.
     let scheme = (if allow_insecure_localhost (idr_ssrf_filter R)
                      \<and> (normalized = ''localhost'' \<or> starts_with normalized ''localhost:'')
                   then ''http'' else ''https'');
         u = scheme @ ''://'' @ normalized @ ''/.well-known/atproto-did''
     in io_bind (io_map_err (\<lambda>_. IdentityError.HandleResolutionFailed normalized)
          (safe_get (ie_net E) (idr_ssrf_filter R) u 2048)) (\<lambda>bs.
        io_bind (io_lift (map_err (\<lambda>_. IdentityError.HandleResolutionFailed normalized) (from_utf8 bs))) (\<lambda>s.
        let text = trim s in
        io_bind (io_lift (validate_did_syntax text)) (\<lambda>_. io_lift (Ok text)))))"

definition resolve_handle ::
  "'w id_env \<Rightarrow> 'w IdentityResolver \<Rightarrow> string \<Rightarrow> ('w io, string, IdentityError) io_op" where
  "resolve_handle E R handle =
     io_bind (io_lift (normalize_handle handle)) (\<lambda>normalized s.
     case resolve_handle_dns E R normalized s of
       (s', Ok (Some did)) \<Rightarrow> (s', Ok did)
     | (s', Ok None) \<Rightarrow> resolve_handle_https E R normalized s'
     | (s', Err e) \<Rightarrow>
         (case e of
            IdentityError.Dns _ \<Rightarrow> resolve_handle_https E R normalized s'
          | _ \<Rightarrow> (s', Err e)))"

definition did_fetch_error :: "string \<Rightarrow> SsrfError \<Rightarrow> IdentityError" where
  "did_fetch_error did e =
     (case e of
        SsrfError.HttpStatus st _ \<Rightarrow>
          if st = 404 then IdentityError.DidNotFound did else IdentityError.Ssrf e
      | SsrfError.Json err \<Rightarrow> IdentityError.MalformedDidDocument err
      | _ \<Rightarrow> IdentityError.Ssrf e)"

text \<open>Fetch a DID document and check that it is the one of the DID.\<close>

definition fetch_did_document ::
  "'w id_env \<Rightarrow> 'w IdentityResolver \<Rightarrow> string \<Rightarrow> string \<Rightarrow> ('w io, DidDocument, IdentityError) io_op" where
  "fetch_did_document E R did u =
     io_bind (io_map_err (did_fetch_error did)
       (safe_get_json (ie_net E) (idr_ssrf_filter R) (did_document_from_slice (ie_serde E)) u
          MAX_OAUTH_RESPONSE_BYTES)) (\<lambda>doc.
     io_bind (io_lift (validate_id doc did)) (\<lambda>_. io_lift (Ok doc)))"

definition resolve_did_plc ::
  "'w id_env \<Rightarrow> 'w IdentityResolver \<Rightarrow> string \<Rightarrow> ('w io, DidDocument, IdentityError) io_op" where
  "resolve_did_plc E R did =
     io_bind (io_lift (validate_did_syntax did)) (\<lambda>_.
     fetch_did_document E R did
       (trim_end_matches (CHR ''/'') (idr_plc_directory_url R) @ ''/'' @ did))"

text \<open>\<open>str::replace\<close> of a non-empty pattern.\<close>

function str_replace :: "string \<Rightarrow> string \<Rightarrow> string \<Rightarrow> string" where
  "str_replace pat rep s =
     (case s of
        [] \<Rightarrow> []
      | c # r \<Rightarrow> if pat \<noteq> [] \<and> starts_with s pat then rep @ str_replace pat rep (drop (length pat) s)
                 else c # str_replace pat rep r)"
  by pat_completeness auto
termination
  by (relation "measure (\<lambda>(_, _, s). length s)") (auto simp: starts_with_def)

declare str_replace.simps [simp del]

definition did_web_url :: "SsrfFilter \<Rightarrow> string \<Rightarrow> string" where
  "did_web_url f stripped =
     (let parts = split_on (CHR '':'') stripped;
          domain = str_replace ''%3a'' '':'' (str_replace ''%3A'' '':'' (hd parts));
          scheme = (if allow_insecure_localhost f
                       \<and> (starts_with domain ''localhost'' \<or> starts_with domain ''127.0.0.1'')
                    then ''http'' else ''https'')
      in if length parts = 1 then scheme @ ''://'' @ domain @ ''/.well-known/did.json''
         else scheme @ ''://'' @ domain @ ''/'' @ join_with ''/'' (tl parts) @ ''/did.json'')"

definition resolve_did_web ::
  "'w id_env \<Rightarrow> 'w IdentityResolver \<Rightarrow> string \<Rightarrow> ('w io, DidDocument, IdentityError) io_op" where
  "resolve_did_web E R did =
     io_bind (io_lift (validate_did_syntax did)) (\<lambda>_.
     io_bind (io_lift (ok_or (IdentityError.InvalidDidSyntax did) (strip_prefix ''did:web:'' did))) (\<lambda>stripped.
     fetch_did_document E R did (did_web_url (idr_ssrf_filter R) stripped)))"

definition resolve_did ::
  "'w id_env \<Rightarrow> 'w IdentityResolver \<Rightarrow> string \<Rightarrow> ('w io, DidDocument, IdentityError) io_op" where
  "resolve_did E R did =
     io_bind (io_lift (validate_did_syntax did)) (\<lambda>m.
     case m of
       DidMethod.Plc \<Rightarrow> resolve_did_plc E R did
     | DidMethod.Web \<Rightarrow> resolve_did_web E R did)"

definition resolve_ident ::
  "'w id_env \<Rightarrow> 'w IdentityResolver \<Rightarrow> string \<Rightarrow> ('w io, ResolvedIdentity, IdentityError) io_op" where
  "resolve_ident E R handle_or_did =
     (let trimmed = trim handle_or_did in
      if starts_with trimmed ''did:'' then
        io_bind (resolve_did E R trimmed) (\<lambda>doc.
        io_bind (io_lift (extract_pds_endpoint (net_url (ie_net E)) doc)) (\<lambda>pds_endpoint.
        io_lift (Ok \<lparr> ri_did = trimmed, ri_handle = extract_primary_handle doc, ri_did_doc = doc,
          ri_pds_endpoint = pds_endpoint \<rparr>)))
      else
        io_bind (io_lift (normalize_user_handle trimmed)) (\<lambda>handle.
        io_bind (resolve_handle E R handle) (\<lambda>did.
        io_bind (resolve_did E R did) (\<lambda>doc.
        io_bind (io_lift (verify_handle_bidirectional doc handle)) (\<lambda>_.
        io_bind (io_lift (extract_pds_endpoint (net_url (ie_net E)) doc)) (\<lambda>pds_endpoint.
        io_lift (Ok \<lparr> ri_did = did, ri_handle = Some handle, ri_did_doc = doc,
          ri_pds_endpoint = pds_endpoint \<rparr>)))))))"

end
