(* ===== verification/Service_Auth.thy ===== *)
theory Service_Auth
  imports Multikey Identity
begin

text \<open>
  Verification of service-auth tokens (\<open>service_auth.rs\<close>).  The state of the verifier is the state
  of the network operations and the key cache.  The \<open>Deserialize\<close> code derived for the header and
  the claims is a parameter, as are the curve libraries.
\<close>

section \<open>Tokens and claims\<close>

definition SERVICE_JWT_CLOCK_SKEW_LEEWAY_SECS :: u64 where
  "SERVICE_JWT_CLOCK_SKEW_LEEWAY_SECS = 60"

record ServiceJwtHeader =
  sjh_alg :: string
  sjh_typ :: "string option"

record ServiceJwtClaims =
  sjc_iss :: "string option"
  sjc_sub :: "string option"
  sjc_aud :: "string option"
  sjc_lxm :: "string option"
  sjc_exp :: "u64 option"
  sjc_iat :: "u64 option"
  sjc_jti :: "string option"

definition is_valid_service_did :: "string \<Rightarrow> bool" where
  "is_valid_service_did did =
     (case strip_prefix ''did:plc:'' did of
        Some i \<Rightarrow>
          i \<noteq> [] \<and> length i \<le> 64
          \<and> list_all (\<lambda>b. is_ascii_lowercase b \<or> is_ascii_digit b \<or> b = CHR ''_'' \<or> b = CHR ''-'') i
      | None \<Rightarrow>
          (case strip_prefix ''did:web:'' did of
             Some rest \<Rightarrow>
               (let host = hd (split_on (CHR '':'') rest) in
                host \<noteq> [] \<and> length host \<le> 253
                \<and> list_all (\<lambda>l. l \<noteq> [] \<and> length l \<le> 63 \<and> \<not> starts_with l ''-'' \<and> \<not> ends_with l ''-''
                     \<and> list_all (\<lambda>b. is_ascii_alphanumeric b \<or> b = CHR ''-'') l) (split_on (CHR ''.'') host))
           | None \<Rightarrow> False))"

text \<open>\<open>Option::or\<close>.\<close>

definition opt_or :: "'a option \<Rightarrow> 'a option \<Rightarrow> 'a option" where
  "opt_or a b = (case a of Some x \<Rightarrow> Some x | None \<Rightarrow> b)"

definition viewer_did :: "ServiceJwtClaims \<Rightarrow> string option" where
  "viewer_did c =
     (case opt_or (sjc_iss c) (sjc_sub c) of
        Some did \<Rightarrow> if is_valid_service_did did then Some did else None
      | None \<Rightarrow> None)"

text \<open>\<open>split_once(char::is_whitespace)\<close>.\<close>

fun split_once_ws :: "string \<Rightarrow> (string \<times> string) option" where
  "split_once_ws [] = None"
| "split_once_ws (c # s) =
     (let n = ws_head (c # s) in
      if n > 0 then Some ([], drop n (c # s))
      else map_option (\<lambda>(a, b). (c # a, b)) (split_once_ws s))"

abbreviation token_err :: "TokenError \<Rightarrow> ('a, AtprotoOAuthError) result" where
  "token_err e \<equiv> Err (AtprotoOAuthError.Token e)"

abbreviation malformed :: "string \<Rightarrow> ('a, AtprotoOAuthError) result" where
  "malformed e \<equiv> token_err (TokenError.MalformedToken e)"

definition extract_bearer_token :: "string \<Rightarrow> (string, AtprotoOAuthError) result" where
  "extract_bearer_token auth_header_or_token =
     (let trimmed = trim auth_header_or_token in
      if trimmed = [] then token_err TokenError.MissingHeader
      else if eq_ignore_ascii_case trimmed ''Bearer'' then malformed ''Empty Bearer token''
      else
        (case split_once_ws trimmed of
           Some (scheme, rest) \<Rightarrow>
             if \<not> eq_ignore_ascii_case scheme ''Bearer''
             then token_err (TokenError.InvalidScheme ''Bearer'' scheme)
             else (let token = trim rest in
                   if token = [] then malformed ''Empty Bearer token'' else Ok token)
         | None \<Rightarrow> Ok trimmed))"

record service_env =
  se_crypto :: crypto_lib
  se_ec :: ec_lib
  se_header_from_slice :: "bytes \<Rightarrow> (ServiceJwtHeader, string) result"
  se_claims_from_slice :: "bytes \<Rightarrow> (ServiceJwtClaims, string) result"
  se_hash :: "string \<Rightarrow> u64"

text \<open>Base64 without padding, then with padding.\<close>

definition b64_either :: "crypto_lib \<Rightarrow> string \<Rightarrow> (bytes, string) result" where
  "b64_either L s = (case b64_decode_nopad L s of Ok d \<Rightarrow> Ok d | Err _ \<Rightarrow> b64_decode_pad L s)"

definition parse_service_jwt_claims_unverified ::
  "service_env \<Rightarrow> string \<Rightarrow> (ServiceJwtClaims, AtprotoOAuthError) result" where
  "parse_service_jwt_claims_unverified V token =
     (case split_on (CHR ''.'') (trim token) of
        [] \<Rightarrow> malformed ''Missing JWT header''
      | [_] \<Rightarrow> malformed ''Missing JWT payload''
      | [_, _] \<Rightarrow> malformed ''Missing JWT signature''
      | _ # payload_b64 # sig_b64 # extra \<Rightarrow>
          if extra \<noteq> [] \<or> sig_b64 = [] then malformed ''Invalid JWT format: must have 3 non-empty segments''
          else
            try_bind (map_err (\<lambda>e. AtprotoOAuthError.Token (TokenError.MalformedToken (''Base64 decode error: '' @ e)))
              (b64_either (se_crypto V) payload_b64)) (\<lambda>decoded.
            map_err (\<lambda>e. AtprotoOAuthError.Token (TokenError.MalformedToken (''JSON payload parse error: '' @ e)))
              (se_claims_from_slice V decoded)))"

section \<open>Keys of documents\<close>

definition show_byte_slice :: "bytes \<Rightarrow> string" where
  "show_byte_slice bs = ''['' @ join_with '', '' (map (\<lambda>b. show_nat (unat b)) bs) @ '']''"

abbreviation key_err :: "string \<Rightarrow> ('a, AtprotoOAuthError) result" where
  "key_err e \<equiv> Err (AtprotoOAuthError.Crypto (CryptoError.InvalidKey e))"

definition atproto_key_of_bytes ::
  "service_env \<Rightarrow> string \<Rightarrow> bytes \<Rightarrow> (AtprotoVerifyingKey, AtprotoOAuthError) result option" where
  "atproto_key_of_bytes V method_id key_bytes =
     (case classify_multikey_bytes key_bytes of
        Some (c, sec1_bytes) \<Rightarrow>
          if c = CURVE_SECP256K1 then
            Some (try_bind (map_err (\<lambda>e. AtprotoOAuthError.Crypto (CryptoError.InvalidKey
                (''Invalid secp256k1 public key in '' @ sq method_id @ '': '' @ e)))
                (k256_from_sec1 (se_ec V) sec1_bytes)) (\<lambda>k. Ok (Secp256k1 k)))
          else if c = CURVE_P256 then
            Some (try_bind (map_err (\<lambda>e. AtprotoOAuthError.Crypto (CryptoError.InvalidKey
                (''Invalid P-256 public key in '' @ sq method_id @ '': '' @ e)))
                (p256_from_sec1 (se_crypto V) sec1_bytes)) (\<lambda>k. Ok (P256 k)))
          else None
      | None \<Rightarrow> None)"

definition multikey_error :: "string \<Rightarrow> bytes \<Rightarrow> (AtprotoVerifyingKey, AtprotoOAuthError) result" where
  "multikey_error method_id key_bytes =
     (if (take 2 key_bytes = MULTIKEY_SECP256K1_VARINT
          \<and> length key_bytes = length MULTIKEY_SECP256K1_VARINT + COMPRESSED_EC_PUBLIC_KEY_LEN)
         \<or> (take 1 key_bytes = [MULTIKEY_SECP256K1_LEGACY_PREFIX]
             \<and> length key_bytes = 1 + COMPRESSED_EC_PUBLIC_KEY_LEN)
      then key_err (''Invalid secp256k1 public key in '' @ sq method_id @ '': invalid compressed SEC1 tag byte'')
      else if take 2 key_bytes = MULTIKEY_P256_VARINT
              \<and> length key_bytes = length MULTIKEY_P256_VARINT + COMPRESSED_EC_PUBLIC_KEY_LEN
      then key_err (''Invalid P-256 public key in '' @ sq method_id @ '': invalid compressed SEC1 tag byte'')
      else key_err (''Verification method '' @ sq method_id @ '' is not a secp256k1 or P-256 Multikey (len ''
        @ show_nat (length key_bytes) @ '', prefix '' @ show_byte_slice (take 2 key_bytes) @ '')''))"

definition extract_atproto_key_from_document ::
  "service_env \<Rightarrow> DidDocument \<Rightarrow> (AtprotoVerifyingKey, AtprotoOAuthError) result" where
  "extract_atproto_key_from_document V doc =
     try_bind (ok_or (AtprotoOAuthError.Identity (IdentityError.MalformedDidDocument
         (''DID document '' @ sq (doc_id doc) @ '' has no #atproto verification method'')))
         (extract_signing_key doc)) (\<lambda>method.
     try_bind (ok_or (AtprotoOAuthError.Identity (IdentityError.MalformedDidDocument
         (''Verification method '' @ sq (vm_id method) @ '' carries no publicKeyMultibase'')))
         (vm_public_key_multibase method)) (\<lambda>raw.
     try_bind (decode_multikey (se_crypto V) raw) (\<lambda>key_bytes.
     case atproto_key_of_bytes V (vm_id method) key_bytes of
       Some r \<Rightarrow> r
     | None \<Rightarrow> multikey_error (vm_id method) key_bytes)))"

definition extract_signing_key_from_document ::
  "service_env \<Rightarrow> DidDocument \<Rightarrow> (bytes, AtprotoOAuthError) result" where
  "extract_signing_key_from_document V doc =
     try_bind (extract_atproto_key_from_document V doc) (\<lambda>k.
     case k of
       Secp256k1 key \<Rightarrow> Ok key
     | P256 _ \<Rightarrow> key_err (''Verification method in '' @ sq (doc_id doc)
         @ '' is a P-256 Multikey, not a secp256k1 Multikey''))"

section \<open>The verifier\<close>

record 'w ServiceAuthVerifier =
  sav_resolver :: "'w IdentityResolver"
  sav_key_cache :: DidKeyCache

definition ServiceAuthVerifier_with_resolver :: "'w IdentityResolver \<Rightarrow> 'w ServiceAuthVerifier" where
  "ServiceAuthVerifier_with_resolver R = \<lparr> sav_resolver = R, sav_key_cache = DidKeyCache_default \<rparr>"

definition with_resolver_and_cache :: "'w IdentityResolver \<Rightarrow> DidKeyCache \<Rightarrow> 'w ServiceAuthVerifier" where
  "with_resolver_and_cache R c = \<lparr> sav_resolver = R, sav_key_cache = c \<rparr>"

definition cache_len :: "'w ServiceAuthVerifier \<Rightarrow> nat" where
  "cache_len V = key_cache_len (sav_key_cache V)"

definition clear_cache :: "'w ServiceAuthVerifier \<Rightarrow> 'w ServiceAuthVerifier" where
  "clear_cache V = V\<lparr>sav_key_cache := key_cache_clear (sav_key_cache V)\<rparr>"

definition ServiceAuthVerifier_new :: "'w ServiceAuthVerifier" where
  "ServiceAuthVerifier_new = ServiceAuthVerifier_with_resolver (IdentityResolver_new (SsrfFilter_new False))"

definition ServiceAuthVerifier_with_plc_url :: "string \<Rightarrow> bool \<Rightarrow> 'w ServiceAuthVerifier" where
  "ServiceAuthVerifier_with_plc_url plc_url allow =
     ServiceAuthVerifier_with_resolver (idb_build (idb_set_plc_directory_url plc_url
       (idb_set_allow_insecure_localhost allow IdentityResolverBuilder_default)))"

type_synonym 'w sa_state = "'w io \<times> DidKeyCache"

definition resolve_atproto_key ::
  "service_env \<Rightarrow> 'w id_env \<Rightarrow> 'w IdentityResolver \<Rightarrow> string \<Rightarrow> u64
   \<Rightarrow> ('w sa_state, AtprotoVerifyingKey, AtprotoOAuthError) io_op" where
  "resolve_atproto_key V E R did now_secs s =
     (if \<not> is_valid_service_did did
      then (s, Err (AtprotoOAuthError.Identity (IdentityError.InvalidDidSyntax (''Invalid issuer DID: '' @ sq did))))
      else
        (case get_atproto_key (se_hash V) did now_secs (snd s) of
           Some k \<Rightarrow> (s, Ok k)
         | None \<Rightarrow>
             io_bind (io_fst (io_map_err AtprotoOAuthError.Identity (resolve_did E R did))) (\<lambda>doc.
             io_bind (io_lift (extract_atproto_key_from_document V doc)) (\<lambda>k s.
             ((fst s, insert_atproto_key (se_hash V) did k now_secs (snd s)), Ok k))) s))"

definition resolve_signing_key ::
  "service_env \<Rightarrow> 'w id_env \<Rightarrow> 'w IdentityResolver \<Rightarrow> string \<Rightarrow> u64
   \<Rightarrow> ('w sa_state, bytes, AtprotoOAuthError) io_op" where
  "resolve_signing_key V E R did now_secs =
     io_bind (resolve_atproto_key V E R did now_secs) (\<lambda>k.
     case k of
       Secp256k1 key \<Rightarrow> io_lift (Ok key)
     | P256 _ \<Rightarrow> io_lift (key_err (''DID '' @ sq did @ '' uses a P-256 signing key, not secp256k1'')))"

text \<open>The three segments of a token.\<close>

definition jwt_segments :: "string \<Rightarrow> (string \<times> string \<times> string, AtprotoOAuthError) result" where
  "jwt_segments token =
     (case split_on (CHR ''.'') token of
        [] \<Rightarrow> malformed ''Missing JWT header segment''
      | [_] \<Rightarrow> malformed ''Missing JWT payload segment''
      | [_, _] \<Rightarrow> malformed ''Missing JWT signature segment''
      | [h, p, g] \<Rightarrow> Ok (h, p, g)
      | _ \<Rightarrow> malformed ''Too many segments in JWT'')"

definition check_alg_bound :: "AtprotoVerifyingKey \<Rightarrow> string \<Rightarrow> (unit, AtprotoOAuthError) result" where
  "check_alg_bound k alg =
     (if \<not> is_alg_bound_to_curve (curve_id k) (alg_id_from_str alg) then
        (case k of
           Secp256k1 _ \<Rightarrow> malformed (''Unsupported JWT algorithm '' @ sq alg @ '' for secp256k1 DID key: requires ES256K'')
         | P256 _ \<Rightarrow> malformed (''Unsupported JWT algorithm '' @ sq alg @ '' for P-256 DID key: requires ES256''))
      else Ok ())"

definition signature_ok ::
  "service_env \<Rightarrow> AtprotoVerifyingKey \<Rightarrow> string \<Rightarrow> bytes \<Rightarrow> (bool, AtprotoOAuthError) result" where
  "signature_ok V k signing_input signature_bytes =
     (case k of
        Secp256k1 vk \<Rightarrow>
          try_bind (map_err (\<lambda>_. AtprotoOAuthError.Token (TokenError.MalformedToken ''Malformed secp256k1 ECDSA signature''))
            (k256_signature_from_slice (se_ec V) signature_bytes)) (\<lambda>signature.
          Ok (is_ok (k256_verify (se_ec V) vk (as_bytes signing_input) signature)))
      | P256 vk \<Rightarrow>
          try_bind (map_err (\<lambda>_. AtprotoOAuthError.Token (TokenError.MalformedToken ''Malformed P-256 ECDSA signature''))
            (p256_signature_from_slice (se_crypto V) signature_bytes)) (\<lambda>signature.
          Ok (is_ok (p256_verify (se_crypto V) vk (as_bytes signing_input) signature))))"

definition check_service_claims ::
  "ServiceJwtClaims \<Rightarrow> string list \<Rightarrow> u64 \<Rightarrow> u64 \<Rightarrow> (ServiceJwtClaims, AtprotoOAuthError) result" where
  "check_service_claims claims expected_audiences now_secs leeway_secs =
     try_bind
       (case sjc_exp claims of
          Some e \<Rightarrow> if \<not> is_service_jwt_exp_valid e now_secs leeway_secs
                    then token_err (TokenError.Expired e now_secs) else Ok ()
        | None \<Rightarrow> Ok ()) (\<lambda>_.
     try_bind
       (if expected_audiences \<noteq> [] then
          (case sjc_aud claims of
             Some aud \<Rightarrow> if \<not> list_ex (\<lambda>expected. expected = aud) expected_audiences
                         then token_err (TokenError.AudienceMismatch (join_with '' | '' expected_audiences) aud)
                         else Ok ()
           | None \<Rightarrow> Ok ())
        else Ok ()) (\<lambda>_.
     if sjc_iss claims = None \<or> viewer_did claims = None then token_err TokenError.MissingDid
     else Ok claims))"

definition verify_service_jwt_claims ::
  "service_env \<Rightarrow> 'w id_env \<Rightarrow> 'w IdentityResolver \<Rightarrow> string \<Rightarrow> string list \<Rightarrow> u64 \<Rightarrow> u64
   \<Rightarrow> ('w sa_state, ServiceJwtClaims, AtprotoOAuthError) io_op" where
  "verify_service_jwt_claims V E R auth_header_or_token expected_audiences now_secs leeway_secs =
     io_bind (io_lift (extract_bearer_token auth_header_or_token)) (\<lambda>token.
     io_bind (io_lift (jwt_segments token)) (\<lambda>(header_b64, payload_b64, signature_b64).
     io_bind (io_lift (map_err (\<lambda>e. AtprotoOAuthError.Token (TokenError.MalformedToken (''JWT header base64 error: '' @ e)))
       (b64_either (se_crypto V) header_b64))) (\<lambda>header_bytes.
     io_bind (io_lift (map_err (\<lambda>e. AtprotoOAuthError.Token (TokenError.MalformedToken (''JWT header JSON error: '' @ e)))
       (se_header_from_slice V header_bytes))) (\<lambda>header.
     io_bind (io_lift (if alg_id_from_str (sjh_alg header) = ALG_NONE
       then malformed (''Unsupported JWT algorithm '' @ sq (sjh_alg header)
         @ '': ATProto Service Auth requires ES256K or ES256'') else Ok ())) (\<lambda>_.
     io_bind (io_lift (parse_service_jwt_claims_unverified V token)) (\<lambda>claims.
     io_bind (io_lift (ok_or (AtprotoOAuthError.Token TokenError.MissingIssuer)
       (opt_or (sjc_iss claims) (sjc_sub claims)))) (\<lambda>issuer.
     io_bind (resolve_atproto_key V E R issuer now_secs) (\<lambda>signing_key.
     io_bind (io_lift (check_alg_bound signing_key (sjh_alg header))) (\<lambda>_.
     io_bind (io_lift (map_err (\<lambda>e. AtprotoOAuthError.Token (TokenError.MalformedToken (''JWT signature base64 error: '' @ e)))
       (b64_either (se_crypto V) signature_b64))) (\<lambda>signature_bytes.
     io_bind (io_lift (signature_ok V signing_key (header_b64 @ ''.'' @ payload_b64) signature_bytes)) (\<lambda>sig_ok s.
     if \<not> sig_ok then ((fst s, invalidate (se_hash V) issuer (snd s)), token_err TokenError.InvalidSignature)
     else (s, check_service_claims claims expected_audiences now_secs leeway_secs))))))))))))"

definition verify_service_jwt ::
  "service_env \<Rightarrow> 'w id_env \<Rightarrow> 'w IdentityResolver \<Rightarrow> string \<Rightarrow> string option \<Rightarrow> u64
   \<Rightarrow> ('w sa_state, string, AtprotoOAuthError) io_op" where
  "verify_service_jwt V E R auth_header expected_audience now_secs =
     (let audiences = (case expected_audience of Some a \<Rightarrow> [a] | None \<Rightarrow> []) in
      io_bind (verify_service_jwt_claims V E R auth_header audiences now_secs SERVICE_JWT_CLOCK_SKEW_LEEWAY_SECS)
        (\<lambda>claims. io_lift (ok_or (AtprotoOAuthError.Token TokenError.MissingDid) (sjc_iss claims))))"

end
