(* ===== verification/Identity_Props.thy ===== *)
theory Identity_Props
  imports Identity
begin

text \<open>
  Handles and DIDs against their grammars, and what a resolved identity guarantees.
\<close>

section \<open>Specifications\<close>

definition handle_char :: "char \<Rightarrow> bool" where
  "handle_char c = (is_ascii_lowercase c \<or> is_ascii_digit c \<or> c = CHR ''-'')"

definition valid_label :: "string \<Rightarrow> bool" where
  "valid_label l = (l \<noteq> [] \<and> length l \<le> 63 \<and> list_all handle_char l \<and> hd l \<noteq> CHR ''-'' \<and> last l \<noteq> CHR ''-'')"

text \<open>The handle grammar of the AT Protocol: at least two labels, a bound on the length, no reserved
  top-level domain, and not only digits and dots.\<close>

definition valid_handle :: "string \<Rightarrow> bool" where
  "valid_handle h =
     (length h \<le> 244 \<and> CHR ''.'' \<in> set h \<and> list_all valid_label (split_on (CHR ''.'') h)
      \<and> last (split_on (CHR ''.'') h) \<notin> set DISALLOWED_HANDLE_TLDS
      \<and> \<not> list_all (\<lambda>c. is_ascii_digit c \<or> c = CHR ''.'') h)"

definition plc_char :: "char \<Rightarrow> bool" where
  "plc_char c = (is_ascii_lowercase c \<or> is_ascii_digit c)"

definition web_segments :: "string \<Rightarrow> bool" where
  "web_segments q = list_all (\<lambda>seg. seg \<noteq> [] \<and> list_all is_did_web_char seg) (split_on (CHR '':'') q)"

text \<open>The requests a resolver may send: through the boundary, or a query for the TXT records of a
  handle.\<close>

definition resolver_ok_request :: "SsrfFilter \<Rightarrow> bool \<times> http_request \<Rightarrow> bool" where
  "resolver_ok_request f e =
     (ssrf_ok f e \<or> (\<exists>h. valid_handle h \<and> snd e = doh_request (''_atproto.'' @ h)))"

section \<open>A sample resolver\<close>

definition sample_did :: string where
  "sample_did = ''did:plc:aaaaaaaaaaaaaaaaaaaaaaaa''"

definition sample_document :: DidDocument where
  "sample_document = \<lparr> doc_id = sample_did, also_known_as = [''at://Alice.bsky.social''],
     verification_method = [],
     doc_service = [\<lparr> svc_id = ''#atproto_pds'', svc_service_type = ''AtprotoPersonalDataServer'',
       svc_service_endpoint = ''https://8.8.8.8/'' \<rparr>] \<rparr>"

definition sample_id_serde :: identity_serde where
  "sample_id_serde = \<lparr> doh_from_slice = (\<lambda>b. Ok [(16, CHR 0x22 # ''did='' @ sample_did @ [CHR 0x22])]),
     did_document_from_slice = (\<lambda>b. Ok sample_document) \<rparr>"

text \<open>A world without a log, and one that logs.\<close>

definition nonce_headers :: "string \<Rightarrow> (string, string) result list" where
  "nonce_headers name = (if name = ''dpop-nonce'' then [Ok ''n1''] else [])"

definition sample_response :: http_response where
  "sample_response = \<lparr> resp_status = 200, resp_headers = nonce_headers, resp_content_length = Some 2,
     resp_chunks = [Ok [1], Ok [2]] \<rparr>"

definition sample_unit_net :: "unit net" where
  "sample_unit_net = \<lparr> net_url = (\<lambda>s. Ok sample_url), net_join = (\<lambda>u s. Err ''relative''),
     net_known_port = (\<lambda>u. Some 443), net_lookup = (\<lambda>t w. (w, LookupTimeout)),
     net_lookup_host = (\<lambda>h p w. (w, LookupTimeout)),
     net_send = (\<lambda>hook req w. (w, Ok sample_response)),
     net_send_plain = (\<lambda>req w. (w, Ok sample_response)), net_show_status = show_nat,
     net_runtime = None \<rparr>"

definition sample_id_env :: "unit id_env" where
  "sample_id_env = \<lparr> ie_net = sample_unit_net, ie_serde = sample_id_serde, ie_doh_client = Ok () \<rparr>"

definition sample_log_net :: "(bool \<times> http_request) list net" where
  "sample_log_net = sample_net\<lparr> net_send_plain := (\<lambda>req w. (w @ [(False, req)], Ok sample_response)) \<rparr>"

definition sample_log_env :: "(bool \<times> http_request) list id_env" where
  "sample_log_env = \<lparr> ie_net = sample_log_net, ie_serde = sample_id_serde, ie_doh_client = Ok () \<rparr>"

section \<open>Text without colons is no IPv6 address\<close>

lemma read_number_rest:
  "read_number radix k z b s = Some (n, r) \<Longrightarrow> \<exists>ds. s = ds @ r \<and> list_all (is_digit radix) ds"
  by (auto simp: read_number_def Let_def list_all_iff split: if_splits
      intro!: exI [of _ "takeWhile (is_digit radix) s"] dest: set_takeWhileD)

lemma is_digit_10: "is_digit 10 c \<Longrightarrow> is_ascii_digit c"
  by (auto simp: is_digit_def digit_value_def ascii_simps split: if_splits)

lemma read_octet_rest:
  "read_octet i s = Some (n, r) \<Longrightarrow> \<exists>ds. s = ds @ r \<and> list_all (\<lambda>c. is_ascii_digit c \<or> c = CHR ''.'') ds"
  by (auto simp: read_octet_def read_separator_def list_all_iff split: if_splits list.splits
      dest!: read_number_rest is_digit_10)

lemma read_ipv4_rest:
  assumes "read_ipv4_addr s = Some (v, r)"
  shows "\<exists>ds. s = ds @ r \<and> list_all (\<lambda>c. is_ascii_digit c \<or> c = CHR ''.'') ds"
proof -
  from assms obtain a b c d s1 s2 s3 where o: "read_octet 0 s = Some (a, s1)" "read_octet 1 s1 = Some (b, s2)"
    "read_octet 2 s2 = Some (c, s3)" "read_octet 3 s3 = Some (d, r)"
    by (auto simp: read_ipv4_addr_def split: option.splits)
  obtain d1 d2 d3 d4 where "s = d1 @ s1" "s1 = d2 @ s2" "s2 = d3 @ s3" "s3 = d4 @ r"
    "list_all (\<lambda>c. is_ascii_digit c \<or> c = CHR ''.'') (d1 @ d2 @ d3 @ d4)"
    using o [THEN read_octet_rest] unfolding list_all_append by blast
  thus ?thesis
    by (intro exI [of _ "d1 @ d2 @ d3 @ d4"]) simp
qed

lemma read_groups_no_colon:
  assumes "CHR '':'' \<notin> set s" "read_groups 0 8 s = (gs, v4, r)"
  shows "length gs \<le> 2 \<and> CHR '':'' \<notin> set r"
proof (cases "read_ipv4_addr s")
  case (Some x)
  then obtain v r' where x: "x = (v, r')"
    by fastforce
  with Some assms(2) have "length gs = 2" "r = r'"
    by (auto simp: read_groups.simps [of 0] read_separator_def split: prod.splits)
  moreover have "set r' \<subseteq> set s"
    using read_ipv4_rest [of s v r'] Some x by auto
  ultimately show ?thesis
    using assms(1) by auto
next
  case None
  show ?thesis
  proof (cases "read_number 16 4 True 65536 s")
    case (Some x)
    then obtain n r' where x: "x = (n, r')"
      by fastforce
    have sub: "set r' \<subseteq> set s"
      using read_number_rest Some x by fastforce
    have "read_groups 1 8 r' = ([], False, r')"
      using sub assms(1) by (cases r') (auto simp: read_groups.simps [of "Suc 0"] read_separator_def)
    thus ?thesis
      using assms None Some x sub by (auto simp: read_groups.simps [of 0] read_separator_def)
  next
    case None': None
    thus ?thesis
      using assms None by (auto simp: read_groups.simps [of 0] read_separator_def)
  qed
qed

lemma read_ipv6_colon: "CHR '':'' \<notin> set s \<Longrightarrow> read_ipv6_addr s = None"
proof -
  assume "CHR '':'' \<notin> set s"
  moreover obtain gs v4 r where g: "read_groups 0 8 s = (gs, v4, r)"
    by (metis prod_cases3)
  ultimately have "length gs \<le> 2" "CHR '':'' \<notin> set r"
    using read_groups_no_colon by blast+
  moreover from this(2) have "\<not> starts_with r ''::''"
    by (auto simp: starts_with_iff)
  ultimately show ?thesis
    by (simp add: read_ipv6_addr_def g strip_prefix_def)
qed

lemma parse_ip_no_colon:
  assumes "CHR '':'' \<notin> set s" "\<not> list_all (\<lambda>c. is_ascii_digit c \<or> c = CHR ''.'') s"
  shows "parse_ip s = None"
  using assms read_ipv4_rest [of s] by (auto simp: parse_ip_def read_ipv6_colon split: option.split)

section \<open>Handles\<close>

lemma starts_with_char [simp]: "starts_with s [c] \<longleftrightarrow> s \<noteq> [] \<and> hd s = c"
  by (cases s) (auto simp: starts_with_def)

lemma ends_with_char [simp]: "ends_with s [c] \<longleftrightarrow> s \<noteq> [] \<and> last s = c"
  by (simp add: ends_with_def hd_rev)

lemma check_label_Ok:
  assumes "\<forall>c \<in> set l. \<not> is_ascii_uppercase c"
  shows "check_label l = Ok u \<longleftrightarrow> valid_label l"
proof -
  have "is_ascii_alphanumeric c \<or> c = CHR ''-'' \<longleftrightarrow> handle_char c" if "c \<in> set l" for c
    using assms that by (auto simp: handle_char_def ascii_simps)
  hence "list_all (\<lambda>c. is_ascii_alphanumeric c \<or> c = CHR ''-'') l \<longleftrightarrow> list_all handle_char l"
    by (simp add: list_all_iff)
  thus ?thesis
    by (cases l) (auto simp: check_label_def valid_label_def)
qed

lemma check_labels_Ok:
  assumes "\<forall>l \<in> set ls. \<forall>c \<in> set l. \<not> is_ascii_uppercase c"
  shows "check_labels ls = Ok u \<longleftrightarrow> list_all valid_label ls"
  using assms by (induction ls) (auto simp: check_label_Ok)

lemma handle_chars:
  assumes "list_all valid_label (split_on (CHR ''.'') h)" "x \<in> set h"
  shows "handle_char x \<or> x = CHR ''.''"
  using in_split_on [OF assms(2), of "CHR ''.''"] assms(1) by (auto simp: list_all_iff valid_label_def)

lemma handle_not_ip:
  assumes "list_all valid_label (split_on (CHR ''.'') h)"
    and "\<not> list_all (\<lambda>c. is_ascii_digit c \<or> c = CHR ''.'') h"
  shows "parse_ip h = None" "\<not> starts_with h ''[''"
proof -
  have "CHR '':'' \<notin> set h" "CHR ''['' \<notin> set h"
    using handle_chars [OF assms(1), of "CHR '':''"] handle_chars [OF assms(1), of "CHR ''[''"]
    by (auto simp: handle_char_def ascii_simps code_def)
  thus "parse_ip h = None" "\<not> starts_with h ''[''"
    using parse_ip_no_colon [OF _ assms(2)] by (auto simp: starts_with_iff)
qed

lemma handle_invalid_tld:
  "last (split_on (CHR ''.'') h) \<notin> set DISALLOWED_HANDLE_TLDS \<Longrightarrow> h \<noteq> ''handle.invalid''"
  by (auto simp: DISALLOWED_HANDLE_TLDS_def)

lemma normalize_handle_Ok:
  "normalize_handle raw = Ok h \<longleftrightarrow>
     h = to_ascii_lowercase (trim_start_matches (CHR ''@'') (trim raw)) \<and> valid_handle h"
proof -
  let ?n = "to_ascii_lowercase (trim_start_matches (CHR ''@'') (trim raw))"
  have up: "\<forall>l \<in> set (split_on (CHR ''.'') ?n). \<forall>c \<in> set l. \<not> is_ascii_uppercase c"
    using set_split_on by (fastforce simp: to_ascii_lowercase_def)
  have "normalize_handle raw = Ok h \<longleftrightarrow> h = ?n \<and> ?n \<noteq> [] \<and> length ?n \<le> 244
      \<and> parse_ip ?n = None \<and> \<not> starts_with ?n ''['' \<and> \<not> list_all (\<lambda>c. is_ascii_digit c \<or> c = CHR ''.'') ?n
      \<and> CHR ''.'' \<in> set ?n \<and> list_all valid_label (split_on (CHR ''.'') ?n)
      \<and> last (split_on (CHR ''.'') ?n) \<notin> set DISALLOWED_HANDLE_TLDS \<and> ?n \<noteq> ''handle.invalid''"
    unfolding normalize_handle_def Let_def length_split_on_2
    by (auto simp: check_labels_Ok [OF up] simp del: starts_with_char)
  moreover have "?n \<noteq> [] \<and> parse_ip ?n = None \<and> \<not> starts_with ?n ''['' \<and> ?n \<noteq> ''handle.invalid''"
    if "valid_handle ?n"
    using that handle_not_ip [of ?n] handle_invalid_tld [of ?n] unfolding valid_handle_def by auto
  ultimately show ?thesis
    unfolding valid_handle_def by blast
qed

lemma handle_char_visible: "handle_char c \<or> c = CHR ''.'' \<Longrightarrow> is_visible_ascii c"
  by (auto simp: handle_char_def is_visible_ascii_def ascii_simps code_def)

lemma handle_char_lower_id: "handle_char c \<or> c = CHR ''.'' \<Longrightarrow> ascii_lower_char c = c"
  by (auto simp: ascii_lower_char_def handle_char_def ascii_simps code_def)

lemma normalize_valid_handle:
  assumes "valid_handle h"
  shows "normalize_handle h = Ok h"
proof -
  have c: "handle_char x \<or> x = CHR ''.''" if "x \<in> set h" for x
    using assms that handle_chars by (auto simp: valid_handle_def)
  hence "trim h = h"
    by (intro trim_visible) (auto simp: list_all_iff intro: handle_char_visible)
  moreover have "trim_start_matches (CHR ''@'') h = h"
    using c [of "CHR ''@''"] by (cases h) (auto simp: trim_start_matches_def handle_char_def ascii_simps code_def)
  moreover have "to_ascii_lowercase h = h"
    unfolding to_ascii_lowercase_def by (rule map_idI) (rule handle_char_lower_id [OF c])
  ultimately show ?thesis
    using assms by (simp add: normalize_handle_Ok)
qed

section \<open>DIDs\<close>

lemma split_did:
  assumes "CHR '':'' \<notin> set m"
  shows "split_on (CHR '':'') (''did:'' @ m @ '':'' @ q) = ''did'' # m # split_on (CHR '':'') q"
  using split_on_append [of "CHR '':''" "''did''" "m @ '':'' @ q"] split_on_append [OF assms, of q] by simp

lemma did_cases:
  assumes "starts_with t ''did:''" "\<not> length (split_on (CHR '':'') t) < 3"
  obtains m q where "t = ''did:'' @ m @ '':'' @ q" "CHR '':'' \<notin> set m"
proof -
  from assms(1) obtain r where r: "t = ''did:'' @ r"
    by (auto simp: starts_with_iff)
  have "CHR '':'' \<in> set r"
  proof (rule ccontr)
    assume "CHR '':'' \<notin> set r"
    hence "length (split_on (CHR '':'') r) < 2"
      by (simp add: length_split_on_2)
    thus False
      using assms(2) by (simp add: r)
  qed
  then obtain m q where "r = m @ CHR '':'' # q" "CHR '':'' \<notin> set m"
    using split_list_first by metis
  with r that show thesis
    by simp
qed

lemma web_seg_no_colon: "list_all is_did_web_char seg \<Longrightarrow> CHR '':'' \<notin> set seg \<and> CHR ''@'' \<notin> set seg"
  by (auto simp: list_all_iff is_did_web_char_def ascii_simps code_def)

lemma validate_did_parts:
  assumes "trim did = ''did:'' @ m @ '':'' @ q" "CHR '':'' \<notin> set m"
  shows "validate_did_syntax did = Ok k \<longleftrightarrow>
    (k = Plc \<and> m = ''plc'' \<and> length (takeWhile (\<lambda>x. x \<noteq> CHR '':'') q) = 24
       \<and> list_all plc_char (takeWhile (\<lambda>x. x \<noteq> CHR '':'') q))
    \<or> (k = Web \<and> m = ''web'' \<and> web_segments q)"
proof -
  obtain h hs where h: "split_on (CHR '':'') q = h # hs"
    using split_on_nonempty [of _ q] by (cases "split_on (CHR '':'') q") auto
  have t: "takeWhile (\<lambda>x. x \<noteq> CHR '':'') q = h"
    using hd_split_on [of "CHR '':''" q] h by simp
  have parts: "split_on (CHR '':'') (trim did) = ''did'' # m # h # hs"
    using split_did [OF assms(2), of q] h by (simp only: assms(1))
  have start: "starts_with (trim did) ''did:''"
    unfolding assms(1) by (rule starts_with_append)
  show ?thesis
  proof (cases "m = ''web''")
    case True
    hence strip: "strip_prefix ''did:web:'' (trim did) = Some q"
      by (simp add: assms(1) strip_prefix_def starts_with_def)
    have "(h \<noteq> [] \<and> \<not> contains_char h (CHR ''@'')
        \<and> list_all (\<lambda>seg. seg \<noteq> [] \<and> \<not> contains_char seg (CHR ''@'') \<and> list_all is_did_web_char seg) (h # hs))
      \<longleftrightarrow> web_segments q"
      using web_seg_no_colon by (auto simp: web_segments_def h contains_char_def list_all_iff)
    thus ?thesis
      using True by (auto simp: validate_did_syntax_def Let_def parts start strip h)
  next
    case False
    thus ?thesis
      by (auto simp: validate_did_syntax_def Let_def parts start t plc_char_def [abs_def])
  qed
qed

lemma validate_did_Ok_cases:
  assumes "validate_did_syntax did = Ok k"
  obtains m q where "trim did = ''did:'' @ m @ '':'' @ q" "CHR '':'' \<notin> set m"
proof -
  from assms have "starts_with (trim did) ''did:''" "\<not> length (split_on (CHR '':'') (trim did)) < 3"
    by (auto simp: validate_did_syntax_def Let_def split: if_splits)
  from did_cases [OF this] that show thesis
    by blast
qed

lemma colon_rest: "rest = [] \<or> hd rest = c \<Longrightarrow> c \<notin> set a \<Longrightarrow> takeWhile (\<lambda>x. x \<noteq> c) (a @ rest) = a"
  by (induction a) (cases rest; auto)+

lemma validate_plc_iff:
  "validate_did_syntax did = Ok Plc \<longleftrightarrow>
     (\<exists>hash rest. trim did = ''did:plc:'' @ hash @ rest \<and> length hash = 24 \<and> list_all plc_char hash
        \<and> (rest = [] \<or> hd rest = CHR '':''))"
  (is "?L = ?R")
proof
  assume ?L
  then obtain m q where t: "trim did = ''did:'' @ m @ '':'' @ q" "CHR '':'' \<notin> set m"
    by (rule validate_did_Ok_cases)
  let ?h = "takeWhile (\<lambda>x. x \<noteq> CHR '':'') q" and ?r = "dropWhile (\<lambda>x. x \<noteq> CHR '':'') q"
  have "?r = [] \<or> hd ?r = CHR '':''"
    using hd_dropWhile [of "\<lambda>x. x \<noteq> CHR '':''" q] by blast
  thus ?R
    using \<open>?L\<close> unfolding validate_did_parts [OF t]
    by (intro exI [of _ ?h] exI [of _ ?r]) (simp add: t(1))
next
  assume ?R
  then obtain hash rest where h: "trim did = ''did:'' @ ''plc'' @ '':'' @ hash @ rest" "length hash = 24"
    "list_all plc_char hash" "rest = [] \<or> hd rest = CHR '':''"
    by auto
  have "CHR '':'' \<notin> set hash"
    using h(3) by (auto simp: list_all_iff plc_char_def ascii_simps code_def)
  from colon_rest [OF h(4) this] h(2,3) show ?L
    by (subst validate_did_parts [OF h(1)]) auto
qed

lemma validate_web_iff:
  "validate_did_syntax did = Ok Web \<longleftrightarrow>
     (\<exists>segs. segs \<noteq> [] \<and> trim did = ''did:web:'' @ join_with '':'' segs
        \<and> list_all (\<lambda>seg. seg \<noteq> [] \<and> list_all is_did_web_char seg) segs)"
  (is "?L = ?R")
proof
  assume ?L
  then obtain m q where t: "trim did = ''did:'' @ m @ '':'' @ q" "CHR '':'' \<notin> set m"
    by (rule validate_did_Ok_cases)
  show ?R
    using \<open>?L\<close> unfolding validate_did_parts [OF t]
    by (intro exI [of _ "split_on (CHR '':'') q"]) (simp add: t(1) join_split_on web_segments_def)
next
  assume ?R
  then obtain segs where s: "segs \<noteq> []" "trim did = ''did:'' @ ''web'' @ '':'' @ join_with '':'' segs"
    "list_all (\<lambda>seg. seg \<noteq> [] \<and> list_all is_did_web_char seg) segs"
    by auto
  have "\<forall>seg \<in> set segs. CHR '':'' \<notin> set seg"
    using s(3) web_seg_no_colon by (auto simp: list_all_iff)
  from split_on_join [OF s(1) this] s(3) show ?L
    by (subst validate_did_parts [OF s(2)]) (auto simp: web_segments_def)
qed

section \<open>The resolver\<close>

lemma resolve_did_Ok:
  assumes "resolve_did E R did s = (s', Ok doc)"
  shows "doc_id doc = did" "is_ok (validate_did_syntax did)"
proof -
  from assms obtain k where k: "validate_did_syntax did = Ok k"
    by (auto simp: resolve_did_def)
  obtain u where "fetch_did_document E R did u s = (s', Ok doc)"
    using assms k by (cases k) (auto simp: resolve_did_def resolve_did_plc_def resolve_did_web_def)
  thus "doc_id doc = did"
    by (auto simp: fetch_did_document_def validate_id_def split: if_splits)
  show "is_ok (validate_did_syntax did)"
    by (simp add: k)
qed

lemma extract_pds_Ok:
  assumes "extract_pds_endpoint parse doc = Ok e"
  shows "\<exists>svc u. svc \<in> set (doc_service doc) \<and> svc_service_type svc = ''AtprotoPersonalDataServer''
    \<and> ends_with (svc_id svc) ''#atproto_pds''
    \<and> e = trim_end_matches (CHR ''/'') (trim (svc_service_endpoint svc))
    \<and> parse e = Ok u \<and> (url_scheme u = ''https'' \<or> url_scheme u = ''http'')"
proof -
  from assms obtain svc where svc: "find (\<lambda>s. (svc_id s = ''#atproto_pds'' \<or> ends_with (svc_id s) ''#atproto_pds'')
      \<and> svc_service_type s = ''AtprotoPersonalDataServer'') (doc_service doc) = Some svc"
    by (auto simp: extract_pds_endpoint_def split: option.splits)
  from find_SomeD [OF this] have "svc \<in> set (doc_service doc)"
    "svc_service_type svc = ''AtprotoPersonalDataServer''" "ends_with (svc_id svc) ''#atproto_pds''"
    by (auto simp: ends_with_iff)
  moreover from assms svc have "e = trim_end_matches (CHR ''/'') (trim (svc_service_endpoint svc))"
    "\<exists>u. parse e = Ok u \<and> (url_scheme u = ''https'' \<or> url_scheme u = ''http'')"
    by (auto simp: extract_pds_endpoint_def Let_def split: if_splits)
  ultimately show ?thesis
    by blast
qed

lemma find_handle_valid: "find_handle akas = Some h \<Longrightarrow> valid_handle h"
  by (induction akas) (auto simp: normalize_handle_Ok split: option.splits result.splits)

lemma normalize_user_handle_valid: "normalize_user_handle raw = Ok h \<Longrightarrow> valid_handle h"
  by (auto simp: normalize_user_handle_def normalize_handle_with_default_domain_def Let_def
      normalize_handle_Ok split: if_splits)

lemma matches_valid_handle:
  assumes "valid_handle h" "verify_handle_bidirectional doc h = Ok u"
  shows "\<exists>aka \<in> set (also_known_as doc). to_ascii_lowercase aka = ''at://'' @ h"
proof -
  have "to_ascii_lowercase (trim_start_matches (CHR ''@'') (trim h)) = h"
    using normalize_valid_handle [OF assms(1)] normalize_handle_Ok by metis
  thus ?thesis
    using assms(2) by (auto simp: verify_handle_bidirectional_def matches_handle_def list_ex_iff split: if_splits)
qed

lemma standard_resolve_txt_confined:
  assumes "\<And>req w. sent (fst (net_send_plain N req w)) = sent w @ [(False, req)]" "valid_handle h"
  shows "confined sent (resolver_ok_request f) 1 (standard_resolve_txt N J client (''_atproto.'' @ h))"
proof -
  have send: "confined sent (resolver_ok_request f) 1
      (\<lambda>(p, w). case net_send_plain N (doh_request (''_atproto.'' @ h)) w of
         (w', r) \<Rightarrow> ((p, w'), map_err IdentityError.Dns r))"
  proof (rule confinedI)
    fix p w p' w' r
    assume p: "pool_ok p" and run: "(case (p, w) of (p, w) \<Rightarrow>
      case net_send_plain N (doh_request (''_atproto.'' @ h)) w of (w', r) \<Rightarrow> ((p, w'), map_err IdentityError.Dns r))
        = ((p', w'), r)"
    hence "p' = p" "w' = fst (net_send_plain N (doh_request (''_atproto.'' @ h)) w)"
      by (auto split: prod.splits)
    thus "pool_ok p' \<and> (\<exists>reqs. sent w' = sent w @ reqs \<and> length reqs \<le> 1
        \<and> (\<forall>e \<in> set reqs. resolver_ok_request f e))"
      using p assms(2) by (auto simp: assms(1) resolver_ok_request_def)
  qed
  show ?thesis
    unfolding standard_resolve_txt_def
    by (intro confined_bind_lift confined_bind_pure [OF send]) (auto intro!: confined_bind_lift)
qed

lemma resolve_handle_confined:
  assumes log: "logs sent (idr_ssrf_filter R) (ie_net E)"
    and plain: "\<And>req w. sent (fst (net_send_plain (ie_net E) req w)) = sent w @ [(False, req)]"
    and std: "idr_dns_resolver R = None"
  shows "confined sent (resolver_ok_request (idr_ssrf_filter R)) 5 (resolve_handle E R h)"
proof -
  let ?ok = "resolver_ok_request (idr_ssrf_filter R)"
  have dns: "confined sent ?ok 1 (resolve_handle_dns E R h)" for h
    unfolding resolve_handle_dns_def Let_def std option.case
    by (intro confined_bind_lift confined_bind_pure standard_resolve_txt_confined plain)
      (auto simp: normalize_handle_Ok)
  have get: "confined sent ?ok 4 (safe_get (ie_net E) (idr_ssrf_filter R) u mx)" for u mx
    by (rule confined_mono [OF safe_get_is_confined [OF log]]) (auto simp: resolver_ok_request_def)
  have https: "confined sent ?ok 4 (resolve_handle_https E R h)" for h
    unfolding resolve_handle_https_def Let_def
    by (intro confined_bind_lift confined_bind_pure) (auto simp: get intro!: confined_bind_lift)
  define c where "c = (\<lambda>n r. case r of
       Ok (Some did) \<Rightarrow> io_lift (Ok did)
     | Ok None \<Rightarrow> resolve_handle_https E R n
     | Err (IdentityError.Dns _) \<Rightarrow> resolve_handle_https E R n
     | Err e \<Rightarrow> io_lift (Err e))"
  have c: "confined sent ?ok 4 (c n r)" for n r
    by (auto simp: c_def https split: result.split option.split IdentityError.split)
  have "resolve_handle E R h = io_bind (io_lift (normalize_handle h))
      (\<lambda>n s. case resolve_handle_dns E R n s of (s', r) \<Rightarrow> c n r s')"
    unfolding resolve_handle_def c_def
    by (intro arg_cong2 [where f = io_bind] refl ext)
      (auto split: prod.split result.split option.split IdentityError.split)
  moreover have "confined sent ?ok (1 + 4) (\<lambda>s. case resolve_handle_dns E R n s of (s', r) \<Rightarrow> c n r s')" for n
    by (rule confined_seq [OF dns c])
  ultimately show ?thesis
    by (auto intro!: confined_bind_lift)
qed

lemma resolve_did_confined:
  assumes "logs sent (idr_ssrf_filter R) (ie_net E)"
  shows "confined sent (ssrf_ok (idr_ssrf_filter R)) 4 (resolve_did E R did)"
proof -
  have fetch: "confined sent (ssrf_ok (idr_ssrf_filter R)) 4 (fetch_did_document E R did u)" for u
    unfolding fetch_did_document_def
    by (rule confined_bind_pure) (auto simp: safe_get_json_is_confined [OF assms] intro!: confined_bind_lift)
  have "confined sent (ssrf_ok (idr_ssrf_filter R)) 4 (resolve_did_plc E R did)"
    "confined sent (ssrf_ok (idr_ssrf_filter R)) 4 (resolve_did_web E R did)"
    unfolding resolve_did_plc_def resolve_did_web_def by (intro confined_bind_lift fetch)+
  thus ?thesis
    unfolding resolve_did_def by (intro confined_bind_lift) (simp split: DidMethod.split)
qed

lemma resolve_ident_is_confined:
  assumes "logs sent (idr_ssrf_filter R) (ie_net E)"
    and "\<And>req w. sent (fst (net_send_plain (ie_net E) req w)) = sent w @ [(False, req)]"
    and "idr_dns_resolver R = None"
  shows "confined sent (resolver_ok_request (idr_ssrf_filter R)) 9 (resolve_ident E R input)"
proof -
  let ?ok = "resolver_ok_request (idr_ssrf_filter R)"
  have did: "confined sent ?ok 4 (resolve_did E R did)" for did
    by (rule confined_mono [OF resolve_did_confined [OF assms(1)]]) (auto simp: resolver_ok_request_def)
  have rest: "confined sent ?ok 4 (io_bind (resolve_did E R did) c)" if "\<And>a. confined sent ?ok 0 (c a)" for did and c :: "_ \<Rightarrow> ('a io, ResolvedIdentity, IdentityError) io_op"
    by (rule confined_bind_pure [OF did that])
  have handle: "confined sent ?ok (5 + 4) (io_bind (resolve_handle E R h) c)" if "\<And>a. confined sent ?ok 4 (c a)" for h and c :: "_ \<Rightarrow> ('a io, ResolvedIdentity, IdentityError) io_op"
    by (rule confined_bind [OF resolve_handle_confined [OF assms] that])
  show ?thesis
  proof (cases "starts_with (trim input) ''did:''")
    case True
    show ?thesis
      unfolding resolve_ident_def Let_def if_P [OF True]
      by (rule confined_mono [OF rest]) (auto intro!: confined_bind_lift)
  next
    case False
    show ?thesis
      unfolding resolve_ident_def Let_def if_not_P [OF False]
      by (rule confined_bind_lift, rule confined_mono [OF handle]) (auto intro!: rest confined_bind_lift)
  qed
qed

section \<open>The sample resolver at work\<close>

lemma sample_body: "2 \<le> mx \<Longrightarrow> read_bounded_body sample_response mx = Ok [1, 2]"
  by (auto simp: read_bounded_body_def sample_response_def)

lemma sample_safe_get:
  assumes "2 \<le> mx"
  shows "snd (safe_get sample_unit_net (SsrfFilter_new False) u mx ([], ())) = Ok [1, 2]"
proof -
  have "build_pinned_client sample_unit_net (SsrfFilter_new False) sample_url [] ()
    = ([((None, False), SsrfDnsResolver_new False)], (), Ok (SsrfDnsResolver_new False, (V4 (8, 8, 8, 8), 443), ''8.8.8.8''))"
    by code_simp
  thus ?thesis
    using sample_body [OF assms]
    by (simp add: safe_get_def safe_get_loop.simps [of _ _ _ 3] sample_unit_net_def is_redirection_def
        is_success_def sample_response_def)
qed

lemma sample_resolve_did:
  "snd (resolve_did sample_id_env (IdentityResolver_new (SsrfFilter_new False)) sample_did ([], ())) = Ok sample_document"
proof -
  have v: "validate_did_syntax sample_did = Ok Plc"
    by code_simp
  have "2 \<le> MAX_OAUTH_RESPONSE_BYTES"
    by (simp add: MAX_OAUTH_RESPONSE_BYTES_def)
  from sample_safe_get [OF this] obtain s1 where
    "safe_get sample_unit_net (SsrfFilter_new False)
       (trim_end_matches (CHR ''/'') DEFAULT_PLC_DIRECTORY @ ''/'' @ sample_did) MAX_OAUTH_RESPONSE_BYTES ([], ())
     = (s1, Ok [1, 2])"
    by (metis prod.collapse)
  thus ?thesis
    by (simp add: resolve_did_def resolve_did_plc_def fetch_did_document_def safe_get_json_def io_bind_def
        io_map_err_def v sample_id_env_def sample_id_serde_def IdentityResolver_new_def validate_id_def
        sample_document_def)
qed

lemma sample_handle:
  "normalize_handle ''alice.bsky.social'' = Ok ''alice.bsky.social''"
  "normalize_user_handle ''@alice'' = Ok ''alice.bsky.social''"
proof -
  have "valid_handle ''alice.bsky.social''"
    by code_simp
  thus n: "normalize_handle ''alice.bsky.social'' = Ok ''alice.bsky.social''"
    by (rule normalize_valid_handle)
  have "to_ascii_lowercase (trim (trim_start_matches (CHR ''@'') (trim ''@alice''))) = ''alice''"
    "trim_start_matches (CHR ''.'') (trim DEFAULT_HANDLE_DOMAIN) = ''bsky.social''"
    "\<not> contains_char ''alice'' (CHR ''.'')" "''alice'' \<notin> set DISALLOWED_HANDLE_TLDS"
    "\<not> list_all is_ascii_digit ''alice''"
    by code_simp+
  with n show "normalize_user_handle ''@alice'' = Ok ''alice.bsky.social''"
    by (simp add: normalize_user_handle_def normalize_handle_with_default_domain_def)
qed

lemma sample_resolve_handle:
  "resolve_handle sample_id_env (IdentityResolver_new (SsrfFilter_new False)) ''alice.bsky.social'' ([], ())
     = (([], ()), Ok sample_did)"
proof -
  have d: "dids_of_records [trim_matches (CHR 0x22) (CHR 0x22 # ''did='' @ sample_did @ [CHR 0x22])] = [sample_did]"
    and v: "validate_did_syntax sample_did = Ok Plc"
    by code_simp+
  have "standard_resolve_txt sample_unit_net sample_id_serde (Ok ()) q ([], ())
      = (([], ()), Ok [trim_matches (CHR 0x22) (CHR 0x22 # ''did='' @ sample_did @ [CHR 0x22])])" for q
    using sample_body [of DOH_MAX_RESPONSE_BYTES]
    by (simp add: standard_resolve_txt_def io_bind_def sample_unit_net_def is_success_def
        DOH_MAX_RESPONSE_BYTES_def sample_id_serde_def sample_response_def)
  thus ?thesis
    by (simp add: resolve_handle_def resolve_handle_dns_def io_bind_def sample_handle d v sample_id_env_def IdentityResolver_new_def
        del: append.simps)
qed

section \<open>Properties\<close>

text \<open>Normalising a handle strips white space and leading at signs, lowers the letters and accepts
  exactly what the handle grammar allows; the grammar's words are the fixed points.\<close>

theorem normalize_handle_grammar:
  "(normalize_handle raw = Ok h \<longleftrightarrow>
      h = to_ascii_lowercase (trim_start_matches (CHR ''@'') (trim raw)) \<and> valid_handle h)
   \<and> (valid_handle h \<longleftrightarrow> normalize_handle h = Ok h)"
  using normalize_handle_Ok normalize_valid_handle by metis

text \<open>C39: The DIDs that syntax validation accepts: with method \<open>plc\<close> those whose first component has 24
  lower case letters and digits, whatever components follow it, and with method \<open>web\<close> those with
  only non-empty components of domain characters.\<close>

theorem validate_did_syntax_grammar:
  "(validate_did_syntax did = Ok Plc \<longleftrightarrow>
      (\<exists>hash rest. trim did = ''did:plc:'' @ hash @ rest \<and> length hash = 24 \<and> list_all plc_char hash
         \<and> (rest = [] \<or> hd rest = CHR '':'')))
   \<and> (validate_did_syntax did = Ok Web \<longleftrightarrow>
      (\<exists>segs. segs \<noteq> [] \<and> trim did = ''did:web:'' @ join_with '':'' segs
         \<and> list_all (\<lambda>seg. seg \<noteq> [] \<and> list_all is_did_web_char seg) segs))"
  using validate_plc_iff validate_web_iff by blast

text \<open>C13: A resolved identity is coherent: its document is the one of its DID, the DID is well formed, the
  PDS endpoint is an HTTP or HTTPS URL that the document declares for it, and an identity that was
  asked for by handle carries a well-formed handle that the document claims.\<close>

theorem resolve_ident_sound:
  assumes "resolve_ident E R input s = (s', Ok ri)"
  shows "doc_id (ri_did_doc ri) = ri_did ri \<and> is_ok (validate_did_syntax (ri_did ri))
    \<and> (\<exists>svc u. svc \<in> set (doc_service (ri_did_doc ri))
         \<and> svc_service_type svc = ''AtprotoPersonalDataServer'' \<and> ends_with (svc_id svc) ''#atproto_pds''
         \<and> ri_pds_endpoint ri = trim_end_matches (CHR ''/'') (trim (svc_service_endpoint svc))
         \<and> net_url (ie_net E) (ri_pds_endpoint ri) = Ok u
         \<and> (url_scheme u = ''https'' \<or> url_scheme u = ''http''))
    \<and> (if starts_with (trim input) ''did:'' then ri_did ri = trim input
       else \<exists>h. ri_handle ri = Some h \<and> valid_handle h
              \<and> (\<exists>aka \<in> set (also_known_as (ri_did_doc ri)). to_ascii_lowercase aka = ''at://'' @ h))"
proof (cases "starts_with (trim input) ''did:''")
  case True
  with assms obtain doc e where d: "resolve_did E R (trim input) s = (s', Ok doc)"
    "extract_pds_endpoint (net_url (ie_net E)) doc = Ok e"
    "ri = \<lparr> ri_did = trim input, ri_handle = extract_primary_handle doc, ri_did_doc = doc, ri_pds_endpoint = e \<rparr>"
    by (auto simp: resolve_ident_def Let_def)
  show ?thesis
    using resolve_did_Ok [OF d(1)] extract_pds_Ok [OF d(2)] True by (simp add: d(3))
next
  case False
  with assms obtain h did doc e s1 where d: "normalize_user_handle (trim input) = Ok h"
    "resolve_did E R did s1 = (s', Ok doc)" "verify_handle_bidirectional doc h = Ok ()"
    "extract_pds_endpoint (net_url (ie_net E)) doc = Ok e"
    "ri = \<lparr> ri_did = did, ri_handle = Some h, ri_did_doc = doc, ri_pds_endpoint = e \<rparr>"
    by (auto simp: resolve_ident_def Let_def)
  have "valid_handle h"
    by (rule normalize_user_handle_valid [OF d(1)])
  thus ?thesis
    using resolve_did_Ok [OF d(2)] extract_pds_Ok [OF d(4)] matches_valid_handle [OF _ d(3)] False
    by (simp add: d(5))
qed

theorem resolve_ident_sound_witness:
  "\<exists>ri. snd (resolve_ident sample_id_env (IdentityResolver_new (SsrfFilter_new False)) ''@alice'' ([], ())) = Ok ri
     \<and> doc_id (ri_did_doc ri) = ri_did ri \<and> ri_handle ri = Some ''alice.bsky.social''"
proof -
  let ?run = "resolve_ident sample_id_env (IdentityResolver_new (SsrfFilter_new False)) ''@alice'' ([], ())"
  let ?ri = "\<lparr> ri_did = sample_did, ri_handle = Some ''alice.bsky.social'', ri_did_doc = sample_document,
      ri_pds_endpoint = ''https://8.8.8.8'' \<rparr>"
  obtain s1 where "resolve_did sample_id_env (IdentityResolver_new (SsrfFilter_new False)) sample_did ([], ())
      = (s1, Ok sample_document)"
    using sample_resolve_did by (metis prod.collapse)
  moreover have "trim ''@alice'' = ''@alice''" "\<not> starts_with ''@alice'' ''did:''"
    "verify_handle_bidirectional sample_document ''alice.bsky.social'' = Ok ()"
    "extract_pds_endpoint (net_url (ie_net sample_id_env)) sample_document = Ok ''https://8.8.8.8''"
    by code_simp+
  ultimately have out: "snd ?run = Ok ?ri"
    by (simp add: resolve_ident_def io_bind_def sample_handle sample_resolve_handle)
  have "?run = (fst ?run, Ok ?ri)"
    unfolding out [symmetric] by (rule surjective_pairing)
  from resolve_ident_sound [OF this] out show ?thesis
    by (intro exI [of _ ?ri]) simp
qed

text \<open>Resolving an identity sends at most nine requests, and each of them either goes through the
  boundary to an admitted URL or is the DNS-over-HTTPS query for the records of a well-formed
  handle.\<close>

theorem resolve_ident_confined:
  assumes "logs sent (idr_ssrf_filter R) (ie_net E)"
    and "\<And>req w. sent (fst (net_send_plain (ie_net E) req w)) = sent w @ [(False, req)]"
    and "idr_dns_resolver R = None" and "pool_ok p"
    and "resolve_ident E R input (p, w) = ((p', w'), r)"
  shows "pool_ok p' \<and> (\<exists>reqs. sent w' = sent w @ reqs \<and> length reqs \<le> 9
    \<and> (\<forall>e \<in> set reqs. resolver_ok_request (idr_ssrf_filter R) e))"
  using confinedD [OF resolve_ident_is_confined [OF assms(1-3)] assms(4,5)] .

theorem resolve_ident_confined_witness:
  "\<exists>reqs. snd (fst (resolve_ident sample_log_env (IdentityResolver_new (SsrfFilter_new False)) ''@alice'' ([], [])))
      = [] @ reqs \<and> length reqs \<le> 9"
proof -
  let ?R = "IdentityResolver_new (SsrfFilter_new False) :: (bool \<times> http_request) list IdentityResolver"
  let ?run = "resolve_ident sample_log_env ?R ''@alice'' ([], [])"
  have run: "?run = ((fst (fst ?run), snd (fst ?run)), snd ?run)"
    by simp
  have "pool_ok []" "logs id (idr_ssrf_filter ?R) (ie_net sample_log_env)"
    by (auto simp: pool_ok_def logs_def sample_log_env_def sample_log_net_def sample_net_def IdentityResolver_new_def)
  from resolve_ident_confined [OF this(2) _ _ this(1) run] show ?thesis
    by (auto simp: sample_log_env_def sample_log_net_def IdentityResolver_new_def)
qed

end
