(* ===== verification/Service_Props.thy ===== *)
theory Service_Props
  imports Service_Auth Identity_Props Sample_Crypto
begin

text \<open>
  What service authentication guarantees: the encoding of keys, the kernels against their
  specifications, and what an accepted token implies.
\<close>

section \<open>Samples\<close>

definition sample_claims :: ServiceJwtClaims where
  "sample_claims = \<lparr> sjc_iss = Some ''did:web:a.b'', sjc_sub = None, sjc_aud = None, sjc_lxm = None,
     sjc_exp = Some 100, sjc_iat = None, sjc_jti = None \<rparr>"

definition sample_ec :: ec_lib where
  "sample_ec = \<lparr> k256_from_sec1 = (\<lambda>s. Ok s), k256_to_sec1 = (\<lambda>k. 2 # replicate 32 0),
     k256_signature_from_slice = (\<lambda>s. Ok s),
     k256_verify = (\<lambda>k m s. if s = [] then Err ''signature error'' else Ok ()),
     p256_to_sec1 = (\<lambda>k. 3 # replicate 32 0) \<rparr>"

definition sample_service :: service_env where
  "sample_service = \<lparr> se_crypto = sample_lib, se_ec = sample_ec,
     se_header_from_slice = (\<lambda>b. Ok \<lparr> sjh_alg = ''ES256K'', sjh_typ = None \<rparr>),
     se_claims_from_slice = (\<lambda>b. Ok sample_claims), se_hash = (\<lambda>_. 0) \<rparr>"

definition sample_sa_state :: "unit sa_state" where
  "sample_sa_state = (([], ()), insert_atproto_key (\<lambda>_. 0) ''did:web:a.b'' (Secp256k1 [7]) 5 DidKeyCache_default)"

text \<open>An issuer whose key is not cached and has to be fetched.\<close>

definition fetched_service :: service_env where
  "fetched_service = sample_service\<lparr>se_claims_from_slice := (\<lambda>b. Ok (sample_claims\<lparr>sjc_iss := Some sample_did\<rparr>))\<rparr>"

definition keyed_document :: DidDocument where
  "keyed_document = sample_document\<lparr>verification_method := [\<lparr> vm_id = ''#atproto'', vm_key_type = ''Multikey'',
     vm_controller = sample_did,
     vm_public_key_multibase = Some (encode_multikey_secp256k1 sample_ec (2 # replicate 32 0)) \<rparr>]\<rparr>"

definition keyed_id_env :: "unit id_env" where
  "keyed_id_env = sample_id_env\<lparr>ie_serde := sample_id_serde\<lparr>did_document_from_slice := (\<lambda>b. Ok keyed_document)\<rparr>\<rparr>"

text \<open>The issuer a token names, before anything is verified.\<close>

definition named_issuer :: "service_env \<Rightarrow> string \<Rightarrow> string option" where
  "named_issuer V auth =
     (case extract_bearer_token auth of
        Ok token \<Rightarrow>
          (case parse_service_jwt_claims_unverified V token of
             Ok claims \<Rightarrow> opt_or (sjc_iss claims) (sjc_sub claims)
           | Err _ \<Rightarrow> None)
      | Err _ \<Rightarrow> None)"

section \<open>Lemmas\<close>

lemma check_service_claims_Ok:
  "check_service_claims claims auds now leeway = Ok c \<longleftrightarrow>
     c = claims \<and> (\<forall>e. sjc_exp claims = Some e \<longrightarrow> unat now \<le> unat e + unat leeway)
     \<and> (\<forall>a. sjc_aud claims = Some a \<longrightarrow> auds = [] \<or> a \<in> set auds)
     \<and> (\<exists>iss. sjc_iss claims = Some iss \<and> is_valid_service_did iss)"
  by (auto simp: check_service_claims_def viewer_did_def opt_or_def exp_valid_iff list_ex_iff
      split: option.splits if_splits)

lemma unat_u32_less: "unat (w :: u32) < 2 ^ 32"
  using unsigned_less [of w] by simp

lemma unat_le_add_iff_uint: "unat a \<le> unat b + unat c \<longleftrightarrow> uint a \<le> uint b + uint (c :: u64)" for a b :: u64
  by (simp flip: of_nat_le_iff [where ?'a = int])

lemma decode_loop_not_token: "decode_loop out s \<noteq> Err (AtprotoOAuthError.Token e)"
  by (induction out s rule: decode_loop.induct) (auto split: option.splits)

lemma jwt_segments_Ok: "jwt_segments token = Ok (h, p, g) \<longleftrightarrow> split_on (CHR ''.'') token = [h, p, g]"
  by (auto simp: jwt_segments_def split: list.splits)

lemma check_alg_bound_Ok:
  "check_alg_bound k alg = Ok u \<longleftrightarrow> alg = (case k of Secp256k1 _ \<Rightarrow> ''ES256K'' | P256 _ \<Rightarrow> ''ES256'')"
  by (cases k) (auto simp: check_alg_bound_def is_alg_bound_to_curve_def curve_id_def alg_id_from_str_def
      CURVE_SECP256K1_def CURVE_P256_def ALG_ES256K_def ALG_ES256_def ALG_NONE_def)

lemma signature_ok_True:
  "signature_ok V k m sb = Ok True \<longleftrightarrow>
     (case k of
        Secp256k1 vk \<Rightarrow> \<exists>g. k256_signature_from_slice (se_ec V) sb = Ok g \<and> is_ok (k256_verify (se_ec V) vk (as_bytes m) g)
      | P256 vk \<Rightarrow> \<exists>g. p256_signature_from_slice (se_crypto V) sb = Ok g \<and> is_ok (p256_verify (se_crypto V) vk (as_bytes m) g))"
  by (cases k) (auto simp: signature_ok_def)

lemma resolve_atproto_key_Ok:
  assumes "resolve_atproto_key V E R did now s = (s', Ok k)"
  shows "is_valid_service_did did"
    and "(s' = s \<and> get_atproto_key (se_hash V) did now (snd s) = Some k)
      \<or> get_atproto_key (se_hash V) did now (snd s) = None
        \<and> (\<exists>doc io'. resolve_did E R did (fst s) = (io', Ok doc) \<and> extract_atproto_key_from_document V doc = Ok k
             \<and> s' = (io', insert_atproto_key (se_hash V) did k now (snd s)))"
proof -
  show v: "is_valid_service_did did"
    using assms by (auto simp: resolve_atproto_key_def split: if_splits)
  show "(s' = s \<and> get_atproto_key (se_hash V) did now (snd s) = Some k)
      \<or> get_atproto_key (se_hash V) did now (snd s) = None
        \<and> (\<exists>doc io'. resolve_did E R did (fst s) = (io', Ok doc) \<and> extract_atproto_key_from_document V doc = Ok k
             \<and> s' = (io', insert_atproto_key (se_hash V) did k now (snd s)))"
  proof (cases "get_atproto_key (se_hash V) did now (snd s)")
    case None
    with assms v obtain doc s1 where "io_fst (io_map_err AtprotoOAuthError.Identity (resolve_did E R did)) s = (s1, Ok doc)"
      "extract_atproto_key_from_document V doc = Ok k" "s' = (fst s1, insert_atproto_key (se_hash V) did k now (snd s1))"
      by (auto simp: resolve_atproto_key_def)
    with None show ?thesis
      by auto
  next
    case (Some k')
    thus ?thesis
      using assms v by (auto simp: resolve_atproto_key_def)
  qed
qed

text \<open>An accepted run, taken apart once for the properties.\<close>

lemma verify_service_jwt_claims_Ok:
  assumes "verify_service_jwt_claims V E R auth auds now leeway s = (s', Ok claims)"
  obtains token h p g hb hdr issuer k gb where
    "extract_bearer_token auth = Ok token" "split_on (CHR ''.'') token = [h, p, g]"
    "b64_either (se_crypto V) h = Ok hb" "se_header_from_slice V hb = Ok hdr"
    "parse_service_jwt_claims_unverified V token = Ok claims"
    "opt_or (sjc_iss claims) (sjc_sub claims) = Some issuer"
    "resolve_atproto_key V E R issuer now s = (s', Ok k)"
    "check_alg_bound k (sjh_alg hdr) = Ok ()" "b64_either (se_crypto V) g = Ok gb"
    "signature_ok V k (h @ ''.'' @ p) gb = Ok True"
    "check_service_claims claims auds now leeway = Ok claims"
  using assms unfolding verify_service_jwt_claims_def
  by (auto simp: jwt_segments_Ok check_service_claims_Ok split: prod.splits if_splits)

lemma named_issuer_eq:
  "extract_bearer_token auth = Ok token \<Longrightarrow> parse_service_jwt_claims_unverified V token = Ok claims \<Longrightarrow>
   named_issuer V auth = opt_or (sjc_iss claims) (sjc_sub claims)"
  by (simp add: named_issuer_def)

text \<open>The only place that reports a bad signature.\<close>

lemma no_invalid_signature:
  "extract_bearer_token auth \<noteq> Err (AtprotoOAuthError.Token TokenError.InvalidSignature)"
  "jwt_segments token \<noteq> Err (AtprotoOAuthError.Token TokenError.InvalidSignature)"
  "parse_service_jwt_claims_unverified V token \<noteq> Err (AtprotoOAuthError.Token TokenError.InvalidSignature)"
  "check_alg_bound k alg \<noteq> Err (AtprotoOAuthError.Token TokenError.InvalidSignature)"
  "signature_ok V k m gb \<noteq> Err (AtprotoOAuthError.Token TokenError.InvalidSignature)"
  "check_service_claims claims auds now leeway \<noteq> Err (AtprotoOAuthError.Token TokenError.InvalidSignature)"
  by (auto simp: extract_bearer_token_def jwt_segments_def parse_service_jwt_claims_unverified_def
      check_alg_bound_def signature_ok_def check_service_claims_def Let_def try_bind_Err_iff map_err_Err_iff
      split: option.splits if_splits list.splits prod.splits AtprotoVerifyingKey.splits)

lemma resolve_atproto_key_not_token:
  "resolve_atproto_key V E R did now s \<noteq> (s', Err (AtprotoOAuthError.Token e))"
proof -
  have doc: "extract_atproto_key_from_document V d \<noteq> Err (AtprotoOAuthError.Token e)" for d
    by (auto simp: extract_atproto_key_from_document_def decode_multikey_def atproto_key_of_bytes_def
        multikey_error_def bs58_decode_def try_bind_Err_iff map_err_Err_iff ok_or_Err_iff decode_loop_not_token
        split: option.splits if_splits list.splits)
  show ?thesis
    using doc by (auto simp: resolve_atproto_key_def io_bind_Err_iff io_fst_def io_map_err_def map_err_Err_iff
        split: option.splits if_splits prod.splits)
qed

lemma verify_bad_signature:
  assumes "verify_service_jwt_claims V E R auth auds now leeway s = (s', Err (AtprotoOAuthError.Token TokenError.InvalidSignature))"
  obtains issuer s1 k where "named_issuer V auth = Some issuer" "resolve_atproto_key V E R issuer now s = (s1, Ok k)"
    "s' = (fst s1, invalidate (se_hash V) issuer (snd s1))"
  using assms unfolding verify_service_jwt_claims_def
  by (auto simp: io_bind_Err_iff no_invalid_signature resolve_atproto_key_not_token map_err_Err_iff
      ok_or_Err_iff named_issuer_eq split: prod.splits if_splits)

lemma document_multikey:
  assumes "k256_documented (se_ec V) k" "p256_sec1_documented (se_crypto V) (se_ec V) k'"
    and "extract_signing_key doc = Some m"
  shows "(vm_public_key_multibase m = Some (encode_multikey_secp256k1 (se_ec V) k)
            \<longrightarrow> extract_atproto_key_from_document V doc = Ok (Secp256k1 k))
    \<and> (vm_public_key_multibase m = Some (encode_multikey_p256 (se_ec V) k')
            \<longrightarrow> extract_atproto_key_from_document V doc = Ok (P256 k'))"
proof -
  have "decode_multikey L (encode_multikey_secp256k1 C k) = Ok (MULTIKEY_SECP256K1_VARINT @ k256_to_sec1 C k)"
    "decode_multikey L (encode_multikey_p256 C k') = Ok (MULTIKEY_P256_VARINT @ p256_to_sec1 C k')" for L C
    unfolding encode_multikey_secp256k1_def encode_multikey_p256_def
    by (rule decode_z; simp add: MULTIKEY_SECP256K1_VARINT_def MULTIKEY_P256_VARINT_def)+
  moreover have "classify_multikey_bytes (MULTIKEY_SECP256K1_VARINT @ k256_to_sec1 (se_ec V) k)
      = Some (CURVE_SECP256K1, k256_to_sec1 (se_ec V) k)"
    "classify_multikey_bytes (MULTIKEY_P256_VARINT @ p256_to_sec1 (se_ec V) k') = Some (CURVE_P256, p256_to_sec1 (se_ec V) k')"
    using assms(1,2) by (simp_all add: classify_multikey_iff k256_documented_def p256_sec1_documented_def)
  ultimately show ?thesis
    using assms
    by (simp add: extract_atproto_key_from_document_def atproto_key_of_bytes_def k256_documented_def p256_sec1_documented_def CURVE_SECP256K1_def CURVE_P256_def)
qed

text \<open>The run for an issuer whose key is fetched.\<close>

lemma keyed_resolve_did:
  "\<exists>io'. resolve_did keyed_id_env (IdentityResolver_new (SsrfFilter_new False)) sample_did ([], ()) = (io', Ok keyed_document)"
proof -
  have v: "validate_did_syntax sample_did = Ok Plc"
    by code_simp
  have "2 \<le> MAX_OAUTH_RESPONSE_BYTES"
    by (simp add: MAX_OAUTH_RESPONSE_BYTES_def)
  from sample_safe_get [OF this] obtain s1 where
    "safe_get sample_unit_net (SsrfFilter_new False)
       (trim_end_matches (CHR ''/'') DEFAULT_PLC_DIRECTORY @ ''/'' @ sample_did) MAX_OAUTH_RESPONSE_BYTES ([], ())
     = (s1, Ok [1, 2])"
    by (metis prod.collapse)
  thus ?thesis
    by (cases s1) (simp add: resolve_did_def resolve_did_plc_def fetch_did_document_def safe_get_json_def io_bind_def
        io_map_err_def v keyed_id_env_def sample_id_env_def sample_id_serde_def IdentityResolver_new_def validate_id_def
        keyed_document_def sample_document_def)
qed

lemma keyed_document_key: "extract_atproto_key_from_document fetched_service keyed_document = Ok (Secp256k1 (2 # replicate 32 0))"
proof -
  have "decode_multikey L (encode_multikey_secp256k1 sample_ec (2 # replicate 32 0))
      = Ok (MULTIKEY_SECP256K1_VARINT @ k256_to_sec1 sample_ec (2 # replicate 32 0))" for L
    unfolding encode_multikey_secp256k1_def by (rule decode_z; simp add: MULTIKEY_SECP256K1_VARINT_def)
  moreover have "classify_multikey_bytes (MULTIKEY_SECP256K1_VARINT @ (2 # replicate 32 0)) = Some (CURVE_SECP256K1, 2 # replicate 32 0)"
    by (simp add: classify_multikey_iff compressed_def is_compressed_sec1_tag_def)
  ultimately show ?thesis
    by (simp add: extract_atproto_key_from_document_def atproto_key_of_bytes_def keyed_document_def extract_signing_key_def
        fetched_service_def sample_service_def sample_ec_def CURVE_SECP256K1_def CURVE_P256_def)
qed

lemma fetched_run:
  "\<exists>s'. verify_service_jwt_claims fetched_service keyed_id_env (IdentityResolver_new (SsrfFilter_new False))
     ''Bearer e30.e30.e30'' [''did:web:me''] 6 60 (([], ()), DidKeyCache_default)
     = (s', Ok (sample_claims\<lparr>sjc_iss := Some sample_did\<rparr>))"
proof -
  let ?c = "sample_claims\<lparr>sjc_iss := Some sample_did\<rparr>" and ?k = "Secp256k1 (2 # replicate 32 0)"
  have "is_valid_service_did sample_did" "get_atproto_key (se_hash fetched_service) sample_did 6 DidKeyCache_default = None"
    by code_simp+
  then obtain s' where key: "resolve_atproto_key fetched_service keyed_id_env (IdentityResolver_new (SsrfFilter_new False))
      sample_did 6 (([], ()), DidKeyCache_default) = (s', Ok ?k)"
    using keyed_resolve_did keyed_document_key
    by (auto simp: resolve_atproto_key_def io_bind_def io_fst_def io_map_err_def)
  have parts: "extract_bearer_token ''Bearer e30.e30.e30'' = Ok ''e30.e30.e30''"
    "jwt_segments ''e30.e30.e30'' = Ok (''e30'', ''e30'', ''e30'')" "b64_either (se_crypto fetched_service) ''e30'' = Ok [123, 125]"
    "parse_service_jwt_claims_unverified fetched_service ''e30.e30.e30'' = Ok ?c"
    "check_service_claims ?c [''did:web:me''] 6 60 = Ok ?c" "alg_id_from_str ''ES256K'' \<noteq> ALG_NONE"
    "check_alg_bound ?k ''ES256K'' = Ok ()" "signature_ok fetched_service ?k (''e30'' @ ''.'' @ ''e30'') [123, 125] = Ok True"
    "opt_or (sjc_iss ?c) (sjc_sub ?c) = Some sample_did"
    by code_simp+
  have "se_header_from_slice fetched_service b = Ok \<lparr> sjh_alg = ''ES256K'', sjh_typ = None \<rparr>" for b
    by (simp add: fetched_service_def sample_service_def)
  thus ?thesis
    using parts key by (simp add: verify_service_jwt_claims_def io_bind_def)
qed

section \<open>Properties\<close>

text \<open>C31: Base58 decoding and encoding are inverse to each other: on the empty text decoding yields no
  bytes, and otherwise it yields exactly the bytes, without a leading zero, that encode to the text.\<close>

theorem bs58_roundtrip:
  "bs58_decode s = Ok b \<longleftrightarrow> (s = [] \<and> b = []) \<or> (b \<noteq> [] \<and> hd b \<noteq> 0 \<and> bs58_encode b = s)"
proof (cases "s = []")
  case True
  have "bs58_encode b \<noteq> []" if "b \<noteq> []" "hd b \<noteq> 0"
    using encode_digits [OF that] by auto
  with True show ?thesis
    by (auto simp: bs58_decode_def)
next
  case False
  thus ?thesis
    using bs58_inverse by simp
qed

text \<open>C40: The loops that push the remaining carry end, after at most four bytes or six digits, having
  written the digits of the carry.\<close>

theorem carry_loops_terminate:
  "length (decode_push carry) \<le> 4 \<and> le_value 256 (map unat (decode_push carry)) = unat carry
   \<and> length (encode_push carry) \<le> 6 \<and> le_value 58 (map unat (encode_push carry)) = unat carry"
proof -
  have bound: "length xs \<le> n" if "canonical b xs" "le_value b xs < b ^ n" "1 < b" for b n and xs :: "nat list"
  proof (cases "xs = []")
    case False
    hence "b ^ (length xs - 1) \<le> le_value b xs"
      using canonical_iff_large [of xs b] that(1) by (simp add: canonical_def)
    hence "b ^ (length xs - 1) < b ^ n"
      using that(2) by linarith
    thus ?thesis
      using that(3) by simp
  qed simp
  have "unat carry < 2 ^ 32"
    by (rule unat_u32_less)
  hence "length (unats (decode_push carry)) \<le> 4" "length (unats (encode_push carry)) \<le> 6"
    using decode_push_value [of carry] encode_push_value [of carry]
    by (intro bound [of 256 _ 4] bound [of 58 _ 6]; simp)+
  thus ?thesis
    using decode_push_value [of carry] encode_push_value [of carry] by simp
qed

text \<open>C32: Every digit of the encoder is an index into the alphabet, so its lookups stay in bounds and the
  text consists of alphabet characters.\<close>

theorem bs58_encode_in_alphabet:
  "list_all (\<lambda>d. unat d < length ALPHABET) (foldl encode_step [0] bs)
   \<and> set (bs58_encode bs) \<subseteq> set ALPHABET"
proof -
  have d: "\<forall>d \<in> set (foldl encode_step [0] bs). unat d < length ALPHABET"
    using encode_fold [of "[0]" bs] by (simp add: ALPHABET_props)
  have "CHR ''1'' \<in> set ALPHABET"
    by (simp add: ALPHABET_def)
  with d show ?thesis
    by (auto simp: bs58_encode_def Let_def list_all_iff)
qed

text \<open>A public key that is published in a document in its multibase encoding is the key that is read
  from the document, for both curves.\<close>

theorem multikey_document_roundtrip:
  assumes "k256_documented (se_ec V) k" "p256_sec1_documented (se_crypto V) (se_ec V) k'"
    and "extract_signing_key doc = Some m"
  shows "(vm_public_key_multibase m = Some (encode_multikey_secp256k1 (se_ec V) k)
            \<longrightarrow> extract_atproto_key_from_document V doc = Ok (Secp256k1 k))
    \<and> (vm_public_key_multibase m = Some (encode_multikey_p256 (se_ec V) k')
            \<longrightarrow> extract_atproto_key_from_document V doc = Ok (P256 k'))"
  by (rule document_multikey [OF assms])

theorem multikey_document_roundtrip_witness:
  "extract_atproto_key_from_document (sample_service\<lparr>se_crypto := sample_lib\<lparr>p256_from_sec1 := (\<lambda>s. Ok s)\<rparr>\<rparr>)
     (sample_document\<lparr>verification_method := [\<lparr> vm_id = ''#atproto'', vm_key_type = ''Multikey'',
        vm_controller = sample_did,
        vm_public_key_multibase = Some (encode_multikey_secp256k1 sample_ec (2 # replicate 32 0)) \<rparr>]\<rparr>)
   = Ok (Secp256k1 (2 # replicate 32 0))"
proof -
  let ?V = "sample_service\<lparr>se_crypto := sample_lib\<lparr>p256_from_sec1 := (\<lambda>s. Ok s)\<rparr>\<rparr>"
  have "k256_documented (se_ec ?V) (2 # replicate 32 0)"
    "p256_sec1_documented (se_crypto ?V) (se_ec ?V) (3 # replicate 32 0)"
    by (auto simp: k256_documented_def p256_sec1_documented_def compressed_def is_compressed_sec1_tag_def
        sample_service_def sample_ec_def)
  from multikey_document_roundtrip [OF this] show ?thesis
    by (simp add: extract_signing_key_def sample_service_def)
qed

text \<open>The byte kernels meet the specifications stated beside them; in particular the expiry test is
  the comparison of unbounded integers, whatever the leeway.\<close>

theorem service_kernels_meet_spec:
  "is_compressed_sec1_tag tag = spec_is_compressed_sec1_tag tag
   \<and> classify_multikey_header len b0 b1 b2 = spec_classify_multikey_header len b0 b1 b2
   \<and> multikey_sec1_offset len b0 b1 b2 = spec_multikey_sec1_offset len b0 b1 b2
   \<and> is_alg_bound_to_curve c a = spec_is_alg_bound_to_curve c a
   \<and> is_service_jwt_exp_valid expires now leeway = spec_is_service_jwt_exp_valid expires now leeway"
  by (auto simp: is_compressed_sec1_tag_def spec_is_compressed_sec1_tag_def classify_multikey_header_def
      spec_classify_multikey_header_def multikey_sec1_offset_def spec_multikey_sec1_offset_def
      is_alg_bound_to_curve_def spec_is_alg_bound_to_curve_def exp_valid_iff spec_is_service_jwt_exp_valid_def
      unat_le_add_iff_uint)

text \<open>C11: An accepted service token is signed, with the algorithm that belongs to the curve of the key, by the
  key of its issuer.  That key is the one cached for the issuer, and then nothing is sent; or nothing
  is cached, and it is the key in the document that resolving the issuer's DID in this very run
  returned, whose id is the issuer, and it is cached from then on.  The claims are the signed ones, the
  issuer is a well-formed DID, and expiry and audience hold where the token states them.\<close>

theorem service_jwt_sound:
  assumes "verify_service_jwt_claims V E R auth auds now leeway s = (s', Ok claims)"
  shows "\<exists>token h p g gb hb hdr issuer k. extract_bearer_token auth = Ok token
    \<and> split_on (CHR ''.'') token = [h, p, g]
    \<and> b64_either (se_crypto V) h = Ok hb \<and> se_header_from_slice V hb = Ok hdr
    \<and> parse_service_jwt_claims_unverified V token = Ok claims
    \<and> sjc_iss claims = Some issuer \<and> is_valid_service_did issuer
    \<and> (get_atproto_key (se_hash V) issuer now (snd s) = Some k \<and> s' = s
       \<or> get_atproto_key (se_hash V) issuer now (snd s) = None
         \<and> (\<exists>doc io'. resolve_did E R issuer (fst s) = (io', Ok doc) \<and> doc_id doc = issuer
              \<and> extract_atproto_key_from_document V doc = Ok k
              \<and> s' = (io', insert_atproto_key (se_hash V) issuer k now (snd s))))
    \<and> sjh_alg hdr = (case k of Secp256k1 _ \<Rightarrow> ''ES256K'' | P256 _ \<Rightarrow> ''ES256'')
    \<and> b64_either (se_crypto V) g = Ok gb \<and> signature_ok V k (h @ ''.'' @ p) gb = Ok True
    \<and> (\<forall>e. sjc_exp claims = Some e \<longrightarrow> unat now \<le> unat e + unat leeway)
    \<and> (\<forall>a. sjc_aud claims = Some a \<longrightarrow> auds = [] \<or> a \<in> set auds)"
proof -
  obtain token h p g hb hdr issuer k gb where
    v: "extract_bearer_token auth = Ok token" "split_on (CHR ''.'') token = [h, p, g]"
    "b64_either (se_crypto V) h = Ok hb" "se_header_from_slice V hb = Ok hdr"
    "parse_service_jwt_claims_unverified V token = Ok claims"
    "opt_or (sjc_iss claims) (sjc_sub claims) = Some issuer"
    "resolve_atproto_key V E R issuer now s = (s', Ok k)"
    "check_alg_bound k (sjh_alg hdr) = Ok ()" "b64_either (se_crypto V) g = Ok gb"
    "signature_ok V k (h @ ''.'' @ p) gb = Ok True"
    "check_service_claims claims auds now leeway = Ok claims"
    by (rule verify_service_jwt_claims_Ok [OF assms])
  have iss: "sjc_iss claims = Some issuer" "is_valid_service_did issuer"
    using v(6,11) by (auto simp: check_service_claims_Ok opt_or_def)
  have "get_atproto_key (se_hash V) issuer now (snd s) = Some k \<and> s' = s
       \<or> get_atproto_key (se_hash V) issuer now (snd s) = None
         \<and> (\<exists>doc io'. resolve_did E R issuer (fst s) = (io', Ok doc) \<and> doc_id doc = issuer
              \<and> extract_atproto_key_from_document V doc = Ok k
              \<and> s' = (io', insert_atproto_key (se_hash V) issuer k now (snd s)))"
    using resolve_atproto_key_Ok(2) [OF v(7)] resolve_did_Ok(1) [of E R issuer "fst s"] by blast
  moreover have "sjh_alg hdr = (case k of Secp256k1 _ \<Rightarrow> ''ES256K'' | P256 _ \<Rightarrow> ''ES256'')"
    using v(8) by (simp add: check_alg_bound_Ok)
  moreover have "(\<forall>e. sjc_exp claims = Some e \<longrightarrow> unat now \<le> unat e + unat leeway)
    \<and> (\<forall>a. sjc_aud claims = Some a \<longrightarrow> auds = [] \<or> a \<in> set auds)"
    using v(11) by (simp add: check_service_claims_Ok)
  ultimately show ?thesis
    using v iss by blast
qed

theorem service_jwt_sound_witness:
  "\<exists>k doc io' s'. verify_service_jwt_claims fetched_service keyed_id_env (IdentityResolver_new (SsrfFilter_new False))
       ''Bearer e30.e30.e30'' [''did:web:me''] 6 60 (([], ()), DidKeyCache_default)
       = (s', Ok (sample_claims\<lparr>sjc_iss := Some sample_did\<rparr>))
     \<and> resolve_did keyed_id_env (IdentityResolver_new (SsrfFilter_new False)) sample_did ([], ()) = (io', Ok doc)
     \<and> doc_id doc = sample_did \<and> extract_atproto_key_from_document fetched_service doc = Ok k"
proof -
  let ?c = "sample_claims\<lparr>sjc_iss := Some sample_did\<rparr>"
  obtain s' where run: "verify_service_jwt_claims fetched_service keyed_id_env (IdentityResolver_new (SsrfFilter_new False))
     ''Bearer e30.e30.e30'' [''did:web:me''] 6 60 (([], ()), DidKeyCache_default) = (s', Ok ?c)"
    using fetched_run by blast
  have "get_atproto_key (se_hash fetched_service) sample_did 6 DidKeyCache_default = None"
    by code_simp
  with service_jwt_sound [OF run] obtain k doc io' where
    "resolve_did keyed_id_env (IdentityResolver_new (SsrfFilter_new False)) sample_did ([], ()) = (io', Ok doc)"
    "doc_id doc = sample_did" "extract_atproto_key_from_document fetched_service doc = Ok k"
    by auto
  with run show ?thesis
    by blast
qed

text \<open>After a bad signature the key of the named issuer is no longer in the cache, so the next token
  of that issuer is checked against its document again.\<close>

theorem bad_signature_evicts:
  assumes "key_cache_inv (snd s)"
    and "verify_service_jwt_claims V E R auth auds now leeway s = (s', Err (AtprotoOAuthError.Token TokenError.InvalidSignature))"
  shows "\<exists>issuer. named_issuer V auth = Some issuer
    \<and> (\<forall>now'. get_atproto_key (se_hash V) issuer now' (snd s') = None) \<and> key_cache_inv (snd s')"
proof -
  from assms(2) obtain issuer s1 k where i: "named_issuer V auth = Some issuer"
    "resolve_atproto_key V E R issuer now s = (s1, Ok k)" "s' = (fst s1, invalidate (se_hash V) issuer (snd s1))"
    by (rule verify_bad_signature)
  have inv: "key_cache_inv (snd s1)"
    using resolve_atproto_key_Ok(2) [OF i(2)] assms(1) by (auto intro: did_keys.keep_inv)
  hence "get_atproto_key (se_hash V) issuer now' (invalidate (se_hash V) issuer (snd s1)) = None" for now'
    using did_keys.lookup_entry [OF did_keys.keep_inv(2) [OF inv, of "se_hash V" issuer], of "se_hash V" issuer now']
      did_keys.invalidate_same [OF inv, of "se_hash V" issuer]
    by (cases "get_atproto_key (se_hash V) issuer now' (invalidate (se_hash V) issuer (snd s1))") auto
  thus ?thesis
    using i inv by (auto intro: did_keys.keep_inv)
qed

theorem bad_signature_evicts_witness:
  "\<exists>issuer. named_issuer (sample_service\<lparr>se_ec := sample_ec\<lparr>k256_verify := (\<lambda>k m g. Err ''bad'')\<rparr>\<rparr>)
     ''e30.e30.e30'' = Some issuer
   \<and> get_atproto_key (\<lambda>_. 0) issuer 6 (snd (fst (verify_service_jwt_claims
        (sample_service\<lparr>se_ec := sample_ec\<lparr>k256_verify := (\<lambda>k m g. Err ''bad'')\<rparr>\<rparr>) sample_id_env
        (IdentityResolver_new (SsrfFilter_new False)) ''e30.e30.e30'' [] 6 60 sample_sa_state))) = None"
proof -
  let ?V = "sample_service\<lparr>se_ec := sample_ec\<lparr>k256_verify := (\<lambda>k m g. Err ''bad'')\<rparr>\<rparr>"
  let ?run = "verify_service_jwt_claims ?V sample_id_env (IdentityResolver_new (SsrfFilter_new False))
     ''e30.e30.e30'' [] 6 60 sample_sa_state"
  have out: "snd ?run = Err (AtprotoOAuthError.Token TokenError.InvalidSignature)"
    by code_simp
  have run: "?run = (fst ?run, Err (AtprotoOAuthError.Token TokenError.InvalidSignature))"
    unfolding out [symmetric] by (rule surjective_pairing)
  have "key_cache_inv (snd sample_sa_state)"
    by (auto simp: sample_sa_state_def DidKeyCache_default_def intro: did_keys.keep_inv)
  from bad_signature_evicts [OF this run] show ?thesis
    by (auto simp: sample_service_def)
qed

end
