(* ===== verification/Discovery.thy ===== *)
theory Discovery
  imports Identity_Props
begin

text \<open>
  Discovery of authorization servers (\<open>discovery.rs\<close>): metadata, the origin checks, the capability
  checks of the AT Protocol profile, and the pipeline from a handle or DID to the endpoints.  The
  serialisation of an origin by the URL library and the derived \<open>Deserialize\<close> code are parameters.
\<close>

section \<open>Metadata\<close>

record ProtectedResourceMetadata =
  prm_resource :: string
  prm_authorization_servers :: "string list"
  prm_scopes_supported :: "string list"
  prm_bearer_methods_supported :: "string list"
  prm_resource_documentation :: "string option"

record AuthorizationServerMetadata =
  asm_issuer :: string
  asm_authorization_endpoint :: string
  asm_token_endpoint :: string
  asm_pushed_authorization_request_endpoint :: string
  asm_require_pushed_authorization_requests :: bool
  asm_dpop_signing_alg_values_supported :: "string list"
  asm_code_challenge_methods_supported :: "string list"
  asm_response_types_supported :: "string list"
  asm_grant_types_supported :: "string list"
  asm_token_endpoint_auth_methods_supported :: "string list"
  asm_token_endpoint_auth_signing_alg_values_supported :: "string list"
  asm_scopes_supported :: "string list"
  asm_authorization_response_iss_parameter_supported :: bool
  asm_client_id_metadata_document_supported :: bool
  asm_require_request_uri_registration :: bool

record DiscoveredAuthEndpoints =
  dae_did :: string
  dae_handle :: "string option"
  dae_pds_endpoint :: string
  dae_auth_server_issuer :: string
  dae_par_endpoint :: string
  dae_authorization_endpoint :: string
  dae_token_endpoint :: string
  dae_dpop_algs :: "string list"
  dae_scopes :: "string list"
  dae_protected_resource_metadata :: ProtectedResourceMetadata
  dae_auth_server_metadata :: AuthorizationServerMetadata

definition url_host :: "url_parser \<Rightarrow> string \<Rightarrow> string option" where
  "url_host parse s = (case parse s of Ok u \<Rightarrow> url_host_str u | Err _ \<Rightarrow> None)"

definition pds_host :: "url_parser \<Rightarrow> DiscoveredAuthEndpoints \<Rightarrow> string option" where
  "pds_host parse d = url_host parse (dae_pds_endpoint d)"

definition auth_server_host :: "url_parser \<Rightarrow> DiscoveredAuthEndpoints \<Rightarrow> string option" where
  "auth_server_host parse d = url_host parse (dae_auth_server_issuer d)"

section \<open>Origins\<close>

text \<open>\<open>str::parse::<u16>\<close>: an optional plus sign and decimal digits.\<close>

definition parse_u16 :: "string \<Rightarrow> nat option" where
  "parse_u16 s =
     (let ds = (case s of c # r \<Rightarrow> if c = CHR ''+'' then r else s | [] \<Rightarrow> [])
      in if ds = [] \<or> \<not> list_all is_ascii_digit ds \<or> digits_value 10 ds \<ge> 65536 then None
         else Some (digits_value 10 ds))"

fun split_once_str :: "string \<Rightarrow> string \<Rightarrow> (string \<times> string) option" where
  "split_once_str pat [] = (if pat = [] then Some ([], []) else None)"
| "split_once_str pat (c # s) =
     (if starts_with (c # s) pat then Some ([], drop (length pat) (c # s))
      else map_option (\<lambda>(a, b). (c # a, b)) (split_once_str pat s))"

definition host_port_of :: "string \<Rightarrow> string" where
  "host_port_of url_str =
     (let after_scheme = (case split_once_str ''://'' url_str of Some (_, rest) \<Rightarrow> rest | None \<Rightarrow> url_str);
          authority = takeWhile (\<lambda>c. c \<noteq> CHR ''/'' \<and> c \<noteq> CHR ''?'' \<and> c \<noteq> CHR ''#'') after_scheme
      in last (split_on (CHR ''@'') authority))"

definition explicit_port_ok :: "string \<Rightarrow> string \<Rightarrow> bool" where
  "explicit_port_ok scheme host_port =
     (let has_explicit_port =
            (if CHR '']'' \<in> set host_port then contains_char (last (split_on (CHR '']'') host_port)) (CHR '':'')
             else contains_char host_port (CHR '':''))
      in \<not> has_explicit_port
         \<or> (case parse_u16 (last (split_on (CHR '':'') host_port)) of
              None \<Rightarrow> False
            | Some p \<Rightarrow> \<not> (p = 443 \<and> scheme = ''https'') \<and> \<not> (p = 80 \<and> scheme = ''http'')))"

definition is_origin_only :: "url_parser \<Rightarrow> string \<Rightarrow> bool" where
  "is_origin_only parse url_str =
     (case parse url_str of
        Err _ \<Rightarrow> False
      | Ok parsed \<Rightarrow>
          (let scheme = url_scheme parsed;
               host = (case url_host_str parsed of Some h \<Rightarrow> h | None \<Rightarrow> []);
               host_port = host_port_of url_str
           in if scheme \<noteq> ''https'' \<and> \<not> (scheme = ''http'' \<and> is_local_name host) then False
              else if url_username parsed \<noteq> [] \<or> url_password parsed \<noteq> None then False
              else if \<not> explicit_port_ok scheme host_port then False
              else if contains_char host_port (CHR 0x5C) then False
              else (url_path parsed = [] \<or> url_path parsed = ''/'') \<and> url_query parsed = None
                   \<and> url_fragment parsed = None))"

definition normalize_origin :: "url_parser \<Rightarrow> (url \<Rightarrow> string) \<Rightarrow> string \<Rightarrow> string" where
  "normalize_origin parse origin url_str =
     (case parse url_str of
        Ok parsed \<Rightarrow> origin parsed
      | Err _ \<Rightarrow> trim_end_matches (CHR ''/'') (trim url_str))"

section \<open>Capabilities\<close>

definition validate_https_endpoint :: "url_parser \<Rightarrow> string \<Rightarrow> string \<Rightarrow> (unit, DiscoveryError) result" where
  "validate_https_endpoint parse endpoint label =
     try_bind (map_err (\<lambda>e. DiscoveryError.InvalidEndpointUrl
       (''Invalid '' @ label @ '' endpoint URL '' @ sq endpoint @ '': '' @ e)) (parse endpoint)) (\<lambda>parsed.
     if url_scheme parsed \<noteq> ''https''
        \<and> \<not> (url_scheme parsed = ''http'' \<and> is_local_name (case url_host_str parsed of Some h \<Rightarrow> h | None \<Rightarrow> []))
     then Err (DiscoveryError.InvalidEndpointUrl (label @ '' endpoint URL must be HTTPS (got ''
       @ sq (url_scheme parsed) @ ''; only loopback/localhost may use HTTP)''))
     else if url_username parsed \<noteq> [] \<or> url_password parsed \<noteq> None
     then Err (DiscoveryError.InvalidEndpointUrl
       (label @ '' endpoint URL must not contain embedded credentials: '' @ sq endpoint))
     else if url_host_str parsed = None
     then Err (DiscoveryError.InvalidEndpointUrl (label @ '' endpoint URL is missing a host: '' @ sq endpoint))
     else Ok ())"

definition validate_endpoints ::
  "url_parser \<Rightarrow> AuthorizationServerMetadata \<Rightarrow> string \<Rightarrow> (unit, DiscoveryError) result" where
  "validate_endpoints parse m auth_server_url =
     try_bind (require (trim (asm_pushed_authorization_request_endpoint m) \<noteq> [])
       (DiscoveryError.MissingParEndpoint auth_server_url)) (\<lambda>_.
     try_bind (validate_https_endpoint parse (asm_pushed_authorization_request_endpoint m) ''PAR'') (\<lambda>_.
     try_bind (require (asm_require_pushed_authorization_requests m)
       (DiscoveryError.ParNotRequired auth_server_url)) (\<lambda>_.
     try_bind (require (trim (asm_token_endpoint m) \<noteq> []) (DiscoveryError.MissingTokenEndpoint auth_server_url)) (\<lambda>_.
     try_bind (validate_https_endpoint parse (asm_token_endpoint m) ''token'') (\<lambda>_.
     try_bind (require (trim (asm_authorization_endpoint m) \<noteq> [])
       (DiscoveryError.MissingAuthorizationEndpoint auth_server_url)) (\<lambda>_.
     validate_https_endpoint parse (asm_authorization_endpoint m) ''authorization''))))))"

definition validate_profile ::
  "AuthorizationServerMetadata \<Rightarrow> string \<Rightarrow> (unit, DiscoveryError) result" where
  "validate_profile m auth_server_url =
     try_bind (require (''code'' \<in> set (asm_response_types_supported m))
       (DiscoveryError.MissingResponseType auth_server_url)) (\<lambda>_.
     try_bind (require (''authorization_code'' \<in> set (asm_grant_types_supported m))
       (DiscoveryError.MissingGrantType auth_server_url ''authorization_code'')) (\<lambda>_.
     try_bind (require (''refresh_token'' \<in> set (asm_grant_types_supported m))
       (DiscoveryError.MissingGrantType auth_server_url ''refresh_token'')) (\<lambda>_.
     try_bind (require (''none'' \<in> set (asm_token_endpoint_auth_methods_supported m)
         \<and> ''private_key_jwt'' \<in> set (asm_token_endpoint_auth_methods_supported m))
       (DiscoveryError.MissingTokenAuthMethod auth_server_url)) (\<lambda>_.
     try_bind (require (''ES256'' \<in> set (asm_token_endpoint_auth_signing_alg_values_supported m))
       (DiscoveryError.MissingTokenAuthSigningAlg auth_server_url)) (\<lambda>_.
     try_bind (require (''none'' \<notin> set (asm_token_endpoint_auth_signing_alg_values_supported m))
       (DiscoveryError.InvalidTokenAuthSigningAlg auth_server_url)) (\<lambda>_.
     try_bind (require (''atproto'' \<in> set (asm_scopes_supported m))
       (DiscoveryError.MissingAtprotoScope auth_server_url)) (\<lambda>_.
     try_bind (require (asm_authorization_response_iss_parameter_supported m)
       (DiscoveryError.MissingIssParameterSupport auth_server_url)) (\<lambda>_.
     try_bind (require (asm_client_id_metadata_document_supported m)
       (DiscoveryError.MissingClientMetadataSupport auth_server_url)) (\<lambda>_.
     try_bind (require (asm_require_request_uri_registration m)
       (DiscoveryError.MissingRequestUriRegistration auth_server_url)) (\<lambda>_.
     try_bind (require (''ES256'' \<in> set (asm_dpop_signing_alg_values_supported m))
       (DiscoveryError.MissingDpopAlgorithm auth_server_url)) (\<lambda>_.
     require (''S256'' \<in> set (asm_code_challenge_methods_supported m))
       (DiscoveryError.MissingPkceMethod auth_server_url))))))))))))"

definition validate_auth_server_capabilities ::
  "url_parser \<Rightarrow> (url \<Rightarrow> string) \<Rightarrow> AuthorizationServerMetadata \<Rightarrow> string \<Rightarrow> (unit, DiscoveryError) result" where
  "validate_auth_server_capabilities parse origin m auth_server_url =
     try_bind (require (is_origin_only parse auth_server_url)
       (DiscoveryError.InvalidAuthorizationServerUrl auth_server_url)) (\<lambda>_.
     try_bind (require (is_origin_only parse (asm_issuer m))
       (DiscoveryError.InvalidAuthorizationServerUrl (asm_issuer m))) (\<lambda>_.
     try_bind (require (normalize_origin parse origin auth_server_url = normalize_origin parse origin (asm_issuer m))
       (DiscoveryError.IssuerMismatch auth_server_url (asm_issuer m))) (\<lambda>_.
     try_bind (validate_endpoints parse m auth_server_url) (\<lambda>_.
     validate_profile m auth_server_url))))"

section \<open>The pipeline\<close>

record 'w disco_env =
  de_id :: "'w id_env"
  de_origin :: "url \<Rightarrow> string"
  de_prm_from_slice :: "bytes \<Rightarrow> (ProtectedResourceMetadata, string) result"
  de_asm_from_slice :: "bytes \<Rightarrow> (AuthorizationServerMetadata, string) result"

abbreviation de_net :: "'w disco_env \<Rightarrow> 'w net" where
  "de_net D \<equiv> ie_net (de_id D)"

definition prm_fetch_error :: "string \<Rightarrow> SsrfError \<Rightarrow> DiscoveryError" where
  "prm_fetch_error u e =
     (case e of
        SsrfError.HttpStatus st msg \<Rightarrow> DiscoveryError.ProtectedResourceDiscoveryFailed
          (''HTTP '' @ show_nat st @ '' fetching protected resource metadata from '' @ u @ '': '' @ msg)
      | SsrfError.Json err \<Rightarrow> DiscoveryError.ProtectedResourceDiscoveryFailed
          (''Invalid JSON in protected resource metadata from '' @ u @ '': '' @ err)
      | _ \<Rightarrow> DiscoveryError.Ssrf e)"

definition check_resource_metadata ::
  "url_parser \<Rightarrow> (url \<Rightarrow> string) \<Rightarrow> string \<Rightarrow> ProtectedResourceMetadata
   \<Rightarrow> (ProtectedResourceMetadata, DiscoveryError) result" where
  "check_resource_metadata parse origin pds_endpoint m =
     (case prm_authorization_servers m of
        [] \<Rightarrow> Err (DiscoveryError.MissingAuthorizationServers pds_endpoint)
      | as_url # more_urls \<Rightarrow>
          if more_urls \<noteq> [] then Err (DiscoveryError.MultipleAuthorizationServers (length (prm_authorization_servers m)))
          else if \<not> is_origin_only parse as_url then Err (DiscoveryError.InvalidAuthorizationServerUrl as_url)
          else
            (let expected_origin = normalize_origin parse origin pds_endpoint;
                 actual_origin = normalize_origin parse origin (prm_resource m)
             in if expected_origin \<noteq> actual_origin
                then Err (DiscoveryError.ResourceMismatch expected_origin (prm_resource m))
                else if \<not> is_origin_only parse (prm_resource m)
                then Err (DiscoveryError.ResourceMismatch expected_origin (prm_resource m))
                else Ok m))"

definition fetch_protected_resource_metadata ::
  "'w disco_env \<Rightarrow> SsrfFilter \<Rightarrow> string \<Rightarrow> ('w io, ProtectedResourceMetadata, DiscoveryError) io_op" where
  "fetch_protected_resource_metadata D f pds_endpoint =
     (let u = trim_end_matches (CHR ''/'') pds_endpoint @ ''/.well-known/oauth-protected-resource'' in
      io_bind (io_map_err (prm_fetch_error u)
        (safe_get_json (de_net D) f (de_prm_from_slice D) u MAX_OAUTH_RESPONSE_BYTES)) (\<lambda>m.
      io_lift (check_resource_metadata (net_url (de_net D)) (de_origin D) pds_endpoint m)))"

definition asm_fetch_error :: "string \<Rightarrow> string \<Rightarrow> SsrfError \<Rightarrow> DiscoveryError" where
  "asm_fetch_error what u e =
     (case e of
        SsrfError.HttpStatus st msg \<Rightarrow> DiscoveryError.AuthServerDiscoveryFailed
          (''HTTP '' @ show_nat st @ '' fetching '' @ what @ ''authorization server metadata from '' @ u @ '': '' @ msg)
      | SsrfError.Json err \<Rightarrow> DiscoveryError.AuthServerDiscoveryFailed
          (''Invalid JSON in '' @ what @ ''authorization server metadata from '' @ u @ '': '' @ err)
      | _ \<Rightarrow> DiscoveryError.Ssrf e)"

definition is_not_found :: "SsrfError \<Rightarrow> bool" where
  "is_not_found e = (case e of SsrfError.HttpStatus st _ \<Rightarrow> st = 404 | _ \<Rightarrow> False)"

definition fetch_auth_server_metadata ::
  "'w disco_env \<Rightarrow> SsrfFilter \<Rightarrow> string \<Rightarrow> ('w io, AuthorizationServerMetadata, DiscoveryError) io_op" where
  "fetch_auth_server_metadata D f auth_server_url =
     (let base = trim_end_matches (CHR ''/'') auth_server_url;
          primary_url = base @ ''/.well-known/oauth-authorization-server'';
          fallback_url = base @ ''/.well-known/openid-configuration'';
          get = (\<lambda>u. safe_get_json (de_net D) f (de_asm_from_slice D) u MAX_OAUTH_RESPONSE_BYTES)
      in io_bind (\<lambda>s. case get primary_url s of
             (s', r) \<Rightarrow>
               (case r of
                  Ok m \<Rightarrow> (s', Ok m)
                | Err e \<Rightarrow>
                    if is_not_found e then io_map_err (asm_fetch_error ''fallback '' fallback_url) (get fallback_url) s'
                    else (s', Err (asm_fetch_error [] primary_url e)))) (\<lambda>m.
         io_bind (io_lift (validate_auth_server_capabilities (net_url (de_net D)) (de_origin D) m auth_server_url)) (\<lambda>_.
         io_lift (Ok m))))"

definition assemble_endpoints ::
  "ResolvedIdentity \<Rightarrow> ProtectedResourceMetadata \<Rightarrow> AuthorizationServerMetadata \<Rightarrow> DiscoveredAuthEndpoints" where
  "assemble_endpoints identity pds_meta as_meta =
     \<lparr> dae_did = ri_did identity, dae_handle = ri_handle identity,
       dae_pds_endpoint = ri_pds_endpoint identity, dae_auth_server_issuer = asm_issuer as_meta,
       dae_par_endpoint = asm_pushed_authorization_request_endpoint as_meta,
       dae_authorization_endpoint = asm_authorization_endpoint as_meta,
       dae_token_endpoint = asm_token_endpoint as_meta,
       dae_dpop_algs = asm_dpop_signing_alg_values_supported as_meta,
       dae_scopes = (if asm_scopes_supported as_meta \<noteq> [] then asm_scopes_supported as_meta
         else if prm_scopes_supported pds_meta \<noteq> [] then prm_scopes_supported pds_meta
         else [''atproto'']),
       dae_protected_resource_metadata = pds_meta, dae_auth_server_metadata = as_meta \<rparr>"

definition discover_oauth_endpoints ::
  "'w disco_env \<Rightarrow> 'w IdentityResolver \<Rightarrow> string \<Rightarrow> ('w io, DiscoveredAuthEndpoints, DiscoveryError) io_op" where
  "discover_oauth_endpoints D R did_or_handle =
     io_bind (io_map_err DiscoveryError.Identity (resolve_ident (de_id D) R did_or_handle)) (\<lambda>identity.
     io_bind (fetch_protected_resource_metadata D (idr_ssrf_filter R) (ri_pds_endpoint identity)) (\<lambda>pds_meta.
     io_bind (fetch_auth_server_metadata D (idr_ssrf_filter R) (hd (prm_authorization_servers pds_meta))) (\<lambda>as_meta.
     io_lift (Ok (assemble_endpoints identity pds_meta as_meta)))))"

end
