(* ===== verification/Session.thy ===== *)
theory Session
  imports Dpop
begin

text \<open>
  Authenticated sessions (\<open>session.rs\<close>): construction, expiry, rotation of the tokens, the
  validation that a persisted session passes when it is read back, and the proof and header that a
  session attaches to a request.  The clock reading of an operation is an argument.  The derived
  \<open>Deserialize\<close> of the raw fields is a parameter of \<open>deserialize_session\<close>.
\<close>

section \<open>The session\<close>

record OAuthSession =
  os_sub :: string
  os_access_token :: string
  os_refresh_token :: "string option"
  os_token_type :: string
  os_scope :: "string option"
  os_expires_at :: "system_time option"
  os_dpop_key :: DPoPKey
  os_pds_endpoint :: "string option"
  os_auth_server_issuer :: "string option"
  os_token_endpoint :: "string option"
  os_created_at :: system_time

text \<open>The raw fields are those of the session.\<close>

definition deserialize_session ::
  "('v \<Rightarrow> (OAuthSession, string) result) \<Rightarrow> 'v \<Rightarrow> (OAuthSession, string) result" where
  "deserialize_session raw_from v =
     try_bind (raw_from v) (\<lambda>raw.
     if \<not> eq_ignore_ascii_case (os_token_type raw) ''DPoP''
     then Err (''OAuthSession deserialization rejected: token_type must be '' @ sq ''DPoP'' @ '', got ''
       @ sq (os_token_type raw))
     else if trim (os_sub raw) = []
     then Err ''OAuthSession deserialization rejected: `sub` must be a non-empty DID''
     else if trim (os_access_token raw) = []
     then Err ''OAuthSession deserialization rejected: `access_token` must be non-empty''
     else Ok raw)"

definition zeroize_session :: "OAuthSession \<Rightarrow> OAuthSession" where
  "zeroize_session s =
     s\<lparr>os_access_token := [], os_refresh_token := map_option (\<lambda>_. []) (os_refresh_token s)\<rparr>"

text \<open>The local expiry that \<open>expires_in\<close> asks for, if the clock can represent it.\<close>

definition expiry_of :: "u64 option \<Rightarrow> system_time \<Rightarrow> system_time option" where
  "expiry_of expires_in_secs now =
     Option.bind expires_in_secs (\<lambda>secs. system_checked_add now (from_secs (unat secs)))"

definition OAuthSession_new ::
  "string \<Rightarrow> string \<Rightarrow> string option \<Rightarrow> string \<Rightarrow> string option \<Rightarrow> u64 option \<Rightarrow> DPoPKey
   \<Rightarrow> string option \<Rightarrow> string option \<Rightarrow> string option \<Rightarrow> system_time
   \<Rightarrow> (OAuthSession, AtprotoOAuthError) result" where
  "OAuthSession_new sub access_token refresh_token token_type scope expires_in_secs dpop_key
     pds_endpoint auth_server_issuer token_endpoint now =
     (if \<not> eq_ignore_ascii_case token_type ''DPoP''
      then Err (AtprotoOAuthError.Token (TokenError.InvalidTokenType token_type))
      else if expires_in_secs \<noteq> None \<and> expiry_of expires_in_secs now = None
      then Err (AtprotoOAuthError.Token (TokenError.Http
        ''expires_in value overflows session expiry timestamp; refusing to issue a never-expiring session (fail-closed)''))
      else Ok \<lparr> os_sub = sub, os_access_token = access_token, os_refresh_token = refresh_token,
        os_token_type = token_type, os_scope = scope, os_expires_at = expiry_of expires_in_secs now,
        os_dpop_key = dpop_key, os_pds_endpoint = pds_endpoint,
        os_auth_server_issuer = auth_server_issuer, os_token_endpoint = token_endpoint,
        os_created_at = now \<rparr>)"

definition is_expired_with_leeway :: "duration \<Rightarrow> system_time \<Rightarrow> OAuthSession \<Rightarrow> bool" where
  "is_expired_with_leeway leeway now s =
     (case os_expires_at s of
        Some e \<Rightarrow>
          (case system_checked_add now leeway of
             Some now_with_leeway \<Rightarrow> e \<le> now_with_leeway
           | None \<Rightarrow> True)
      | None \<Rightarrow> False)"

definition session_is_expired :: "system_time \<Rightarrow> OAuthSession \<Rightarrow> bool" where
  "session_is_expired now s = is_expired_with_leeway 0 now s"

definition rotate_tokens_with_scope ::
  "string \<Rightarrow> string option \<Rightarrow> u64 option \<Rightarrow> string option \<Rightarrow> system_time \<Rightarrow> OAuthSession \<Rightarrow> OAuthSession" where
  "rotate_tokens_with_scope access_token refresh_token expires_in_secs scope now s =
     (let s = zeroize_session s;
          s = s\<lparr>os_access_token := access_token, os_refresh_token := refresh_token\<rparr>;
          s = (case scope of Some new_scope \<Rightarrow> s\<lparr>os_scope := Some new_scope\<rparr> | None \<Rightarrow> s)
      in if expires_in_secs \<noteq> None \<and> expiry_of expires_in_secs now = None
         then s\<lparr>os_expires_at := Some now\<rparr>
         else s\<lparr>os_expires_at := expiry_of expires_in_secs now\<rparr>)"

definition rotate_tokens ::
  "string \<Rightarrow> string option \<Rightarrow> u64 option \<Rightarrow> system_time \<Rightarrow> OAuthSession \<Rightarrow> OAuthSession" where
  "rotate_tokens access_token refresh_token expires_in_secs now s =
     rotate_tokens_with_scope access_token refresh_token expires_in_secs None now s"

definition create_dpop_proof ::
  "dpop_env \<Rightarrow> OAuthSession \<Rightarrow> string \<Rightarrow> string \<Rightarrow> string option \<Rightarrow> system_time \<Rightarrow> bytes
   \<Rightarrow> (string, DPoPError) result" where
  "create_dpop_proof E s htm htu nonce now jti_bytes =
     (let ath = compute_access_token_hash (env_crypto E) (os_access_token s) in
      create_proof E (os_dpop_key s) htm htu nonce (Some ath) now jti_bytes)"

definition dpop_auth_header :: "OAuthSession \<Rightarrow> string" where
  "dpop_auth_header s = ''DPoP '' @ os_access_token s"

section \<open>What the debug output shows\<close>

text \<open>The fields that \<open>debug_struct\<close> prints, in order; strings keep their text, a key prints its
  thumbprint.\<close>

datatype debug_value =
    DText string
  | DOption "string option"
  | DTime "system_time option"
  | DKeyThumbprint string

definition debug_session :: "crypto_lib \<Rightarrow> OAuthSession \<Rightarrow> (string \<times> debug_value) list" where
  "debug_session L s =
     [(''sub'', DText (os_sub s)), (''access_token'', DText ''[REDACTED]''),
      (''refresh_token'', DOption (map_option (\<lambda>_. ''[REDACTED]'') (os_refresh_token s))),
      (''token_type'', DText (os_token_type s)), (''scope'', DOption (os_scope s)),
      (''expires_at'', DTime (os_expires_at s)),
      (''dpop_key'', DKeyThumbprint (jwk_thumbprint L (os_dpop_key s))),
      (''pds_endpoint'', DOption (os_pds_endpoint s)),
      (''auth_server_issuer'', DOption (os_auth_server_issuer s)),
      (''token_endpoint'', DOption (os_token_endpoint s)),
      (''created_at'', DTime (Some (os_created_at s)))]"

section \<open>Lemmas\<close>

text \<open>What every constructor of the crate guarantees of the token type.\<close>

definition session_ok :: "OAuthSession \<Rightarrow> bool" where
  "session_ok s = eq_ignore_ascii_case (os_token_type s) ''DPoP''"

lemma expiry_of_Some:
  "expiry_of (Some secs) now = Some t \<longleftrightarrow>
     t = now + int (from_secs (unat secs)) \<and> t \<le> system_max"
  by (auto simp: expiry_of_def system_checked_add_def)

lemma expiry_of_None [simp]: "expiry_of None now = None"
  by (simp add: expiry_of_def)

lemma OAuthSession_new_Ok:
  "OAuthSession_new sub atk rt tt sc ei key pds iss te now = Ok s \<longleftrightarrow>
     eq_ignore_ascii_case tt ''DPoP'' \<and> (ei \<noteq> None \<longrightarrow> expiry_of ei now \<noteq> None)
     \<and> s = \<lparr> os_sub = sub, os_access_token = atk, os_refresh_token = rt, os_token_type = tt,
           os_scope = sc, os_expires_at = expiry_of ei now, os_dpop_key = key, os_pds_endpoint = pds,
           os_auth_server_issuer = iss, os_token_endpoint = te, os_created_at = now \<rparr>"
  by (auto simp: OAuthSession_new_def)

lemma rotate_tokens_fields [simp]:
  "os_sub (rotate_tokens_with_scope a r e sc now s) = os_sub s"
  "os_access_token (rotate_tokens_with_scope a r e sc now s) = a"
  "os_refresh_token (rotate_tokens_with_scope a r e sc now s) = r"
  "os_token_type (rotate_tokens_with_scope a r e sc now s) = os_token_type s"
  "os_dpop_key (rotate_tokens_with_scope a r e sc now s) = os_dpop_key s"
  "os_pds_endpoint (rotate_tokens_with_scope a r e sc now s) = os_pds_endpoint s"
  "os_auth_server_issuer (rotate_tokens_with_scope a r e sc now s) = os_auth_server_issuer s"
  "os_token_endpoint (rotate_tokens_with_scope a r e sc now s) = os_token_endpoint s"
  "os_created_at (rotate_tokens_with_scope a r e sc now s) = os_created_at s"
  "os_scope (rotate_tokens_with_scope a r e sc now s) = (case sc of Some x \<Rightarrow> Some x | None \<Rightarrow> os_scope s)"
  by (simp_all add: rotate_tokens_with_scope_def zeroize_session_def Let_def split: option.split)

lemma rotate_tokens_expiry:
  "os_expires_at (rotate_tokens_with_scope a r (Some secs) sc now s) =
     Some (if now + int (from_secs (unat secs)) \<le> system_max
           then now + int (from_secs (unat secs)) else now)"
  by (auto simp: rotate_tokens_with_scope_def zeroize_session_def Let_def expiry_of_def
      system_checked_add_def split: option.split)

lemma session_ok_rotate [simp]: "session_ok (rotate_tokens_with_scope a r e sc now s) = session_ok s"
  by (simp add: session_ok_def)

text \<open>Expiry is monotone in the clock and in the leeway.\<close>

lemma is_expired_mono:
  assumes "is_expired_with_leeway l now s" "now \<le> now'" "l \<le> l'"
  shows "is_expired_with_leeway l' now' s"
  using assms by (auto simp: is_expired_with_leeway_def system_checked_add_def split: option.splits if_splits)

text \<open>The debug output does not depend on the tokens, nor on the key beyond its thumbprint.\<close>

lemma debug_session_redacts:
  "debug_session L (s\<lparr>os_access_token := a, os_refresh_token := map_option f (os_refresh_token s)\<rparr>)
     = debug_session L s"
  by (simp add: debug_session_def option.map_comp o_def)

section \<open>Properties\<close>

text \<open>Session expiry fails closed.  A session that the server gives a lifetime expires exactly that
  long after the clock reading, and is refused when the clock cannot represent that time; a rotation
  with such a lifetime marks the session as expired at once.  Only a missing lifetime gives a
  session without expiry.
\<close>

theorem session_expiry_fail_closed:
  "(case OAuthSession_new sub atk rt tt sc ei key pds iss te now of
      Ok s \<Rightarrow> session_ok s \<and> os_expires_at s = map_option (\<lambda>n. now + int (from_secs (unat n))) ei
    | Err e \<Rightarrow> e = AtprotoOAuthError.Token (TokenError.InvalidTokenType tt)
        \<or> (\<exists>n. ei = Some n \<and> now + int (from_secs (unat n)) > system_max))
   \<and> os_expires_at (rotate_tokens_with_scope atk rt ei sc now s0)
       = map_option (\<lambda>n. if now + int (from_secs (unat n)) \<le> system_max then now + int (from_secs (unat n)) else now) ei"
proof -
  have "os_expires_at (rotate_tokens_with_scope atk rt None sc now s0) = None"
    by (simp add: rotate_tokens_with_scope_def Let_def)
  thus ?thesis
    by (cases ei) (auto simp: OAuthSession_new_def session_ok_def rotate_tokens_expiry expiry_of_def
        system_checked_add_def split: result.split)
qed

text \<open>A persisted session passes the checks of the constructor when it is read back, and nothing else
  is changed: reading yields the raw fields exactly when their token type is DPoP and neither subject
  nor access token is blank.
\<close>

theorem deserialize_session_iff:
  "deserialize_session raw_from v = Ok s \<longleftrightarrow>
     raw_from v = Ok s \<and> session_ok s \<and> trim (os_sub s) \<noteq> [] \<and> trim (os_access_token s) \<noteq> []"
  by (auto simp: deserialize_session_def session_ok_def split: if_splits)

end
