(* ===== verification/Client_Base.thy ===== *)
theory Client_Base
  imports Discovery Session
begin

text \<open>
  What the requests of \<open>par.rs\<close> and \<open>client.rs\<close> share: the response of a token endpoint, the
  environment that collects the parameters standing for other crates, the clock readings and random
  bytes of a request, and the steps of a request through the SSRF boundary that keeps the nonce
  cache up to date.  The state of such an operation is the network and the nonce cache.

  \<open>ce_append_pair\<close> is \<open>append_pair\<close> of the form serialiser on the text written so far,
  \<open>ce_urlencode\<close> is \<open>serde_urlencoded\<close>, \<open>ce_query_append\<close> and \<open>ce_set_path\<close> edit a URL, and
  \<open>ce_build_response\<close> is the response builder of the \<open>http\<close> crate.  A request names its target by
  the text of the parsed URL: the client parses the text it is given with the same parser.
\<close>

section \<open>Environment and state\<close>

record TokenResponse =
  tr_access_token :: string
  tr_token_type :: string
  tr_expires_in :: "u64 option"
  tr_refresh_token :: "string option"
  tr_scope :: "string option"
  tr_sub :: string

definition zeroize_token_response :: "TokenResponse \<Rightarrow> TokenResponse" where
  "zeroize_token_response t =
     t\<lparr>tr_access_token := [], tr_refresh_token := map_option (\<lambda>_. []) (tr_refresh_token t)\<rparr>"

text \<open>\<open>into_parts\<close>: subject, access token, refresh token, token type, scope, lifetime.\<close>

definition into_parts ::
  "TokenResponse \<Rightarrow> string \<times> string \<times> string option \<times> string \<times> string option \<times> u64 option" where
  "into_parts t = (tr_sub t, tr_access_token t, tr_refresh_token t, tr_token_type t, tr_scope t, tr_expires_in t)"

definition debug_token_response :: "TokenResponse \<Rightarrow> (string \<times> debug_value) list" where
  "debug_token_response t =
     [(''access_token'', DText ''[REDACTED]''), (''token_type'', DText (tr_token_type t)),
      (''expires_in'', DOption (map_option (\<lambda>n. show_nat (unat n)) (tr_expires_in t))),
      (''refresh_token'', DOption (map_option (\<lambda>_. ''[REDACTED]'') (tr_refresh_token t))),
      (''scope'', DOption (tr_scope t)), (''sub'', DText (tr_sub t))]"

record 'w client_env =
  ce_disco :: "'w disco_env"
  ce_dpop :: dpop_env
  ce_append_pair :: "string \<Rightarrow> string \<Rightarrow> string \<Rightarrow> string"
  ce_urlencode :: "(string \<times> string) list \<Rightarrow> (string, string) result"
  ce_query_append :: "url \<Rightarrow> (string \<times> string) list \<Rightarrow> url"
  ce_set_path :: "url \<Rightarrow> string \<Rightarrow> url"
  ce_build_response ::
    "nat \<Rightarrow> (string \<Rightarrow> (string, string) result list) \<Rightarrow> bytes \<Rightarrow> (http_response, string) result"
  ce_token_from_slice :: "bytes \<Rightarrow> (TokenResponse, string) result"

abbreviation ce_net :: "'w client_env \<Rightarrow> 'w net" where
  "ce_net C \<equiv> de_net (ce_disco C)"

abbreviation ce_json :: "'w client_env \<Rightarrow> bytes \<Rightarrow> (json, string) result" where
  "ce_json C \<equiv> json_from_slice (env_serde (ce_dpop C))"

abbreviation ce_origin :: "'w client_env \<Rightarrow> url \<Rightarrow> string" where
  "ce_origin C \<equiv> de_origin (ce_disco C)"

text \<open>The clock reading and the random bytes of each token that a request may create.\<close>

type_synonym draw = "system_time \<times> bytes"

record draws =
  dr_assertion :: draw
  dr_proof :: draw
  dr_retry_proof :: draw
  dr_retry_assertion :: draw

type_synonym 'w cio = "'w io \<times> DPoPNonceCache"

section \<open>The steps of a request\<close>

definition pinned_client ::
  "'w net \<Rightarrow> SsrfFilter \<Rightarrow> url \<Rightarrow> ('w io, SsrfDnsResolver \<times> string, SsrfError) io_op" where
  "pinned_client N f u s =
     (case build_pinned_client N f u (fst s) (snd s) of
        (p, w, r) \<Rightarrow> ((p, w), try_bind r (\<lambda>(client, _, host_header). Ok (client, host_header))))"

definition http_send ::
  "'w net \<Rightarrow> SsrfDnsResolver \<Rightarrow> http_request \<Rightarrow> ('w io, http_response, string) io_op" where
  "http_send N client req s =
     (case net_send N (dns_resolve N client) req (snd s) of (w, r) \<Rightarrow> ((fst s, w), r))"

definition cache_nonce :: "string \<Rightarrow> http_response \<Rightarrow> DPoPNonceCache \<Rightarrow> DPoPNonceCache" where
  "cache_nonce server_origin resp c =
     (case extract_dpop_nonce (header_text resp ''dpop-nonce'') of
        Some new_nonce \<Rightarrow> set_nonce server_origin new_nonce c
      | None \<Rightarrow> c)"

text \<open>Send a request and keep the nonce of the answer.\<close>

definition send_caching ::
  "'w net \<Rightarrow> SsrfDnsResolver \<Rightarrow> string \<Rightarrow> http_request \<Rightarrow> ('w cio, http_response, string) io_op" where
  "send_caching N client server_origin req =
     io_bind (io_fst (http_send N client req)) (\<lambda>resp s.
       ((fst s, cache_nonce server_origin resp (snd s)), Ok resp))"

text \<open>Sign a proof with the nonce that the cache has for the server.\<close>

definition signed_proof ::
  "dpop_env \<Rightarrow> DPoPKey \<Rightarrow> string \<Rightarrow> string \<Rightarrow> string \<Rightarrow> string option \<Rightarrow> draw
   \<Rightarrow> ('w cio, string, AtprotoOAuthError) io_op" where
  "signed_proof E key htm htu server_origin ath d s =
     (s, map_err AtprotoOAuthError.DPoP
           (create_proof E key htm htu (get_nonce server_origin (snd s)) ath (fst d) (snd d)))"

text \<open>The nonce for a retry, or the error when the challenge brought none.\<close>

definition fresh_nonce :: "string \<Rightarrow> 'e \<Rightarrow> ('w cio, string, 'e) io_op" where
  "fresh_nonce server_origin e s = (s, ok_or e (get_nonce server_origin (snd s)))"

text \<open>The \<open>error\<close> and \<open>error_description\<close> members of a response body.\<close>

definition json_error :: "json option \<Rightarrow> string option" where
  "json_error j = Option.bind j (json_get_str ''error'')"

definition error_fields :: "string \<Rightarrow> json option \<Rightarrow> string \<times> string option" where
  "error_fields default_code j =
     (case json_error j of Some e \<Rightarrow> e | None \<Rightarrow> default_code, Option.bind j (json_get_str ''error_description''))"

definition CLIENT_ASSERTION_TYPE_JWT_BEARER :: string where
  "CLIENT_ASSERTION_TYPE_JWT_BEARER = ''urn:ietf:params:oauth:client-assertion-type:jwt-bearer''"

text \<open>The POST request of a form to an OAuth endpoint.\<close>

definition form_request :: "url \<Rightarrow> string \<Rightarrow> string \<Rightarrow> string \<Rightarrow> http_request" where
  "form_request u host_header proof body = \<lparr> hr_method = ''POST'', hr_url = url_as_str u,
     hr_headers = [(''host'', host_header), (''content-type'', ''application/x-www-form-urlencoded''),
       (''accept'', ''application/json''), (''dpop'', proof)],
     hr_body = Some body \<rparr>"

definition is_bad_request_or_unauthorized :: "nat \<Rightarrow> bool" where
  "is_bad_request_or_unauthorized status = (status = 400 \<or> status = 401)"

section \<open>Lemmas\<close>

lemma pinned_client_Ok:
  assumes "pool_ok (fst s)" "pinned_client N f u s = (s', Ok (client, hh))"
  shows "validate_url f u = Ok ()" "hook_safe f (dns_resolve N client)"
proof -
  obtain p w r where b: "build_pinned_client N f u (fst s) (snd s) = (p, w, r)"
    by (metis prod.collapse)
  then obtain addr where "r = Ok (client, addr, hh)"
    using assms(2) by (auto simp: pinned_client_def)
  from build_pinned_client_props(3) [OF b assms(1) this]
  show "validate_url f u = Ok ()" "hook_safe f (dns_resolve N client)"
    using dns_resolve_safe [of client N] by auto
qed

lemma pinned_client_confined:
  assumes "logs sent f N"
  shows "confined sent ok 0 (pinned_client N f u)"
proof (rule confinedI)
  fix p w p' w' r
  assume p: "pool_ok p" and run: "pinned_client N f u (p, w) = ((p', w'), r)"
  obtain r1 where b: "build_pinned_client N f u p w = (p', w', r1)"
    using run by (auto simp: pinned_client_def split: prod.splits)
  have "sent w' = sent w"
    using build_pinned_client_props(1) [OF b] assms by (auto simp: logs_def)
  thus "pool_ok p' \<and> (\<exists>reqs. sent w' = sent w @ reqs \<and> length reqs \<le> 0 \<and> (\<forall>e \<in> set reqs. ok e))"
    using build_pinned_client_props(2) [OF b p] by simp
qed

lemma http_send_confined:
  assumes "logs sent f N" "hook_safe f (dns_resolve N client)" "ok (True, req)"
  shows "confined sent ok 1 (http_send N client req)"
proof (rule confinedI)
  fix p w p' w' r
  assume "pool_ok p" and "http_send N client req (p, w) = ((p', w'), r)"
  hence "pool_ok p'" "w' = fst (net_send N (dns_resolve N client) req w)"
    by (auto simp: http_send_def split: prod.splits)
  thus "pool_ok p' \<and> (\<exists>reqs. sent w' = sent w @ reqs \<and> length reqs \<le> 1 \<and> (\<forall>e \<in> set reqs. ok e))"
    using assms by (auto simp: logs_def)
qed

text \<open>The same on the state with the nonce cache.\<close>

abbreviation cio_confined ::
  "('w \<Rightarrow> (bool \<times> http_request) list) \<Rightarrow> (bool \<times> http_request \<Rightarrow> bool) \<Rightarrow> nat \<Rightarrow> ('w cio, 'a, 'e) io_op \<Rightarrow> bool" where
  "cio_confined \<equiv> confined_on (\<lambda>s. fst s)"

lemma send_caching_confined:
  assumes "logs sent f N" "hook_safe f (dns_resolve N client)" "ok (True, req)"
  shows "cio_confined sent ok 1 (send_caching N client origin req)"
  unfolding send_caching_def
  by (rule confined_bind_pure [OF confined_fst [OF http_send_confined [of sent f N client ok req]]])
    (auto simp: assms intro: confined_silent)

lemmas send_caching_confined_Suc = send_caching_confined [unfolded One_nat_def]

text \<open>A request through the boundary: the continuation may send to the URL with a safe hook.\<close>

lemma pinned_then:
  assumes log: "logs sent f N"
    and cont: "\<And>client hh. validate_url f u = Ok () \<Longrightarrow> hook_safe f (dns_resolve N client)
      \<Longrightarrow> cio_confined sent ok n (c (client, hh))"
  shows "cio_confined sent ok n (io_bind (io_fst (io_map_err g (pinned_client N f u))) c)"
proof -
  have "cio_confined sent ok 0 (io_fst (io_map_err g (pinned_client N f u)) :: ('a cio, _, _) io_op)"
    by (rule confined_fst) (simp add: pinned_client_confined [OF log])
  moreover have "cio_confined sent ok n (c a)"
    if "pool_ok (fst (fst s))" "io_fst (io_map_err g (pinned_client N f u)) s = (s', Ok a)" for s s' a
    using that cont pinned_client_Ok [of "fst s" N f u "fst s'" "fst a" "snd a"] by (cases a) auto
  ultimately have "cio_confined sent ok (0 + n) (io_bind (io_fst (io_map_err g (pinned_client N f u))) c)"
    by (rule confined_bind_post)
  thus ?thesis
    by simp
qed

lemma signed_proof_fst [simp]: "fst (signed_proof E key m h origin ath d s) = s"
  by (simp add: signed_proof_def)

lemma fresh_nonce_fst [simp]: "fst (fresh_nonce origin e s) = s"
  by (simp add: fresh_nonce_def)

lemma signed_proof_Ok:
  "signed_proof E key m h origin ath d s = (s', Ok p) \<longleftrightarrow>
     s' = s \<and> create_proof E key m h (get_nonce origin (snd s)) ath (fst d) (snd d) = Ok p"
  by (auto simp: signed_proof_def)

lemma fresh_nonce_Ok: "fresh_nonce origin e s = (s', Ok n) \<longleftrightarrow> s' = s \<and> get_nonce origin (snd s) = Some n"
  by (auto simp: fresh_nonce_def)

lemma send_caching_Ok:
  "send_caching N client origin req s = (s', Ok resp) \<longleftrightarrow>
     http_send N client req (fst s) = (fst s', Ok resp) \<and> snd s' = cache_nonce origin resp (snd s)"
  by (cases s') (auto simp: send_caching_def)

lemma get_nonce_cache_nonce:
  assumes "header_text resp ''dpop-nonce'' = Some n" "trim n \<noteq> []"
  shows "get_nonce origin (cache_nonce origin resp c) = Some (trim n)"
  using assms by (simp add: cache_nonce_def extract_dpop_nonce_def get_nonce_def set_nonce_def Let_def)

end
