(* ===== verification/Par.thy ===== *)
theory Par
  imports Client_Base
begin

text \<open>
  Pushed authorization requests (\<open>par.rs\<close>): the parameters and their form encoding, the request
  with its single retry on a nonce challenge, the checks of the answer, and the URL that the browser
  is sent to.
\<close>

section \<open>Parameters\<close>

record ParParameters =
  par_client_id :: string
  par_redirect_uri :: string
  par_scope :: string
  par_state :: string
  par_code_challenge :: string
  par_code_challenge_method :: string
  par_response_type :: string
  par_login_hint :: "string option"
  par_client_assertion_type :: "string option"
  par_client_assertion :: "string option"

definition ParParameters_new :: "string \<Rightarrow> string \<Rightarrow> string \<Rightarrow> string \<Rightarrow> string \<Rightarrow> ParParameters" where
  "ParParameters_new client_id redirect_uri scope state code_challenge =
     \<lparr> par_client_id = client_id, par_redirect_uri = redirect_uri, par_scope = scope,
       par_state = state, par_code_challenge = code_challenge, par_code_challenge_method = ''S256'',
       par_response_type = ''code'', par_login_hint = None, par_client_assertion_type = None,
       par_client_assertion = None \<rparr>"

definition with_login_hint :: "string \<Rightarrow> ParParameters \<Rightarrow> ParParameters" where
  "with_login_hint login_hint p = p\<lparr>par_login_hint := Some login_hint\<rparr>"

definition with_client_assertion :: "string \<Rightarrow> string \<Rightarrow> ParParameters \<Rightarrow> ParParameters" where
  "with_client_assertion assertion_type assertion p =
     p\<lparr>par_client_assertion_type := Some assertion_type, par_client_assertion := Some assertion\<rparr>"

definition debug_par_parameters :: "ParParameters \<Rightarrow> (string \<times> debug_value) list" where
  "debug_par_parameters p =
     [(''client_id'', DText (par_client_id p)), (''redirect_uri'', DText (par_redirect_uri p)),
      (''scope'', DText (par_scope p)), (''state'', DText (par_state p)),
      (''code_challenge'', DText (par_code_challenge p)),
      (''code_challenge_method'', DText (par_code_challenge_method p)),
      (''response_type'', DText (par_response_type p)), (''login_hint'', DOption (par_login_hint p)),
      (''client_assertion_type'', DOption (par_client_assertion_type p)),
      (''client_assertion'', DOption (map_option (\<lambda>_. ''[REDACTED]'') (par_client_assertion p)))]"

text \<open>The pairs that \<open>encode_pairs\<close> appends, in order.\<close>

definition encode_pairs :: "ParParameters \<Rightarrow> (string \<times> string) list" where
  "encode_pairs p =
     [(''client_id'', par_client_id p), (''response_type'', par_response_type p),
      (''redirect_uri'', par_redirect_uri p), (''scope'', par_scope p), (''state'', par_state p),
      (''code_challenge'', par_code_challenge p),
      (''code_challenge_method'', par_code_challenge_method p)]
     @ (case par_login_hint p of Some hint \<Rightarrow> [(''login_hint'', hint)] | None \<Rightarrow> [])
     @ (case par_client_assertion_type p of Some cat \<Rightarrow> [(''client_assertion_type'', cat)] | None \<Rightarrow> [])
     @ (case par_client_assertion p of Some ca \<Rightarrow> [(''client_assertion'', ca)] | None \<Rightarrow> [])"

definition to_form_urlencoded :: "(string \<Rightarrow> string \<Rightarrow> string \<Rightarrow> string) \<Rightarrow> ParParameters \<Rightarrow> string" where
  "to_form_urlencoded append_pair p = foldl (\<lambda>acc (k, v). append_pair acc k v) [] (encode_pairs p)"

record ParResponse =
  pr_request_uri :: string
  pr_expires_in :: u64

definition build_authorization_url ::
  "'w client_env \<Rightarrow> string \<Rightarrow> string \<Rightarrow> string \<Rightarrow> (url, AtprotoOAuthError) result" where
  "build_authorization_url C authorization_endpoint client_id request_uri =
     try_bind (map_err (\<lambda>e. AtprotoOAuthError.Par (ParError.InvalidEndpoint
       (''Invalid authorization endpoint '' @ sq authorization_endpoint @ '': '' @ e)))
       (net_url (ce_net C) authorization_endpoint)) (\<lambda>u.
     Ok (ce_query_append C u [(''client_id'', client_id), (''request_uri'', request_uri)]))"

section \<open>The answer\<close>

definition parse_par_response ::
  "(bytes \<Rightarrow> (json, string) result) \<Rightarrow> bytes \<Rightarrow> (ParResponse, AtprotoOAuthError) result" where
  "parse_par_response from_json bs =
     try_bind (map_err (\<lambda>e. AtprotoOAuthError.Par (ParError.Json e)) (from_json bs)) (\<lambda>parsed.
     try_bind (ok_or (AtprotoOAuthError.Par (ParError.MissingField ''request_uri''))
       (json_get_str ''request_uri'' parsed)) (\<lambda>request_uri.
     try_bind (require (trim request_uri \<noteq> [])
       (AtprotoOAuthError.Par (ParError.InvalidRequestUri ''Empty request_uri''))) (\<lambda>_.
     try_bind (ok_or (AtprotoOAuthError.Par (ParError.MissingField ''expires_in''))
       (Option.bind (json_get ''expires_in'' parsed) json_as_u64)) (\<lambda>expires_in.
     Ok \<lparr> pr_request_uri = request_uri, pr_expires_in = expires_in \<rparr>))))"

definition parse_par_error_fields :: "json option \<Rightarrow> string \<times> string option" where
  "parse_par_error_fields j = error_fields ''par_request_failed'' j"

definition par_request_failed :: "nat \<Rightarrow> json option \<Rightarrow> AtprotoOAuthError" where
  "par_request_failed status j =
     (let (error_code, error_desc) = parse_par_error_fields j in
      AtprotoOAuthError.Par (ParError.RequestFailed status error_code error_desc))"

definition par_redirect_error :: "nat \<Rightarrow> AtprotoOAuthError" where
  "par_redirect_error status = AtprotoOAuthError.Par (ParError.RequestFailed status ''invalid_request''
     (Some ''Redirects are not permitted for PAR endpoints''))"

definition read_par_body :: "http_response \<Rightarrow> (bytes, AtprotoOAuthError) result" where
  "read_par_body resp =
     map_err (\<lambda>e. AtprotoOAuthError.Par (ParError.Http (show_SsrfError e)))
       (read_bounded_body resp MAX_OAUTH_RESPONSE_BYTES)"

text \<open>A successful answer, to the first request or to the retry.\<close>

definition par_accept :: "'w client_env \<Rightarrow> http_response \<Rightarrow> (ParResponse, AtprotoOAuthError) result" where
  "par_accept C resp =
     try_bind (map_err (\<lambda>e. AtprotoOAuthError.Par (ParError.DPoP e)) (require_dpop_nonce (header_text resp))) (\<lambda>_.
     try_bind (read_par_body resp) (\<lambda>body_bytes.
     parse_par_response (ce_json C) body_bytes))"

definition par_retry_outcome :: "'w client_env \<Rightarrow> http_response \<Rightarrow> (ParResponse, AtprotoOAuthError) result" where
  "par_retry_outcome C resp =
     (if is_redirection (resp_status resp) then Err (par_redirect_error (resp_status resp))
      else if is_success (resp_status resp) then par_accept C resp
      else try_bind (read_par_body resp) (\<lambda>err_bytes.
        let err_json = ok_opt (ce_json C err_bytes) in
        if json_error err_json = Some ''use_dpop_nonce''
        then Err (AtprotoOAuthError.DPoP DPoPError.NonceRetryLimitExceeded)
        else Err (par_request_failed (resp_status resp) err_json)))"

section \<open>The request\<close>

definition par_form_body ::
  "'w client_env \<Rightarrow> ParParameters \<Rightarrow> (DPoPKey \<times> string) option \<Rightarrow> draw \<Rightarrow> (string, AtprotoOAuthError) result" where
  "par_form_body C params client_auth d =
     (case client_auth of
        Some (ckey, aud) \<Rightarrow>
          try_bind (map_err AtprotoOAuthError.DPoP
            (create_client_assertion (ce_dpop C) ckey (par_client_id params) aud (fst d) (snd d))) (\<lambda>assertion.
          Ok (to_form_urlencoded (ce_append_pair C)
            (with_client_assertion CLIENT_ASSERTION_TYPE_JWT_BEARER assertion params)))
      | None \<Rightarrow> Ok (to_form_urlencoded (ce_append_pair C) params))"

definition par_retry ::
  "'w client_env \<Rightarrow> SsrfFilter \<Rightarrow> string \<Rightarrow> url \<Rightarrow> ParParameters \<Rightarrow> DPoPKey \<Rightarrow> (DPoPKey \<times> string) option
   \<Rightarrow> draws \<Rightarrow> nat \<Rightarrow> ('w cio, ParResponse, AtprotoOAuthError) io_op" where
  "par_retry C f par_endpoint u params key client_auth d status =
     (let N = ce_net C; server_origin = ce_origin C u in
      io_bind (fresh_nonce server_origin (AtprotoOAuthError.Par (ParError.RequestFailed status ''use_dpop_nonce''
        (Some ''Missing DPoP-Nonce header in challenge response'')))) (\<lambda>nonce.
      io_bind (io_lift (map_err AtprotoOAuthError.DPoP (create_proof (ce_dpop C) key ''POST'' par_endpoint
        (Some nonce) None (fst (dr_retry_proof d)) (snd (dr_retry_proof d))))) (\<lambda>retry_proof.
      io_bind (io_lift (par_form_body C params client_auth (dr_retry_assertion d))) (\<lambda>retry_form_body.
      io_bind (io_fst (io_map_err (\<lambda>e. AtprotoOAuthError.Par (ParError.Ssrf e)) (pinned_client N f u)))
        (\<lambda>(retry_client, retry_host_header).
      io_bind (io_map_err (\<lambda>e. AtprotoOAuthError.Par (ParError.Http e))
        (send_caching N retry_client server_origin (form_request u retry_host_header retry_proof retry_form_body)))
        (\<lambda>retry_resp.
      io_lift (par_retry_outcome C retry_resp)))))))"

definition execute_par_request_with_client_key ::
  "'w client_env \<Rightarrow> SsrfFilter \<Rightarrow> string \<Rightarrow> ParParameters \<Rightarrow> DPoPKey \<Rightarrow> (DPoPKey \<times> string) option \<Rightarrow> draws
   \<Rightarrow> ('w cio, ParResponse, AtprotoOAuthError) io_op" where
  "execute_par_request_with_client_key C f par_endpoint params key client_auth d =
     (let N = ce_net C in
      io_bind (io_lift (map_err (\<lambda>e. AtprotoOAuthError.Par (ParError.InvalidEndpoint
        (''Invalid PAR endpoint URL '' @ sq par_endpoint @ '': '' @ e))) (net_url N par_endpoint))) (\<lambda>u.
      let server_origin = ce_origin C u in
      io_bind (io_fst (io_map_err (\<lambda>e. AtprotoOAuthError.Par (ParError.Ssrf e)) (pinned_client N f u)))
        (\<lambda>(client, host_header).
      io_bind (io_lift (par_form_body C params client_auth (dr_assertion d))) (\<lambda>form_body.
      io_bind (signed_proof (ce_dpop C) key ''POST'' par_endpoint server_origin None (dr_proof d)) (\<lambda>proof.
      io_bind (io_map_err (\<lambda>e. AtprotoOAuthError.Par (ParError.Http e))
        (send_caching N client server_origin (form_request u host_header proof form_body))) (\<lambda>resp.
      if is_redirection (resp_status resp) then io_lift (Err (par_redirect_error (resp_status resp)))
      else if is_bad_request_or_unauthorized (resp_status resp) then
        io_bind (io_lift (read_par_body resp)) (\<lambda>resp_bytes.
        let json_err = ok_opt (ce_json C resp_bytes) in
        if json_error json_err = Some ''use_dpop_nonce''
        then par_retry C f par_endpoint u params key client_auth d (resp_status resp)
        else io_lift (Err (par_request_failed (resp_status resp) json_err)))
      else if \<not> is_success (resp_status resp) then
        io_bind (io_lift (read_par_body resp)) (\<lambda>err_bytes.
        io_lift (Err (par_request_failed (resp_status resp) (ok_opt (ce_json C err_bytes)))))
      else io_lift (par_accept C resp)))))))"

definition execute_par_request ::
  "'w client_env \<Rightarrow> SsrfFilter \<Rightarrow> string \<Rightarrow> ParParameters \<Rightarrow> DPoPKey \<Rightarrow> draws
   \<Rightarrow> ('w cio, ParResponse, AtprotoOAuthError) io_op" where
  "execute_par_request C f par_endpoint params key d =
     execute_par_request_with_client_key C f par_endpoint params key None d"

section \<open>Lemmas\<close>

lemma parse_par_response_Ok:
  "parse_par_response from_json bs = Ok r \<longleftrightarrow>
     (\<exists>j. from_json bs = Ok j \<and> json_get_str ''request_uri'' j = Some (pr_request_uri r)
        \<and> trim (pr_request_uri r) \<noteq> []
        \<and> Option.bind (json_get ''expires_in'' j) json_as_u64 = Some (pr_expires_in r))"
  by (cases r) (auto simp: parse_par_response_def)

lemma par_accept_Ok:
  "par_accept C resp = Ok r \<longleftrightarrow>
     (\<exists>bs. require_dpop_nonce (header_text resp) = Ok () \<and> read_bounded_body resp MAX_OAUTH_RESPONSE_BYTES = Ok bs
        \<and> parse_par_response (ce_json C) bs = Ok r)"
  by (auto simp: par_accept_def read_par_body_def)

lemma par_retry_outcome_Ok:
  "par_retry_outcome C resp = Ok r \<longleftrightarrow> is_success (resp_status resp) \<and> par_accept C resp = Ok r"
  by (auto simp: par_retry_outcome_def is_success_def is_redirection_def Let_def split: if_splits)

text \<open>Encoding keeps every parameter: the pairs determine them.\<close>

lemma encode_pairs_inj:
  assumes "encode_pairs p = encode_pairs q"
  shows "p = q"
  using assms
  by (cases p; cases q) (auto simp: encode_pairs_def split: option.splits)

text \<open>A request of the form that \<open>par.rs\<close> and \<open>client.rs\<close> send to an OAuth endpoint: through a
  safe hook to the admitted URL of the endpoint, with a proof that the key signs for that target.\<close>

definition endpoint_request ::
  "'w client_env \<Rightarrow> SsrfFilter \<Rightarrow> DPoPKey \<Rightarrow> string \<Rightarrow> bool \<times> http_request \<Rightarrow> bool" where
  "endpoint_request C f key endpoint e =
     (fst e \<and> (\<exists>u host_header proof body nonce now jti.
        net_url (ce_net C) endpoint = Ok u \<and> validate_url f u = Ok ()
        \<and> snd e = form_request u host_header proof body
        \<and> create_proof (ce_dpop C) key ''POST'' endpoint nonce None now jti = Ok proof))"

lemma endpoint_requestI:
  "net_url (ce_net C) endpoint = Ok u \<Longrightarrow> validate_url f u = Ok ()
   \<Longrightarrow> create_proof (ce_dpop C) key ''POST'' endpoint nonce None now jti = Ok proof
   \<Longrightarrow> endpoint_request C f key endpoint (True, form_request u host_header proof body)"
  unfolding endpoint_request_def by (intro conjI exI) simp_all

lemma par_retry_confined:
  assumes log: "logs sent f (ce_net C)" and u: "net_url (ce_net C) par_endpoint = Ok u"
  shows "cio_confined sent (endpoint_request C f key par_endpoint) 1
    (par_retry C f par_endpoint u params key client_auth d status)"
  unfolding par_retry_def Let_def
  by (rule confined_bind_silent, simp, rule confined_bind_lift, rule confined_bind_lift, rule pinned_then [OF log])
    (auto simp: u intro!: confined_bind_pure send_caching_confined_Suc [OF log] endpoint_requestI)

lemma execute_par_request_confined:
  assumes log: "logs sent f (ce_net C)"
  shows "cio_confined sent (endpoint_request C f key par_endpoint) 2
    (execute_par_request_with_client_key C f par_endpoint params key client_auth d)"
proof -
  note retry = par_retry_confined [OF log, unfolded One_nat_def]
  have "cio_confined sent (endpoint_request C f key par_endpoint) (1 + 1)
    (execute_par_request_with_client_key C f par_endpoint params key client_auth d)"
    unfolding execute_par_request_with_client_key_def Let_def
    apply (rule confined_bind_lift, rule pinned_then [OF log], simp only: prod.case, rule confined_bind_lift,
        rule confined_bind_silent, simp, rule confined_bind)
     apply (auto simp: signed_proof_Ok intro!: send_caching_confined_Suc [OF log] endpoint_requestI) []
    apply (auto intro!: confined_bind_lift retry)
    done
  thus ?thesis
    by (simp add: numeral_2_eq_2)
qed

end
