(* ===== verification/Nsid.thy ===== *)
theory Nsid
  imports Errors
begin

text \<open>
  The grammar kernel for XRPC method identifiers (\<open>kernels/nsid_bytes.rs\<close>).  \<open>char\<close>s outside ASCII
  are several bytes here, each above 127, and fail the same tests.
\<close>

definition NSID_MAX_LENGTH :: nat where
  "NSID_MAX_LENGTH = 317"

definition NSID_MAX_SEGMENT_LENGTH :: nat where
  "NSID_MAX_SEGMENT_LENGTH = 63"

definition NSID_MIN_SEGMENTS :: nat where
  "NSID_MIN_SEGMENTS = 3"

definition segment_ok :: "string \<Rightarrow> bool" where
  "segment_ok seg =
     (\<not> (seg = [] \<or> length seg > NSID_MAX_SEGMENT_LENGTH \<or> starts_with seg ''-'' \<or> ends_with seg ''-''
         \<or> \<not> list_all (\<lambda>c. is_ascii_alphanumeric c \<or> c = CHR ''-'') seg))"

definition first_is_letter :: "string \<Rightarrow> bool" where
  "first_is_letter seg = (case seg of c # _ \<Rightarrow> is_ascii_alphabetic c | [] \<Rightarrow> False)"

definition is_valid_nsid :: "string \<Rightarrow> bool" where
  "is_valid_nsid nsid =
     (let trimmed = trim_start_matches (CHR ''/'') nsid in
      if trimmed = [] \<or> length trimmed > NSID_MAX_LENGTH then False
      else if contains_str trimmed ''..'' \<or> contains_char trimmed (CHR 0x5C) \<or> contains_char trimmed (CHR ''%'')
      then False
      else
        (let segments = split_on (CHR ''.'') trimmed in
         if length segments < NSID_MIN_SEGMENTS then False
         else if \<not> list_all segment_ok segments then False
         else if \<not> first_is_letter (hd segments) then False
         else (let name = last segments in
               if \<not> first_is_letter name \<or> list_ex (\<lambda>c. \<not> is_ascii_alphanumeric c) name then False
               else True)))"

definition validate_xrpc_nsid :: "string \<Rightarrow> (unit, TokenError) result" where
  "validate_xrpc_nsid nsid =
     (if is_valid_nsid nsid then Ok () else Err (TokenError.InvalidNsid nsid))"

section \<open>Lemmas\<close>

lemma double_dot_split:
  "contains_str s ''..'' \<Longrightarrow> [] \<in> set (tl (split_on (CHR ''.'') s))"
proof (induction s)
  case (Cons x xs)
  obtain y ys where ys: "split_on (CHR ''.'') xs = y # ys"
    using split_on_nonempty [of "CHR ''.''" xs] by (cases "split_on (CHR ''.'') xs") auto
  show ?case
  proof (cases "contains_str xs ''..''")
    case True
    thus ?thesis
      using Cons.IH ys by simp
  next
    case False
    then obtain zs where "x = CHR ''.''" "xs = CHR ''.'' # zs"
      using Cons.prems by (cases xs) (auto simp: starts_with_def)
    thus ?thesis
      by simp
  qed
qed simp

lemma not_alnum:
  "\<not> is_ascii_alphanumeric (CHR ''.'')" "\<not> is_ascii_alphanumeric (CHR 0x5C)" "\<not> is_ascii_alphanumeric (CHR ''%'')"
  by (simp_all add: ascii_simps code_def)

text \<open>The characters of an accepted identifier after its leading slashes: nothing that a URL path
  would interpret.\<close>

lemma is_valid_nsid_chars:
  assumes "is_valid_nsid nsid"
  shows "\<forall>c \<in> set (trim_start_matches (CHR ''/'') nsid). is_ascii_alphanumeric c \<or> c = CHR ''-'' \<or> c = CHR ''.''"
proof
  fix c
  assume c: "c \<in> set (trim_start_matches (CHR ''/'') nsid)"
  have segs: "list_all segment_ok (split_on (CHR ''.'') (trim_start_matches (CHR ''/'') nsid))"
    using assms by (auto simp: is_valid_nsid_def Let_def split: if_splits)
  show "is_ascii_alphanumeric c \<or> c = CHR ''-'' \<or> c = CHR ''.''"
  proof (cases "c = CHR ''.''")
    case False
    with c obtain seg where "seg \<in> set (split_on (CHR ''.'') (trim_start_matches (CHR ''/'') nsid))" "c \<in> set seg"
      using in_split_on by blast
    with segs show ?thesis
      by (auto simp: list_all_iff segment_ok_def)
  qed simp
qed

lemma segment_ok_iff:
  "segment_ok seg \<longleftrightarrow> 1 \<le> length seg \<and> length seg \<le> 63 \<and> hd seg \<noteq> CHR ''-'' \<and> last seg \<noteq> CHR ''-''
     \<and> list_all (\<lambda>c. is_ascii_alphanumeric c \<or> c = CHR ''-'') seg"
proof (cases seg rule: rev_cases)
  case (snoc xs x)
  thus ?thesis
    by (cases xs) (auto simp: segment_ok_def NSID_MAX_SEGMENT_LENGTH_def starts_with_iff ends_with_iff)
qed (simp add: segment_ok_def)

lemma first_is_letter_iff: "seg \<noteq> [] \<Longrightarrow> first_is_letter seg \<longleftrightarrow> is_ascii_alphabetic (hd seg)"
  by (cases seg) (simp_all add: first_is_letter_def)

lemma nsid_ends:
  assumes "list_all segment_ok segs" "3 \<le> length segs"
  shows "first_is_letter (hd segs) \<longleftrightarrow> is_ascii_alphabetic (hd (hd segs))"
    "first_is_letter (last segs) \<longleftrightarrow> is_ascii_alphabetic (hd (last segs))"
proof -
  have "segs \<noteq> []"
    using assms(2) by auto
  hence "segment_ok (hd segs)" "segment_ok (last segs)"
    using assms(1) by (simp_all add: list_all_iff)
  thus "first_is_letter (hd segs) \<longleftrightarrow> is_ascii_alphabetic (hd (hd segs))"
    "first_is_letter (last segs) \<longleftrightarrow> is_ascii_alphabetic (hd (last segs))"
    by (auto simp: segment_ok_iff intro!: first_is_letter_iff)
qed

lemma nsid_grammar:
  "is_valid_nsid nsid \<longleftrightarrow>
     (\<exists>segs. trim_start_matches (CHR ''/'') nsid = join_with ''.'' segs
        \<and> length (join_with ''.'' segs) \<le> 317 \<and> 3 \<le> length segs \<and> list_all segment_ok segs
        \<and> first_is_letter (hd segs) \<and> first_is_letter (last segs)
        \<and> list_all is_ascii_alphanumeric (last segs))" (is "?l = ?r")
proof
  let ?t = "trim_start_matches (CHR ''/'') nsid"
  assume ?l
  thus ?r
    by (intro exI [of _ "split_on (CHR ''.'') ?t"])
      (auto simp: is_valid_nsid_def Let_def join_split_on NSID_MAX_LENGTH_def NSID_MIN_SEGMENTS_def
        list_all_iff list_ex_iff split: if_splits)
next
  let ?t = "trim_start_matches (CHR ''/'') nsid"
  assume ?r
  then obtain segs where s: "?t = join_with ''.'' segs" "length ?t \<le> 317" "3 \<le> length segs"
    "list_all segment_ok segs" "first_is_letter (hd segs)" "first_is_letter (last segs)"
    "list_all is_ascii_alphanumeric (last segs)"
    by auto
  have chars: "c \<noteq> CHR ''.''" if "seg \<in> set segs" "c \<in> set seg" for seg c
    using that s(4) not_alnum(1) by (auto simp: list_all_iff segment_ok_def)
  hence "\<forall>seg \<in> set segs. CHR ''.'' \<notin> set seg" "segs \<noteq> []"
    using s(3) by auto
  hence segs: "split_on (CHR ''.'') ?t = segs"
    using s(1) split_on_join [of segs "CHR ''.''"] by simp
  have "[] \<notin> set segs"
    using s(4) by (auto simp: list_all_iff segment_ok_def)
  hence dd: "\<not> contains_str ?t ''..''"
    using double_dot_split [of ?t] segs by (cases segs) auto
  have "is_ascii_alphanumeric c \<or> c = CHR ''-'' \<or> c = CHR ''.''" if "c \<in> set ?t" for c
  proof (cases "c = CHR ''.''")
    case False
    with in_split_on [OF that] segs s(4) show ?thesis
      by (auto simp: list_all_iff segment_ok_def)
  qed simp
  hence "CHR 0x5C \<notin> set ?t" "CHR ''%'' \<notin> set ?t"
    using not_alnum(2,3) by auto
  moreover have "?t \<noteq> []"
    using segs s(3) by auto
  ultimately show ?l
    using s(2-) dd by (simp add: is_valid_nsid_def Let_def segs contains_char_def NSID_MAX_LENGTH_def
        NSID_MIN_SEGMENTS_def list_all_iff list_ex_iff)
qed

text \<open>C38: the kernel accepts exactly this grammar.  After leading slashes, the identifier has at most
  317 bytes and is a dotted list of at least three segments, each of one to 63 letters, digits or
  hyphens with no hyphen at either end; the first segment starts with a letter, and the last one
  starts with a letter and has no hyphen.
\<close>

theorem is_valid_nsid_grammar:
  "is_valid_nsid nsid \<longleftrightarrow>
     (\<exists>segs. trim_start_matches (CHR ''/'') nsid = join_with ''.'' segs
        \<and> length (join_with ''.'' segs) \<le> 317 \<and> 3 \<le> length segs
        \<and> list_all (\<lambda>seg. 1 \<le> length seg \<and> length seg \<le> 63 \<and> hd seg \<noteq> CHR ''-'' \<and> last seg \<noteq> CHR ''-''
             \<and> list_all (\<lambda>c. is_ascii_alphanumeric c \<or> c = CHR ''-'') seg) segs
        \<and> is_ascii_alphabetic (hd (hd segs)) \<and> is_ascii_alphabetic (hd (last segs))
        \<and> list_all is_ascii_alphanumeric (last segs))"
proof -
  have ok: "segment_ok = (\<lambda>seg. 1 \<le> length seg \<and> length seg \<le> 63 \<and> hd seg \<noteq> CHR ''-'' \<and> last seg \<noteq> CHR ''-''
      \<and> list_all (\<lambda>c. is_ascii_alphanumeric c \<or> c = CHR ''-'') seg)"
    by (rule ext) (rule segment_ok_iff)
  show ?thesis
    unfolding nsid_grammar ok [symmetric] by (rule iff_exI) (metis nsid_ends)
qed

end
