(* ===== verification/Token_Request.thy ===== *)
theory Token_Request
  imports Par Nsid
begin

text \<open>
  The DPoP-bound requests of \<open>client.rs\<close>: requests to a token endpoint, arbitrary authenticated
  requests and XRPC calls, each with a single retry on a nonce challenge.
\<close>

section \<open>Reading an error answer\<close>

definition parse_oauth_error_fields :: "json option \<Rightarrow> string \<times> string option" where
  "parse_oauth_error_fields j = error_fields ''token_request_failed'' j"

definition is_use_dpop_nonce_error :: "json option \<Rightarrow> bool" where
  "is_use_dpop_nonce_error j = (json_error j = Some ''use_dpop_nonce'')"

text \<open>One parameter of a challenge: \<open>error="use_dpop_nonce"\<close>.\<close>

definition is_nonce_param :: "string \<Rightarrow> bool" where
  "is_nonce_param param =
     (case split_once_str ''='' (trim param) of
        None \<Rightarrow> False
      | Some (key, val) \<Rightarrow>
          if \<not> eq_ignore_ascii_case (trim key) ''error'' then False
          else eq_ignore_ascii_case (trim_matches (CHR 0x22) (trim val)) ''use_dpop_nonce'')"

definition is_nonce_challenge_value :: "string \<Rightarrow> bool" where
  "is_nonce_challenge_value challenge =
     (let challenge = trim challenge in
      if CHR '' '' \<notin> set challenge then False
      else
        (let scheme = takeWhile (\<lambda>c. c \<noteq> CHR '' '') challenge;
             rest = dropWhile (\<lambda>c. c \<noteq> CHR '' '') challenge
         in if \<not> eq_ignore_ascii_case scheme ''DPoP'' then False
            else list_ex is_nonce_param (split_on (CHR '','') (trim_start rest))))"

definition is_rs_dpop_nonce_challenge :: "http_response \<Rightarrow> bool" where
  "is_rs_dpop_nonce_challenge resp =
     list_ex is_nonce_challenge_value (List.map_filter ok_opt (resp_headers resp ''www-authenticate''))"

definition read_token_body :: "http_response \<Rightarrow> (bytes, AtprotoOAuthError) result" where
  "read_token_body resp =
     map_err (\<lambda>e. AtprotoOAuthError.Token (TokenError.Http (show_SsrfError e)))
       (read_bounded_body resp MAX_OAUTH_RESPONSE_BYTES)"

definition read_bounded_json :: "'w client_env \<Rightarrow> http_response \<Rightarrow> (json option, AtprotoOAuthError) result" where
  "read_bounded_json C resp = try_bind (read_token_body resp) (\<lambda>bs. Ok (ok_opt (ce_json C bs)))"

definition token_request_failed :: "nat \<Rightarrow> json option \<Rightarrow> AtprotoOAuthError" where
  "token_request_failed status j =
     (let (error_code, error_desc) = parse_oauth_error_fields j in
      AtprotoOAuthError.Token (TokenError.RequestFailed status error_code error_desc))"

definition token_redirect_error :: "nat \<Rightarrow> AtprotoOAuthError" where
  "token_redirect_error status = AtprotoOAuthError.Token (TokenError.RequestFailed status ''invalid_request''
     (Some ''Redirects are not permitted for token endpoints''))"

section \<open>Token endpoint\<close>

definition build_token_form_body ::
  "'w client_env \<Rightarrow> string \<Rightarrow> (DPoPKey \<times> string \<times> string) option \<Rightarrow> draw \<Rightarrow> (string, AtprotoOAuthError) result" where
  "build_token_form_body C base_form_body client_auth d =
     (case client_auth of
        Some (ckey, client_id, audience) \<Rightarrow>
          try_bind (map_err AtprotoOAuthError.DPoP
            (create_client_assertion (ce_dpop C) ckey client_id audience (fst d) (snd d))) (\<lambda>assertion.
          let form = ce_append_pair C base_form_body ''client_assertion_type'' CLIENT_ASSERTION_TYPE_JWT_BEARER
          in Ok (ce_append_pair C form ''client_assertion'' assertion))
      | None \<Rightarrow> Ok base_form_body)"

text \<open>A successful answer, to the first request or to the retry.\<close>

definition token_accept :: "'w client_env \<Rightarrow> http_response \<Rightarrow> (TokenResponse, AtprotoOAuthError) result" where
  "token_accept C resp =
     try_bind (map_err (\<lambda>e. AtprotoOAuthError.Token (TokenError.DPoP e)) (require_dpop_nonce (header_text resp))) (\<lambda>_.
     try_bind (read_token_body resp) (\<lambda>bs.
     map_err (\<lambda>e. AtprotoOAuthError.Token (TokenError.Json e)) (ce_token_from_slice C bs)))"

definition token_retry_outcome :: "'w client_env \<Rightarrow> http_response \<Rightarrow> (TokenResponse, AtprotoOAuthError) result" where
  "token_retry_outcome C resp =
     (if is_redirection (resp_status resp) then Err (token_redirect_error (resp_status resp))
      else if is_success (resp_status resp) then token_accept C resp
      else try_bind (read_bounded_json C resp) (\<lambda>err_json.
        if is_use_dpop_nonce_error err_json
        then Err (AtprotoOAuthError.DPoP DPoPError.NonceRetryLimitExceeded)
        else Err (token_request_failed (resp_status resp) err_json)))"

definition token_retry ::
  "'w client_env \<Rightarrow> SsrfFilter \<Rightarrow> string \<Rightarrow> url \<Rightarrow> DPoPKey \<Rightarrow> string \<Rightarrow> (DPoPKey \<times> string \<times> string) option
   \<Rightarrow> draws \<Rightarrow> nat \<Rightarrow> ('w cio, TokenResponse, AtprotoOAuthError) io_op" where
  "token_retry C f token_endpoint u key base_form_body client_auth d status =
     (let N = ce_net C; server_origin = ce_origin C u in
      io_bind (fresh_nonce server_origin (AtprotoOAuthError.Token (TokenError.RequestFailed status ''use_dpop_nonce''
        (Some ''Missing DPoP-Nonce header in challenge response'')))) (\<lambda>nonce.
      io_bind (io_lift (map_err AtprotoOAuthError.DPoP (create_proof (ce_dpop C) key ''POST'' token_endpoint
        (Some nonce) None (fst (dr_retry_proof d)) (snd (dr_retry_proof d))))) (\<lambda>retry_proof.
      io_bind (io_lift (build_token_form_body C base_form_body client_auth (dr_retry_assertion d))) (\<lambda>retry_body.
      io_bind (io_fst (io_map_err (\<lambda>e. AtprotoOAuthError.Token (TokenError.Ssrf e)) (pinned_client N f u)))
        (\<lambda>(retry_client, retry_host_header).
      io_bind (io_map_err (\<lambda>e. AtprotoOAuthError.Token (TokenError.Http e))
        (send_caching N retry_client server_origin (form_request u retry_host_header retry_proof retry_body)))
        (\<lambda>retry_resp.
      io_lift (token_retry_outcome C retry_resp)))))))"

definition send_dpop_token_request_inner ::
  "'w client_env \<Rightarrow> SsrfFilter \<Rightarrow> string \<Rightarrow> DPoPKey \<Rightarrow> string \<Rightarrow> (DPoPKey \<times> string \<times> string) option \<Rightarrow> draws
   \<Rightarrow> ('w cio, TokenResponse, AtprotoOAuthError) io_op" where
  "send_dpop_token_request_inner C f token_endpoint key base_form_body client_auth d =
     (let N = ce_net C in
      io_bind (io_lift (map_err (\<lambda>e. AtprotoOAuthError.Token (TokenError.Http
        (''Invalid token endpoint URL '' @ sq token_endpoint @ '': '' @ e))) (net_url N token_endpoint))) (\<lambda>u.
      let server_origin = ce_origin C u in
      io_bind (io_fst (io_map_err (\<lambda>e. AtprotoOAuthError.Token (TokenError.Ssrf e)) (pinned_client N f u)))
        (\<lambda>(client, host_header).
      io_bind (io_lift (build_token_form_body C base_form_body client_auth (dr_assertion d))) (\<lambda>body_bytes.
      io_bind (signed_proof (ce_dpop C) key ''POST'' token_endpoint server_origin None (dr_proof d)) (\<lambda>proof.
      io_bind (io_map_err (\<lambda>e. AtprotoOAuthError.Token (TokenError.Http e))
        (send_caching N client server_origin (form_request u host_header proof body_bytes))) (\<lambda>resp.
      if is_redirection (resp_status resp) then io_lift (Err (token_redirect_error (resp_status resp)))
      else if is_bad_request_or_unauthorized (resp_status resp) then
        io_bind (io_lift (read_bounded_json C resp)) (\<lambda>json_err.
        if is_use_dpop_nonce_error json_err
        then token_retry C f token_endpoint u key base_form_body client_auth d (resp_status resp)
        else io_lift (Err (token_request_failed (resp_status resp) json_err)))
      else if \<not> is_success (resp_status resp) then
        io_bind (io_lift (read_bounded_json C resp)) (\<lambda>err_json.
        io_lift (Err (token_request_failed (resp_status resp) err_json)))
      else io_lift (token_accept C resp)))))))"

section \<open>Authenticated requests\<close>

definition dpop_request ::
  "string \<Rightarrow> url \<Rightarrow> string \<Rightarrow> string \<Rightarrow> string option \<Rightarrow> string option \<Rightarrow> string option \<Rightarrow> http_request" where
  "dpop_request method u host_header proof access_token content_type body = \<lparr> hr_method = method,
     hr_url = url_as_str u,
     hr_headers = [(''host'', host_header), (''dpop'', proof)]
       @ (case access_token of Some token \<Rightarrow> [(''authorization'', ''DPoP '' @ token)] | None \<Rightarrow> [])
       @ (case content_type of Some ct \<Rightarrow> [(''content-type'', ct)] | None \<Rightarrow> []),
     hr_body = body \<rparr>"

text \<open>A 400 or 401 answer is a nonce challenge (\<open>None\<close>), or it goes back to the caller, rebuilt from
  the buffered body.\<close>

definition challenge_or_rebuilt ::
  "'w client_env \<Rightarrow> http_response \<Rightarrow> (http_response option, AtprotoOAuthError) result" where
  "challenge_or_rebuilt C resp =
     (if is_rs_dpop_nonce_challenge resp then Ok None
      else try_bind (read_token_body resp) (\<lambda>bs.
        if is_use_dpop_nonce_error (ok_opt (ce_json C bs)) then Ok None
        else try_bind (map_err (\<lambda>e. AtprotoOAuthError.Token (TokenError.Http (''Failed to rebuild response: '' @ e)))
          (ce_build_response C (resp_status resp) (resp_headers resp) bs)) (\<lambda>rebuilt. Ok (Some rebuilt))))"

definition require_nonce_header :: "http_response \<Rightarrow> (unit, AtprotoOAuthError) result" where
  "require_nonce_header resp = map_err AtprotoOAuthError.DPoP (require_dpop_nonce (header_text resp))"

definition dpop_retry_outcome :: "'w client_env \<Rightarrow> http_response \<Rightarrow> (http_response, AtprotoOAuthError) result" where
  "dpop_retry_outcome C resp =
     (if is_bad_request_or_unauthorized (resp_status resp) then
        try_bind (challenge_or_rebuilt C resp) (\<lambda>r.
        case r of
          None \<Rightarrow> Err (AtprotoOAuthError.DPoP DPoPError.NonceRetryLimitExceeded)
        | Some rebuilt \<Rightarrow> Ok rebuilt)
      else if is_success (resp_status resp) then
        try_bind (require_nonce_header resp) (\<lambda>_. Ok resp)
      else Ok resp)"

definition dpop_retry ::
  "'w client_env \<Rightarrow> SsrfFilter \<Rightarrow> DPoPKey \<Rightarrow> string \<Rightarrow> string \<Rightarrow> url \<Rightarrow> string option \<Rightarrow> string option
   \<Rightarrow> string option \<Rightarrow> draws \<Rightarrow> nat \<Rightarrow> ('w cio, http_response, AtprotoOAuthError) io_op" where
  "dpop_retry C f key method url_str u access_token body content_type d status =
     (let N = ce_net C; server_origin = ce_origin C u;
          ath = map_option (compute_access_token_hash (env_crypto (ce_dpop C))) access_token in
      io_bind (fresh_nonce server_origin (AtprotoOAuthError.Token (TokenError.RequestFailed status ''use_dpop_nonce''
        (Some ''Missing DPoP-Nonce header'')))) (\<lambda>nonce.
      io_bind (io_lift (map_err AtprotoOAuthError.DPoP (create_proof (ce_dpop C) key method url_str
        (Some nonce) ath (fst (dr_retry_proof d)) (snd (dr_retry_proof d))))) (\<lambda>retry_proof.
      io_bind (io_fst (io_map_err (\<lambda>e. AtprotoOAuthError.Token (TokenError.Ssrf e)) (pinned_client N f u)))
        (\<lambda>(retry_client, retry_host_header).
      io_bind (io_map_err (\<lambda>e. AtprotoOAuthError.Token (TokenError.Http e))
        (send_caching N retry_client server_origin
          (dpop_request method u retry_host_header retry_proof access_token content_type body))) (\<lambda>retry_resp.
      io_lift (dpop_retry_outcome C retry_resp))))))"

definition send_dpop_request ::
  "'w client_env \<Rightarrow> SsrfFilter \<Rightarrow> DPoPKey \<Rightarrow> string \<Rightarrow> string \<Rightarrow> string option \<Rightarrow> string option
   \<Rightarrow> string option \<Rightarrow> draws \<Rightarrow> ('w cio, http_response, AtprotoOAuthError) io_op" where
  "send_dpop_request C f key method url_str access_token body content_type d =
     (let N = ce_net C in
      io_bind (io_lift (map_err (\<lambda>e. AtprotoOAuthError.Token (TokenError.Http
        (''Invalid URL '' @ sq url_str @ '': '' @ e))) (net_url N url_str))) (\<lambda>u.
      let server_origin = ce_origin C u;
          ath = map_option (compute_access_token_hash (env_crypto (ce_dpop C))) access_token in
      io_bind (io_fst (io_map_err (\<lambda>e. AtprotoOAuthError.Token (TokenError.Ssrf e)) (pinned_client N f u)))
        (\<lambda>(client, host_header).
      io_bind (signed_proof (ce_dpop C) key method url_str server_origin ath (dr_proof d)) (\<lambda>proof.
      io_bind (io_map_err (\<lambda>e. AtprotoOAuthError.Token (TokenError.Http e))
        (send_caching N client server_origin
          (dpop_request method u host_header proof access_token content_type body))) (\<lambda>resp.
      if is_bad_request_or_unauthorized (resp_status resp) then
        io_bind (io_lift (challenge_or_rebuilt C resp)) (\<lambda>r.
        case r of
          Some rebuilt \<Rightarrow> io_lift (Ok rebuilt)
        | None \<Rightarrow> dpop_retry C f key method url_str u access_token body content_type d (resp_status resp))
      else io_bind (io_lift (require_nonce_header resp)) (\<lambda>_. io_lift (Ok resp)))))))"

definition xrpc_path :: "url \<Rightarrow> string \<Rightarrow> string" where
  "xrpc_path u nsid =
     trim_end_matches (CHR ''/'') (url_path u) @ ''/xrpc/'' @ trim_start_matches (CHR ''/'') nsid"

definition send_xrpc_request ::
  "'w client_env \<Rightarrow> SsrfFilter \<Rightarrow> OAuthSession \<Rightarrow> string \<Rightarrow> (string \<times> string) list \<Rightarrow> draws
   \<Rightarrow> ('w cio, http_response, AtprotoOAuthError) io_op" where
  "send_xrpc_request C f session nsid query_params d =
     io_bind (io_lift (map_err AtprotoOAuthError.Token (validate_xrpc_nsid nsid))) (\<lambda>_.
     io_bind (io_lift (ok_or (AtprotoOAuthError.Token (TokenError.MissingField ''pds_endpoint''))
       (os_pds_endpoint session))) (\<lambda>pds_endpoint.
     io_bind (io_lift (map_err (\<lambda>e. AtprotoOAuthError.Token (TokenError.Http (''Invalid PDS endpoint: '' @ e)))
       (net_url (ce_net C) pds_endpoint))) (\<lambda>u.
     let u = ce_set_path C u (xrpc_path u nsid);
         u = (if query_params \<noteq> [] then ce_query_append C u query_params else u)
     in send_dpop_request C f (os_dpop_key session) ''GET'' (url_as_str u) (Some (os_access_token session)) None None d)))"

section \<open>Lemmas\<close>

lemma read_token_body_Ok [simp]:
  "read_token_body resp = Ok bs \<longleftrightarrow> read_bounded_body resp MAX_OAUTH_RESPONSE_BYTES = Ok bs"
  by (simp add: read_token_body_def)

lemma read_bounded_json_Ok:
  "read_bounded_json C resp = Ok j \<longleftrightarrow>
     (\<exists>bs. read_bounded_body resp MAX_OAUTH_RESPONSE_BYTES = Ok bs \<and> j = ok_opt (ce_json C bs))"
  by (auto simp: read_bounded_json_def)

lemma token_accept_Ok:
  "token_accept C resp = Ok r \<longleftrightarrow>
     (\<exists>bs. require_dpop_nonce (header_text resp) = Ok () \<and> read_bounded_body resp MAX_OAUTH_RESPONSE_BYTES = Ok bs
        \<and> ce_token_from_slice C bs = Ok r)"
  by (auto simp: token_accept_def)

lemma token_retry_outcome_Ok:
  "token_retry_outcome C resp = Ok r \<longleftrightarrow> is_success (resp_status resp) \<and> token_accept C resp = Ok r"
  by (auto simp: token_retry_outcome_def is_success_def is_redirection_def split: if_splits)

lemma token_retry_confined:
  assumes log: "logs sent f (ce_net C)" and u: "net_url (ce_net C) token_endpoint = Ok u"
  shows "cio_confined sent (endpoint_request C f key token_endpoint) 1
    (token_retry C f token_endpoint u key base client_auth d status)"
  unfolding token_retry_def Let_def
  by (rule confined_bind_silent, simp, rule confined_bind_lift, rule confined_bind_lift, rule pinned_then [OF log])
    (auto simp: u intro!: confined_bind_pure send_caching_confined_Suc [OF log] endpoint_requestI)

lemma token_request_confined:
  assumes log: "logs sent f (ce_net C)"
  shows "cio_confined sent (endpoint_request C f key token_endpoint) 2
    (send_dpop_token_request_inner C f token_endpoint key base client_auth d)"
proof -
  note retry = token_retry_confined [OF log, unfolded One_nat_def]
  have "cio_confined sent (endpoint_request C f key token_endpoint) (1 + 1)
    (send_dpop_token_request_inner C f token_endpoint key base client_auth d)"
    unfolding send_dpop_token_request_inner_def Let_def
    apply (rule confined_bind_lift, rule pinned_then [OF log], simp only: prod.case, rule confined_bind_lift,
        rule confined_bind_silent, simp, rule confined_bind)
     apply (auto simp: signed_proof_Ok intro!: send_caching_confined_Suc [OF log] endpoint_requestI) []
    apply (auto intro!: confined_bind_lift retry)
    done
  thus ?thesis
    by (simp add: numeral_2_eq_2)
qed

text \<open>A request with the access token: through a safe hook to the admitted URL, with a proof that
  the key signs for that method, target and token.\<close>

definition bound_request ::
  "'w client_env \<Rightarrow> SsrfFilter \<Rightarrow> DPoPKey \<Rightarrow> string \<Rightarrow> string \<Rightarrow> string option \<Rightarrow> bool \<times> http_request \<Rightarrow> bool" where
  "bound_request C f key method url_str access_token e =
     (fst e \<and> (\<exists>u host_header proof ct body nonce now jti.
        net_url (ce_net C) url_str = Ok u \<and> validate_url f u = Ok ()
        \<and> snd e = dpop_request method u host_header proof access_token ct body
        \<and> create_proof (ce_dpop C) key method url_str nonce
            (map_option (compute_access_token_hash (env_crypto (ce_dpop C))) access_token) now jti = Ok proof))"

lemma bound_requestI:
  "net_url (ce_net C) url_str = Ok u \<Longrightarrow> validate_url f u = Ok ()
   \<Longrightarrow> create_proof (ce_dpop C) key method url_str nonce
        (map_option (compute_access_token_hash (env_crypto (ce_dpop C))) access_token) now jti = Ok proof
   \<Longrightarrow> bound_request C f key method url_str access_token
        (True, dpop_request method u host_header proof access_token ct body)"
  unfolding bound_request_def by (intro conjI exI) simp_all

lemma dpop_retry_confined:
  assumes log: "logs sent f (ce_net C)" and u: "net_url (ce_net C) url_str = Ok u"
  shows "cio_confined sent (bound_request C f key method url_str access_token) 1
    (dpop_retry C f key method url_str u access_token body ct d status)"
  unfolding dpop_retry_def Let_def
  by (rule confined_bind_silent, simp, rule confined_bind_lift, rule pinned_then [OF log])
    (auto simp: u intro!: confined_bind_pure send_caching_confined_Suc [OF log] bound_requestI)

lemma dpop_request_confined:
  assumes log: "logs sent f (ce_net C)"
  shows "cio_confined sent (bound_request C f key method url_str access_token) 2
    (send_dpop_request C f key method url_str access_token body ct d)"
proof -
  note retry = dpop_retry_confined [OF log, unfolded One_nat_def]
  have "cio_confined sent (bound_request C f key method url_str access_token) (1 + 1)
    (send_dpop_request C f key method url_str access_token body ct d)"
    unfolding send_dpop_request_def Let_def
    apply (rule confined_bind_lift, rule pinned_then [OF log], simp only: prod.case,
        rule confined_bind_silent, simp, rule confined_bind)
     apply (auto simp: signed_proof_Ok intro!: send_caching_confined_Suc [OF log] bound_requestI) []
    apply (auto intro!: confined_bind_lift retry split: option.split)
    done
  thus ?thesis
    by (simp add: numeral_2_eq_2)
qed

end
