(* ===== verification/Client.thy ===== *)
theory Client
  imports Token_Request State_Store Pkce
begin

text \<open>
  The client of \<open>client.rs\<close>: metadata, the builder, login, callback, code exchange and refresh.  The
  fields of \<open>AtprotoOAuthClient\<close> that never change are the record of that name; the nonce cache and
  the state store, which clones of a client share, are part of the state of the operations.  Clock
  readings and random bytes are arguments.  The table of refresh locks is in \<open>Single_Flight\<close>.
\<close>

section \<open>Metadata\<close>

record OAuthClientMetadata =
  cm_client_id :: string
  cm_redirect_uri :: string
  cm_scope :: string
  cm_client_name :: "string option"
  cm_client_key :: "DPoPKey option"

definition OAuthClientMetadata_new :: "string \<Rightarrow> string \<Rightarrow> OAuthClientMetadata" where
  "OAuthClientMetadata_new client_id redirect_uri = \<lparr> cm_client_id = client_id,
     cm_redirect_uri = redirect_uri, cm_scope = ''atproto'', cm_client_name = None, cm_client_key = None \<rparr>"

definition with_scope :: "string \<Rightarrow> OAuthClientMetadata \<Rightarrow> OAuthClientMetadata" where
  "with_scope scope m = m\<lparr>cm_scope := scope\<rparr>"

definition with_client_name :: "string \<Rightarrow> OAuthClientMetadata \<Rightarrow> OAuthClientMetadata" where
  "with_client_name name m = m\<lparr>cm_client_name := Some name\<rparr>"

definition with_client_key :: "DPoPKey \<Rightarrow> OAuthClientMetadata \<Rightarrow> OAuthClientMetadata" where
  "with_client_key key m = m\<lparr>cm_client_key := Some key\<rparr>"

definition is_confidential :: "OAuthClientMetadata \<Rightarrow> bool" where
  "is_confidential m = (cm_client_key m \<noteq> None)"

definition metadata_to_json :: "crypto_lib \<Rightarrow> OAuthClientMetadata \<Rightarrow> json" where
  "metadata_to_json L m =
     (let payload = [''client_id'' \<mapsto> JString (cm_client_id m)];
          payload = (case cm_client_name m of
                       Some name \<Rightarrow> payload(''client_name'' \<mapsto> JString name) | None \<Rightarrow> payload);
          payload = payload(''client_uri'' \<mapsto> JString (cm_client_id m),
                            ''redirect_uris'' \<mapsto> JArray [JString (cm_redirect_uri m)],
                            ''grant_types'' \<mapsto> JArray [JString ''authorization_code'', JString ''refresh_token''],
                            ''response_types'' \<mapsto> JArray [JString ''code''],
                            ''scope'' \<mapsto> JString (cm_scope m));
          payload = (case cm_client_key m of
                       Some key \<Rightarrow> payload(''token_endpoint_auth_method'' \<mapsto> JString ''private_key_jwt'',
                                          ''token_endpoint_auth_signing_alg'' \<mapsto> JString ''ES256'',
                                          ''jwks'' \<mapsto> JObject [''keys'' \<mapsto> JArray [public_client_jwk L key]])
                     | None \<Rightarrow> payload(''token_endpoint_auth_method'' \<mapsto> JString ''none''))
      in JObject (payload(''dpop_bound_access_tokens'' \<mapsto> JBool True)))"

text \<open>What the debug output shows of metadata and of a stored entry.\<close>

definition debug_metadata :: "crypto_lib \<Rightarrow> OAuthClientMetadata \<Rightarrow> (string \<times> debug_value) list" where
  "debug_metadata L m =
     [(''client_id'', DText (cm_client_id m)), (''redirect_uri'', DText (cm_redirect_uri m)),
      (''scope'', DText (cm_scope m)), (''client_name'', DOption (cm_client_name m)),
      (''client_key'', DOption (map_option (jwk_thumbprint L) (cm_client_key m)))]"

definition debug_entry :: "crypto_lib \<Rightarrow> StoredStateEntry \<Rightarrow> (string \<times> debug_value) list" where
  "debug_entry L e =
     [(''state'', DText (sse_state e)), (''client_id'', DText (sse_client_id e)),
      (''code_verifier'', DText ''[REDACTED]''),
      (''dpop_key'', DKeyThumbprint (jwk_thumbprint L (sse_dpop_key e))), (''issuer'', DText (sse_issuer e)),
      (''did'', DOption (sse_did e)), (''handle'', DOption (sse_handle e)),
      (''redirect_uri'', DText (sse_redirect_uri e)), (''pds_endpoint'', DText (sse_pds_endpoint e)),
      (''token_endpoint'', DText (sse_token_endpoint e)), (''scopes'', DText (sse_scopes e)),
      (''created_at'', DTime (Some (sse_created_at e))),
      (''expires_in_secs'', DText (show_nat (unat (sse_expires_in_secs e))))]"

section \<open>The client and its builder\<close>

record 'w AtprotoOAuthClient =
  cl_metadata :: OAuthClientMetadata
  cl_resolver :: "'w IdentityResolver"
  cl_ssrf_filter :: SsrfFilter
  cl_state_ttl :: duration

text \<open>A client with the shared parts it starts with.\<close>

definition AtprotoOAuthClient_new ::
  "string \<Rightarrow> string \<Rightarrow> 'w AtprotoOAuthClient \<times> DPoPNonceCache \<times> OAuthStateStore" where
  "AtprotoOAuthClient_new client_id redirect_uri =
     (let f = SsrfFilter_new False in
      (\<lparr> cl_metadata = OAuthClientMetadata_new client_id redirect_uri,
         cl_resolver = idb_build (idb_set_ssrf_filter f IdentityResolverBuilder_default),
         cl_ssrf_filter = f, cl_state_ttl = DEFAULT_STATE_TTL \<rparr>,
       DPoPNonceCache_new, OAuthStateStore_default))"

record 'w AtprotoOAuthClientBuilder =
  cb_metadata :: "OAuthClientMetadata option"
  cb_resolver :: "'w IdentityResolver option"
  cb_nonce_cache :: "DPoPNonceCache option"
  cb_ssrf_filter :: SsrfFilter
  cb_state_store :: "OAuthStateStore option"
  cb_state_ttl :: duration

definition client_builder_new :: "'w AtprotoOAuthClientBuilder" where
  "client_builder_new = \<lparr> cb_metadata = None, cb_resolver = None, cb_nonce_cache = None,
     cb_ssrf_filter = SsrfFilter_new False, cb_state_store = None, cb_state_ttl = DEFAULT_STATE_TTL \<rparr>"

definition cb_set_metadata :: "OAuthClientMetadata \<Rightarrow> 'w AtprotoOAuthClientBuilder \<Rightarrow> 'w AtprotoOAuthClientBuilder" where
  "cb_set_metadata m b = b\<lparr>cb_metadata := Some m\<rparr>"

definition cb_set_resolver :: "'w IdentityResolver \<Rightarrow> 'w AtprotoOAuthClientBuilder \<Rightarrow> 'w AtprotoOAuthClientBuilder" where
  "cb_set_resolver r b = b\<lparr>cb_resolver := Some r\<rparr>"

definition cb_set_nonce_cache :: "DPoPNonceCache \<Rightarrow> 'w AtprotoOAuthClientBuilder \<Rightarrow> 'w AtprotoOAuthClientBuilder" where
  "cb_set_nonce_cache c b = b\<lparr>cb_nonce_cache := Some c\<rparr>"

definition cb_set_ssrf_filter :: "SsrfFilter \<Rightarrow> 'w AtprotoOAuthClientBuilder \<Rightarrow> 'w AtprotoOAuthClientBuilder" where
  "cb_set_ssrf_filter f b = b\<lparr>cb_ssrf_filter := f\<rparr>"

definition cb_allow_insecure_localhost :: "bool \<Rightarrow> 'w AtprotoOAuthClientBuilder \<Rightarrow> 'w AtprotoOAuthClientBuilder" where
  "cb_allow_insecure_localhost allow b =
     b\<lparr>cb_ssrf_filter := (cb_ssrf_filter b)\<lparr>allow_insecure_localhost := allow\<rparr>\<rparr>"

definition cb_set_state_store :: "OAuthStateStore \<Rightarrow> 'w AtprotoOAuthClientBuilder \<Rightarrow> 'w AtprotoOAuthClientBuilder" where
  "cb_set_state_store s b = b\<lparr>cb_state_store := Some s\<rparr>"

definition cb_set_state_ttl :: "duration \<Rightarrow> 'w AtprotoOAuthClientBuilder \<Rightarrow> 'w AtprotoOAuthClientBuilder" where
  "cb_set_state_ttl ttl b = b\<lparr>cb_state_ttl := ttl\<rparr>"

text \<open>The last component is the interval of the pruning task, when one is started: for a store that
  the builder created, inside a runtime.\<close>

definition build_client ::
  "bool \<Rightarrow> 'w AtprotoOAuthClientBuilder
   \<Rightarrow> ('w AtprotoOAuthClient \<times> DPoPNonceCache \<times> OAuthStateStore \<times> duration option, AtprotoOAuthError) result" where
  "build_client in_runtime b =
     (if cb_state_ttl b mod nanos_per_sec \<noteq> 0
      then Err (AtprotoOAuthError.Token (TokenError.InvalidStateTtl (cb_state_ttl b)))
      else
        try_bind (ok_or (AtprotoOAuthError.Par (ParError.MissingField ''client_metadata'')) (cb_metadata b)) (\<lambda>m.
        let resolver = (case cb_resolver b of
              Some r \<Rightarrow> r
            | None \<Rightarrow> idb_build (idb_set_ssrf_filter (cb_ssrf_filter b) IdentityResolverBuilder_default));
            cache = (case cb_nonce_cache b of Some c \<Rightarrow> c | None \<Rightarrow> DPoPNonceCache_new);
            store = (case cb_state_store b of Some s \<Rightarrow> s | None \<Rightarrow> OAuthStateStore_new (cb_state_ttl b));
            pruner = (if cb_state_store b = None \<and> in_runtime
                      then Some (max (cb_state_ttl b) (from_secs 60)) else None)
        in Ok (\<lparr> cl_metadata = m, cl_resolver = resolver, cl_ssrf_filter = cb_ssrf_filter b,
                 cl_state_ttl = cb_state_ttl b \<rparr>, cache, store, pruner)))"

section \<open>Login\<close>

record OAuthLoginPreview =
  lp_did :: string
  lp_handle :: "string option"
  lp_pds_endpoint :: string
  lp_pds_host :: string
  lp_auth_server_issuer :: string
  lp_auth_server_host :: string
  lp_authorization_endpoint :: string

definition preview_login ::
  "'w client_env \<Rightarrow> 'w AtprotoOAuthClient \<Rightarrow> string \<Rightarrow> ('w io, OAuthLoginPreview, AtprotoOAuthError) io_op" where
  "preview_login C A handle_or_did =
     io_bind (io_map_err AtprotoOAuthError.Discovery
       (discover_oauth_endpoints (ce_disco C) (cl_resolver A) handle_or_did)) (\<lambda>endpoints.
     let parse = net_url (ce_net C) in
     io_lift (Ok \<lparr> lp_did = dae_did endpoints, lp_handle = dae_handle endpoints,
       lp_pds_endpoint = dae_pds_endpoint endpoints,
       lp_pds_host = (case pds_host parse endpoints of Some h \<Rightarrow> h | None \<Rightarrow> dae_pds_endpoint endpoints),
       lp_auth_server_issuer = dae_auth_server_issuer endpoints,
       lp_auth_server_host = (case auth_server_host parse endpoints of
          Some h \<Rightarrow> h | None \<Rightarrow> dae_auth_server_issuer endpoints),
       lp_authorization_endpoint = dae_authorization_endpoint endpoints \<rparr>))"

record AuthorizationRequest =
  ar_authorization_url :: url
  ar_state :: string
  ar_request_uri :: string
  ar_expires_in :: u64
  ar_stored_state :: StoredStateEntry

text \<open>The random bytes of the verifier, of the state token and of the key, the readings of the PAR
  request, the creation time of the entry, and the two clock readings of its insertion.\<close>

record login_draws =
  ld_pkce :: bytes
  ld_state :: bytes
  ld_key :: signing_key
  ld_par :: draws
  ld_created :: system_time
  ld_insert :: "instant \<times> instant"

type_synonym 'w cstate = "'w cio \<times> OAuthStateStore"

definition login_params ::
  "OAuthClientMetadata \<Rightarrow> DiscoveredAuthEndpoints \<Rightarrow> string \<Rightarrow> string \<Rightarrow> PkcePair \<Rightarrow> ParParameters" where
  "login_params m endpoints scope state pkce =
     (let params = ParParameters_new (cm_client_id m) (cm_redirect_uri m) scope state (pkce_challenge pkce) in
      case dae_handle endpoints of
        Some handle \<Rightarrow> with_login_hint handle params
      | None \<Rightarrow> with_login_hint (dae_did endpoints) params)"

definition login_entry ::
  "'w AtprotoOAuthClient \<Rightarrow> DiscoveredAuthEndpoints \<Rightarrow> string \<Rightarrow> string \<Rightarrow> PkcePair \<Rightarrow> DPoPKey \<Rightarrow> system_time
   \<Rightarrow> StoredStateEntry" where
  "login_entry A endpoints scope state pkce key now =
     \<lparr> sse_state = state, sse_client_id = cm_client_id (cl_metadata A), sse_code_verifier = pkce_verifier pkce,
       sse_dpop_key = key, sse_issuer = dae_auth_server_issuer endpoints, sse_did = Some (dae_did endpoints),
       sse_handle = dae_handle endpoints, sse_redirect_uri = cm_redirect_uri (cl_metadata A),
       sse_pds_endpoint = dae_pds_endpoint endpoints, sse_token_endpoint = dae_token_endpoint endpoints,
       sse_scopes = scope, sse_created_at = now, sse_expires_in_secs = secs64 (cl_state_ttl A) \<rparr>"

text \<open>Everything before the entry is stored.\<close>

definition prepare_login ::
  "'w client_env \<Rightarrow> 'w AtprotoOAuthClient \<Rightarrow> string \<Rightarrow> string \<Rightarrow> login_draws
   \<Rightarrow> ('w cio, AuthorizationRequest, AtprotoOAuthError) io_op" where
  "prepare_login C A handle_or_did scope ld =
     io_bind (io_fst (io_map_err AtprotoOAuthError.Discovery
       (discover_oauth_endpoints (ce_disco C) (cl_resolver A) handle_or_did))) (\<lambda>endpoints.
     let L = env_crypto (ce_dpop C);
         pkce = generate_pkce L (ld_pkce ld);
         state = base64url_encode L (ld_state ld);
         key = generate_key (ld_key ld);
         client_auth = map_option (\<lambda>k. (k, dae_auth_server_issuer endpoints)) (cm_client_key (cl_metadata A))
     in io_bind (execute_par_request_with_client_key C (cl_ssrf_filter A) (dae_par_endpoint endpoints)
          (login_params (cl_metadata A) endpoints scope state pkce) key client_auth (ld_par ld)) (\<lambda>par_res.
        io_bind (io_lift (build_authorization_url C (dae_authorization_endpoint endpoints)
          (cm_client_id (cl_metadata A)) (pr_request_uri par_res))) (\<lambda>auth_url.
        io_lift (Ok \<lparr> ar_authorization_url = auth_url, ar_state = state,
          ar_request_uri = pr_request_uri par_res, ar_expires_in = pr_expires_in par_res,
          ar_stored_state = login_entry A endpoints scope state pkce key (ld_created ld) \<rparr>))))"

text \<open>\<open>None\<close> is the panic of an insertion near the end of the clock.\<close>

definition initiate_login_with_scope ::
  "'w client_env \<Rightarrow> (string \<Rightarrow> u64) \<Rightarrow> 'w AtprotoOAuthClient \<Rightarrow> string \<Rightarrow> string \<Rightarrow> login_draws \<Rightarrow> 'w cstate
   \<Rightarrow> ('w cstate \<times> (AuthorizationRequest \<times> StoredStateEntry, AtprotoOAuthError) result) option" where
  "initiate_login_with_scope C h A handle_or_did scope ld s =
     (case prepare_login C A handle_or_did scope ld (fst s) of
        (c, Err e) \<Rightarrow> Some ((c, snd s), Err e)
      | (c, Ok auth_req) \<Rightarrow>
          (case insert_state_sync h (ar_state auth_req) (ar_stored_state auth_req) (cl_state_ttl A)
                  (fst (ld_insert ld)) (snd (ld_insert ld)) (snd s) of
             None \<Rightarrow> None
           | Some (store, r) \<Rightarrow>
               Some ((c, store), try_bind (map_err AtprotoOAuthError.Store r) (\<lambda>_.
                 Ok (auth_req, ar_stored_state auth_req)))))"

definition initiate_login ::
  "'w client_env \<Rightarrow> (string \<Rightarrow> u64) \<Rightarrow> 'w AtprotoOAuthClient \<Rightarrow> string \<Rightarrow> login_draws \<Rightarrow> 'w cstate
   \<Rightarrow> ('w cstate \<times> (AuthorizationRequest \<times> StoredStateEntry, AtprotoOAuthError) result) option" where
  "initiate_login C h A handle_or_did ld s =
     initiate_login_with_scope C h A handle_or_did (cm_scope (cl_metadata A)) ld s"

definition authorize ::
  "'w client_env \<Rightarrow> (string \<Rightarrow> u64) \<Rightarrow> 'w AtprotoOAuthClient \<Rightarrow> string \<Rightarrow> login_draws \<Rightarrow> 'w cstate
   \<Rightarrow> ('w cstate \<times> (AuthorizationRequest, AtprotoOAuthError) result) option" where
  "authorize C h A handle_or_did ld s =
     map_option (\<lambda>(s', r). (s', try_bind r (\<lambda>(req, _). Ok req))) (initiate_login C h A handle_or_did ld s)"

section \<open>Code exchange and callback\<close>

record CallbackParams =
  cp_code :: string
  cp_state :: string
  cp_iss :: "string option"

definition CallbackParams_new :: "string \<Rightarrow> string \<Rightarrow> CallbackParams" where
  "CallbackParams_new auth_code state = \<lparr> cp_code = auth_code, cp_state = state, cp_iss = None \<rparr>"

definition with_iss :: "string \<Rightarrow> CallbackParams \<Rightarrow> CallbackParams" where
  "with_iss iss p = p\<lparr>cp_iss := Some iss\<rparr>"

definition has_atproto :: "string \<Rightarrow> bool" where
  "has_atproto scope = list_ex (\<lambda>s. s = ''atproto'') (split_whitespace scope)"

text \<open>The checks on the answer to a code exchange.\<close>

definition check_exchange :: "StoredStateEntry \<Rightarrow> TokenResponse \<Rightarrow> (unit, TokenError) result" where
  "check_exchange entry t =
     try_bind (require (eq_ignore_ascii_case (tr_token_type t) ''DPoP'')
       (TokenError.InvalidTokenType (tr_token_type t))) (\<lambda>_.
     try_bind (require (trim (tr_sub t) \<noteq> []) TokenError.MissingDid) (\<lambda>_.
     try_bind (case sse_did entry of
         Some expected_did \<Rightarrow> if tr_sub t \<noteq> expected_did then Err (TokenError.SubMismatch expected_did (tr_sub t)) else Ok ()
       | None \<Rightarrow> Ok ()) (\<lambda>_.
     try_bind (ok_or TokenError.MissingScope (tr_scope t)) (\<lambda>scope_str.
     require (has_atproto scope_str) (TokenError.MissingAtprotoScope scope_str)))))"

definition exchange_code ::
  "'w client_env \<Rightarrow> 'w AtprotoOAuthClient \<Rightarrow> string \<Rightarrow> StoredStateEntry \<Rightarrow> draws \<Rightarrow> system_time
   \<Rightarrow> ('w cio, OAuthSession, AtprotoOAuthError) io_op" where
  "exchange_code C A auth_code entry d now =
     io_bind (io_lift (map_err (\<lambda>e. AtprotoOAuthError.Token (TokenError.Http e))
       (ce_urlencode C [(''grant_type'', ''authorization_code''), (''code'', auth_code),
          (''redirect_uri'', sse_redirect_uri entry), (''client_id'', sse_client_id entry),
          (''code_verifier'', sse_code_verifier entry)]))) (\<lambda>form_body.
     let client_auth = map_option (\<lambda>k. (k, sse_client_id entry, sse_issuer entry)) (cm_client_key (cl_metadata A))
     in io_bind (send_dpop_token_request_inner C (cl_ssrf_filter A) (sse_token_endpoint entry)
          (sse_dpop_key entry) form_body client_auth d) (\<lambda>resp_json.
        io_bind (io_lift (map_err AtprotoOAuthError.Token (check_exchange entry resp_json))) (\<lambda>_.
        let (sub, access_token, refresh_token, token_type, scope, expires_in) = into_parts resp_json
        in io_lift (OAuthSession_new sub access_token refresh_token token_type scope expires_in
             (sse_dpop_key entry) (Some (sse_pds_endpoint entry)) (Some (sse_issuer entry))
             (Some (sse_token_endpoint entry)) now))))"

definition norm_issuer :: "string \<Rightarrow> string" where
  "norm_issuer iss = trim_end_matches (CHR ''/'') (trim iss)"

text \<open>The clock readings of the expiry check and of the new session.\<close>

record callback_draws =
  cd_take :: instant
  cd_check :: system_time
  cd_exchange :: draws
  cd_session :: system_time

definition check_callback :: "CallbackParams \<Rightarrow> StoredStateEntry \<Rightarrow> system_time \<Rightarrow> (unit, TokenError) result" where
  "check_callback params entry now =
     try_bind (require (cp_state params = sse_state entry) (TokenError.InvalidState
       (''Callback state '' @ sq (cp_state params) @ '' does not match expected state '' @ sq (sse_state entry)))) (\<lambda>_.
     try_bind (require (\<not> entry_is_expired entry now) TokenError.StateExpired) (\<lambda>_.
     try_bind (ok_or TokenError.MissingCallbackIssuer (cp_iss params)) (\<lambda>callback_iss.
     require (norm_issuer callback_iss = norm_issuer (sse_issuer entry))
       (TokenError.IssuerMismatch (sse_issuer entry) callback_iss))))"

definition handle_callback_with_entry ::
  "'w client_env \<Rightarrow> 'w AtprotoOAuthClient \<Rightarrow> CallbackParams \<Rightarrow> StoredStateEntry \<Rightarrow> callback_draws
   \<Rightarrow> ('w cio, OAuthSession, AtprotoOAuthError) io_op" where
  "handle_callback_with_entry C A params entry cd =
     io_bind (io_lift (map_err AtprotoOAuthError.Token (check_callback params entry (cd_check cd)))) (\<lambda>_.
     exchange_code C A (cp_code params) entry (cd_exchange cd) (cd_session cd))"

definition handle_callback ::
  "'w client_env \<Rightarrow> (string \<Rightarrow> u64) \<Rightarrow> 'w AtprotoOAuthClient \<Rightarrow> CallbackParams \<Rightarrow> callback_draws
   \<Rightarrow> ('w cstate, OAuthSession, AtprotoOAuthError) io_op" where
  "handle_callback C h A params cd s =
     (case take_state_sync h (cp_state params) (cd_take cd) (snd s) of
        (store, None) \<Rightarrow> ((fst s, store), Err (AtprotoOAuthError.Token (TokenError.InvalidState
          (''State token '' @ sq (cp_state params) @ '' not found, expired, or already consumed''))))
      | (store, Some entry) \<Rightarrow>
          (case handle_callback_with_entry C A params entry cd (fst s) of (c, r) \<Rightarrow> ((c, store), r)))"

section \<open>Refresh\<close>

text \<open>The checks on the answer to a refresh: type, subject, and a scope that does not grow.\<close>

definition check_refresh :: "OAuthSession \<Rightarrow> TokenResponse \<Rightarrow> (unit, TokenError) result" where
  "check_refresh session t =
     try_bind (require (eq_ignore_ascii_case (tr_token_type t) ''DPoP'')
       (TokenError.InvalidTokenType (tr_token_type t))) (\<lambda>_.
     try_bind (require (tr_sub t \<noteq> []) (TokenError.RequestFailed 200 ''invalid_request''
       (Some ''Refresh response is missing mandatory `sub` claim (review H4: fail-closed)''))) (\<lambda>_.
     try_bind (require (tr_sub t = os_sub session) (TokenError.SubMismatch (os_sub session) (tr_sub t))) (\<lambda>_.
     let granted_scope = (case os_scope session of Some sc \<Rightarrow> sc | None \<Rightarrow> []) in
     case tr_scope t of
       None \<Rightarrow> Ok ()
     | Some new_scope \<Rightarrow>
         try_bind (require (has_atproto new_scope) (TokenError.MissingAtprotoScope new_scope)) (\<lambda>_.
         if granted_scope \<noteq> [] then
           (let expanded = filter (\<lambda>s. s \<notin> set (split_whitespace granted_scope)) (split_whitespace new_scope) in
            if expanded \<noteq> [] then Err (TokenError.ScopeExpansion granted_scope new_scope) else Ok ())
         else Ok ()))))"

definition resolved_issuer :: "'w client_env \<Rightarrow> OAuthSession \<Rightarrow> string \<Rightarrow> string" where
  "resolved_issuer C session token_endpoint =
     (case os_auth_server_issuer session of
        Some iss \<Rightarrow> iss
      | None \<Rightarrow> (case net_url (ce_net C) token_endpoint of Ok u \<Rightarrow> ce_origin C u | Err _ \<Rightarrow> []))"

text \<open>The request for new tokens, up to the checks.\<close>

definition request_refresh ::
  "'w client_env \<Rightarrow> 'w AtprotoOAuthClient \<Rightarrow> OAuthSession \<Rightarrow> draws \<Rightarrow> ('w cio, TokenResponse, AtprotoOAuthError) io_op" where
  "request_refresh C A session d =
     io_bind (io_lift (ok_or (AtprotoOAuthError.Token TokenError.MissingRefreshToken) (os_refresh_token session))) (\<lambda>refresh_token.
     io_bind (io_lift (ok_or (AtprotoOAuthError.Token (TokenError.MissingField ''token_endpoint''))
       (os_token_endpoint session))) (\<lambda>token_endpoint.
     io_bind (io_lift (map_err (\<lambda>e. AtprotoOAuthError.Token (TokenError.Http e))
       (ce_urlencode C [(''grant_type'', ''refresh_token''), (''refresh_token'', refresh_token),
          (''client_id'', cm_client_id (cl_metadata A))]))) (\<lambda>form_body.
     let client_auth = map_option (\<lambda>k. (k, cm_client_id (cl_metadata A), resolved_issuer C session token_endpoint))
           (cm_client_key (cl_metadata A))
     in send_dpop_token_request_inner C (cl_ssrf_filter A) token_endpoint (os_dpop_key session) form_body client_auth d)))"

text \<open>What a refresh does to the session once the answer is there; only the last step writes it.\<close>

definition apply_refresh ::
  "OAuthSession \<Rightarrow> TokenResponse \<Rightarrow> system_time \<Rightarrow> OAuthSession \<times> (unit, AtprotoOAuthError) result" where
  "apply_refresh session resp_json now =
     (case check_refresh session resp_json of
        Err e \<Rightarrow> (session, Err (AtprotoOAuthError.Token e))
      | Ok _ \<Rightarrow>
          (let (_, new_access_token, new_refresh_token, _, scope, expires_in) = into_parts resp_json
           in (rotate_tokens_with_scope new_access_token new_refresh_token expires_in scope now session, Ok ())))"

text \<open>The session is the second part of the state.\<close>

definition refresh_session_locked ::
  "'w client_env \<Rightarrow> 'w AtprotoOAuthClient \<Rightarrow> draws \<Rightarrow> system_time
   \<Rightarrow> ('w cio \<times> OAuthSession, unit, AtprotoOAuthError) io_op" where
  "refresh_session_locked C A d now s =
     (case request_refresh C A (snd s) d (fst s) of
        (c, Err e) \<Rightarrow> ((c, snd s), Err e)
      | (c, Ok resp_json) \<Rightarrow>
          (case apply_refresh (snd s) resp_json now of (session, r) \<Rightarrow> ((c, session), r)))"

end
