(* ===== verification/Single_Flight.thy ===== *)
theory Single_Flight
  imports Client
begin

text \<open>
  Refreshes of shared sessions (\<open>client.rs\<close>): the table of one mutex per subject, and the tasks that
  run \<open>refresh_shared_session\<close> and \<open>refresh_session\<close> concurrently as a step relation.  A mutex is a number, allocated in
  order; its strong count is one for the table and one for each task that holds a clone of it.  Each
  await point of a task is a step, so the steps of different tasks interleave freely.  The answer of
  the authorization server is any answer.  The log records the tokens submitted, issued and rotated.
\<close>

section \<open>The table of locks\<close>

definition MAX_TRACKED_REFRESH_SUBJECTS :: nat where
  "MAX_TRACKED_REFRESH_SUBJECTS = 4096"

record RefreshSingleFlight =
  sf_locks :: "(string, nat) hmap"
  sf_next :: nat

definition RefreshSingleFlight_new :: RefreshSingleFlight where
  "RefreshSingleFlight_new = \<lparr> sf_locks = [], sf_next = 0 \<rparr>"

text \<open>Making room in a full table: entries that only the table holds go; if none does, the first one.\<close>

definition make_table_room :: "(nat \<Rightarrow> nat) \<Rightarrow> (string, nat) hmap \<Rightarrow> (string, nat) hmap" where
  "make_table_room strong_count locks =
     (if length locks \<ge> MAX_TRACKED_REFRESH_SUBJECTS then
        (let kept = hm_retain (\<lambda>_ m. strong_count m > 1) locks in
         if length kept \<ge> MAX_TRACKED_REFRESH_SUBJECTS
         then (case kept of (victim, _) # _ \<Rightarrow> hm_remove victim kept | [] \<Rightarrow> kept)
         else kept)
      else locks)"

definition lock_for :: "(nat \<Rightarrow> nat) \<Rightarrow> string \<Rightarrow> RefreshSingleFlight \<Rightarrow> RefreshSingleFlight \<times> nat" where
  "lock_for strong_count sub t =
     (case hm_get sub (sf_locks t) of
        Some existing \<Rightarrow> (t, existing)
      | None \<Rightarrow>
          (let fresh = sf_next t in
           (t\<lparr>sf_locks := hm_insert sub fresh (make_table_room strong_count (sf_locks t)), sf_next := Suc fresh\<rparr>,
            fresh)))"

text \<open>\<open>refresh_session\<close> and \<open>refresh_token\<close>: the lock, then the refresh, on a session of the caller.\<close>

definition refresh_session ::
  "'w client_env \<Rightarrow> 'w AtprotoOAuthClient \<Rightarrow> (nat \<Rightarrow> nat) \<Rightarrow> draws \<Rightarrow> system_time
   \<Rightarrow> (('w cio \<times> OAuthSession) \<times> RefreshSingleFlight, unit, AtprotoOAuthError) io_op" where
  "refresh_session C A strong_count d now s =
     (let (t, _) = lock_for strong_count (os_sub (snd (fst s))) (snd s);
          (s', r) = refresh_session_locked C A d now (fst s)
      in ((s', t), r))"

definition refresh_token ::
  "'w client_env \<Rightarrow> 'w AtprotoOAuthClient \<Rightarrow> (nat \<Rightarrow> nat) \<Rightarrow> OAuthSession \<Rightarrow> draws \<Rightarrow> system_time
   \<Rightarrow> ('w cio \<times> RefreshSingleFlight, OAuthSession, AtprotoOAuthError) io_op" where
  "refresh_token C A strong_count session d now s =
     (case refresh_session C A strong_count d now ((fst s, session), snd s) of
        (((c, cloned), t), r) \<Rightarrow> ((c, t), try_bind r (\<lambda>_. Ok cloned)))"

section \<open>Tasks\<close>

text \<open>A task on the session object \<open>sid\<close>: not started; after the first read; waiting for the mutex \<open>m\<close>;
  holding it; with the refresh token submitted; with the answer applied; done.  The token is the one
  \<open>refresh_shared_session\<close> observed before it waited; \<open>refresh_session\<close> observes none.\<close>

datatype refresh_task =
    Idle nat
  | Observed nat string "string option"
  | Waiting nat string "string option" nat
  | Holding nat string "string option" nat
  | Submitted nat string nat OAuthSession string
  | Refreshed nat string nat OAuthSession string
  | Finished "(OAuthSession, AtprotoOAuthError) result"

datatype flight_event =
    EvSubmit nat string
  | EvIssued nat string
  | EvRotated nat string

record flight_state =
  fl_table :: RefreshSingleFlight
  fl_shared :: "nat \<Rightarrow> OAuthSession"
  fl_tasks :: "refresh_task list"
  fl_held :: "nat \<Rightarrow> nat option"
  fl_log :: "flight_event list"

text \<open>The session object, the subject and the mutex of a task that has a clone of one.\<close>

fun ticket :: "refresh_task \<Rightarrow> (nat \<times> string \<times> nat) option" where
  "ticket (Waiting sid sub rt m) = Some (sid, sub, m)"
| "ticket (Holding sid sub rt m) = Some (sid, sub, m)"
| "ticket (Submitted sid sub m w tok) = Some (sid, sub, m)"
| "ticket (Refreshed sid sub m w tok) = Some (sid, sub, m)"
| "ticket _ = None"

fun is_waiting :: "refresh_task \<Rightarrow> bool" where
  "is_waiting (Waiting sid sub rt m) = True"
| "is_waiting _ = False"

definition mutex_of :: "refresh_task \<Rightarrow> nat option" where
  "mutex_of t = map_option (\<lambda>(sid, sub, m). m) (ticket t)"

definition strong_count :: "refresh_task list \<Rightarrow> nat \<Rightarrow> nat" where
  "strong_count ts m = 1 + length (filter (\<lambda>t. mutex_of t = Some m) ts)"

definition in_flight :: "flight_state \<Rightarrow> nat" where
  "in_flight s = length (filter (\<lambda>t. ticket t \<noteq> None) (fl_tasks s))"

definition set_task :: "nat \<Rightarrow> refresh_task \<Rightarrow> flight_state \<Rightarrow> flight_state" where
  "set_task i t s = s\<lparr>fl_tasks := (fl_tasks s)[i := t]\<rparr>"

text \<open>A task ends and drops its guard.\<close>

definition finish_task ::
  "nat \<Rightarrow> nat \<Rightarrow> (OAuthSession, AtprotoOAuthError) result \<Rightarrow> flight_state \<Rightarrow> flight_state" where
  "finish_task i m r s = set_task i (Finished r) (s\<lparr>fl_held := (fl_held s)(m := None)\<rparr>)"

definition task_is :: "flight_state \<Rightarrow> nat \<Rightarrow> refresh_task \<Rightarrow> bool" where
  "task_is s i t = (i < length (fl_tasks s) \<and> fl_tasks s ! i = t)"

text \<open>The token is the one observed before the wait, if one was.\<close>

definition still_observed :: "crypto_lib \<Rightarrow> string \<Rightarrow> string option \<Rightarrow> bool" where
  "still_observed L current observed =
     (case observed of None \<Rightarrow> True | Some rt \<Rightarrow> constant_time_eq L (as_bytes current) (as_bytes rt))"

definition option_list :: "'a option \<Rightarrow> 'a list" where
  "option_list x = (case x of Some y \<Rightarrow> [y] | None \<Rightarrow> [])"

text \<open>A caller of \<open>refresh_session\<close> starts at the lookup of its mutex and, holding it, goes straight on
  to \<open>refresh_session_locked\<close>.  It owns the session while it runs, which these steps do not require:
  they let it run beside any other task on the same object.  Its result is shown as the session that
  it leaves.\<close>

inductive flight_step :: "crypto_lib \<Rightarrow> flight_state \<Rightarrow> flight_state \<Rightarrow> bool" for L where
  spawn: "flight_step L s (s\<lparr>fl_tasks := fl_tasks s @ [Idle sid]\<rparr>)"
| spawn_direct:
    "flight_step L s (s\<lparr>fl_tasks := fl_tasks s @ [Observed sid (os_sub (fl_shared s sid)) None]\<rparr>)"
| observe_none:
    "task_is s i (Idle sid) \<Longrightarrow> os_refresh_token (fl_shared s sid) = None
     \<Longrightarrow> flight_step L s (set_task i (Finished (Err (AtprotoOAuthError.Token TokenError.MissingRefreshToken))) s)"
| observe:
    "task_is s i (Idle sid) \<Longrightarrow> os_refresh_token (fl_shared s sid) = Some rt
     \<Longrightarrow> flight_step L s (set_task i (Observed sid (os_sub (fl_shared s sid)) (Some rt)) s)"
| enqueue:
    "task_is s i (Observed sid sub rt) \<Longrightarrow> lock_for (strong_count (fl_tasks s)) sub (fl_table s) = (t, m)
     \<Longrightarrow> flight_step L s (set_task i (Waiting sid sub rt m) (s\<lparr>fl_table := t\<rparr>))"
| acquire:
    "task_is s i (Waiting sid sub rt m) \<Longrightarrow> fl_held s m = None
     \<Longrightarrow> flight_step L s (set_task i (Holding sid sub rt m) (s\<lparr>fl_held := (fl_held s)(m \<mapsto> i)\<rparr>))"
| coalesce:
    "task_is s i (Holding sid sub (Some rt) m) \<Longrightarrow> os_refresh_token (fl_shared s sid) = Some current
     \<Longrightarrow> \<not> constant_time_eq L (as_bytes current) (as_bytes rt)
     \<Longrightarrow> flight_step L s (finish_task i m (Ok (fl_shared s sid)) s)"
| no_token:
    "task_is s i (Holding sid sub rt m) \<Longrightarrow> os_refresh_token (fl_shared s sid) = None
     \<Longrightarrow> flight_step L s (finish_task i m (Err (AtprotoOAuthError.Token TokenError.MissingRefreshToken)) s)"
| no_endpoint:
    "task_is s i (Holding sid sub rt m) \<Longrightarrow> os_refresh_token (fl_shared s sid) = Some current
     \<Longrightarrow> still_observed L current rt \<Longrightarrow> os_token_endpoint (fl_shared s sid) = None
     \<Longrightarrow> flight_step L s (finish_task i m
          (Err (AtprotoOAuthError.Token (TokenError.MissingField ''token_endpoint''))) s)"
| submit:
    "task_is s i (Holding sid sub rt m) \<Longrightarrow> os_refresh_token (fl_shared s sid) = Some current
     \<Longrightarrow> still_observed L current rt \<Longrightarrow> os_token_endpoint (fl_shared s sid) = Some ep
     \<Longrightarrow> flight_step L s (set_task i (Submitted sid sub m (fl_shared s sid) current)
          (s\<lparr>fl_log := fl_log s @ [EvSubmit sid current]\<rparr>))"
| request_failed:
    "task_is s i (Submitted sid sub m working tok) \<Longrightarrow> flight_step L s (finish_task i m (Err e) s)"
| answer_rejected:
    "task_is s i (Submitted sid sub m working tok) \<Longrightarrow> apply_refresh working resp now = (w', Err e)
     \<Longrightarrow> flight_step L s (finish_task i m (Err e) s)"
| answer_applied:
    "task_is s i (Submitted sid sub m working tok) \<Longrightarrow> apply_refresh working resp now = (w', Ok ())
     \<Longrightarrow> flight_step L s (set_task i (Refreshed sid sub m w' tok)
          (s\<lparr>fl_log := fl_log s @ map (EvIssued sid) (option_list (tr_refresh_token resp))\<rparr>))"
| write_back:
    "task_is s i (Refreshed sid sub m w' tok)
     \<Longrightarrow> flight_step L s (finish_task i m (Ok w')
          (s\<lparr>fl_shared := (fl_shared s)(sid := w'), fl_log := fl_log s @ [EvRotated sid tok]\<rparr>))"

definition flight_init :: "(nat \<Rightarrow> OAuthSession) \<Rightarrow> flight_state" where
  "flight_init sessions = \<lparr> fl_table = RefreshSingleFlight_new, fl_shared = sessions, fl_tasks = [],
     fl_held = (\<lambda>_. None), fl_log = [] \<rparr>"

text \<open>The states that are reached while fewer than \<open>n\<close> tasks wait or run.\<close>

inductive flight_reach :: "nat \<Rightarrow> crypto_lib \<Rightarrow> (nat \<Rightarrow> OAuthSession) \<Rightarrow> flight_state \<Rightarrow> bool" for n L sessions where
  start: "flight_reach n L sessions (flight_init sessions)"
| step: "flight_reach n L sessions s \<Longrightarrow> in_flight s < n \<Longrightarrow> flight_step L s s' \<Longrightarrow> flight_reach n L sessions s'"

text \<open>The server rotates single-use tokens: it does not issue a token that was submitted before.\<close>

fun single_use_tokens :: "flight_event list \<Rightarrow> bool" where
  "single_use_tokens [] = True"
| "single_use_tokens (EvSubmit sid tok # evs) = (EvIssued sid tok \<notin> set evs \<and> single_use_tokens evs)"
| "single_use_tokens (e # evs) = single_use_tokens evs"

text \<open>Refresh tokens are unique: no two sessions start with the same one, and the server issues no
  token twice and none that a session started with.\<close>

fun issued_tokens :: "flight_event list \<Rightarrow> string list" where
  "issued_tokens [] = []"
| "issued_tokens (EvIssued sid tok # evs) = tok # issued_tokens evs"
| "issued_tokens (e # evs) = issued_tokens evs"

definition unique_tokens :: "(nat \<Rightarrow> OAuthSession) \<Rightarrow> flight_event list \<Rightarrow> bool" where
  "unique_tokens sessions log =
     (distinct (issued_tokens log)
      \<and> (\<forall>sid tok. os_refresh_token (sessions sid) = Some tok \<longrightarrow> tok \<notin> set (issued_tokens log)
           \<and> (\<forall>sid'. os_refresh_token (sessions sid') = Some tok \<longrightarrow> sid' = sid)))"

section \<open>Invariant\<close>

definition table_ok :: "RefreshSingleFlight \<Rightarrow> bool" where
  "table_ok t = (hm_ok (sf_locks t) \<and> distinct (map snd (sf_locks t))
     \<and> (\<forall>(k, m) \<in> set (sf_locks t). m < sf_next t)
     \<and> length (sf_locks t) \<le> MAX_TRACKED_REFRESH_SUBJECTS)"

definition tickets_ok :: "flight_state \<Rightarrow> bool" where
  "tickets_ok s = (\<forall>t sid sub m. t \<in> set (fl_tasks s) \<longrightarrow> ticket t = Some (sid, sub, m) \<longrightarrow>
     hm_get sub (sf_locks (fl_table s)) = Some m \<and> os_sub (fl_shared s sid) = sub)"

definition guards_ok :: "flight_state \<Rightarrow> bool" where
  "guards_ok s = (\<forall>i t sid sub m. task_is s i t \<longrightarrow> ticket t = Some (sid, sub, m) \<longrightarrow> \<not> is_waiting t \<longrightarrow>
     fl_held s m = Some i)"

fun task_ok :: "flight_state \<Rightarrow> refresh_task \<Rightarrow> bool" where
  "task_ok s (Observed sid sub rt) = (os_sub (fl_shared s sid) = sub)"
| "task_ok s (Submitted sid sub m w tok) =
     (w = fl_shared s sid \<and> os_refresh_token w = Some tok \<and> EvSubmit sid tok \<in> set (fl_log s))"
| "task_ok s (Refreshed sid sub m w tok) =
     (os_refresh_token (fl_shared s sid) = Some tok \<and> os_sub w = os_sub (fl_shared s sid)
      \<and> EvSubmit sid tok \<in> set (fl_log s)
      \<and> (\<forall>t. os_refresh_token w = Some t \<longrightarrow> EvSubmit sid t \<notin> set (fl_log s)))"
| "task_ok s _ = True"

text \<open>No token is submitted for a session once a refresh with it has been written back.\<close>

fun no_reuse :: "flight_event list \<Rightarrow> bool" where
  "no_reuse [] = True"
| "no_reuse (EvRotated sid tok # evs) = (EvSubmit sid tok \<notin> set evs \<and> no_reuse evs)"
| "no_reuse (e # evs) = no_reuse evs"

definition log_ok :: "flight_state \<Rightarrow> bool" where
  "log_ok s = (no_reuse (fl_log s)
     \<and> (\<forall>sid t. os_refresh_token (fl_shared s sid) = Some t \<longrightarrow> EvRotated sid t \<notin> set (fl_log s))
     \<and> (\<forall>sid t. EvRotated sid t \<in> set (fl_log s) \<longrightarrow> EvSubmit sid t \<in> set (fl_log s)))"

text \<open>A token belongs to the session that started with it or that it was issued for.\<close>

definition owns :: "(nat \<Rightarrow> OAuthSession) \<Rightarrow> flight_event list \<Rightarrow> nat \<Rightarrow> string \<Rightarrow> bool" where
  "owns sessions log sid tok = (os_refresh_token (sessions sid) = Some tok \<or> EvIssued sid tok \<in> set log)"

definition tokens_ok :: "(nat \<Rightarrow> OAuthSession) \<Rightarrow> flight_state \<Rightarrow> bool" where
  "tokens_ok sessions s =
     ((\<forall>sid tok. os_refresh_token (fl_shared s sid) = Some tok \<longrightarrow> owns sessions (fl_log s) sid tok)
      \<and> (\<forall>sid sub m w old tok. Refreshed sid sub m w old \<in> set (fl_tasks s) \<longrightarrow> os_refresh_token w = Some tok
           \<longrightarrow> owns sessions (fl_log s) sid tok)
      \<and> (\<forall>sid tok. EvSubmit sid tok \<in> set (fl_log s) \<longrightarrow> owns sessions (fl_log s) sid tok))"

definition flight_inv :: "flight_state \<Rightarrow> bool" where
  "flight_inv s = (table_ok (fl_table s) \<and> tickets_ok s \<and> guards_ok s
     \<and> (\<forall>t \<in> set (fl_tasks s). task_ok s t) \<and> log_ok s)"

section \<open>Lemmas\<close>

lemma hm_insert_new: "hm_get k m = None \<Longrightarrow> hm_insert k v m = m @ [(k, v)]"
  by (induction m) (auto simp: hm_insert_def hm_get_def split: if_splits)

lemma distinct_snd_retain: "distinct (map snd m) \<Longrightarrow> distinct (map snd (hm_retain p m))"
  by (simp add: hm_retain_def distinct_map_filter)

lemma lock_for_ok:
  assumes ok: "table_ok t" and run: "lock_for cnt sub t = (t', m)"
    and few: "length (hm_retain (\<lambda>_ m. cnt m > 1) (sf_locks t)) < MAX_TRACKED_REFRESH_SUBJECTS"
  shows "table_ok t'" "hm_get sub (sf_locks t') = Some m"
    "hm_get k (sf_locks t) = Some m' \<Longrightarrow> cnt m' > 1 \<Longrightarrow> hm_get k (sf_locks t') = Some m'"
proof -
  let ?room = "make_table_room cnt (sf_locks t)"
  have "table_ok t' \<and> hm_get sub (sf_locks t') = Some m
    \<and> (hm_get k (sf_locks t) = Some m' \<longrightarrow> cnt m' > 1 \<longrightarrow> hm_get k (sf_locks t') = Some m')"
  proof (cases "hm_get sub (sf_locks t)")
    case (Some x)
    thus ?thesis
      using ok run by (simp add: lock_for_def)
  next
    case None
    have room: "?room = (if length (sf_locks t) \<ge> MAX_TRACKED_REFRESH_SUBJECTS
        then hm_retain (\<lambda>_ m. cnt m > 1) (sf_locks t) else sf_locks t)"
      using few by (simp add: make_table_room_def Let_def)
    have get: "hm_get j ?room = (case hm_get j (sf_locks t) of
        Some n \<Rightarrow> if length (sf_locks t) < MAX_TRACKED_REFRESH_SUBJECTS \<or> cnt n > 1 then Some n else None | None \<Rightarrow> None)" for j
      using ok by (auto simp: room table_ok_def hm_get_retain split: option.split)
    hence new: "hm_insert sub (sf_next t) ?room = ?room @ [(sub, sf_next t)]"
      using None by (intro hm_insert_new) simp
    have t': "sf_locks t' = ?room @ [(sub, sf_next t)]" "sf_next t' = Suc (sf_next t)" "m = sf_next t"
      using run None by (auto simp: lock_for_def Let_def new)
    have len: "length ?room < MAX_TRACKED_REFRESH_SUBJECTS"
      using few by (simp add: room)
    have sub: "set ?room \<subseteq> set (sf_locks t)"
      by (auto simp: room hm_retain_def)
    have lt: "n < sf_next t" if "(j, n) \<in> set ?room" for j n
      using that sub ok by (auto simp: table_ok_def)
    have dst: "hm_ok ?room" "distinct (map snd ?room)"
      using ok by (auto simp: room table_ok_def intro: distinct_snd_retain)
    have "sub \<notin> fst ` set ?room"
      using get [of sub] None by (simp add: hm_get_None_iff)
    hence "table_ok t'"
      unfolding table_ok_def t' using dst len lt by (force simp: hm_ok_def)
    moreover have "hm_get j (sf_locks t') = (if j = sub then Some m else hm_get j ?room)" for j
      unfolding t' new [symmetric] by simp
    ultimately show ?thesis
      using get [of k] None by (auto split: option.splits)
  qed
  thus "table_ok t'" "hm_get sub (sf_locks t') = Some m"
    "hm_get k (sf_locks t) = Some m' \<Longrightarrow> cnt m' > 1 \<Longrightarrow> hm_get k (sf_locks t') = Some m'"
    by auto
qed

text \<open>Fewer tasks with a ticket than places: the mutexes in use never fill the table.\<close>

lemma mutexes_in_use:
  assumes "table_ok t"
  shows "length (hm_retain (\<lambda>_ m. strong_count ts m > 1) (sf_locks t)) \<le> length (filter (\<lambda>x. ticket x \<noteq> None) ts)"
proof -
  let ?kept = "hm_retain (\<lambda>_ m. strong_count ts m > 1) (sf_locks t)"
  let ?used = "map (\<lambda>x. the (mutex_of x)) (filter (\<lambda>x. ticket x \<noteq> None) ts)"
  have "set (map snd ?kept) \<subseteq> set ?used"
  proof
    fix m
    assume "m \<in> set (map snd ?kept)"
    hence "filter (\<lambda>x. mutex_of x = Some m) ts \<noteq> []"
      by (auto simp: hm_retain_def strong_count_def)
    then obtain x where "x \<in> set ts" "mutex_of x = Some m"
      by (auto simp: filter_empty_conv)
    thus "m \<in> set ?used"
      by (force simp: mutex_of_def)
  qed
  hence "card (set (map snd ?kept)) \<le> card (set ?used)"
    by (intro card_mono) auto
  moreover have "card (set (map snd ?kept)) = length ?kept"
    using assms by (metis distinct_card distinct_snd_retain length_map table_ok_def)
  ultimately show ?thesis
    using card_length [of ?used] by simp
qed

lemma strong_count_ticket:
  assumes "x \<in> set ts" "ticket x = Some (sid, sub, m)"
  shows "strong_count ts m > 1"
proof -
  have "x \<in> set (filter (\<lambda>t. mutex_of t = Some m) ts)"
    using assms by (simp add: mutex_of_def)
  hence "filter (\<lambda>t. mutex_of t = Some m) ts \<noteq> []"
    by (metis empty_iff empty_set)
  thus ?thesis
    by (simp add: strong_count_def)
qed

text \<open>Two tasks past the mutex for one subject are the same task.\<close>

lemma exclusive:
  assumes "tickets_ok s" "guards_ok s" "task_is s i t" "task_is s j t'"
    "ticket t = Some (sid, sub, m)" "ticket t' = Some (sid', sub, m')" "\<not> is_waiting t" "\<not> is_waiting t'"
  shows "i = j"
proof -
  have "t \<in> set (fl_tasks s)" "t' \<in> set (fl_tasks s)"
    using assms(3,4) by (auto simp: task_is_def)
  hence "m = m'"
    using assms(1,5,6) unfolding tickets_ok_def by (metis option.inject)
  thus ?thesis
    using assms(2-8) unfolding guards_ok_def by (metis option.inject)
qed

lemma no_reuse_append:
  "no_reuse (xs @ [EvSubmit sid tok]) = (no_reuse xs \<and> EvRotated sid tok \<notin> set xs)"
  "no_reuse (xs @ [EvRotated sid tok]) = no_reuse xs"
  "no_reuse (xs @ [EvIssued sid tok]) = no_reuse xs"
  by (induction xs rule: no_reuse.induct) auto

lemma single_use_tokens_append:
  "single_use_tokens (xs @ ys) \<Longrightarrow> single_use_tokens xs"
  "single_use_tokens (xs @ [EvIssued sid tok]) \<Longrightarrow> EvSubmit sid tok \<notin> set xs"
  by (induction xs rule: single_use_tokens.induct) auto

lemma single_use_tokens_snoc:
  "single_use_tokens xs \<Longrightarrow> (\<And>sid tok. e = EvIssued sid tok \<Longrightarrow> EvSubmit sid tok \<notin> set xs) \<Longrightarrow> single_use_tokens (xs @ [e])"
proof (induction xs rule: single_use_tokens.induct)
  case 1
  thus ?case
    by (cases e) simp_all
qed auto

lemma issued_tokens_append [simp]: "issued_tokens (xs @ ys) = issued_tokens xs @ issued_tokens ys"
  by (induction xs rule: issued_tokens.induct) auto

lemma issued_tokens_set: "tok \<in> set (issued_tokens xs) \<longleftrightarrow> (\<exists>sid. EvIssued sid tok \<in> set xs)"
  by (induction xs rule: issued_tokens.induct) auto

lemma issued_once:
  "distinct (issued_tokens xs) \<Longrightarrow> EvIssued sid tok \<in> set xs \<Longrightarrow> EvIssued sid' tok \<in> set xs \<Longrightarrow> sid' = sid"
  by (induction xs rule: issued_tokens.induct) (auto simp: issued_tokens_set)

lemma owner_unique:
  assumes "unique_tokens sessions log" "owns sessions log sid tok" "owns sessions log sid' tok"
  shows "sid' = sid"
  using assms issued_once [of log sid tok sid'] unfolding unique_tokens_def owns_def issued_tokens_set by blast

lemma no_reuse_split: "no_reuse (xs @ EvSubmit sid tok # ys) \<Longrightarrow> EvRotated sid tok \<notin> set xs"
  by (induction xs rule: no_reuse.induct) auto

end
