(* ===== verification/Discovery_Props.thy ===== *)
theory Discovery_Props
  imports Discovery
begin

text \<open>
  What a successful discovery guarantees, and that it stays inside the boundary.
\<close>

section \<open>Specifications\<close>

text \<open>An endpoint the client may talk to: HTTPS, or HTTP to a loopback name, with a host and no
  credentials.\<close>

definition endpoint_ok :: "url_parser \<Rightarrow> string \<Rightarrow> bool" where
  "endpoint_ok parse e =
     (\<exists>u h. parse e = Ok u \<and> url_host_str u = Some h
        \<and> (url_scheme u = ''https'' \<or> (url_scheme u = ''http'' \<and> is_local_name h))
        \<and> url_username u = [] \<and> url_password u = None)"

text \<open>The mandatory parts of the AT Protocol profile.\<close>

definition profile_ok :: "AuthorizationServerMetadata \<Rightarrow> bool" where
  "profile_ok m =
     (''code'' \<in> set (asm_response_types_supported m)
      \<and> {''authorization_code'', ''refresh_token''} \<subseteq> set (asm_grant_types_supported m)
      \<and> {''none'', ''private_key_jwt''} \<subseteq> set (asm_token_endpoint_auth_methods_supported m)
      \<and> ''ES256'' \<in> set (asm_token_endpoint_auth_signing_alg_values_supported m)
      \<and> ''none'' \<notin> set (asm_token_endpoint_auth_signing_alg_values_supported m)
      \<and> ''atproto'' \<in> set (asm_scopes_supported m)
      \<and> asm_authorization_response_iss_parameter_supported m
      \<and> asm_client_id_metadata_document_supported m
      \<and> asm_require_request_uri_registration m
      \<and> ''ES256'' \<in> set (asm_dpop_signing_alg_values_supported m)
      \<and> ''S256'' \<in> set (asm_code_challenge_methods_supported m))"

section \<open>Samples\<close>

definition sample_asm :: AuthorizationServerMetadata where
  "sample_asm = \<lparr> asm_issuer = ''https://8.8.8.8'', asm_authorization_endpoint = ''https://8.8.8.8/a'',
     asm_token_endpoint = ''https://8.8.8.8/t'', asm_pushed_authorization_request_endpoint = ''https://8.8.8.8/p'',
     asm_require_pushed_authorization_requests = True, asm_dpop_signing_alg_values_supported = [''ES256''],
     asm_code_challenge_methods_supported = [''S256''], asm_response_types_supported = [''code''],
     asm_grant_types_supported = [''authorization_code'', ''refresh_token''],
     asm_token_endpoint_auth_methods_supported = [''none'', ''private_key_jwt''],
     asm_token_endpoint_auth_signing_alg_values_supported = [''ES256''], asm_scopes_supported = [''atproto''],
     asm_authorization_response_iss_parameter_supported = True, asm_client_id_metadata_document_supported = True,
     asm_require_request_uri_registration = True \<rparr>"

definition sample_prm :: ProtectedResourceMetadata where
  "sample_prm = \<lparr> prm_resource = ''https://8.8.8.8'', prm_authorization_servers = [''https://8.8.8.8''],
     prm_scopes_supported = [], prm_bearer_methods_supported = [], prm_resource_documentation = None \<rparr>"

definition sample_disco :: "'w id_env \<Rightarrow> 'w disco_env" where
  "sample_disco E = \<lparr> de_id = E, de_origin = (\<lambda>u. ''https://8.8.8.8''), de_prm_from_slice = (\<lambda>b. Ok sample_prm),
     de_asm_from_slice = (\<lambda>b. Ok sample_asm) \<rparr>"

section \<open>Lemmas\<close>

lemma validate_https_endpoint_Ok: "validate_https_endpoint parse e label = Ok u \<longleftrightarrow> endpoint_ok parse e"
proof (cases "parse e")
  case (Err x)
  thus ?thesis
    by (simp add: validate_https_endpoint_def endpoint_ok_def)
next
  case (Ok p)
  thus ?thesis
    by (cases "url_host_str p") (auto simp: validate_https_endpoint_def endpoint_ok_def)
qed

lemma validate_profile_Ok: "validate_profile m a = Ok u \<longleftrightarrow> profile_ok m"
  by (auto simp: validate_profile_def profile_ok_def)

lemma validate_auth_server_capabilities_Ok:
  "validate_auth_server_capabilities parse origin m a = Ok u \<longleftrightarrow>
     is_origin_only parse a \<and> is_origin_only parse (asm_issuer m)
     \<and> normalize_origin parse origin a = normalize_origin parse origin (asm_issuer m)
     \<and> asm_require_pushed_authorization_requests m \<and> profile_ok m
     \<and> list_all (\<lambda>e. trim e \<noteq> [] \<and> endpoint_ok parse e)
         [asm_pushed_authorization_request_endpoint m, asm_token_endpoint m, asm_authorization_endpoint m]"
  by (auto simp: validate_auth_server_capabilities_def validate_endpoints_def validate_https_endpoint_Ok
      validate_profile_Ok)

lemma check_resource_metadata_Ok:
  assumes "check_resource_metadata parse origin pds m = Ok m'"
  shows "m' = m \<and> (\<exists>a. prm_authorization_servers m = [a] \<and> is_origin_only parse a)
    \<and> is_origin_only parse (prm_resource m)
    \<and> normalize_origin parse origin pds = normalize_origin parse origin (prm_resource m)"
  using assms by (auto simp: check_resource_metadata_def Let_def split: list.splits if_splits)

lemma fetch_auth_server_metadata_Ok:
  assumes "fetch_auth_server_metadata D f a s = (s', Ok m)"
  shows "validate_auth_server_capabilities (net_url (de_net D)) (de_origin D) m a = Ok ()"
  using assms by (auto simp: fetch_auth_server_metadata_def Let_def)

lemma discovery_confined_parts:
  assumes "logs sent f (de_net D)"
  shows "confined sent (ssrf_ok f) 4 (fetch_protected_resource_metadata D f pds)"
    and "confined sent (ssrf_ok f) 8 (fetch_auth_server_metadata D f a)"
proof -
  note get = safe_get_json_is_confined [OF assms]
  show "confined sent (ssrf_ok f) 4 (fetch_protected_resource_metadata D f pds)"
    unfolding fetch_protected_resource_metadata_def Let_def by (rule confined_bind_pure) (auto simp: get)
  let ?get = "\<lambda>u. safe_get_json (de_net D) f (de_asm_from_slice D) u MAX_OAUTH_RESPONSE_BYTES"
  let ?base = "trim_end_matches (CHR ''/'') a"
  define c where "c = (\<lambda>r. case r of Ok m \<Rightarrow> io_lift (Ok m)
    | Err e \<Rightarrow> if is_not_found e
        then io_map_err (asm_fetch_error ''fallback '' (?base @ ''/.well-known/openid-configuration''))
               (?get (?base @ ''/.well-known/openid-configuration''))
        else io_lift (Err (asm_fetch_error [] (?base @ ''/.well-known/oauth-authorization-server'') e)))"
  have c: "confined sent (ssrf_ok f) 4 (c r)" for r
    by (auto simp: c_def get split: result.split)
  have "confined sent (ssrf_ok f) (4 + 4)
      (\<lambda>s. case ?get (?base @ ''/.well-known/oauth-authorization-server'') s of (s', r) \<Rightarrow> c r s')"
    by (rule confined_seq [OF get c])
  moreover have "fetch_auth_server_metadata D f a =
      io_bind (\<lambda>s. case ?get (?base @ ''/.well-known/oauth-authorization-server'') s of (s', r) \<Rightarrow> c r s')
        (\<lambda>m. io_bind (io_lift (validate_auth_server_capabilities (net_url (de_net D)) (de_origin D) m a)) (\<lambda>_. io_lift (Ok m)))"
    unfolding fetch_auth_server_metadata_def Let_def c_def
    by (intro arg_cong2 [where f = io_bind] refl ext) (auto split: prod.split result.split)
  ultimately show "confined sent (ssrf_ok f) 8 (fetch_auth_server_metadata D f a)"
    by (auto intro!: confined_bind_pure confined_bind_lift)
qed

section \<open>The sample at work\<close>

lemma sample_safe_get_any:
  assumes "2 \<le> mx"
  shows "\<exists>p'. safe_get sample_unit_net (SsrfFilter_new False) u mx (p, ()) = ((p', ()), Ok [1, 2])"
proof -
  have "resolve_and_pin sample_unit_net (SsrfFilter_new False) sample_url () = ((), Ok ((V4 (8, 8, 8, 8), 443), ''8.8.8.8''))"
    by code_simp
  then obtain p1 r where b: "build_pinned_client sample_unit_net (SsrfFilter_new False) sample_url p ()
      = (p1, (), Ok (r, (V4 (8, 8, 8, 8), 443), ''8.8.8.8''))"
    by (cases "runtime_scoped_client_and_resolver (net_runtime sample_unit_net)
          (allow_insecure_localhost (SsrfFilter_new False)) p")
      (auto simp: build_pinned_client_def Let_def)
  show ?thesis
    using sample_body [OF assms] b
    by (auto simp: safe_get_def safe_get_loop.simps [of _ _ _ 3] sample_unit_net_def is_redirection_def
        is_success_def sample_response_def)
qed

lemma sample_get_json:
  "\<exists>p'. safe_get_json sample_unit_net (SsrfFilter_new False) fj u MAX_OAUTH_RESPONSE_BYTES (p, ())
     = ((p', ()), map_err SsrfError.Json (fj [1, 2]))"
proof -
  have "2 \<le> MAX_OAUTH_RESPONSE_BYTES"
    by (simp add: MAX_OAUTH_RESPONSE_BYTES_def)
  from sample_safe_get_any [OF this, of u p] obtain p' where
    "safe_get sample_unit_net (SsrfFilter_new False) u MAX_OAUTH_RESPONSE_BYTES (p, ()) = ((p', ()), Ok [1, 2])" ..
  thus ?thesis
    by (simp add: safe_get_json_def io_bind_def)
qed

lemma sample_discover:
  "\<exists>p ri. discover_oauth_endpoints (sample_disco sample_id_env) (IdentityResolver_new (SsrfFilter_new False))
     sample_did ([], ()) = ((p, ()), Ok (assemble_endpoints ri sample_prm sample_asm)) \<and> ri_did ri = sample_did"
proof -
  let ?D = "sample_disco sample_id_env" and ?R = "IdentityResolver_new (SsrfFilter_new False) :: unit IdentityResolver"
  obtain p1 where "resolve_did sample_id_env ?R sample_did ([], ()) = ((p1, ()), Ok sample_document)"
    using sample_resolve_did by (metis (full_types) old.unit.exhaust prod.collapse)
  moreover have "trim sample_did = sample_did" "starts_with sample_did ''did:''"
    "extract_pds_endpoint (net_url (ie_net sample_id_env)) sample_document = Ok ''https://8.8.8.8''"
    by code_simp+
  ultimately obtain ri where ri: "resolve_ident sample_id_env ?R sample_did ([], ()) = ((p1, ()), Ok ri)"
    "ri_pds_endpoint ri = ''https://8.8.8.8''" "ri_did ri = sample_did"
    by (simp add: resolve_ident_def io_bind_def sample_document_def)
  have chk: "check_resource_metadata (net_url sample_unit_net) (\<lambda>u. ''https://8.8.8.8'') ''https://8.8.8.8'' sample_prm = Ok sample_prm"
    "validate_auth_server_capabilities (net_url sample_unit_net) (\<lambda>u. ''https://8.8.8.8'') sample_asm ''https://8.8.8.8'' = Ok ()"
    "hd (prm_authorization_servers sample_prm) = ''https://8.8.8.8''"
    by code_simp+
  obtain p2 where p2: "fetch_protected_resource_metadata ?D (SsrfFilter_new False) ''https://8.8.8.8'' (p1, ()) = ((p2, ()), Ok sample_prm)"
    using sample_get_json [of "\<lambda>b. Ok sample_prm" "trim_end_matches (CHR ''/'') ''https://8.8.8.8'' @ ''/.well-known/oauth-protected-resource''" p1] chk(1)
    by (auto simp: fetch_protected_resource_metadata_def Let_def io_bind_def io_map_err_def sample_disco_def sample_id_env_def)
  obtain p3 where p3: "fetch_auth_server_metadata ?D (SsrfFilter_new False) ''https://8.8.8.8'' (p2, ()) = ((p3, ()), Ok sample_asm)"
    using sample_get_json [of "\<lambda>b. Ok sample_asm" "trim_end_matches (CHR ''/'') ''https://8.8.8.8'' @ ''/.well-known/oauth-authorization-server''" p2] chk(2)
    by (auto simp: fetch_auth_server_metadata_def Let_def io_bind_def io_map_err_def sample_disco_def sample_id_env_def)
  show ?thesis
    using ri p2 p3 chk(3)
    by (intro exI [of _ p3] exI [of _ ri])
      (simp add: discover_oauth_endpoints_def io_bind_def io_map_err_def sample_disco_def IdentityResolver_new_def)
qed

section \<open>Properties\<close>

text \<open>C14: Discovered endpoints are those of the one authorization server that the protected resource names:
  the resource and the issuer have the origins that were asked for, every endpoint is HTTPS (or HTTP
  to a loopback name) without credentials, and the server offers all that the profile demands.\<close>

theorem discovery_sound:
  assumes "discover_oauth_endpoints D R input s = (s', Ok d)"
  defines "parse \<equiv> net_url (de_net D)"
  shows "(\<exists>a. prm_authorization_servers (dae_protected_resource_metadata d) = [a] \<and> is_origin_only parse a
      \<and> normalize_origin parse (de_origin D) a = normalize_origin parse (de_origin D) (dae_auth_server_issuer d))
    \<and> normalize_origin parse (de_origin D) (dae_pds_endpoint d)
        = normalize_origin parse (de_origin D) (prm_resource (dae_protected_resource_metadata d))
    \<and> is_origin_only parse (dae_auth_server_issuer d)
    \<and> list_all (endpoint_ok parse) [dae_par_endpoint d, dae_token_endpoint d, dae_authorization_endpoint d]
    \<and> asm_require_pushed_authorization_requests (dae_auth_server_metadata d)
    \<and> profile_ok (dae_auth_server_metadata d)
    \<and> ''atproto'' \<in> set (dae_scopes d) \<and> ''ES256'' \<in> set (dae_dpop_algs d)"
proof -
  from assms(1) obtain ri m am s1 s2 where
    d: "fetch_protected_resource_metadata D (idr_ssrf_filter R) (ri_pds_endpoint ri) s1 = (s2, Ok m)"
    "fetch_auth_server_metadata D (idr_ssrf_filter R) (hd (prm_authorization_servers m)) s2 = (s', Ok am)"
    and out: "d = assemble_endpoints ri m am"
    by (auto simp: discover_oauth_endpoints_def)
  from d(1) obtain m0 where "check_resource_metadata parse (de_origin D) (ri_pds_endpoint ri) m0 = Ok m"
    by (auto simp: fetch_protected_resource_metadata_def Let_def parse_def)
  from check_resource_metadata_Ok [OF this] obtain a where a: "prm_authorization_servers m = [a]"
    "is_origin_only parse a"
    "normalize_origin parse (de_origin D) (ri_pds_endpoint ri) = normalize_origin parse (de_origin D) (prm_resource m)"
    by auto
  have v: "validate_auth_server_capabilities parse (de_origin D) am a = Ok ()"
    using fetch_auth_server_metadata_Ok [OF d(2)] a(1) by (simp add: parse_def)
  hence "''atproto'' \<in> set (asm_scopes_supported am)" "''ES256'' \<in> set (asm_dpop_signing_alg_values_supported am)"
    unfolding validate_auth_server_capabilities_Ok profile_ok_def by simp_all
  with v a show ?thesis
    unfolding validate_auth_server_capabilities_Ok by (auto simp: out assemble_endpoints_def)
qed

theorem discovery_sound_witness:
  "\<exists>d. snd (discover_oauth_endpoints (sample_disco sample_id_env) (IdentityResolver_new (SsrfFilter_new False))
      sample_did ([], ())) = Ok d \<and> profile_ok (dae_auth_server_metadata d)"
proof -
  obtain p d where run: "discover_oauth_endpoints (sample_disco sample_id_env) (IdentityResolver_new (SsrfFilter_new False))
      sample_did ([], ()) = ((p, ()), Ok d)"
    using sample_discover by blast
  from discovery_sound [OF run] run show ?thesis
    by (intro exI [of _ d]) simp
qed

text \<open>The whole discovery sends at most 21 requests, each through the boundary to an admitted URL or
  the DNS-over-HTTPS query for a well-formed handle.\<close>

theorem discovery_confined:
  assumes "logs sent (idr_ssrf_filter R) (de_net D)"
    and "\<And>req w. sent (fst (net_send_plain (de_net D) req w)) = sent w @ [(False, req)]"
    and "idr_dns_resolver R = None" and "pool_ok p"
    and "discover_oauth_endpoints D R input (p, w) = ((p', w'), r)"
  shows "pool_ok p' \<and> (\<exists>reqs. sent w' = sent w @ reqs \<and> length reqs \<le> 21
    \<and> (\<forall>e \<in> set reqs. resolver_ok_request (idr_ssrf_filter R) e))"
proof -
  let ?ok = "resolver_ok_request (idr_ssrf_filter R)"
  have weak: "confined sent ?ok k m" if "confined sent (ssrf_ok (idr_ssrf_filter R)) k m" for k m
    by (rule confined_mono [OF that]) (auto simp: resolver_ok_request_def)
  note parts = discovery_confined_parts [OF assms(1)]
  have "confined sent ?ok (9 + (4 + 8)) (discover_oauth_endpoints D R input)"
    unfolding discover_oauth_endpoints_def
    by (rule confined_bind [OF _ confined_bind [OF weak [OF parts(1)] confined_bind_pure [OF weak [OF parts(2)]]]])
      (auto simp: resolve_ident_is_confined [OF assms(1-3)])
  from confinedD [OF this assms(4,5)] show ?thesis
    by simp
qed

theorem discovery_confined_witness:
  "\<exists>reqs. snd (fst (discover_oauth_endpoints (sample_disco sample_log_env)
      (IdentityResolver_new (SsrfFilter_new False)) ''@alice'' ([], []))) = [] @ reqs \<and> length reqs \<le> 21"
proof -
  let ?R = "IdentityResolver_new (SsrfFilter_new False) :: (bool \<times> http_request) list IdentityResolver"
  let ?run = "discover_oauth_endpoints (sample_disco sample_log_env) ?R ''@alice'' ([], [])"
  have run: "?run = ((fst (fst ?run), snd (fst ?run)), snd ?run)"
    by simp
  have "pool_ok []" "logs id (idr_ssrf_filter ?R) (de_net (sample_disco sample_log_env))"
    by (auto simp: pool_ok_def logs_def sample_disco_def sample_log_env_def sample_log_net_def sample_net_def
        IdentityResolver_new_def)
  from discovery_confined [OF this(2) _ _ this(1) run] show ?thesis
    by (auto simp: sample_disco_def sample_log_env_def sample_log_net_def IdentityResolver_new_def)
qed

end
