(* ===== verification/Client_Props.thy ===== *)
theory Client_Props
  imports Client Discovery_Props Dpop_Props
begin

text \<open>
  Properties of the client (\<open>client.rs\<close>, \<open>par.rs\<close>, \<open>session.rs\<close>): what a session that comes out of a
  callback or a refresh guarantees, that a callback can be used once, that a login leads to its
  callback, what the requests carry and where they go, and how a nonce challenge is answered.
\<close>

text \<open>The documented behaviour of the response builder: the parts it is given, whatever they are.\<close>

definition build_documented :: "'w client_env \<Rightarrow> bool" where
  "build_documented C = (\<forall>st hs bs. \<exists>r. ce_build_response C st hs bs = Ok r
     \<and> resp_status r = st \<and> resp_headers r = hs \<and> body_of r = bs)"

section \<open>A sample client\<close>

definition sample_dpop :: dpop_env where
  "sample_dpop = \<lparr> env_crypto = sample_lib,
     env_serde = \<lparr> json_to_string = (\<lambda>j. Ok ''J''), json_from_slice = (\<lambda>b.
         if b = [3] then Ok (JObject [''error'' \<mapsto> JString ''use_dpop_nonce''])
         else if b = [1, 2] then Ok (JObject [''request_uri'' \<mapsto> JString ''urn:r'', ''expires_in'' \<mapsto> JNumber (PosInt 60)])
         else Err ''expected value''),
       jwk_from_value = (\<lambda>v. Err ''missing field''), claims_from_slice = (\<lambda>b. Err ''expected value'') \<rparr>,
     env_url = sample_parse, env_hash = (\<lambda>_. 0), env_upper = (\<lambda>s. s) \<rparr>"

definition sample_token :: TokenResponse where
  "sample_token = \<lparr> tr_access_token = ''at'', tr_token_type = ''DPoP'', tr_expires_in = Some 3600,
     tr_refresh_token = Some ''rt2'', tr_scope = Some ''atproto'', tr_sub = sample_did \<rparr>"

definition sample_client_env :: "'w id_env \<Rightarrow> 'w client_env" where
  "sample_client_env E = \<lparr> ce_disco = sample_disco E, ce_dpop = sample_dpop,
     ce_append_pair = (\<lambda>s k v. s @ ''&'' @ k @ ''='' @ v), ce_urlencode = (\<lambda>ps. Ok ''form''),
     ce_query_append = (\<lambda>u ps. u), ce_set_path = (\<lambda>u p. u\<lparr>url_path := p\<rparr>),
     ce_build_response = (\<lambda>st hs bs. Ok \<lparr> resp_status = st, resp_headers = hs,
        resp_content_length = Some (word_of_nat (length bs)), resp_chunks = [Ok bs] \<rparr>),
     ce_token_from_slice = (\<lambda>b. Ok sample_token) \<rparr>"

text \<open>A server that counts its requests: the first one is answered with a nonce challenge, every
  other one with success and a nonce.\<close>

definition challenge_response :: http_response where
  "challenge_response = \<lparr> resp_status = 400, resp_headers = nonce_headers, resp_content_length = Some 1,
     resp_chunks = [Ok [3]] \<rparr>"

definition success_response :: http_response where
  "success_response = \<lparr> resp_status = 200, resp_headers = nonce_headers, resp_content_length = Some 1,
     resp_chunks = [Ok [4]] \<rparr>"

definition counting_net :: "nat net" where
  "counting_net = \<lparr> net_url = (\<lambda>s. Ok sample_url), net_join = (\<lambda>u s. Err ''relative''),
     net_known_port = (\<lambda>u. Some 443), net_lookup = (\<lambda>t w. (w, LookupTimeout)),
     net_lookup_host = (\<lambda>h p w. (w, LookupTimeout)),
     net_send = (\<lambda>hook req w. (Suc w, Ok (if w = 0 then challenge_response else success_response))),
     net_send_plain = (\<lambda>req w. (w, Err ''refused'')), net_show_status = show_nat, net_runtime = None \<rparr>"

definition counting_env :: "nat client_env" where
  "counting_env = sample_client_env \<lparr> ie_net = counting_net, ie_serde = sample_id_serde, ie_doh_client = Ok () \<rparr>"

text \<open>The same server, refusing every request for another reason.\<close>

definition refusal :: http_response where
  "refusal = success_response\<lparr>resp_status := 401\<rparr>"

definition refusing_env :: "nat client_env" where
  "refusing_env = sample_client_env \<lparr> ie_net = counting_net\<lparr>net_send := (\<lambda>hook req w. (Suc w, Ok refusal))\<rparr>,
     ie_serde = sample_id_serde, ie_doh_client = Ok () \<rparr>"

definition sample_client :: "'w AtprotoOAuthClient" where
  "sample_client = \<lparr> cl_metadata = OAuthClientMetadata_new ''c'' ''https://app.example/cb'',
     cl_resolver = IdentityResolver_new (SsrfFilter_new False), cl_ssrf_filter = SsrfFilter_new False,
     cl_state_ttl = DEFAULT_STATE_TTL \<rparr>"

definition sample_draws :: draws where
  "sample_draws = \<lparr> dr_assertion = (0, []), dr_proof = (0, []), dr_retry_proof = (0, []), dr_retry_assertion = (0, []) \<rparr>"

definition sample_session :: OAuthSession where
  "sample_session = \<lparr> os_sub = sample_did, os_access_token = ''at0'', os_refresh_token = Some ''rt1'',
     os_token_type = ''DPoP'', os_scope = Some ''atproto transition:generic'', os_expires_at = None,
     os_dpop_key = sample_key, os_pds_endpoint = Some ''https://8.8.8.8'',
     os_auth_server_issuer = Some ''https://8.8.8.8'', os_token_endpoint = Some ''u'', os_created_at = 0 \<rparr>"

lemma sample_create_proof:
  assumes "0 \<le> now" "u \<in> {''u'', ''https://8.8.8.8/p''}"
  shows "\<exists>p. create_proof sample_dpop key m u nonce ath now jti = Ok p"
proof -
  have "normalize_htu sample_parse ''u'' = Ok ''https://as.example:81/token''"
    "normalize_htu sample_parse ''https://8.8.8.8/p'' = Ok ''https://as.example:81/token''"
    by code_simp+
  hence "normalize_htu (env_url sample_dpop) u = Ok ''https://as.example:81/token''"
    using assms(2) by (auto simp: sample_dpop_def)
  thus ?thesis
    using assms(1)
    by (simp add: create_proof_def create_proof_internal_def sign_jwt_def Let_def unix_secs_def sign_p256_raw_def)
      (simp add: sample_dpop_def sample_lib_def)
qed

lemma sample_pinned_client:
  assumes "net_known_port N sample_url = Some 443"
  shows "\<exists>p' client hh. pinned_client N (SsrfFilter_new False) sample_url (p, w) = ((p', w), Ok (client, hh))"
proof -
  have "validate_url (SsrfFilter_new False) sample_url = Ok ()" "parse_ip ''8.8.8.8'' = Some (V4 (8, 8, 8, 8))"
    "\<not> is_ip_restricted (SsrfFilter_new False) (V4 (8, 8, 8, 8))"
    by code_simp+
  moreover have "url_host_str sample_url = Some ''8.8.8.8''" "url_port sample_url = None"
    by (simp_all add: sample_url_def)
  ultimately have "resolve_and_pin N (SsrfFilter_new False) sample_url w = (w, Ok ((V4 (8, 8, 8, 8), 443), ''8.8.8.8''))"
    using assms by (simp add: resolve_and_pin_def Let_def)
  thus ?thesis
    by (cases "runtime_scoped_client_and_resolver (net_runtime N) (allow_insecure_localhost (SsrfFilter_new False)) p")
      (auto simp: pinned_client_def build_pinned_client_def Let_def)
qed

lemma counting_client:
  "\<exists>p' client hh. pinned_client counting_net (SsrfFilter_new False) sample_url (p, w) = ((p', w), Ok (client, hh))"
  by (rule sample_pinned_client) (simp add: counting_net_def)

lemma success_accepted: "token_accept counting_env success_response = Ok sample_token"
proof -
  have "1 \<le> MAX_OAUTH_RESPONSE_BYTES" "trim ''n1'' = ''n1''"
    by (simp add: MAX_OAUTH_RESPONSE_BYTES_def, code_simp)
  hence "read_bounded_body success_response MAX_OAUTH_RESPONSE_BYTES = Ok [4]"
    "require_dpop_nonce (header_text success_response) = Ok ()"
    by (simp_all add: read_bounded_body_def success_response_def require_dpop_nonce_def header_text_def
        header_get_def nonce_headers_def)
  thus ?thesis
    by (simp add: token_accept_Ok counting_env_def sample_client_env_def)
qed

section \<open>Lemmas\<close>

lemma check_exchange_Ok:
  "check_exchange entry t = Ok () \<longleftrightarrow>
     eq_ignore_ascii_case (tr_token_type t) ''DPoP'' \<and> trim (tr_sub t) \<noteq> []
     \<and> (case sse_did entry of Some did \<Rightarrow> tr_sub t = did | None \<Rightarrow> True)
     \<and> (\<exists>sc. tr_scope t = Some sc \<and> has_atproto sc)"
  by (auto simp: check_exchange_def split: option.splits)

lemma exchange_code_Ok:
  assumes "exchange_code C A auth_code entry d now s = (s', Ok sess)"
  obtains t form where "check_exchange entry t = Ok ()"
    "send_dpop_token_request_inner C (cl_ssrf_filter A) (sse_token_endpoint entry) (sse_dpop_key entry) form
       (map_option (\<lambda>k. (k, sse_client_id entry, sse_issuer entry)) (cm_client_key (cl_metadata A))) d s = (s', Ok t)"
    "os_sub sess = tr_sub t" "os_access_token sess = tr_access_token t" "os_token_type sess = tr_token_type t"
    "os_scope sess = tr_scope t" "os_dpop_key sess = sse_dpop_key entry"
    "os_auth_server_issuer sess = Some (sse_issuer entry)" "os_pds_endpoint sess = Some (sse_pds_endpoint entry)"
    "os_token_endpoint sess = Some (sse_token_endpoint entry)" "os_refresh_token sess = tr_refresh_token t"
  using assms by (auto simp: exchange_code_def Let_def into_parts_def OAuthSession_new_Ok)

lemma check_callback_Ok:
  "check_callback params entry now = Ok () \<longleftrightarrow>
     cp_state params = sse_state entry \<and> \<not> entry_is_expired entry now
     \<and> (\<exists>iss. cp_iss params = Some iss \<and> norm_issuer iss = norm_issuer (sse_issuer entry))"
  by (auto simp: check_callback_def)

lemma handle_callback_Ok:
  assumes "store_inv h store" "handle_callback C h A params cd (c, store) = ((c', store'), Ok sess)"
  obtains rc where "store_view h store (cp_state params) = Some rc" "record_live (cd_take cd) rc"
    "check_callback params (rec_entry rc) (cd_check cd) = Ok ()"
    "exchange_code C A (cp_code params) (rec_entry rc) (cd_exchange cd) (cd_session cd) c = (c', Ok sess)"
    "store_view h store' = (store_view h store)(cp_state params := None)"
proof -
  obtain st t where tk: "take_state_sync h (cp_state params) (cd_take cd) store = (st, t)"
    by fastforce
  from assms(2) tk obtain entry where t: "t = Some entry" "store' = st"
    "check_callback params entry (cd_check cd) = Ok ()"
    "exchange_code C A (cp_code params) entry (cd_exchange cd) (cd_session cd) c = (c', Ok sess)"
    by (auto simp: handle_callback_def handle_callback_with_entry_def split: option.splits prod.splits)
  from state_store.take_result [OF assms(1) tk] t(1) obtain rc where
    "store_view h store (cp_state params) = Some rc" "record_live (cd_take cd) rc" "rec_entry rc = entry"
    by (auto split: option.splits if_splits)
  with that t state_store.take_view [OF assms(1) tk] show ?thesis
    by auto
qed

lemma check_refresh_Ok:
  "check_refresh session t = Ok () \<longleftrightarrow>
     eq_ignore_ascii_case (tr_token_type t) ''DPoP'' \<and> tr_sub t \<noteq> [] \<and> tr_sub t = os_sub session
     \<and> (case tr_scope t of
          None \<Rightarrow> True
        | Some sc \<Rightarrow> has_atproto sc
            \<and> (os_scope session \<notin> {None, Some []} \<longrightarrow>
                 set (split_whitespace sc) \<subseteq> set (split_whitespace (the (os_scope session)))))"
  by (auto simp: check_refresh_def Let_def filter_empty_conv split: option.splits)

lemmas io_run = io_bind_def io_fst_def io_map_err_def signed_proof_def fresh_nonce_def send_caching_def

text \<open>The first round of a request to a token endpoint.\<close>

lemma token_request_first:
  assumes "net_url (ce_net C) ep = Ok u" "pinned_client (ce_net C) f u s0 = (s1, Ok (client, hh))"
    "build_token_form_body C base auth (dr_assertion d) = Ok body"
    "create_proof (ce_dpop C) key ''POST'' ep (get_nonce (ce_origin C u) c0) None (fst (dr_proof d)) (snd (dr_proof d)) = Ok proof"
    "http_send (ce_net C) client (form_request u hh proof body) s1 = (s2, Ok resp)"
    "\<not> is_redirection (resp_status resp)"
  defines "s \<equiv> (s2, cache_nonce (ce_origin C u) resp c0)"
  shows "is_success (resp_status resp) \<Longrightarrow>
      send_dpop_token_request_inner C f ep key base auth d (s0, c0) = (s, token_accept C resp)"
    "is_bad_request_or_unauthorized (resp_status resp) \<Longrightarrow> read_bounded_json C resp = Ok j \<Longrightarrow>
      is_use_dpop_nonce_error j \<Longrightarrow>
      send_dpop_token_request_inner C f ep key base auth d (s0, c0)
        = token_retry C f ep u key base auth d (resp_status resp) s"
  using assms(1-6)
  by (auto simp: send_dpop_token_request_inner_def Let_def io_run s_def is_success_def is_bad_request_or_unauthorized_def)

lemma token_retry_round:
  assumes "get_nonce (ce_origin C u) c = Some n" "pinned_client (ce_net C) f u s0 = (s1, Ok (client, hh))"
    "build_token_form_body C base auth (dr_retry_assertion d) = Ok body"
    "create_proof (ce_dpop C) key ''POST'' ep (Some n) None (fst (dr_retry_proof d)) (snd (dr_retry_proof d)) = Ok proof"
    "http_send (ce_net C) client (form_request u hh proof body) s1 = (s2, Ok resp)"
  shows "token_retry C f ep u key base auth d status (s0, c)
    = ((s2, cache_nonce (ce_origin C u) resp c), token_retry_outcome C resp)"
  using assms by (simp add: token_retry_def Let_def io_run)

lemma counting_send: "http_send counting_net client req (p, w)
    = ((p, Suc w), Ok (if w = 0 then challenge_response else success_response))"
  by (simp add: http_send_def counting_net_def)

lemma counting_env_simps [simp]:
  "ce_net counting_env = counting_net" "ce_dpop counting_env = sample_dpop" "net_url counting_net x = Ok sample_url"
  "ce_urlencode counting_env ps = Ok ''form''" "ce_origin counting_env u = ''https://8.8.8.8''"
  by (simp_all add: counting_env_def sample_client_env_def sample_disco_def counting_net_def)

lemma counting_token_request:
  assumes "0 < w"
  shows "\<exists>s'. send_dpop_token_request_inner counting_env (SsrfFilter_new False) ''u'' key form None sample_draws
    ((p, w), cache) = (s', Ok sample_token)"
proof -
  obtain p' client hh where cl: "pinned_client counting_net (SsrfFilter_new False) sample_url (p, w) = ((p', w), Ok (client, hh))"
    using counting_client by blast
  obtain pf where pf: "create_proof sample_dpop key ''POST'' ''u'' (get_nonce ''https://8.8.8.8'' cache) None 0 [] = Ok pf"
    using sample_create_proof [of 0 "''u''"] by blast
  have "http_send counting_net client (form_request sample_url hh pf form) (p', w) = ((p', Suc w), Ok success_response)"
    using assms by (simp add: counting_send)
  with token_request_first(1) [of counting_env "''u''" sample_url "SsrfFilter_new False" "(p, w)" "(p', w)" client hh
      form None sample_draws form key cache pf "(p', Suc w)" success_response] cl pf
  show ?thesis
    by (simp add: build_token_form_body_def sample_draws_def success_accepted)
      (simp add: success_response_def is_success_def is_redirection_def)
qed

lemma apply_refresh_cases:
  assumes "apply_refresh session t now = (session', r)"
  shows "case r of
      Err _ \<Rightarrow> session' = session
    | Ok _ \<Rightarrow> check_refresh session t = Ok () \<and> session' = rotate_tokens_with_scope (tr_access_token t)
        (tr_refresh_token t) (tr_expires_in t) (tr_scope t) now session"
  using assms by (auto simp: apply_refresh_def into_parts_def split: result.splits)

section \<open>A sample callback\<close>

definition client_entry :: StoredStateEntry where
  "client_entry = sample_entry\<lparr>sse_token_endpoint := ''u'', sse_did := Some sample_did\<rparr>"

definition callback_store :: OAuthStateStore where
  "callback_store = update_shard 0 [(''s1'', \<lparr> rec_entry = client_entry, rec_created_at = 0, rec_expires_at = 10 \<rparr>)]
     OAuthStateStore_default"

definition sample_callback :: CallbackParams where
  "sample_callback = with_iss ''https://as.example/'' (CallbackParams_new ''code1'' ''s1'')"

definition sample_cd :: callback_draws where
  "sample_cd = \<lparr> cd_take = 5, cd_check = 0, cd_exchange = sample_draws, cd_session = 0 \<rparr>"

lemma callback_store_inv: "store_inv (\<lambda>_. 0) callback_store"
proof -
  have "shards callback_store = (replicate 64 [])[0 := [(''s1'', \<lparr> rec_entry = client_entry, rec_created_at = 0, rec_expires_at = 10 \<rparr>)]]"
    by (simp add: callback_store_def update_shard_def OAuthStateStore_default_def OAuthStateStore_new_def NUM_SHARDS_def)
  thus ?thesis
    by (auto simp: store_inv_def NUM_SHARDS_def SHARD_ADMISSION_CAPACITY_def hm_ok_def shard_index_def nth_list_update)
qed

lemma callback_take: "\<exists>st. take_state_sync (\<lambda>_. 0) ''s1'' 5 callback_store = (st, Some client_entry)"
  by (simp add: take_state_sync_def callback_store_def update_shard_def OAuthStateStore_default_def
      OAuthStateStore_new_def NUM_SHARDS_def shard_index_def hm_get_def record_is_expired_iff)

lemma sample_session_new:
  "\<exists>sess. OAuthSession_new sub atk rt ''DPoP'' sc (Some 3600) key pds iss te 0 = Ok sess"
  by (simp add: OAuthSession_new_Ok expiry_of_def system_checked_add_def from_secs_def nanos_per_sec_def
      system_max_def instant_max_def eq_ignore_ascii_case_def)

lemma sample_callback_runs:
  "\<exists>s' sess. handle_callback counting_env (\<lambda>_. 0) sample_client sample_callback sample_cd ((([], 1), DPoPNonceCache_new), callback_store)
     = (s', Ok sess)"
proof -
  have "norm_issuer ''https://as.example/'' = norm_issuer ''https://as.example''" "trim sample_did \<noteq> []"
    "has_atproto ''atproto''" "eq_ignore_ascii_case ''DPoP'' ''DPoP''"
    by code_simp+
  hence chk: "check_callback sample_callback client_entry 0 = Ok ()" "check_exchange client_entry sample_token = Ok ()"
    by (simp_all add: check_callback_Ok check_exchange_Ok sample_callback_def with_iss_def CallbackParams_new_def
        client_entry_def sample_entry_def entry_is_expired_def sample_token_def)
  obtain st where st: "take_state_sync (\<lambda>_. 0) ''s1'' 5 callback_store = (st, Some client_entry)"
    using callback_take by blast
  obtain s1 where s1: "send_dpop_token_request_inner counting_env (SsrfFilter_new False) ''u'' (sse_dpop_key client_entry)
      ''form'' None sample_draws (([], 1), DPoPNonceCache_new) = (s1, Ok sample_token)"
    using counting_token_request [OF zero_less_one] by blast
  obtain sess where "OAuthSession_new sample_did ''at'' (Some ''rt2'') ''DPoP'' (Some ''atproto'') (Some 3600)
      (sse_dpop_key client_entry) (Some (sse_pds_endpoint client_entry)) (Some (sse_issuer client_entry))
      (Some ''u'') 0 = Ok sess"
    using sample_session_new by blast
  with chk s1 have "exchange_code counting_env sample_client ''code1'' client_entry sample_draws 0 (([], 1), DPoPNonceCache_new)
      = (s1, Ok sess)"
    by (simp add: exchange_code_def io_bind_def Let_def sample_client_def OAuthClientMetadata_new_def into_parts_def
        sample_token_def client_entry_def)
  with chk st show ?thesis
    by (cases s1) (auto simp: handle_callback_def sample_cd_def handle_callback_with_entry_def io_bind_def
        sample_callback_def with_iss_def CallbackParams_new_def)
qed

section \<open>Login\<close>

lemma prepare_login_Ok:
  assumes "prepare_login C A ident scope ld c = (c1, Ok req)"
  obtains ep c0 pr where "execute_par_request_with_client_key C (cl_ssrf_filter A) (dae_par_endpoint ep)
       (login_params (cl_metadata A) ep scope (ar_state req) (generate_pkce (env_crypto (ce_dpop C)) (ld_pkce ld)))
       (generate_key (ld_key ld)) (map_option (\<lambda>k. (k, dae_auth_server_issuer ep)) (cm_client_key (cl_metadata A)))
       (ld_par ld) c0 = (c1, Ok pr)"
    "ar_stored_state req = login_entry A ep scope (ar_state req)
       (generate_pkce (env_crypto (ce_dpop C)) (ld_pkce ld)) (generate_key (ld_key ld)) (ld_created ld)"
    "ar_request_uri req = pr_request_uri pr"
  using assms by (auto simp: prepare_login_def Let_def)

lemma initiate_login_Ok:
  assumes "initiate_login_with_scope C h A ident scope ld (c, store) = Some ((c1, store1), Ok (req, entry))"
  shows "prepare_login C A ident scope ld c = (c1, Ok req)" "entry = ar_stored_state req"
    "insert_state_sync h (ar_state req) entry (cl_state_ttl A) (fst (ld_insert ld)) (snd (ld_insert ld)) store
       = Some (store1, Ok ())"
  using assms by (auto simp: initiate_login_with_scope_def split: prod.splits result.splits option.splits)

lemma record_live_until:
  assumes "StoredStateRecord_new e ttl t0 = Some rc" "t0 + ttl \<le> instant_max" "0 < ttl" "now < t0 + ttl"
  shows "record_live now rc"
  using assms by (auto simp: StoredStateRecord_new_def record_live_def record_is_expired_iff instant_checked_add_def
      split: if_splits)

lemma ttl_secs:
  assumes "ttl mod nanos_per_sec = 0" "as_secs ttl < 2 ^ 64"
  shows "from_secs (unat (secs64 ttl)) = ttl"
  using assms by (auto simp: from_secs_def secs64_def as_secs_def unat_of_nat take_bit_nat_eq_self mod_eq_0_iff_dvd)

lemma generated_pkce_verifies:
  assumes "ct_eq_documented L" "b64_documented L" "sha256_documented L" "length entropy = 32"
  shows "verify_pkce L (pkce_verifier (generate_pkce L entropy)) (pkce_challenge (generate_pkce L entropy)) = Ok ()"
  using assms by (simp add: generate_pkce_def Let_def verify_pkce_Ok validate_verifier_Ok b64_encoding_length
      b64_encoding_unreserved length_derive_s256_challenge)

lemma login_params_fields [simp]:
  "par_code_challenge (login_params m ep scope st pk) = pkce_challenge pk"
  "par_state (login_params m ep scope st pk) = st"
  by (simp_all add: login_params_def ParParameters_new_def with_login_hint_def Let_def split: option.split)

text \<open>The sample login, against a server that answers every request with success.\<close>

definition login_env :: "unit client_env" where
  "login_env = sample_client_env sample_id_env"

definition sample_ld :: login_draws where
  "sample_ld = \<lparr> ld_pkce = replicate 32 7, ld_state = [1, 2, 3], ld_key = replicate 32 7, ld_par = sample_draws,
     ld_created = 0, ld_insert = (0, 0) \<rparr>"

lemma login_par_accept:
  "par_accept login_env sample_response = Ok \<lparr> pr_request_uri = ''urn:r'', pr_expires_in = 60 \<rparr>"
proof -
  have "2 \<le> MAX_OAUTH_RESPONSE_BYTES" "trim ''n1'' \<noteq> []" "trim ''urn:r'' \<noteq> []"
    by (simp add: MAX_OAUTH_RESPONSE_BYTES_def) code_simp+
  thus ?thesis
    using sample_body [of MAX_OAUTH_RESPONSE_BYTES]
    by (simp add: par_accept_Ok parse_par_response_Ok login_env_def sample_client_env_def sample_dpop_def json_get_str_def
        require_dpop_nonce_def header_text_def header_get_def sample_response_def nonce_headers_def)
qed

lemma login_par_request:
  "\<exists>s'. execute_par_request_with_client_key login_env (SsrfFilter_new False) ''https://8.8.8.8/p'' params key None
     sample_draws ((p, ()), cache) = (s', Ok \<lparr> pr_request_uri = ''urn:r'', pr_expires_in = 60 \<rparr>)"
proof -
  obtain p' client hh where cl: "pinned_client sample_unit_net (SsrfFilter_new False) sample_url (p, ()) = ((p', ()), Ok (client, hh))"
    using sample_pinned_client [of sample_unit_net p "()"] by (auto simp: sample_unit_net_def)
  obtain pf where pf: "create_proof sample_dpop key ''POST'' ''https://8.8.8.8/p'' (get_nonce ''https://8.8.8.8'' cache) None 0 [] = Ok pf"
    using sample_create_proof [of 0 "''https://8.8.8.8/p''"] by blast
  have "ce_net login_env = sample_unit_net" "ce_dpop login_env = sample_dpop" "ce_origin login_env u = ''https://8.8.8.8''"
    "net_url sample_unit_net x = Ok sample_url" "\<not> is_redirection 200" "is_success 200"
    "http_send sample_unit_net client req (p', ()) = ((p', ()), Ok sample_response)" "resp_status sample_response = 200" for u x req
    by (simp_all add: login_env_def sample_client_env_def sample_disco_def sample_id_env_def sample_unit_net_def
        is_redirection_def is_success_def http_send_def sample_response_def)
  thus ?thesis
    using cl pf login_par_accept
    by (simp add: execute_par_request_with_client_key_def Let_def io_run par_form_body_def sample_draws_def
        is_bad_request_or_unauthorized_def)
qed

lemma sample_login:
  "\<exists>c1 store1 req. initiate_login_with_scope login_env (\<lambda>_. 0) sample_client sample_did ''atproto'' sample_ld
     ((([], ()), DPoPNonceCache_new), OAuthStateStore_default) = Some ((c1, store1), Ok (req, ar_stored_state req))"
proof -
  obtain p ri where d: "discover_oauth_endpoints (sample_disco sample_id_env) (IdentityResolver_new (SsrfFilter_new False))
     sample_did ([], ()) = ((p, ()), Ok (assemble_endpoints ri sample_prm sample_asm))"
    using sample_discover by blast
  have ep: "dae_par_endpoint (assemble_endpoints ri sample_prm sample_asm) = ''https://8.8.8.8/p''"
    by (simp add: assemble_endpoints_def sample_asm_def)
  have url: "build_authorization_url login_env x y z = Ok sample_url" for x y z
    by (simp add: build_authorization_url_def login_env_def sample_client_env_def sample_disco_def sample_id_env_def
        sample_unit_net_def)
  let ?A = "sample_client :: unit AtprotoOAuthClient" and ?ep = "assemble_endpoints ri sample_prm sample_asm"
  let ?L = "env_crypto (ce_dpop login_env)"
  obtain c1 where "execute_par_request_with_client_key login_env (SsrfFilter_new False) ''https://8.8.8.8/p''
      (login_params (cl_metadata ?A) ?ep ''atproto'' (base64url_encode ?L (ld_state sample_ld)) (generate_pkce ?L (ld_pkce sample_ld)))
      (generate_key (ld_key sample_ld)) None sample_draws ((p, ()), DPoPNonceCache_new)
      = (c1, Ok \<lparr> pr_request_uri = ''urn:r'', pr_expires_in = 60 \<rparr>)"
    using login_par_request by blast
  moreover have "ce_disco login_env = sample_disco sample_id_env" "cl_resolver ?A = IdentityResolver_new (SsrfFilter_new False)"
    "cl_ssrf_filter ?A = SsrfFilter_new False" "cm_client_key (cl_metadata ?A) = None" "ld_par sample_ld = sample_draws"
    by (simp_all add: login_env_def sample_client_env_def sample_client_def OAuthClientMetadata_new_def sample_ld_def)
  ultimately obtain req where "prepare_login login_env ?A sample_did ''atproto'' sample_ld (([], ()), DPoPNonceCache_new)
      = (c1, Ok req)"
    using d ep url by (simp add: prepare_login_def io_bind_def io_fst_def io_map_err_def Let_def)
  moreover have "\<exists>st. insert_state_sync (\<lambda>_. 0) k e DEFAULT_STATE_TTL 0 0 OAuthStateStore_default = Some (st, Ok ())" for k e
    by (simp add: insert_state_sync_def StoredStateRecord_new_def instant_checked_add_def DEFAULT_STATE_TTL_def
        from_secs_def nanos_per_sec_def instant_max_def OAuthStateStore_default_def OAuthStateStore_new_def NUM_SHARDS_def
        shard_index_def SHARD_ADMISSION_CAPACITY_def Let_def)
  then obtain st where "insert_state_sync (\<lambda>_. 0) (ar_state req) (ar_stored_state req) DEFAULT_STATE_TTL 0 0
      OAuthStateStore_default = Some (st, Ok ())"
    by blast
  moreover have "cl_state_ttl ?A = DEFAULT_STATE_TTL" "ld_insert sample_ld = (0, 0)"
    by (simp_all add: sample_client_def sample_ld_def)
  ultimately show ?thesis
    by (intro exI [of _ c1] exI [of _ st] exI [of _ req]) (simp add: initiate_login_with_scope_def)
qed

section \<open>Properties\<close>

text \<open>C3: A session that comes out of a callback is the one of the login that stored the state: the
  state was stored and live, belongs to this callback and has not expired; the issuer of the callback
  is that of the login; the subject is the account the login resolved; the tokens are DPoP tokens
  with the \<open>atproto\<close> scope, bound to the key of the login and to its endpoints.  The state is gone
  afterwards, and no other state is touched.
\<close>

theorem callback_sound:
  assumes "store_inv h store"
    and "handle_callback C h A params cd (c, store) = ((c', store'), Ok sess)"
  shows "\<exists>rc entry. store_view h store (cp_state params) = Some rc \<and> record_live (cd_take cd) rc
    \<and> rec_entry rc = entry \<and> sse_state entry = cp_state params \<and> \<not> entry_is_expired entry (cd_check cd)
    \<and> (\<exists>iss. cp_iss params = Some iss \<and> norm_issuer iss = norm_issuer (sse_issuer entry))
    \<and> (case sse_did entry of Some did \<Rightarrow> os_sub sess = did | None \<Rightarrow> trim (os_sub sess) \<noteq> [])
    \<and> session_ok sess \<and> (\<exists>sc. os_scope sess = Some sc \<and> has_atproto sc)
    \<and> os_dpop_key sess = sse_dpop_key entry \<and> os_auth_server_issuer sess = Some (sse_issuer entry)
    \<and> os_token_endpoint sess = Some (sse_token_endpoint entry)
    \<and> os_pds_endpoint sess = Some (sse_pds_endpoint entry)
    \<and> store_view h store' = (store_view h store)(cp_state params := None)"
proof -
  from handle_callback_Ok [OF assms] obtain rc where rc: "store_view h store (cp_state params) = Some rc"
    "record_live (cd_take cd) rc" "check_callback params (rec_entry rc) (cd_check cd) = Ok ()"
    "store_view h store' = (store_view h store)(cp_state params := None)"
    and ex: "exchange_code C A (cp_code params) (rec_entry rc) (cd_exchange cd) (cd_session cd) c = (c', Ok sess)" .
  from exchange_code_Ok [OF ex] obtain t where "check_exchange (rec_entry rc) t = Ok ()" "os_sub sess = tr_sub t"
    "os_token_type sess = tr_token_type t" "os_scope sess = tr_scope t" "os_dpop_key sess = sse_dpop_key (rec_entry rc)"
    "os_auth_server_issuer sess = Some (sse_issuer (rec_entry rc))"
    "os_pds_endpoint sess = Some (sse_pds_endpoint (rec_entry rc))"
    "os_token_endpoint sess = Some (sse_token_endpoint (rec_entry rc))"
    by metis
  with rc show ?thesis
    by (intro exI [of _ rc] exI [of _ "rec_entry rc"])
      (auto simp: check_callback_Ok check_exchange_Ok session_ok_def split: option.splits)
qed

theorem callback_sound_witness:
  "\<exists>sess. snd (handle_callback counting_env (\<lambda>_. 0) sample_client sample_callback sample_cd
      ((([], 1), DPoPNonceCache_new), callback_store)) = Ok sess \<and> session_ok sess"
proof -
  obtain s' sess where run: "handle_callback counting_env (\<lambda>_. 0) sample_client sample_callback sample_cd
      ((([], 1), DPoPNonceCache_new), callback_store) = ((fst s', snd s'), Ok sess)"
    using sample_callback_runs by auto
  from callback_sound [OF callback_store_inv run] run show ?thesis
    by auto
qed

text \<open>C16: A callback can be used once.  Whatever the first callback of a state did, every later callback
  with that state is rejected, and rejecting it sends no request and changes nothing.
\<close>

theorem callback_replay_rejected:
  assumes "store_inv h store" and "handle_callback C h A params cd (c, store) = (s', r)"
    and "cp_state params' = cp_state params"
  shows "handle_callback C h A params' cd' s' = (s', Err (AtprotoOAuthError.Token (TokenError.InvalidState
    (''State token '' @ sq (cp_state params) @ '' not found, expired, or already consumed''))))"
proof -
  obtain st t where tk: "take_state_sync h (cp_state params) (cd_take cd) store = (st, t)"
    by fastforce
  have s': "snd s' = st"
    using assms(2) tk by (auto simp: handle_callback_def split: option.splits prod.splits)
  have inv: "store_inv h st" and none: "store_view h st (cp_state params) = None"
    using state_store.take_inv [OF assms(1) tk] state_store.take_view [OF assms(1) tk] by auto
  hence "take_state_sync h (cp_state params) (cd_take cd') st = (st, None)"
    by (simp add: take_state_sync_def store_view_def Let_def)
  thus ?thesis
    using assms(3) s' by (cases s') (simp add: handle_callback_def)
qed

theorem callback_replay_rejected_witness:
  "\<exists>s' sess. handle_callback counting_env (\<lambda>_. 0) sample_client sample_callback sample_cd
      ((([], 1), DPoPNonceCache_new), callback_store) = (s', Ok sess)
    \<and> fst (handle_callback counting_env (\<lambda>_. 0) sample_client sample_callback sample_cd s') = s'"
proof -
  obtain s' sess where run: "handle_callback counting_env (\<lambda>_. 0) sample_client sample_callback sample_cd
      ((([], 1), DPoPNonceCache_new), callback_store) = (s', Ok sess)"
    using sample_callback_runs by blast
  from callback_replay_rejected [OF callback_store_inv this refl, of sample_cd] run show ?thesis
    by auto
qed

text \<open>C7: A successful refresh keeps the identity, the key and the endpoints of the session, takes the
  new tokens, and never widens a recorded scope; a failed refresh leaves the session as it was.
\<close>

theorem refresh_sound:
  assumes "refresh_session_locked C A d now (c, session) = ((c', session'), r)"
  shows "case r of
      Err _ \<Rightarrow> session' = session
    | Ok _ \<Rightarrow> os_sub session' = os_sub session \<and> os_dpop_key session' = os_dpop_key session
        \<and> os_token_endpoint session' = os_token_endpoint session
        \<and> os_auth_server_issuer session' = os_auth_server_issuer session
        \<and> os_pds_endpoint session' = os_pds_endpoint session
        \<and> session_ok session' = session_ok session
        \<and> (\<exists>t. request_refresh C A session d c = (c', Ok t) \<and> os_access_token session' = tr_access_token t
              \<and> os_refresh_token session' = tr_refresh_token t)
        \<and> (os_scope session' = os_scope session
           \<or> (\<exists>sc. os_scope session' = Some sc \<and> has_atproto sc
                \<and> (os_scope session \<in> {None, Some []}
                   \<or> set (split_whitespace sc) \<subseteq> set (split_whitespace (the (os_scope session))))))"
proof (cases "request_refresh C A session d c")
  case (Pair c1 r1)
  show ?thesis
  proof (cases r1)
    case (Err e)
    thus ?thesis
      using assms Pair by (auto simp: refresh_session_locked_def)
  next
    case (Ok t)
    hence "c' = c1" "apply_refresh session t now = (session', r)"
      using assms Pair by (auto simp: refresh_session_locked_def split: prod.splits)
    thus ?thesis
      using Pair Ok apply_refresh_cases [of session t now session' r]
      by (cases r) (auto simp: check_refresh_Ok split: option.splits)
  qed
qed

theorem refresh_sound_witness:
  "\<exists>s'. refresh_session_locked counting_env sample_client sample_draws 0 ((([], 1), DPoPNonceCache_new), sample_session)
      = (s', Ok ()) \<and> os_refresh_token (snd s') = Some ''rt2'' \<and> os_sub (snd s') = sample_did"
proof -
  obtain s1 where "send_dpop_token_request_inner counting_env (SsrfFilter_new False) ''u'' sample_key
      ''form'' None sample_draws (([], 1), DPoPNonceCache_new) = (s1, Ok sample_token)"
    using counting_token_request [OF zero_less_one] by blast
  hence req: "request_refresh counting_env sample_client sample_session sample_draws (([], 1), DPoPNonceCache_new) = (s1, Ok sample_token)"
    by (simp add: request_refresh_def io_bind_def Let_def sample_client_def OAuthClientMetadata_new_def sample_session_def)
  have "check_refresh sample_session sample_token = Ok ()"
    by code_simp
  with req obtain s' where run: "refresh_session_locked counting_env sample_client sample_draws 0
      ((([], 1), DPoPNonceCache_new), sample_session) = ((fst s', snd s'), Ok ())"
    by (auto simp: refresh_session_locked_def apply_refresh_def into_parts_def)
  from refresh_sound [OF this] req run show ?thesis
    by (intro exI [of _ s']) (auto simp: sample_token_def sample_session_def)
qed

text \<open>C28: A nonce challenge of a token endpoint is answered once, with the nonce it brought.  The second
  request goes through the boundary again and carries a fresh proof with that nonce and a fresh
  client assertion; its answer is final, whatever it is, and the nonce cache keeps the last nonce.
\<close>

theorem nonce_challenge_answered:
  assumes "net_url (ce_net C) ep = Ok u"
    and "pinned_client (ce_net C) f u s0 = (s1, Ok (client, hh))"
    and "build_token_form_body C base auth (dr_assertion d) = Ok body"
    and "create_proof (ce_dpop C) key ''POST'' ep (get_nonce (ce_origin C u) c0) None (fst (dr_proof d)) (snd (dr_proof d)) = Ok proof"
    and "http_send (ce_net C) client (form_request u hh proof body) s1 = (s2, Ok resp)"
    and "is_bad_request_or_unauthorized (resp_status resp)" and "read_bounded_json C resp = Ok j"
    and "is_use_dpop_nonce_error j" and "header_text resp ''dpop-nonce'' = Some n" and "trim n \<noteq> []"
    and "create_proof (ce_dpop C) key ''POST'' ep (Some (trim n)) None (fst (dr_retry_proof d)) (snd (dr_retry_proof d)) = Ok proof2"
    and "build_token_form_body C base auth (dr_retry_assertion d) = Ok body2"
    and "pinned_client (ce_net C) f u s2 = (s3, Ok (client2, hh2))"
    and "http_send (ce_net C) client2 (form_request u hh2 proof2 body2) s3 = (s4, Ok resp2)"
  shows "send_dpop_token_request_inner C f ep key base auth d (s0, c0)
    = ((s4, cache_nonce (ce_origin C u) resp2 (cache_nonce (ce_origin C u) resp c0)), token_retry_outcome C resp2)"
proof -
  have "\<not> is_redirection (resp_status resp)"
    using assms(6) by (auto simp: is_bad_request_or_unauthorized_def is_redirection_def)
  from token_request_first(2) [OF assms(1-5) this assms(6-8)]
    token_retry_round [OF get_nonce_cache_nonce [OF assms(9,10)] assms(13,12,11,14)]
  show ?thesis
    by simp
qed

theorem nonce_challenge_answered_witness:
  "\<exists>p' cache. send_dpop_token_request_inner counting_env (SsrfFilter_new False) ''u'' sample_key ''form'' None
      sample_draws (([], 0), DPoPNonceCache_new) = (((p', 2), cache), Ok sample_token)"
proof -
  obtain p1 cl1 h1 where c1: "pinned_client counting_net (SsrfFilter_new False) sample_url ([], 0) = ((p1, 0), Ok (cl1, h1))"
    using counting_client by blast
  obtain p2 cl2 h2 where c2: "pinned_client counting_net (SsrfFilter_new False) sample_url (p1, 1) = ((p2, 1), Ok (cl2, h2))"
    using counting_client by blast
  obtain pf1 pf2 where pf: "create_proof sample_dpop sample_key ''POST'' ''u'' (get_nonce ''https://8.8.8.8'' DPoPNonceCache_new) None 0 [] = Ok pf1"
    "create_proof sample_dpop sample_key ''POST'' ''u'' (Some (trim ''n1'')) None 0 [] = Ok pf2"
    using sample_create_proof [of 0 "''u''"] by blast
  have "1 \<le> MAX_OAUTH_RESPONSE_BYTES" "trim ''n1'' \<noteq> []"
    by (simp add: MAX_OAUTH_RESPONSE_BYTES_def, code_simp)
  hence ch: "read_bounded_json counting_env challenge_response = Ok (Some (JObject [''error'' \<mapsto> JString ''use_dpop_nonce'']))"
    "header_text challenge_response ''dpop-nonce'' = Some ''n1''" "trim ''n1'' \<noteq> []"
    by (simp_all add: read_bounded_json_def read_token_body_def read_bounded_body_def challenge_response_def
        header_text_def header_get_def nonce_headers_def sample_dpop_def)
  have "token_retry_outcome counting_env success_response = Ok sample_token"
    by (simp add: token_retry_outcome_Ok success_accepted) (simp add: success_response_def is_success_def)
  with nonce_challenge_answered [of counting_env "''u''" sample_url "SsrfFilter_new False" "([], 0)" "(p1, 0)" cl1 h1
      "''form''" None sample_draws "''form''" sample_key DPoPNonceCache_new pf1 "(p1, 1)" challenge_response
      "Some (JObject [''error'' \<mapsto> JString ''use_dpop_nonce''])" "''n1''" pf2 "''form''" "(p2, 1)" cl2 h2 "(p2, 2)" success_response]
    c1 c2 pf ch
  show ?thesis
    by (simp add: counting_send sample_draws_def build_token_form_body_def is_use_dpop_nonce_error_def json_error_def
        json_get_str_def numeral_2_eq_2)
      (simp add: challenge_response_def is_bad_request_or_unauthorized_def)
qed

text \<open>C27: A login leads to its callback.  The callback with the state of a login and its issuer, before
  the state expires, reaches the code exchange with exactly the entry that the login stored; the
  verifier in that entry passes the challenge that the pushed request carried, and the key of the
  entry is the one that signed the pushed request.
\<close>

theorem login_leads_to_callback:
  assumes "store_inv h store" and "cl_state_ttl A mod nanos_per_sec = 0" and "0 < cl_state_ttl A"
    and "as_secs (cl_state_ttl A) < 2 ^ 64"
    and "ct_eq_documented (env_crypto (ce_dpop C))" and "b64_documented (env_crypto (ce_dpop C))"
    and "sha256_documented (env_crypto (ce_dpop C))" and "length (ld_pkce ld) = 32"
    and "initiate_login_with_scope C h A ident scope ld (c, store) = Some ((c1, store1), Ok (req, entry))"
    and "fst (ld_insert ld) + cl_state_ttl A \<le> instant_max" and "cd_take cd < fst (ld_insert ld) + cl_state_ttl A"
    and "ld_created ld \<le> cd_check cd" and "cd_check cd \<le> ld_created ld + int (cl_state_ttl A)"
    and "cp_state params = ar_state req" and "cp_iss params = Some iss"
    and "norm_issuer iss = norm_issuer (sse_issuer entry)"
  shows "(\<exists>store2. handle_callback C h A params cd (c2, store1) =
      (case exchange_code C A (cp_code params) entry (cd_exchange cd) (cd_session cd) c2 of
         (c3, r) \<Rightarrow> ((c3, store2), r)))
    \<and> (\<exists>(ep :: DiscoveredAuthEndpoints) sent c0 pr auth. execute_par_request_with_client_key C (cl_ssrf_filter A) (dae_par_endpoint ep) sent
          (sse_dpop_key entry) auth (ld_par ld) c0 = (c1, Ok pr)
        \<and> par_state sent = cp_state params \<and> sse_issuer entry = dae_auth_server_issuer ep
        \<and> sse_did entry = Some (dae_did ep)
        \<and> verify_pkce (env_crypto (ce_dpop C)) (sse_code_verifier entry) (par_code_challenge sent) = Ok ())"
proof -
  note l = initiate_login_Ok [OF assms(9)]
  obtain ep c0 pr where par: "execute_par_request_with_client_key C (cl_ssrf_filter A) (dae_par_endpoint ep)
       (login_params (cl_metadata A) ep scope (ar_state req) (generate_pkce (env_crypto (ce_dpop C)) (ld_pkce ld)))
       (generate_key (ld_key ld)) (map_option (\<lambda>k. (k, dae_auth_server_issuer ep)) (cm_client_key (cl_metadata A)))
       (ld_par ld) c0 = (c1, Ok pr)"
    and entry: "entry = login_entry A ep scope (ar_state req)
       (generate_pkce (env_crypto (ce_dpop C)) (ld_pkce ld)) (generate_key (ld_key ld)) (ld_created ld)"
    using prepare_login_Ok [OF l(1)] l(2) by metis
  from store_view_insert(2) [OF assms(1) l(3) refl] obtain rc where
    rc: "store_view h store1 (ar_state req) = Some rc" "rec_entry rc = entry"
      "StoredStateRecord_new entry (cl_state_ttl A) (fst (ld_insert ld)) = Some rc"
    by blast
  obtain store2 t where tk: "take_state_sync h (ar_state req) (cd_take cd) store1 = (store2, t)"
    by fastforce
  have "t = Some entry"
    using state_store.take_result [OF store_inv_insert [OF assms(1) l(3)] tk] rc
      record_live_until [OF rc(3) assms(10,3,11)] by simp
  moreover have "check_callback params entry (cd_check cd) = Ok ()"
    using assms(12-16) ttl_secs [OF assms(2,4)]
    by (simp add: check_callback_Ok entry login_entry_def entry_is_expired_def Let_def)
  ultimately have "handle_callback C h A params cd (c2, store1) =
      (case exchange_code C A (cp_code params) entry (cd_exchange cd) (cd_session cd) c2 of (c3, r) \<Rightarrow> ((c3, store2), r))"
    using tk assms(14) by (simp add: handle_callback_def handle_callback_with_entry_def io_bind_def)
  moreover have "verify_pkce (env_crypto (ce_dpop C)) (sse_code_verifier entry) (par_code_challenge
      (login_params (cl_metadata A) ep scope (ar_state req) (generate_pkce (env_crypto (ce_dpop C)) (ld_pkce ld)))) = Ok ()"
    using generated_pkce_verifies [OF assms(5-8)] by (simp add: entry login_entry_def)
  moreover have "sse_dpop_key entry = generate_key (ld_key ld)" "sse_issuer entry = dae_auth_server_issuer ep"
    "sse_did entry = Some (dae_did ep)"
    by (simp_all add: entry login_entry_def)
  ultimately show ?thesis
    using par assms(14)
    by (intro conjI exI [of _ store2] exI [of _ ep] exI [of _ "login_params (cl_metadata A) ep scope (ar_state req)
          (generate_pkce (env_crypto (ce_dpop C)) (ld_pkce ld))"] exI [of _ c0] exI [of _ pr]
        exI [of _ "map_option (\<lambda>k. (k, dae_auth_server_issuer ep)) (cm_client_key (cl_metadata A))"]) simp_all
qed

theorem login_leads_to_callback_witness:
  "\<exists>c1 store1 req store2. initiate_login_with_scope login_env (\<lambda>_. 0) sample_client sample_did ''atproto'' sample_ld
       ((([], ()), DPoPNonceCache_new), OAuthStateStore_default) = Some ((c1, store1), Ok (req, ar_stored_state req))
     \<and> handle_callback login_env (\<lambda>_. 0) sample_client
         (with_iss (sse_issuer (ar_stored_state req)) (CallbackParams_new ''code1'' (ar_state req))) sample_cd (c1, store1)
       = (case exchange_code login_env sample_client ''code1'' (ar_stored_state req) sample_draws 0 c1 of
            (c3, r) \<Rightarrow> ((c3, store2), r))"
proof -
  obtain c1 store1 req where run: "initiate_login_with_scope login_env (\<lambda>_. 0) sample_client sample_did ''atproto''
      sample_ld ((([], ()), DPoPNonceCache_new), OAuthStateStore_default) = Some ((c1, store1), Ok (req, ar_stored_state req))"
    using sample_login by blast
  have "cl_state_ttl (sample_client :: unit AtprotoOAuthClient) = 300000000000" "env_crypto (ce_dpop login_env) = sample_lib"
    by (simp_all add: sample_client_def DEFAULT_STATE_TTL_def from_secs_def nanos_per_sec_def login_env_def
        sample_client_env_def sample_dpop_def)
  with login_leads_to_callback [of "\<lambda>_. 0", OF _ _ _ _ _ _ _ _ run, of sample_cd "with_iss (sse_issuer (ar_stored_state req))
      (CallbackParams_new ''code1'' (ar_state req))" _ c1] sample_documented run
  show ?thesis
    by (simp add: OAuthStateStore_default_def nanos_per_sec_def as_secs_def sample_ld_def sample_cd_def with_iss_def
        CallbackParams_new_def instant_max_def)
qed

text \<open>C15: Every request of the client that carries a proof goes through the boundary.  A pushed request, a
  token request and an authenticated request each send at most two requests, each of them to the
  admitted URL of the endpoint it was given, with a proof that the given key signs for that method
  and target; an authenticated request is also bound to the hash of its access token.
\<close>

theorem oauth_requests_confined:
  assumes "logs sent f (ce_net C)"
  shows "cio_confined sent (endpoint_request C f key ep) 2 (execute_par_request_with_client_key C f ep params key ca d)
    \<and> cio_confined sent (endpoint_request C f key ep) 2 (send_dpop_token_request_inner C f ep key base auth d)
    \<and> cio_confined sent (bound_request C f key method u tok) 2 (send_dpop_request C f key method u tok body ct d)"
  using execute_par_request_confined [OF assms] token_request_confined [OF assms] dpop_request_confined [OF assms]
  by blast

theorem oauth_requests_confined_witness:
  "cio_confined id (endpoint_request (sample_client_env sample_log_env) (SsrfFilter_new False) sample_key ''u'') 2
     (send_dpop_token_request_inner (sample_client_env sample_log_env) (SsrfFilter_new False) ''u'' sample_key ''form'' None
        sample_draws)"
proof -
  have "logs id (SsrfFilter_new False) (ce_net (sample_client_env sample_log_env))"
    by (simp add: logs_def sample_client_env_def sample_disco_def sample_log_env_def sample_log_net_def sample_net_def)
  from oauth_requests_confined [OF this] show ?thesis
    by blast
qed

text \<open>An error answer of a resource server that is no nonce challenge is not retried.  After one
  request, the caller receives a response with the same status, the same headers and the same body,
  although the body was read to classify it.
\<close>

theorem unrelated_error_passed_through:
  assumes "build_documented C" and "net_url (ce_net C) url_str = Ok u"
    and "pinned_client (ce_net C) f u s0 = (s1, Ok (client, hh))"
    and "create_proof (ce_dpop C) key method url_str (get_nonce (ce_origin C u) c0)
      (map_option (compute_access_token_hash (env_crypto (ce_dpop C))) tok) (fst (dr_proof d)) (snd (dr_proof d)) = Ok proof"
    and "http_send (ce_net C) client (dpop_request method u hh proof tok ct body) s1 = (s2, Ok resp)"
    and "is_bad_request_or_unauthorized (resp_status resp)" and "\<not> is_rs_dpop_nonce_challenge resp"
    and "read_bounded_body resp MAX_OAUTH_RESPONSE_BYTES = Ok bs"
    and "\<not> is_use_dpop_nonce_error (ok_opt (ce_json C bs))"
  shows "\<exists>r. send_dpop_request C f key method url_str tok body ct d (s0, c0)
      = ((s2, cache_nonce (ce_origin C u) resp c0), Ok r)
    \<and> resp_status r = resp_status resp \<and> resp_headers r = resp_headers resp \<and> body_of r = body_of resp"
proof -
  obtain r where "ce_build_response C (resp_status resp) (resp_headers resp) bs = Ok r"
    "resp_status r = resp_status resp" "resp_headers r = resp_headers resp" "body_of r = bs"
    using assms(1) unfolding build_documented_def by blast
  moreover have "bs = body_of resp"
    using assms(8) by (simp add: read_bounded_body_iff)
  moreover have "read_token_body resp = Ok bs"
    using assms(8) by simp
  ultimately show ?thesis
    using assms(2-7,9)
    by (auto simp: send_dpop_request_def Let_def io_run challenge_or_rebuilt_def simp del: read_token_body_Ok)
qed

theorem unrelated_error_passed_through_witness:
  "\<exists>p' c r. send_dpop_request refusing_env (SsrfFilter_new False) sample_key ''GET'' ''u'' (Some ''at'') None None
      sample_draws (([], 0), DPoPNonceCache_new) = (((p', 1), c), Ok r) \<and> resp_status r = 401"
proof -
  have net: "net_known_port (ce_net refusing_env) sample_url = Some 443" "net_url (ce_net refusing_env) ''u'' = Ok sample_url"
    "ce_dpop refusing_env = sample_dpop" "ce_origin refusing_env u = ''https://8.8.8.8''" "resp_status refusal = 401"
    "http_send (ce_net refusing_env) client req (p, w) = ((p, Suc w), Ok refusal)" for u client req p w
    by (simp_all add: refusing_env_def sample_client_env_def sample_disco_def counting_net_def http_send_def refusal_def)
  obtain p1 cl h where cl: "pinned_client (ce_net refusing_env) (SsrfFilter_new False) sample_url ([], 0) = ((p1, 0), Ok (cl, h))"
    using sample_pinned_client [OF net(1)] by blast
  obtain pf where pf: "create_proof sample_dpop sample_key ''GET'' ''u'' (get_nonce ''https://8.8.8.8'' DPoPNonceCache_new)
      (Some (compute_access_token_hash (env_crypto sample_dpop) ''at'')) 0 [] = Ok pf"
    using sample_create_proof [of 0 "''u''"] by blast
  have "build_documented refusing_env" "\<not> is_rs_dpop_nonce_challenge refusal"
    "read_bounded_body refusal MAX_OAUTH_RESPONSE_BYTES = Ok [4]" "\<not> is_use_dpop_nonce_error (ok_opt (ce_json refusing_env [4]))"
    by (simp_all add: build_documented_def refusing_env_def sample_client_env_def body_of_def is_rs_dpop_nonce_challenge_def
        refusal_def success_response_def nonce_headers_def map_filter_simps read_bounded_body_def MAX_OAUTH_RESPONSE_BYTES_def
        is_use_dpop_nonce_error_def json_error_def sample_dpop_def)
  with unrelated_error_passed_through [of refusing_env "''u''" sample_url "SsrfFilter_new False" "([], 0)" "(p1, 0)" cl h
      sample_key "''GET''" DPoPNonceCache_new "Some ''at''" sample_draws pf None None "(p1, 1)" refusal "[4]"] net cl pf
  show ?thesis
    by (auto simp: sample_draws_def is_bad_request_or_unauthorized_def)
qed

text \<open>Debug output does not reveal credentials.  What is printed of a session, a token response, a
  pushed request or a stored login is the same whatever the tokens, the assertion and the verifier
  are, and keys show as their thumbprints only.
\<close>

theorem debug_output_redacts:
  "debug_session L (s\<lparr>os_access_token := a, os_refresh_token := map_option f (os_refresh_token s)\<rparr>) = debug_session L s
   \<and> debug_token_response (t\<lparr>tr_access_token := a, tr_refresh_token := map_option f (tr_refresh_token t)\<rparr>)
       = debug_token_response t
   \<and> debug_par_parameters (p\<lparr>par_client_assertion := map_option f (par_client_assertion p)\<rparr>) = debug_par_parameters p
   \<and> debug_entry L (e\<lparr>sse_code_verifier := a\<rparr>) = debug_entry L e"
  by (simp add: debug_session_redacts debug_token_response_def debug_par_parameters_def debug_entry_def
      option.map_comp o_def)

end
