(* ===== verification/Single_Flight_Props.thy ===== *)
theory Single_Flight_Props
  imports Single_Flight Client_Props
begin

text \<open>
  Properties of concurrent refreshes: the invariant of the step relation, mutual exclusion per
  subject, and that a rotated refresh token is never submitted again.
\<close>

section \<open>Preservation\<close>

lemma set_task_simps [simp]:
  "fl_table (set_task i t s) = fl_table s" "fl_shared (set_task i t s) = fl_shared s"
  "fl_held (set_task i t s) = fl_held s" "fl_log (set_task i t s) = fl_log s"
  "fl_tasks (set_task i t s) = (fl_tasks s)[i := t]"
  by (simp_all add: set_task_def)

lemma task_is_set_task:
  "task_is (set_task i t s) j x \<longleftrightarrow> (if j = i then i < length (fl_tasks s) \<and> x = t else task_is s j x)"
  by (auto simp: task_is_def)

lemma task_is_upd [simp]:
  "task_is (s\<lparr>fl_held := h\<rparr>) = task_is s" "task_is (s\<lparr>fl_table := t\<rparr>) = task_is s"
  "task_is (s\<lparr>fl_log := l\<rparr>) = task_is s" "task_is (s\<lparr>fl_shared := sh\<rparr>) = task_is s"
  by (simp_all add: fun_eq_iff task_is_def)

lemma task_in: "task_is s i t \<Longrightarrow> t \<in> set (fl_tasks s)"
  by (auto simp: task_is_def)

lemma in_set_task: "x \<in> set (fl_tasks (set_task i t s)) \<Longrightarrow> x = t \<or> (\<exists>j. j \<noteq> i \<and> task_is s j x)"
  by (simp add: task_is_def in_set_conv_nth) (metis length_list_update nth_list_update_eq nth_list_update_neq)

lemma task_ok_cong:
  "fl_shared s = fl_shared s' \<Longrightarrow> fl_log s = fl_log s' \<Longrightarrow> task_ok s x = task_ok s' x"
  by (cases x) auto

lemma log_ok_cong: "fl_shared s = fl_shared s' \<Longrightarrow> fl_log s = fl_log s' \<Longrightarrow> log_ok s = log_ok s'"
  by (simp add: log_ok_def)

text \<open>Changing one task, with the sessions and the log as they were.\<close>

lemma flight_inv_set_task:
  assumes inv: "flight_inv s" and i: "task_is s i t0" and t: "task_ok s t"
    and ticket: "\<And>sid sub m. ticket t = Some (sid, sub, m) \<Longrightarrow> ticket t0 = Some (sid, sub, m)"
    and held: "\<And>sid sub m. ticket t = Some (sid, sub, m) \<Longrightarrow> \<not> is_waiting t \<Longrightarrow> \<not> is_waiting t0"
  shows "flight_inv (set_task i t s)"
proof -
  have "tickets_ok (set_task i t s)"
    unfolding tickets_ok_def
  proof (intro allI impI)
    fix x sid sub m
    assume "x \<in> set (fl_tasks (set_task i t s))" "ticket x = Some (sid, sub, m)"
    then obtain y where "y \<in> set (fl_tasks s)" "ticket y = Some (sid, sub, m)"
      using in_set_task ticket task_in i by metis
    thus "hm_get sub (sf_locks (fl_table (set_task i t s))) = Some m \<and> os_sub (fl_shared (set_task i t s) sid) = sub"
      using inv by (auto simp: flight_inv_def tickets_ok_def)
  qed
  moreover have "guards_ok (set_task i t s)"
    unfolding guards_ok_def
  proof (intro allI impI)
    fix j x sid sub m
    assume x: "task_is (set_task i t s) j x" "ticket x = Some (sid, sub, m)" "\<not> is_waiting x"
    obtain y where "task_is s j y" "ticket y = Some (sid, sub, m)" "\<not> is_waiting y"
      using x ticket held i by (cases "j = i") (auto simp: task_is_set_task)
    thus "fl_held (set_task i t s) m = Some j"
      using inv by (auto simp: flight_inv_def guards_ok_def)
  qed
  moreover have "\<forall>x \<in> set (fl_tasks (set_task i t s)). task_ok (set_task i t s) x"
  proof
    fix x
    assume "x \<in> set (fl_tasks (set_task i t s))"
    from in_set_task [OF this] have "task_ok s x"
      using t inv task_in by (auto simp: flight_inv_def)
    thus "task_ok (set_task i t s) x"
      using task_ok_cong [of "set_task i t s" s x] by simp
  qed
  ultimately show ?thesis
    using inv log_ok_cong [of "set_task i t s" s] by (simp add: flight_inv_def)
qed

text \<open>Releasing a guard.\<close>

lemma flight_inv_finish:
  assumes inv: "flight_inv s" and i: "task_is s i t0" "ticket t0 = Some (sid, sub, m)" "\<not> is_waiting t0"
  shows "flight_inv (finish_task i m r s)"
proof -
  have s1: "flight_inv (set_task i (Finished r) s)"
    by (rule flight_inv_set_task [OF inv i(1)]) auto
  have m: "fl_held s m = Some i"
    using inv i by (auto simp: flight_inv_def guards_ok_def)
  have eq: "finish_task i m r s = (set_task i (Finished r) s)\<lparr>fl_held := (fl_held s)(m := None)\<rparr>"
    by (simp add: finish_task_def set_task_def)
  have "guards_ok (finish_task i m r s)"
    unfolding guards_ok_def
  proof (intro allI impI)
    fix j x sid' sub' m'
    assume x: "task_is (finish_task i m r s) j x" "ticket x = Some (sid', sub', m')" "\<not> is_waiting x"
    hence "j \<noteq> i" "task_is s j x"
      by (auto simp: finish_task_def task_is_set_task split: if_splits)
    moreover from this x inv have "fl_held s m' = Some j"
      by (auto simp: flight_inv_def guards_ok_def)
    ultimately show "fl_held (finish_task i m r s) m' = Some j"
      using m by (auto simp: finish_task_def)
  qed
  moreover have "task_ok (finish_task i m r s) x = task_ok (set_task i (Finished r) s) x" for x
    by (rule task_ok_cong) (simp_all add: finish_task_def)
  moreover have "log_ok (finish_task i m r s) = log_ok (set_task i (Finished r) s)"
    by (rule log_ok_cong) (simp_all add: finish_task_def)
  ultimately show ?thesis
    using s1 by (simp add: flight_inv_def tickets_ok_def eq)
qed

lemma flight_inv_init: "flight_inv (flight_init sessions)"
  by (simp add: flight_inv_def flight_init_def table_ok_def RefreshSingleFlight_new_def tickets_ok_def guards_ok_def
      task_is_def log_ok_def)

lemma flight_inv_spawn:
  assumes "flight_inv s" "task_ok s t" "ticket t = None"
  shows "flight_inv (s\<lparr>fl_tasks := fl_tasks s @ [t]\<rparr>)"
proof -
  have "task_ok (s\<lparr>fl_tasks := fl_tasks s @ [t]\<rparr>) x = task_ok s x" for x
    by (rule task_ok_cong) simp_all
  thus ?thesis
    using assms by (auto simp: flight_inv_def tickets_ok_def guards_ok_def task_is_def log_ok_def nth_append split: if_splits)
qed

lemma flight_inv_enqueue:
  assumes inv: "flight_inv s" and few: "in_flight s < MAX_TRACKED_REFRESH_SUBJECTS"
    and i: "task_is s i (Observed sid sub rt)" and run: "lock_for (strong_count (fl_tasks s)) sub (fl_table s) = (t, m)"
  shows "flight_inv (set_task i (Waiting sid sub rt m) (s\<lparr>fl_table := t\<rparr>))" (is "flight_inv ?s'")
proof -
  have tab: "table_ok (fl_table s)"
    using inv by (simp add: flight_inv_def)
  have "length (hm_retain (\<lambda>_ m. strong_count (fl_tasks s) m > 1) (sf_locks (fl_table s))) < MAX_TRACKED_REFRESH_SUBJECTS"
    using mutexes_in_use [OF tab, of "fl_tasks s"] few by (simp add: in_flight_def)
  note lock = lock_for_ok [OF tab run this]
  have sub: "os_sub (fl_shared s sid) = sub"
    using inv task_in [OF i] by (auto simp: flight_inv_def)
  have "tickets_ok ?s'"
    unfolding tickets_ok_def
  proof (intro allI impI)
    fix x sid' sub' m'
    assume x: "x \<in> set (fl_tasks ?s')" "ticket x = Some (sid', sub', m')"
    from x(1) consider "x = Waiting sid sub rt m" | "x \<in> set (fl_tasks s)"
      using in_set_task task_in by (fastforce simp: task_is_def)
    thus "hm_get sub' (sf_locks (fl_table ?s')) = Some m' \<and> os_sub (fl_shared ?s' sid') = sub'"
    proof cases
      case 1
      thus ?thesis
        using x(2) lock(2) sub by simp
    next
      case 2
      thus ?thesis
        using x(2) inv lock(3) strong_count_ticket [OF 2 x(2)] by (auto simp: flight_inv_def tickets_ok_def)
    qed
  qed
  moreover have "guards_ok ?s'"
    using inv by (auto simp: flight_inv_def guards_ok_def task_is_set_task)
  moreover have "task_ok ?s' x = task_ok s x" for x
    by (rule task_ok_cong) simp_all
  moreover have "log_ok ?s' = log_ok s"
    by (rule log_ok_cong) simp_all
  moreover have "task_ok s x" if "x \<in> set (fl_tasks ?s')" for x
  proof -
    have "x = Waiting sid sub rt m \<or> x \<in> set (fl_tasks s)"
      using that by (auto dest: subsetD [OF set_update_subset_insert])
    thus ?thesis
      using inv by (auto simp: flight_inv_def)
  qed
  ultimately show ?thesis
    using inv lock(1) by (simp add: flight_inv_def)
qed

lemma flight_inv_acquire:
  assumes inv: "flight_inv s" and i: "task_is s i (Waiting sid sub rt m)" and free: "fl_held s m = None"
  shows "flight_inv (set_task i (Holding sid sub rt m) (s\<lparr>fl_held := (fl_held s)(m \<mapsto> i)\<rparr>))" (is "flight_inv ?s'")
proof -
  have in': "x = Holding sid sub rt m \<or> x \<in> set (fl_tasks s)" if "x \<in> set (fl_tasks ?s')" for x
    using that by (auto dest: subsetD [OF set_update_subset_insert])
  have "tickets_ok ?s'"
    unfolding tickets_ok_def
  proof (intro allI impI)
    fix x sid' sub' m'
    assume "x \<in> set (fl_tasks ?s')" "ticket x = Some (sid', sub', m')"
    then obtain y where "y \<in> set (fl_tasks s)" "ticket y = Some (sid', sub', m')"
      using in' task_in [OF i] by fastforce
    thus "hm_get sub' (sf_locks (fl_table ?s')) = Some m' \<and> os_sub (fl_shared ?s' sid') = sub'"
      using inv by (auto simp: flight_inv_def tickets_ok_def)
  qed
  moreover have "guards_ok ?s'"
    using inv free by (fastforce simp: flight_inv_def guards_ok_def task_is_set_task)
  moreover have "task_ok ?s' x = task_ok s x" for x
    by (rule task_ok_cong) simp_all
  moreover have "log_ok ?s' = log_ok s"
    by (rule log_ok_cong) simp_all
  moreover have "task_ok s x" if "x \<in> set (fl_tasks ?s')" for x
    using in' [OF that] inv by (auto simp: flight_inv_def)
  ultimately show ?thesis
    using inv by (simp add: flight_inv_def)
qed

text \<open>Another task past its mutex is not on the same session object.\<close>

lemma other_session:
  assumes inv: "flight_inv s" and i: "task_is s i t" "ticket t = Some (sid, sub, m)" "\<not> is_waiting t"
    and j: "task_is s j t'" "ticket t' = Some (sid', sub', m')" "\<not> is_waiting t'" "j \<noteq> i"
  shows "sid' \<noteq> sid"
proof
  assume "sid' = sid"
  moreover have "os_sub (fl_shared s sid) = sub" "os_sub (fl_shared s sid') = sub'"
    using inv task_in [OF i(1)] task_in [OF j(1)] i(2) j(2) by (auto simp: flight_inv_def tickets_ok_def)
  ultimately have "sub' = sub"
    by simp
  with exclusive [OF _ _ i(1) j(1) i(2)] inv i(3) j(2-4) show False
    by (auto simp: flight_inv_def)
qed

lemma flight_inv_submit:
  assumes inv: "flight_inv s" and i: "task_is s i (Holding sid sub rt m)"
    and tok: "os_refresh_token (fl_shared s sid) = Some tok"
  shows "flight_inv (set_task i (Submitted sid sub m (fl_shared s sid) tok) (s\<lparr>fl_log := fl_log s @ [EvSubmit sid tok]\<rparr>))"
    (is "flight_inv ?s'")
proof -
  have "tickets_ok ?s'"
    unfolding tickets_ok_def
  proof (intro allI impI)
    fix x sid' sub' m'
    assume x: "x \<in> set (fl_tasks ?s')" "ticket x = Some (sid', sub', m')"
    have "x = Submitted sid sub m (fl_shared s sid) tok \<or> x \<in> set (fl_tasks s)"
      using x(1) by (auto dest: subsetD [OF set_update_subset_insert])
    then obtain y where "y \<in> set (fl_tasks s)" "ticket y = Some (sid', sub', m')"
      using task_in [OF i] x(2) by fastforce
    thus "hm_get sub' (sf_locks (fl_table ?s')) = Some m' \<and> os_sub (fl_shared ?s' sid') = sub'"
      using inv by (auto simp: flight_inv_def tickets_ok_def)
  qed
  moreover have "guards_ok ?s'"
    using inv i by (auto simp: flight_inv_def guards_ok_def task_is_set_task)
  moreover have "task_ok ?s' x" if "x \<in> set (fl_tasks ?s')" for x
  proof -
    from in_set_task [OF that] consider "x = Submitted sid sub m (fl_shared s sid) tok"
      | j where "j \<noteq> i" "task_is s j x"
      by auto
    thus ?thesis
    proof cases
      case 1
      thus ?thesis
        using tok by simp
    next
      case (2 j)
      hence ok: "task_ok s x"
        using inv task_in by (auto simp: flight_inv_def)
      show ?thesis
      proof (cases x)
        case (Refreshed sid' sub' m' w tok')
        hence "sid' \<noteq> sid"
          using other_session [OF inv i _ _ 2(2)] 2(1) by simp
        thus ?thesis
          using ok Refreshed by simp
      qed (use ok in auto)
    qed
  qed
  moreover have "log_ok ?s'"
    using inv tok by (auto simp: flight_inv_def log_ok_def no_reuse_append)
  ultimately show ?thesis
    using inv by (simp add: flight_inv_def)
qed

lemma apply_refresh_Ok:
  assumes "apply_refresh w resp now = (w', Ok ())"
  shows "os_refresh_token w' = tr_refresh_token resp" "os_sub w' = os_sub w"
  using apply_refresh_cases [OF assms] by simp_all

lemma flight_inv_issued:
  assumes "flight_inv s"
  shows "flight_inv (s\<lparr>fl_log := fl_log s @ map (EvIssued sid) (option_list x)\<rparr>)" (is "flight_inv ?s'")
proof -
  have "task_ok ?s' t = task_ok s t" for t
    by (cases t) auto
  thus ?thesis
    using assms by (cases x) (auto simp: flight_inv_def tickets_ok_def guards_ok_def task_is_def log_ok_def option_list_def
        no_reuse_append)
qed

lemma flight_inv_applied:
  assumes inv: "flight_inv s" and i: "task_is s i (Submitted sid sub m w tok)"
    and ok: "apply_refresh w resp now = (w', Ok ())"
    and fresh: "single_use_tokens (fl_log s @ map (EvIssued sid) (option_list (tr_refresh_token resp)))"
  shows "flight_inv (set_task i (Refreshed sid sub m w' tok)
    (s\<lparr>fl_log := fl_log s @ map (EvIssued sid) (option_list (tr_refresh_token resp))\<rparr>))"
proof (rule flight_inv_set_task)
  show inv': "flight_inv (s\<lparr>fl_log := fl_log s @ map (EvIssued sid) (option_list (tr_refresh_token resp))\<rparr>)"
    by (rule flight_inv_issued [OF inv])
  have "task_ok s (Submitted sid sub m w tok)"
    using inv task_in [OF i] by (auto simp: flight_inv_def)
  thus "task_ok (s\<lparr>fl_log := fl_log s @ map (EvIssued sid) (option_list (tr_refresh_token resp))\<rparr>) (Refreshed sid sub m w' tok)"
    using apply_refresh_Ok [OF ok] fresh
    by (auto simp: option_list_def split: option.splits dest: single_use_tokens_append(2))
qed (use i in auto)

lemma flight_inv_write_back:
  assumes inv: "flight_inv s" and i: "task_is s i (Refreshed sid sub m w' tok)"
  shows "flight_inv (finish_task i m (Ok w')
    (s\<lparr>fl_shared := (fl_shared s)(sid := w'), fl_log := fl_log s @ [EvRotated sid tok]\<rparr>))" (is "flight_inv ?s'")
proof -
  have me: "os_refresh_token (fl_shared s sid) = Some tok" "os_sub w' = os_sub (fl_shared s sid)"
    "EvSubmit sid tok \<in> set (fl_log s)" "\<And>t. os_refresh_token w' = Some t \<Longrightarrow> EvSubmit sid t \<notin> set (fl_log s)"
    using inv task_in [OF i] by (auto simp: flight_inv_def)
  have fin: "flight_inv (finish_task i m (Ok w') s)" (is "flight_inv ?f")
    by (rule flight_inv_finish [OF inv i]) simp_all
  have same: "fl_tasks ?s' = fl_tasks ?f" "fl_table ?s' = fl_table ?f" "fl_held ?s' = fl_held ?f"
    by (simp_all add: finish_task_def)
  have "tickets_ok ?s'"
    using fin me(2) by (auto simp: flight_inv_def tickets_ok_def same) (simp_all add: finish_task_def)
  moreover have "guards_ok ?s'"
    using fin by (simp add: flight_inv_def guards_ok_def same task_is_def)
  moreover have "task_ok ?s' x" if "x \<in> set (fl_tasks ?s')" for x
  proof -
    from that have "x \<in> set (fl_tasks (set_task i (Finished (Ok w')) s))"
      by (simp add: finish_task_def)
    from in_set_task [OF this] consider "x = Finished (Ok w')" | j where "j \<noteq> i" "task_is s j x"
      by auto
    thus ?thesis
    proof cases
      case (2 j)
      hence ok: "task_ok s x"
        using inv task_in by (auto simp: flight_inv_def)
      show ?thesis
      proof (cases x)
        case (Observed sid' sub' rt)
        thus ?thesis
          using ok me(2) by (auto simp: finish_task_def)
      next
        case (Submitted sid' sub' m' w tok')
        hence "sid' \<noteq> sid"
          using other_session [OF inv i _ _ 2(2)] 2(1) by simp
        thus ?thesis
          using ok Submitted by (auto simp: finish_task_def)
      next
        case (Refreshed sid' sub' m' w tok')
        hence "sid' \<noteq> sid"
          using other_session [OF inv i _ _ 2(2)] 2(1) by simp
        thus ?thesis
          using ok Refreshed by (simp add: finish_task_def)
      qed simp_all
    qed simp
  qed
  moreover have "log_ok ?s'"
    using inv me by (auto simp: flight_inv_def log_ok_def no_reuse_append finish_task_def)
  ultimately show ?thesis
    using fin by (simp add: flight_inv_def same)
qed

lemma flight_step_inv:
  assumes "flight_step L s s'" "flight_inv s" "in_flight s < MAX_TRACKED_REFRESH_SUBJECTS"
    "single_use_tokens (fl_log s')"
  shows "flight_inv s'"
  using assms
proof (induction rule: flight_step.induct)
  case (observe_none s i sid)
  thus ?case
    by (intro flight_inv_set_task [OF _ observe_none(1)]) auto
next
  case (observe s i sid rt)
  thus ?case
    by (intro flight_inv_set_task [OF _ observe(1)]) auto
next
  case (spawn_direct s sid)
  thus ?case
    by (intro flight_inv_spawn) auto
next
  case (spawn s sid)
  thus ?case
    by (intro flight_inv_spawn) auto
qed (auto intro: flight_inv_enqueue flight_inv_acquire flight_inv_submit flight_inv_applied
    flight_inv_write_back flight_inv_finish)

lemma flight_step_log: "flight_step L s s' \<Longrightarrow> \<exists>evs. fl_log s' = fl_log s @ evs"
  by (cases rule: flight_step.cases) (auto simp: finish_task_def)

lemma flight_reach_inv:
  "flight_reach MAX_TRACKED_REFRESH_SUBJECTS L sessions s \<Longrightarrow> single_use_tokens (fl_log s) \<Longrightarrow> flight_inv s"
proof (induction rule: flight_reach.induct)
  case (step s s')
  thus ?case
    using flight_step_log [OF step(3)] flight_step_inv [OF step(3)] by (metis single_use_tokens_append(1))
qed (rule flight_inv_init)

section \<open>The owners of the tokens\<close>










section \<open>A sample run\<close>

text \<open>One task from its start to the submission of the token.\<close>

lemma sample_flight:
  "\<exists>s. flight_reach MAX_TRACKED_REFRESH_SUBJECTS sample_lib (\<lambda>_. sample_session) s \<and> task_is s 0 (Submitted 0 sample_did 0 sample_session ''rt1'')
     \<and> fl_log s = [EvSubmit 0 ''rt1'']"
proof -
  let ?S = "\<lambda>_ :: nat. sample_session"
  let ?s0 = "flight_init ?S"
  let ?s1 = "?s0\<lparr>fl_tasks := fl_tasks ?s0 @ [Idle 0]\<rparr>"
  let ?s2 = "set_task 0 (Observed 0 sample_did (Some ''rt1'')) ?s1"
  let ?t = "\<lparr> sf_locks = [(sample_did, 0)], sf_next = 1 \<rparr>"
  let ?s3 = "set_task 0 (Waiting 0 sample_did (Some ''rt1'') 0) (?s2\<lparr>fl_table := ?t\<rparr>)"
  let ?s4 = "set_task 0 (Holding 0 sample_did (Some ''rt1'') 0) (?s3\<lparr>fl_held := (fl_held ?s3)(0 \<mapsto> 0)\<rparr>)"
  let ?s5 = "set_task 0 (Submitted 0 sample_did 0 sample_session ''rt1'') (?s4\<lparr>fl_log := fl_log ?s4 @ [EvSubmit 0 ''rt1'']\<rparr>)"
  have few: "in_flight ?s0 < MAX_TRACKED_REFRESH_SUBJECTS" "in_flight ?s1 < MAX_TRACKED_REFRESH_SUBJECTS"
    "in_flight ?s2 < MAX_TRACKED_REFRESH_SUBJECTS" "in_flight ?s3 < MAX_TRACKED_REFRESH_SUBJECTS"
    "in_flight ?s4 < MAX_TRACKED_REFRESH_SUBJECTS"
    by (simp_all add: in_flight_def MAX_TRACKED_REFRESH_SUBJECTS_def flight_init_def)
  have sess: "os_refresh_token sample_session = Some ''rt1''" "os_sub sample_session = sample_did"
    "os_token_endpoint sample_session = Some ''u''"
    by (simp_all add: sample_session_def)
  have "flight_step sample_lib ?s0 ?s1"
    by (rule flight_step.spawn)
  moreover have "flight_step sample_lib ?s1 ?s2"
    using flight_step.observe [of ?s1 0 0 "''rt1''" sample_lib] sess by (simp add: task_is_def flight_init_def)
  moreover have "flight_step sample_lib ?s2 ?s3"
    by (rule flight_step.enqueue) (simp_all add: task_is_def flight_init_def lock_for_def RefreshSingleFlight_new_def
        make_table_room_def MAX_TRACKED_REFRESH_SUBJECTS_def hm_insert_def)
  moreover have "flight_step sample_lib ?s3 ?s4"
    by (rule flight_step.acquire) (simp_all add: task_is_def flight_init_def)
  moreover have "flight_step sample_lib ?s4 ?s5"
    using flight_step.submit [of ?s4 0 0 sample_did "Some ''rt1''" 0 "''rt1''" sample_lib "''u''"] sess
      constant_time_eq_iff [OF sample_documented(1)] by (simp add: task_is_def flight_init_def still_observed_def)
  ultimately have "flight_reach MAX_TRACKED_REFRESH_SUBJECTS sample_lib ?S ?s5"
    using few by (meson flight_reach.intros)
  thus ?thesis
    by (intro exI [of _ ?s5]) (simp add: task_is_def flight_init_def)
qed






section \<open>Properties\<close>

text \<open>C17: Refreshes are exclusive per subject.  In every reachable interleaving, with
  fewer tasks at work than the table has places, and with a server that rotates single-use tokens, two
  tasks that are past the mutex for the same subject, reading, submitting or writing back a session, are the same task.
\<close>

theorem refresh_exclusive:
  assumes "flight_reach MAX_TRACKED_REFRESH_SUBJECTS L sessions s" and "single_use_tokens (fl_log s)" and "task_is s i t" and "task_is s j t'"
    and "ticket t = Some (sid, sub, m)" and "ticket t' = Some (sid', sub, m')"
    and "\<not> is_waiting t" and "\<not> is_waiting t'"
  shows "i = j \<and> m = m'"
  using exclusive [OF _ _ assms(3-8)] flight_reach_inv [OF assms(1,2)] assms(3-6)
  by (auto simp: flight_inv_def task_is_def)

theorem refresh_exclusive_witness:
  "\<exists>s. flight_reach MAX_TRACKED_REFRESH_SUBJECTS sample_lib (\<lambda>_. sample_session) s
     \<and> (\<forall>j. task_is s j (Submitted 0 sample_did 0 sample_session ''rt1'') = (j = 0))"
proof -
  obtain s where s: "flight_reach MAX_TRACKED_REFRESH_SUBJECTS sample_lib (\<lambda>_. sample_session) s"
    "single_use_tokens (fl_log s)" "task_is s 0 (Submitted 0 sample_did 0 sample_session ''rt1'')"
    using sample_flight by fastforce
  have "j = 0" if "task_is s j (Submitted 0 sample_did 0 sample_session ''rt1'')" for j
    using refresh_exclusive [OF s that] by simp
  with s show ?thesis
    by (intro exI [of _ s]) auto
qed



text \<open>C30: A full table can give up a mutex that is in use.  When every entry is held by some task, the
  lock for a new subject evicts the first entry; the next caller for that subject gets a fresh mutex,
  so it does not wait for the task that holds the old one.
\<close>

theorem full_table_evicts_mutex_in_use:
  assumes "table_ok t" and "sf_locks t = (victim, m) # rest" and "length (sf_locks t) = MAX_TRACKED_REFRESH_SUBJECTS"
    and "\<forall>(k, x) \<in> set (sf_locks t). cnt x > 1" and "hm_get sub (sf_locks t) = None"
  shows "hm_get victim (sf_locks (fst (lock_for cnt sub t))) = None
    \<and> snd (lock_for cnt' victim (fst (lock_for cnt sub t))) \<noteq> m"
proof -
  have "hm_retain (\<lambda>_ x. cnt x > 1) (sf_locks t) = sf_locks t"
    using assms(4) by (auto simp: hm_retain_def intro: filter_True)
  hence room: "make_table_room cnt (sf_locks t) = hm_remove victim (sf_locks t)"
    using assms(2,3) by (simp add: make_table_room_def)
  have ne: "victim \<noteq> sub"
    using assms(2,5) by (auto simp: hm_get_def)
  hence none: "hm_get victim (sf_locks (fst (lock_for cnt sub t))) = None"
    using assms(5) room by (simp add: lock_for_def Let_def)
  have "m < sf_next t"
    using assms(1,2) by (simp add: table_ok_def)
  moreover have "sf_next (fst (lock_for cnt sub t)) = Suc (sf_next t)"
    using assms(5) by (simp add: lock_for_def Let_def)
  ultimately show ?thesis
    using none by (simp add: lock_for_def [of cnt'] Let_def)
qed

theorem full_table_evicts_mutex_in_use_witness:
  "snd (lock_for (\<lambda>_. 2) [] (fst (lock_for (\<lambda>_. 2) ''b''
     \<lparr> sf_locks = map (\<lambda>i. (replicate i (CHR ''a''), i)) [0 ..< MAX_TRACKED_REFRESH_SUBJECTS],
       sf_next = MAX_TRACKED_REFRESH_SUBJECTS \<rparr>))) \<noteq> 0"
proof -
  let ?n = MAX_TRACKED_REFRESH_SUBJECTS
  let ?f = "\<lambda>i. (replicate i (CHR ''a''), i)"
  let ?t = "\<lparr> sf_locks = map ?f [0 ..< ?n], sf_next = ?n \<rparr>"
  have "inj_on (\<lambda>i. replicate i (CHR ''a'')) A" for A
    by (metis inj_onI length_replicate)
  hence ok: "table_ok ?t"
    by (auto simp: table_ok_def hm_ok_def distinct_map comp_def)
  have "0 < ?n"
    by (simp add: MAX_TRACKED_REFRESH_SUBJECTS_def)
  hence cons: "map ?f [0 ..< ?n] = ([], 0) # map ?f [1 ..< ?n]"
    by (simp add: upt_conv_Cons)
  have b: "CHR ''b'' \<notin> set k" if "k \<in> fst ` set (map ?f [0 ..< ?n])" for k
    using that by (auto simp: image_image)
  have "''b'' \<notin> fst ` set (map ?f [0 ..< ?n])"
    by (rule notI, drule b) (simp only: list.set_intros not_True_eq_False)
  hence none: "hm_get ''b'' (sf_locks ?t) = None"
    unfolding hm_get_None_iff by simp
  have "length (sf_locks ?t) = ?n" "\<forall>(k, x) \<in> set (sf_locks ?t). (\<lambda>_. 2) x > (1 :: nat)"
    by simp_all
  moreover have "sf_locks ?t = ([], 0) # map ?f [1 ..< ?n]"
    using cons by simp
  ultimately have "hm_get [] (sf_locks (fst (lock_for (\<lambda>_. 2) ''b'' ?t))) = None
    \<and> snd (lock_for (\<lambda>_. 2) [] (fst (lock_for (\<lambda>_. 2) ''b'' ?t))) \<noteq> 0"
    by (intro full_table_evicts_mutex_in_use [OF ok]) (rule none | assumption)+
  thus ?thesis
    by (rule conjunct2)
qed

end
