(* ===== verification/Integrations.thy ===== *)
theory Integrations
  imports Client
begin

text \<open>
  The types the framework integrations share (\<open>integrations/mod.rs\<close>): the query of an authorization
  callback, the authenticated user and the request extension that carries it.  The accessors of the
  user are the selectors of the record.  The derived \<open>Deserialize\<close> code of the raw user is a
  parameter.
\<close>

section \<open>Callback query\<close>

record OAuthCallbackQuery =
  cq_code :: "string option"
  cq_state :: "string option"
  cq_iss :: "string option"
  cq_error :: "string option"
  cq_error_description :: "string option"

definition OAuthCallbackQuery_new :: "string \<Rightarrow> string \<Rightarrow> OAuthCallbackQuery" where
  "OAuthCallbackQuery_new c st =
     \<lparr> cq_code = Some c, cq_state = Some st, cq_iss = None, cq_error = None, cq_error_description = None \<rparr>"

definition new_error :: "string \<Rightarrow> string option \<Rightarrow> OAuthCallbackQuery" where
  "new_error err description =
     \<lparr> cq_code = None, cq_state = None, cq_iss = None, cq_error = Some err, cq_error_description = description \<rparr>"

definition query_with_iss :: "string \<Rightarrow> OAuthCallbackQuery \<Rightarrow> OAuthCallbackQuery" where
  "query_with_iss iss q = q\<lparr>cq_iss := Some iss\<rparr>"

definition to_callback_params :: "OAuthCallbackQuery \<Rightarrow> (CallbackParams, IntegrationError) result" where
  "to_callback_params q =
     (case cq_error q of
        Some err \<Rightarrow> Err (IntegrationError.OAuthError err
          (case cq_error_description q of Some d \<Rightarrow> d | None \<Rightarrow> []))
      | None \<Rightarrow>
          try_bind (ok_or IntegrationError.MissingCode (cq_code q)) (\<lambda>c.
          try_bind (ok_or IntegrationError.MissingState (cq_state q)) (\<lambda>st.
          let params = CallbackParams_new c st in
          Ok (case cq_iss q of Some iss \<Rightarrow> with_iss iss params | None \<Rightarrow> params))))"

section \<open>Authenticated user\<close>

record AuthenticatedUser =
  au_did :: string
  au_access_token :: string
  au_dpop_thumbprint :: string
  au_scope :: "string option"

record RawUser =
  raw_did :: string
  raw_access_token :: "string option"
  raw_dpop_thumbprint :: string
  raw_scope :: "string option"

definition AuthenticatedUser_new :: "string \<Rightarrow> string \<Rightarrow> string \<Rightarrow> AuthenticatedUser" where
  "AuthenticatedUser_new did tok jkt =
     \<lparr> au_did = did, au_access_token = tok, au_dpop_thumbprint = jkt, au_scope = None \<rparr>"

definition user_with_scope :: "string \<Rightarrow> AuthenticatedUser \<Rightarrow> AuthenticatedUser" where
  "user_with_scope sc u = u\<lparr>au_scope := Some sc\<rparr>"

text \<open>The derived \<open>Serialize\<close> leaves the token out.\<close>

definition user_to_value :: "AuthenticatedUser \<Rightarrow> json" where
  "user_to_value u = JObject [''did'' \<mapsto> JString (au_did u),
     ''dpop_thumbprint'' \<mapsto> JString (au_dpop_thumbprint u),
     ''scope'' \<mapsto> (case au_scope u of Some s \<Rightarrow> JString s | None \<Rightarrow> JNull)]"

definition deserialize_user :: "(json \<Rightarrow> (RawUser, string) result) \<Rightarrow> json \<Rightarrow> (AuthenticatedUser, string) result" where
  "deserialize_user raw_from v =
     try_bind (raw_from v) (\<lambda>raw.
     try_bind (ok_or (''AuthenticatedUser deserialization requires a non-empty access_token; ''
         @ ''serialized views omit the token by design, so re-authenticate instead'')
       (raw_access_token raw)) (\<lambda>tok.
     if trim tok = []
     then Err (''AuthenticatedUser deserialized with an empty access_token; ''
       @ ''tokens must be supplied by the validator, not from untrusted data'')
     else Ok \<lparr> au_did = raw_did raw, au_access_token = tok, au_dpop_thumbprint = raw_dpop_thumbprint raw,
       au_scope = raw_scope raw \<rparr>))"

definition debug_user :: "AuthenticatedUser \<Rightarrow> (string \<times> debug_value) list" where
  "debug_user u =
     [(''did'', DText (au_did u)), (''access_token'', DText ''[REDACTED]''),
      (''dpop_thumbprint'', DText (au_dpop_thumbprint u)), (''scope'', DOption (au_scope u))]"

definition zeroize_user :: "AuthenticatedUser \<Rightarrow> AuthenticatedUser" where
  "zeroize_user u = u\<lparr>au_access_token := []\<rparr>"

text \<open>The parts that are moved out, and what is left to be dropped.\<close>

definition user_into_parts ::
  "AuthenticatedUser \<Rightarrow> (string \<times> string \<times> string \<times> string option) \<times> AuthenticatedUser" where
  "user_into_parts u =
     ((au_did u, au_access_token u, au_dpop_thumbprint u, au_scope u),
      zeroize_user (u\<lparr>au_did := [], au_access_token := [], au_dpop_thumbprint := [], au_scope := None\<rparr>))"

definition into_did :: "AuthenticatedUser \<Rightarrow> string \<times> AuthenticatedUser" where
  "into_did u = (au_did u, zeroize_user (u\<lparr>au_did := []\<rparr>))"

definition into_access_token :: "AuthenticatedUser \<Rightarrow> string \<times> AuthenticatedUser" where
  "into_access_token u = (au_access_token u, zeroize_user (u\<lparr>au_access_token := []\<rparr>))"

definition into_dpop_thumbprint :: "AuthenticatedUser \<Rightarrow> string \<times> AuthenticatedUser" where
  "into_dpop_thumbprint u = (au_dpop_thumbprint u, zeroize_user (u\<lparr>au_dpop_thumbprint := []\<rparr>))"

section \<open>Request extension\<close>

record OAuthSessionExtension =
  ext_user :: AuthenticatedUser
  ext_session :: "OAuthSession option"

definition OAuthSessionExtension_new :: "AuthenticatedUser \<Rightarrow> OAuthSessionExtension" where
  "OAuthSessionExtension_new u = \<lparr> ext_user = u, ext_session = None \<rparr>"

definition from_session :: "crypto_lib \<Rightarrow> OAuthSession \<Rightarrow> OAuthSessionExtension" where
  "from_session L s =
     \<lparr> ext_user = \<lparr> au_did = os_sub s, au_access_token = os_access_token s,
         au_dpop_thumbprint = jwk_thumbprint L (os_dpop_key s), au_scope = os_scope s \<rparr>,
       ext_session = Some s \<rparr>"

end
