(* ===== verification/Validator_Interface.thy ===== *)
theory Validator_Interface
  imports Integrations
begin

text \<open>
  The trait \<open>AccessTokenValidator\<close> (\<open>integrations/validator.rs\<close>) as a locale: a validator decides at
  some time whether a presented token is good for the holder of a DPoP key.  It promises that the
  user it returns carries that token and that key, and that the token is \<open>trusted\<close> for the subject
  and the scope of the user, which each validator says in its own way.
\<close>

locale token_validator =
  fixes validate_access_token ::
      "'v \<Rightarrow> system_time \<Rightarrow> string \<Rightarrow> string \<Rightarrow> (AuthenticatedUser, IntegrationError) result"
    and trusted :: "'v \<Rightarrow> system_time \<Rightarrow> string \<Rightarrow> string \<Rightarrow> string \<Rightarrow> string option \<Rightarrow> bool"
  assumes user_bound: "validate_access_token v now tok jkt = Ok u \<Longrightarrow>
      au_access_token u = tok \<and> au_dpop_thumbprint u = jkt"
    and user_trusted: "validate_access_token v now tok jkt = Ok u \<Longrightarrow>
      trusted v now tok jkt (au_did u) (au_scope u)"

end
