(* ===== verification/Validator.thy ===== *)
theory Validator
  imports Validator_Interface
begin

text \<open>
  Access token validation (\<open>integrations/validator.rs\<close>): the claims of a token and how they are
  signed, the validator of signed tokens, and the in-memory registry.  The map of trusted keys and the
  registry are hash maps; the registry is keyed by the digest of the token.  The clock readings and
  the random bytes are arguments; JSON text, the derived \<open>Deserialize\<close> code and the \<open>Debug\<close> text of a
  string are parameters.
\<close>

section \<open>Claims\<close>

record CnfClaim =
  cnf_jkt :: string

definition CnfClaim_new :: "string \<Rightarrow> CnfClaim" where
  "CnfClaim_new jkt = \<lparr> cnf_jkt = jkt \<rparr>"

record JwtAccessTokenClaims =
  at_iss :: string
  at_sub :: string
  at_client_id :: string
  at_aud :: "json option"
  at_exp :: u64
  at_nbf :: "u64 option"
  at_iat :: u64
  at_jti :: string
  at_scope :: "string option"
  at_cnf :: CnfClaim

record validator_env =
  ve_crypto :: crypto_lib
  ve_json_to_string :: "json \<Rightarrow> (string, string) result"
  ve_json_from_slice :: "bytes \<Rightarrow> (json, string) result"
  ve_claims_from_slice :: "bytes \<Rightarrow> (JwtAccessTokenClaims, string) result"
  ve_show_json :: "json \<Rightarrow> string"
  ve_debug_str :: "string \<Rightarrow> string"

definition JwtAccessTokenClaims_new ::
  "crypto_lib \<Rightarrow> string \<Rightarrow> string \<Rightarrow> u64 \<Rightarrow> string \<Rightarrow> system_time \<Rightarrow> bytes \<Rightarrow> JwtAccessTokenClaims" where
  "JwtAccessTokenClaims_new L iss sub expiry jkt now raw =
     \<lparr> at_iss = iss, at_sub = sub, at_client_id = ''https://app.example.com/client-metadata.json'',
       at_aud = None, at_exp = expiry, at_nbf = None, at_iat = unix_secs_or_0 now,
       at_jti = base64url_encode L raw, at_scope = None, at_cnf = CnfClaim_new jkt \<rparr>"

definition claims_with_audience :: "string \<Rightarrow> JwtAccessTokenClaims \<Rightarrow> JwtAccessTokenClaims" where
  "claims_with_audience aud c = c\<lparr>at_aud := Some (JString aud)\<rparr>"

definition claims_with_scope :: "string \<Rightarrow> JwtAccessTokenClaims \<Rightarrow> JwtAccessTokenClaims" where
  "claims_with_scope sc c = c\<lparr>at_scope := Some sc\<rparr>"

definition claims_with_nbf :: "u64 \<Rightarrow> JwtAccessTokenClaims \<Rightarrow> JwtAccessTokenClaims" where
  "claims_with_nbf nbf c = c\<lparr>at_nbf := Some nbf\<rparr>"

text \<open>The derived \<open>Serialize\<close>: absent optional members are left out.\<close>

definition at_claims_to_value :: "JwtAccessTokenClaims \<Rightarrow> json" where
  "at_claims_to_value c = JObject
     ([''iss'' \<mapsto> JString (at_iss c), ''sub'' \<mapsto> JString (at_sub c), ''client_id'' \<mapsto> JString (at_client_id c),
       ''exp'' \<mapsto> JNumber (PosInt (at_exp c)), ''iat'' \<mapsto> JNumber (PosInt (at_iat c)),
       ''jti'' \<mapsto> JString (at_jti c), ''cnf'' \<mapsto> JObject [''jkt'' \<mapsto> JString (cnf_jkt (at_cnf c))]]
      (''aud'' := at_aud c, ''nbf'' := map_option (\<lambda>n. JNumber (PosInt n)) (at_nbf c),
       ''scope'' := map_option JString (at_scope c)))"

definition token_header :: "string option \<Rightarrow> json" where
  "token_header kid = JObject
     ([''alg'' \<mapsto> JString ''ES256'', ''typ'' \<mapsto> JString ''at+jwt''](''kid'' := map_option JString kid))"

definition claims_sign_jwt ::
  "validator_env \<Rightarrow> signing_key \<Rightarrow> string option \<Rightarrow> JwtAccessTokenClaims \<Rightarrow> (string, CryptoError) result" where
  "claims_sign_jwt V key kid c =
     (let L = ve_crypto V in
      try_bind (map_err CryptoError.Json (ve_json_to_string V (token_header kid))) (\<lambda>header_str.
      try_bind (map_err CryptoError.Json (ve_json_to_string V (at_claims_to_value c))) (\<lambda>payload_str.
      let header_b64 = base64url_encode L (as_bytes header_str);
          payload_b64 = base64url_encode L (as_bytes payload_str);
          signing_input = header_b64 @ ''.'' @ payload_b64
      in try_bind (sign_p256_raw L key (as_bytes signing_input)) (\<lambda>sig_bytes.
         Ok (signing_input @ ''.'' @ base64url_encode L sig_bytes)))))"

section \<open>The validator of signed tokens\<close>

record JwtAccessTokenValidator =
  jv_trusted_keys :: "(string, verifying_key) hmap"
  jv_default_key :: "verifying_key option"
  jv_expected_issuer :: "string option"
  jv_expected_audience :: "string option"
  jv_expected_subject :: "string option"
  jv_required_scopes :: "string list"
  jv_clock_skew_leeway :: duration

definition JwtAccessTokenValidator_new :: JwtAccessTokenValidator where
  "JwtAccessTokenValidator_new =
     \<lparr> jv_trusted_keys = [], jv_default_key = None, jv_expected_issuer = None, jv_expected_audience = None,
       jv_expected_subject = None, jv_required_scopes = [], jv_clock_skew_leeway = from_secs 60 \<rparr>"

definition with_trusted_key :: "string \<Rightarrow> verifying_key \<Rightarrow> JwtAccessTokenValidator \<Rightarrow> JwtAccessTokenValidator" where
  "with_trusted_key kid key v = v\<lparr>jv_trusted_keys := hm_insert kid key (jv_trusted_keys v)\<rparr>"

definition with_verifying_key :: "verifying_key \<Rightarrow> JwtAccessTokenValidator \<Rightarrow> JwtAccessTokenValidator" where
  "with_verifying_key key v = v\<lparr>jv_default_key := Some key\<rparr>"

definition with_expected_issuer :: "string \<Rightarrow> JwtAccessTokenValidator \<Rightarrow> JwtAccessTokenValidator" where
  "with_expected_issuer iss v = v\<lparr>jv_expected_issuer := Some iss\<rparr>"

definition with_expected_audience :: "string \<Rightarrow> JwtAccessTokenValidator \<Rightarrow> JwtAccessTokenValidator" where
  "with_expected_audience aud v = v\<lparr>jv_expected_audience := Some aud\<rparr>"

definition with_expected_subject :: "string \<Rightarrow> JwtAccessTokenValidator \<Rightarrow> JwtAccessTokenValidator" where
  "with_expected_subject sub v = v\<lparr>jv_expected_subject := Some sub\<rparr>"

definition with_required_scope :: "string \<Rightarrow> JwtAccessTokenValidator \<Rightarrow> JwtAccessTokenValidator" where
  "with_required_scope sc v = v\<lparr>jv_required_scopes := jv_required_scopes v @ [sc]\<rparr>"

definition with_clock_skew :: "duration \<Rightarrow> JwtAccessTokenValidator \<Rightarrow> JwtAccessTokenValidator" where
  "with_clock_skew leeway v = v\<lparr>jv_clock_skew_leeway := leeway\<rparr>"

abbreviation tok_err :: "TokenError \<Rightarrow> IntegrationError" where
  "tok_err \<equiv> IntegrationError.Token"

definition debug_option_str :: "validator_env \<Rightarrow> string option \<Rightarrow> string" where
  "debug_option_str V x = (case x of None \<Rightarrow> ''None'' | Some s \<Rightarrow> ''Some('' @ ve_debug_str V s @ '')'')"

definition section_sign :: string where
  "section_sign = [CHR 0xC2, CHR 0xA7]"

text \<open>The checks of \<open>alg\<close> and \<open>typ\<close>.\<close>

definition check_token_header :: "validator_env \<Rightarrow> json \<Rightarrow> (unit, IntegrationError) result" where
  "check_token_header V header_val =
     try_bind (ok_or (tok_err (TokenError.MalformedToken ''Missing alg header''))
       (json_get_str ''alg'' header_val)) (\<lambda>alg.
     if alg \<noteq> ''ES256''
     then Err (tok_err (TokenError.MalformedToken
       (''Unsupported alg in access token: expected '' @ sq ''ES256'' @ '', got '' @ sq alg)))
     else
       (let typ = json_get_str ''typ'' header_val;
            typ_ok = (case typ of
              Some t \<Rightarrow> eq_ignore_ascii_case t ''at+jwt'' \<or> eq_ignore_ascii_case t ''application/at+jwt''
            | None \<Rightarrow> False)
        in if \<not> typ_ok
           then Err (tok_err (TokenError.MalformedToken
             (''Unsupported typ in access token: expected '' @ sq ''at+jwt'' @ '', got '' @ debug_option_str V typ)))
           else Ok ()))"

text \<open>The key for a token, by its \<open>kid\<close>; with a single trusted key a token may omit it.\<close>

definition select_key :: "JwtAccessTokenValidator \<Rightarrow> string option \<Rightarrow> verifying_key option" where
  "select_key v kid =
     (case kid of
        Some k \<Rightarrow>
          (case hm_get k (jv_trusted_keys v) of
             Some key \<Rightarrow> Some key
           | None \<Rightarrow> if jv_trusted_keys v = [] then jv_default_key v else None)
      | None \<Rightarrow>
          (case jv_default_key v of
             Some key \<Rightarrow> Some key
           | None \<Rightarrow> (case jv_trusted_keys v of [(_, key)] \<Rightarrow> Some key | _ \<Rightarrow> None)))"

definition audience_matches :: "json option \<Rightarrow> string \<Rightarrow> bool" where
  "audience_matches aud exp_aud =
     (case aud of
        Some (JString s) \<Rightarrow> s = exp_aud
      | Some (JArray arr) \<Rightarrow> list_ex (\<lambda>item. json_as_str item = Some exp_aud) arr
      | _ \<Rightarrow> False)"

definition check_token_times :: "JwtAccessTokenValidator \<Rightarrow> JwtAccessTokenClaims \<Rightarrow> u64 \<Rightarrow> (unit, IntegrationError) result" where
  "check_token_times v c now_secs =
     (let leeway_secs = secs64 (jv_clock_skew_leeway v) in
      if saturating_add now_secs leeway_secs \<ge> at_exp c
      then Err (tok_err (TokenError.Expired (at_exp c) now_secs))
      else (case at_nbf c of
              Some nbf \<Rightarrow> if nbf > saturating_add now_secs leeway_secs
                         then Err (tok_err (TokenError.NotYetValid nbf now_secs)) else Ok ()
            | None \<Rightarrow> Ok ()))"

definition check_token_issuer :: "JwtAccessTokenValidator \<Rightarrow> JwtAccessTokenClaims \<Rightarrow> (unit, IntegrationError) result" where
  "check_token_issuer v c =
     (if trim (at_iss c) = [] then Err (tok_err TokenError.MissingIssuer)
      else (case jv_expected_issuer v of
              None \<Rightarrow> Err (IntegrationError.AuthFailed
                (''Validator misconfigured: an expected issuer is required before any access token can be ''
                 @ ''accepted (RFC 9068 '' @ section_sign @ '' 4 / RFC 9449 '' @ section_sign @ '' 7.2)''))
            | Some exp_iss \<Rightarrow>
                if at_iss c \<noteq> exp_iss then Err (tok_err (TokenError.IssuerMismatch exp_iss (at_iss c))) else Ok ()))"

definition check_token_audience ::
  "validator_env \<Rightarrow> JwtAccessTokenValidator \<Rightarrow> JwtAccessTokenClaims \<Rightarrow> (unit, IntegrationError) result" where
  "check_token_audience V v c =
     (if at_aud c = None then Err (tok_err TokenError.MissingAudience)
      else (case jv_expected_audience v of
              None \<Rightarrow> Err (IntegrationError.AuthFailed
                (''Validator misconfigured: an expected audience is required before any access token can be ''
                 @ ''accepted (RFC 9068 '' @ section_sign @ '' 4)''))
            | Some exp_aud \<Rightarrow>
                if \<not> audience_matches (at_aud c) exp_aud
                then Err (tok_err (TokenError.AudienceMismatch exp_aud
                  (case at_aud c of Some a \<Rightarrow> ve_show_json V a | None \<Rightarrow> ''none'')))
                else Ok ()))"

definition check_token_subject :: "JwtAccessTokenValidator \<Rightarrow> JwtAccessTokenClaims \<Rightarrow> (unit, IntegrationError) result" where
  "check_token_subject v c =
     (if trim (at_sub c) = [] then Err (tok_err TokenError.MissingDid)
      else (case jv_expected_subject v of
              Some exp_sub \<Rightarrow>
                if at_sub c \<noteq> exp_sub then Err (tok_err (TokenError.SubMismatch exp_sub (at_sub c))) else Ok ()
            | None \<Rightarrow> Ok ()))"

definition check_token_scopes :: "JwtAccessTokenValidator \<Rightarrow> JwtAccessTokenClaims \<Rightarrow> (unit, IntegrationError) result" where
  "check_token_scopes v c =
     (let scope = (case at_scope c of Some s \<Rightarrow> s | None \<Rightarrow> []) in
      if list_all (\<lambda>required. required \<in> set (split_whitespace scope)) (jv_required_scopes v) then Ok ()
      else Err (tok_err (TokenError.MissingAtprotoScope scope)))"

definition verify_token_sync ::
  "validator_env \<Rightarrow> JwtAccessTokenValidator \<Rightarrow> system_time \<Rightarrow> string \<Rightarrow> string
   \<Rightarrow> (AuthenticatedUser, IntegrationError) result" where
  "verify_token_sync V v now tok dpop_thumbprint =
     (let L = ve_crypto V; malformed = (\<lambda>m. tok_err (TokenError.MalformedToken m));
          decode = (\<lambda>p. map_err (\<lambda>e. malformed (show_crypto_error e)) (base64url_decode L p))
      in case split_on (CHR ''.'') (trim tok) of
        [p0, p1, p2] \<Rightarrow>
          try_bind (decode p0) (\<lambda>header_bytes.
          try_bind (decode p1) (\<lambda>payload_bytes.
          try_bind (decode p2) (\<lambda>signature_bytes.
          try_bind (map_err malformed (ve_json_from_slice V header_bytes)) (\<lambda>header_val.
          try_bind (check_token_header V header_val) (\<lambda>_.
          try_bind (ok_or (IntegrationError.AuthFailed ''No matching trusted verifying key found for access token'')
            (select_key v (json_get_str ''kid'' header_val))) (\<lambda>verifying_key.
          try_bind (map_err (\<lambda>_. tok_err TokenError.InvalidSignature)
            (verify_p256_raw L verifying_key (as_bytes (p0 @ ''.'' @ p1)) signature_bytes)) (\<lambda>_.
          try_bind (map_err malformed (ve_claims_from_slice V payload_bytes)) (\<lambda>claims.
          try_bind (map_err IntegrationError.Internal (unix_secs now)) (\<lambda>now_secs.
          try_bind (check_token_times v claims now_secs) (\<lambda>_.
          try_bind (check_token_issuer v claims) (\<lambda>_.
          try_bind (check_token_audience V v claims) (\<lambda>_.
          try_bind (check_token_subject v claims) (\<lambda>_.
          try_bind (check_token_scopes v claims) (\<lambda>_.
          if \<not> constant_time_eq L (as_bytes (cnf_jkt (at_cnf claims))) (as_bytes dpop_thumbprint)
          then Err (tok_err (TokenError.CnfThumbprintMismatch (cnf_jkt (at_cnf claims)) dpop_thumbprint))
          else Ok \<lparr> au_did = at_sub claims, au_access_token = tok, au_dpop_thumbprint = dpop_thumbprint,
            au_scope = at_scope claims \<rparr>))))))))))))))
      | parts \<Rightarrow> Err (malformed (''Expected 3 parts in compact JWT, got '' @ show_nat (length parts))))"

section \<open>The in-memory registry\<close>

record RegisteredToken =
  rt_did :: string
  rt_dpop_thumbprint :: string
  rt_scope :: "string option"
  rt_expires_at :: "system_time option"

type_synonym InMemoryTokenValidator = "(bytes, RegisteredToken) hmap"

definition InMemoryTokenValidator_new :: InMemoryTokenValidator where
  "InMemoryTokenValidator_new = []"

definition register_token ::
  "crypto_lib \<Rightarrow> bytes \<Rightarrow> string \<Rightarrow> string \<Rightarrow> string option \<Rightarrow> system_time option
   \<Rightarrow> InMemoryTokenValidator \<Rightarrow> InMemoryTokenValidator" where
  "register_token L tok did jkt scope expires_at m =
     hm_insert (sha256_digest L tok)
       \<lparr> rt_did = did, rt_dpop_thumbprint = jkt, rt_scope = scope, rt_expires_at = expires_at \<rparr> m"

definition register_session :: "crypto_lib \<Rightarrow> OAuthSession \<Rightarrow> InMemoryTokenValidator \<Rightarrow> InMemoryTokenValidator" where
  "register_session L s =
     register_token L (as_bytes (os_access_token s)) (os_sub s) (jwk_thumbprint L (os_dpop_key s)) (os_scope s)
       (os_expires_at s)"

definition revoke_token :: "crypto_lib \<Rightarrow> string \<Rightarrow> InMemoryTokenValidator \<Rightarrow> InMemoryTokenValidator" where
  "revoke_token L tok m = hm_remove (sha256_digest L (as_bytes tok)) m"

definition registry_prune_expired :: "system_time \<Rightarrow> InMemoryTokenValidator \<Rightarrow> InMemoryTokenValidator \<times> nat" where
  "registry_prune_expired now m =
     (let kept = hm_retain (\<lambda>_ e. case rt_expires_at e of Some x \<Rightarrow> x > now | None \<Rightarrow> True) m in
      (kept, length m - length kept))"

definition registry_len :: "InMemoryTokenValidator \<Rightarrow> nat" where
  "registry_len m = length m"

definition registry_is_empty :: "InMemoryTokenValidator \<Rightarrow> bool" where
  "registry_is_empty m = (registry_len m = 0)"

definition validate_sync ::
  "crypto_lib \<Rightarrow> InMemoryTokenValidator \<Rightarrow> system_time \<Rightarrow> string \<Rightarrow> string
   \<Rightarrow> (AuthenticatedUser, IntegrationError) result" where
  "validate_sync L m now tok dpop_thumbprint =
     try_bind (ok_or (tok_err (TokenError.MalformedToken ''Access token is not registered or has been revoked''))
       (hm_get (sha256_digest L (as_bytes tok)) m)) (\<lambda>entry.
     try_bind (case rt_expires_at entry of
         Some x \<Rightarrow> if now > x then Err (tok_err (TokenError.Expired (unix_secs_or_0 x) (unix_secs_or_0 now)))
                   else Ok ()
       | None \<Rightarrow> Ok ()) (\<lambda>_.
     if \<not> constant_time_eq L (as_bytes (rt_dpop_thumbprint entry)) (as_bytes dpop_thumbprint)
     then Err (tok_err (TokenError.CnfThumbprintMismatch (rt_dpop_thumbprint entry) dpop_thumbprint))
     else Ok \<lparr> au_did = rt_did entry, au_access_token = tok, au_dpop_thumbprint = dpop_thumbprint,
       au_scope = rt_scope entry \<rparr>))"

end
