(* ===== verification/Tower.thy ===== *)
theory Tower
  imports Validator
begin

text \<open>
  The Tower middleware (\<open>integrations/tower.rs\<close>).  \<open>call\<close> runs in two phases: the synchronous part
  checks headers, proof and nonce and yields an answer or a pending request; the future it returns then
  validates the token, commits the replay admission and calls the inner service.  Between the two,
  other requests may run, so the phases are separate operations on the shared state of the service.

  The verifier, the validator and the nonce source are shared by all clones of the service.  The last
  two are trait objects: their operations are fields of \<open>auth_ops\<close>, with the parts of the \<open>http\<close> crate
  that decide what a URI scheme, a header name and a header value are.  The inner service acts on a
  state of its own.
\<close>

section \<open>Requests and responses\<close>

text \<open>A URI is given by what the accessors of \<open>http::Uri\<close> return.\<close>

record authority =
  auth_str :: string
  auth_host :: string
  auth_port :: "u16 option"

record http_uri =
  uri_scheme_str :: "string option"
  uri_authority :: "authority option"
  uri_host :: "string option"
  uri_port :: "u16 option"
  uri_path_and_query :: "string option"

record 'b inbound =
  in_method :: string
  in_uri :: http_uri
  in_headers :: "string \<Rightarrow> (string, string) result list"
  in_body :: 'b
  in_ext_session :: "OAuthSessionExtension option"
  in_ext_user :: "AuthenticatedUser option"

record 'c outbound =
  out_status :: nat
  out_headers :: "string \<Rightarrow> string list"
  out_body :: 'c

text \<open>Header names are compared in lower case; \<open>get\<close> yields the first value.\<close>

definition in_header :: "'b inbound \<Rightarrow> string \<Rightarrow> (string, string) result option" where
  "in_header rq name = (case in_headers rq (to_ascii_lowercase name) of [] \<Rightarrow> None | v # _ \<Rightarrow> Some v)"

definition set_header :: "string \<Rightarrow> string \<Rightarrow> 'c outbound \<Rightarrow> 'c outbound" where
  "set_header name val resp = resp\<lparr>out_headers := (out_headers resp)(name := [val])\<rparr>"

record ('s, 'v, 'c) auth_ops =
  ao_dpop :: dpop_env
  ao_generate :: "system_time \<Rightarrow> bytes \<Rightarrow> 's \<Rightarrow> 's \<times> (string, DPoPError) result"
  ao_verify :: "string \<Rightarrow> system_time \<Rightarrow> 's \<Rightarrow> 's \<times> bool"
  ao_validate :: "'v \<Rightarrow> system_time \<Rightarrow> string \<Rightarrow> string \<Rightarrow> (AuthenticatedUser, IntegrationError) result"
  ao_parse_scheme :: "string \<Rightarrow> string option"
  ao_header_name :: "string \<Rightarrow> bool"
  ao_header_value :: "string \<Rightarrow> bool"
  ao_default_body :: 'c

section \<open>Target URI\<close>

definition default_htu_from_uri :: "string \<Rightarrow> http_uri \<Rightarrow> string option" where
  "default_htu_from_uri scheme uri =
     (let path_and_query = (case uri_path_and_query uri of Some pq \<Rightarrow> pq | None \<Rightarrow> ''/'');
          by_host = map_option (\<lambda>host.
            let host_repr = (case uri_port uri of
                Some p \<Rightarrow> if (p = 443 \<and> scheme = ''https'') \<or> (p = 80 \<and> scheme = ''http'') then host
                          else host @ '':'' @ show_nat (unat p)
              | None \<Rightarrow> host)
            in scheme @ ''://'' @ host_repr @ path_and_query) (uri_host uri)
      in case uri_authority uri of
           Some a \<Rightarrow>
             if uri_scheme_str uri \<noteq> None
             then (let authority_str =
                     (if (scheme = ''https'' \<and> auth_port a = Some 443) \<or> (scheme = ''http'' \<and> auth_port a = Some 80)
                      then auth_host a else auth_str a)
                   in Some (scheme @ ''://'' @ authority_str @ path_and_query))
             else by_host
         | None \<Rightarrow> by_host)"

section \<open>Layer and service\<close>

record ('s, 'v) OAuthAuthLayer =
  ly_verifier :: DPoPVerifier
  ly_token_validator :: 'v
  ly_nonce_source :: "'s option"
  ly_require_ath :: bool
  ly_htu_override :: "(http_uri \<Rightarrow> string) option"

definition OAuthAuthLayer_new :: "DPoPVerifier \<Rightarrow> 'v \<Rightarrow> ('s, 'v) OAuthAuthLayer" where
  "OAuthAuthLayer_new verifier vd =
     \<lparr> ly_verifier = verifier, ly_token_validator = vd, ly_nonce_source = None,
       ly_require_ath = True, ly_htu_override = None \<rparr>"

definition from_jwt_validator ::
  "DPoPVerifier \<Rightarrow> JwtAccessTokenValidator \<Rightarrow> ('s, JwtAccessTokenValidator) OAuthAuthLayer" where
  "from_jwt_validator verifier jwt_validator = OAuthAuthLayer_new verifier jwt_validator"

definition from_token_store ::
  "DPoPVerifier \<Rightarrow> InMemoryTokenValidator \<Rightarrow> ('s, InMemoryTokenValidator) OAuthAuthLayer" where
  "from_token_store verifier store = OAuthAuthLayer_new verifier store"

definition from_validator :: "DPoPVerifier \<Rightarrow> 'v \<Rightarrow> ('s, 'v) OAuthAuthLayer" where
  "from_validator verifier vd = OAuthAuthLayer_new verifier vd"

definition ly_with_nonce_source :: "'s \<Rightarrow> ('s, 'v) OAuthAuthLayer \<Rightarrow> ('s, 'v) OAuthAuthLayer" where
  "ly_with_nonce_source src l = l\<lparr>ly_nonce_source := Some src\<rparr>"

definition ly_with_server_nonces ::
  "duration \<Rightarrow> (InMemoryServerNonceSource, 'v) OAuthAuthLayer \<Rightarrow> (InMemoryServerNonceSource, 'v) OAuthAuthLayer" where
  "ly_with_server_nonces ttl l = l\<lparr>ly_nonce_source := Some (InMemoryServerNonceSource_new ttl)\<rparr>"

definition ly_with_require_ath :: "bool \<Rightarrow> ('s, 'v) OAuthAuthLayer \<Rightarrow> ('s, 'v) OAuthAuthLayer" where
  "ly_with_require_ath b l = l\<lparr>ly_require_ath := b\<rparr>"

definition ly_with_htu_override :: "(http_uri \<Rightarrow> string) \<Rightarrow> ('s, 'v) OAuthAuthLayer \<Rightarrow> ('s, 'v) OAuthAuthLayer" where
  "ly_with_htu_override f l = l\<lparr>ly_htu_override := Some f\<rparr>"

record ('s, 'v, 'i) OAuthAuthService =
  sv_inner :: 'i
  sv_verifier :: DPoPVerifier
  sv_token_validator :: 'v
  sv_nonce_source :: "'s option"
  sv_require_ath :: bool
  sv_htu_override :: "(http_uri \<Rightarrow> string) option"

definition OAuthAuthService_new :: "'i \<Rightarrow> DPoPVerifier \<Rightarrow> 'v \<Rightarrow> ('s, 'v, 'i) OAuthAuthService" where
  "OAuthAuthService_new inner verifier vd =
     \<lparr> sv_inner = inner, sv_verifier = verifier, sv_token_validator = vd, sv_nonce_source = None,
       sv_require_ath = True, sv_htu_override = None \<rparr>"

definition layer :: "('s, 'v) OAuthAuthLayer \<Rightarrow> 'i \<Rightarrow> ('s, 'v, 'i) OAuthAuthService" where
  "layer l inner =
     \<lparr> sv_inner = inner, sv_verifier = ly_verifier l, sv_token_validator = ly_token_validator l,
       sv_nonce_source = ly_nonce_source l, sv_require_ath = ly_require_ath l, sv_htu_override = ly_htu_override l \<rparr>"

definition sv_with_nonce_source :: "'s \<Rightarrow> ('s, 'v, 'i) OAuthAuthService \<Rightarrow> ('s, 'v, 'i) OAuthAuthService" where
  "sv_with_nonce_source src s = s\<lparr>sv_nonce_source := Some src\<rparr>"

definition sv_with_server_nonces ::
  "duration \<Rightarrow> (InMemoryServerNonceSource, 'v, 'i) OAuthAuthService \<Rightarrow> (InMemoryServerNonceSource, 'v, 'i) OAuthAuthService" where
  "sv_with_server_nonces ttl s = s\<lparr>sv_nonce_source := Some (InMemoryServerNonceSource_new ttl)\<rparr>"

definition sv_with_require_ath :: "bool \<Rightarrow> ('s, 'v, 'i) OAuthAuthService \<Rightarrow> ('s, 'v, 'i) OAuthAuthService" where
  "sv_with_require_ath b s = s\<lparr>sv_require_ath := b\<rparr>"

definition sv_with_htu_override ::
  "(http_uri \<Rightarrow> string) \<Rightarrow> ('s, 'v, 'i) OAuthAuthService \<Rightarrow> ('s, 'v, 'i) OAuthAuthService" where
  "sv_with_htu_override f s = s\<lparr>sv_htu_override := Some f\<rparr>"

section \<open>Responses of the middleware\<close>

definition set_nonce_header :: "('s, 'v, 'c) auth_ops \<Rightarrow> string \<Rightarrow> 'c outbound \<Rightarrow> 'c outbound" where
  "set_nonce_header P nonce resp =
     (if ao_header_value P nonce \<and> ao_header_name P ''dpop-nonce'' then set_header ''dpop-nonce'' nonce resp else resp)"

definition unauthorized_response ::
  "('s, 'v, 'c) auth_ops \<Rightarrow> string \<Rightarrow> string option \<Rightarrow> string option \<Rightarrow> 'c outbound" where
  "unauthorized_response P error_code description nonce =
     (let resp = \<lparr> out_status = 401, out_headers = (\<lambda>_. []), out_body = ao_default_body P \<rparr>;
          auth_header_val = (case description of
              Some desc \<Rightarrow> ''DPoP error='' @ quote @ error_code @ quote @ '', error_description='' @ quote @ desc @ quote
            | None \<Rightarrow> ''DPoP error='' @ quote @ error_code @ quote);
          resp = (if ao_header_value P auth_header_val then set_header ''www-authenticate'' auth_header_val resp else resp)
      in case nonce of Some n \<Rightarrow> set_nonce_header P n resp | None \<Rightarrow> resp)"

definition service_unavailable_response :: "('s, 'v, 'c) auth_ops \<Rightarrow> 'c outbound" where
  "service_unavailable_response P =
     set_header ''retry-after'' ''1'' \<lparr> out_status = 503, out_headers = (\<lambda>_. []), out_body = ao_default_body P \<rparr>"

text \<open>A refusal that offers a fresh nonce if there is a source; a saturated source gives 503.\<close>

definition challenge ::
  "('s, 'v, 'c) auth_ops \<Rightarrow> string \<Rightarrow> string option \<Rightarrow> system_time \<times> bytes \<Rightarrow> 's option \<Rightarrow> 's option \<times> 'c outbound" where
  "challenge P error_code description draw src =
     (case src of
        None \<Rightarrow> (None, unauthorized_response P error_code description None)
      | Some s \<Rightarrow>
          (case ao_generate P (fst draw) (snd draw) s of
             (s', Ok nonce) \<Rightarrow> (Some s', unauthorized_response P error_code description (Some nonce))
           | (s', Err DPoPError.NonceCacheSaturated) \<Rightarrow> (Some s', service_unavailable_response P)
           | (s', Err _) \<Rightarrow> (Some s', unauthorized_response P error_code description None)))"

section \<open>The call\<close>

record auth_draws =
  ad_proof :: system_time
  ad_admit :: system_time
  ad_nonce :: system_time
  ad_validate :: system_time
  ad_issue :: "system_time \<times> bytes"

record 'b pending_auth =
  pa_token :: string
  pa_thumbprint :: string
  pa_admission :: ReplayAdmission
  pa_request :: "'b inbound"

text \<open>The access token of the \<open>Authorization\<close> header, or the error code of the refusal.\<close>

definition request_token :: "'b inbound \<Rightarrow> (string, string) result" where
  "request_token rq =
     (case in_header rq ''authorization'' of
        None \<Rightarrow> Err ''missing_token''
      | Some (Err _) \<Rightarrow> Err ''invalid_token''
      | Some (Ok auth_header) \<Rightarrow>
          (case split_once_str '' '' auth_header of
             Some (scheme, cred) \<Rightarrow> if eq_ignore_ascii_case scheme ''DPoP'' then Ok (trim cred) else Err ''invalid_scheme''
           | None \<Rightarrow> Err ''invalid_scheme''))"

definition request_htu :: "('s, 'v, 'c) auth_ops \<Rightarrow> ('s, 'v, 'i) OAuthAuthService \<Rightarrow> 'b inbound \<Rightarrow> string option" where
  "request_htu P svc rq =
     (case sv_htu_override svc of
        Some f \<Rightarrow> Some (f (in_uri rq))
      | None \<Rightarrow>
          (let scheme = (case Option.bind (uri_scheme_str (in_uri rq)) (ao_parse_scheme P) of
               Some s \<Rightarrow> s | None \<Rightarrow> ''https'')
           in if scheme \<noteq> ''https'' \<and> scheme \<noteq> ''http'' then None
              else default_htu_from_uri scheme (in_uri rq)))"

text \<open>Whether the request has an \<open>Authorization\<close> header that is text and not blank.\<close>

definition has_authorization :: "'b inbound \<Rightarrow> bool" where
  "has_authorization rq = (case in_header rq ''authorization'' of Some (Ok v) \<Rightarrow> trim v \<noteq> [] | _ \<Rightarrow> False)"

text \<open>The nonce check after the proof has been verified.\<close>

definition check_nonce ::
  "('s, 'v, 'c) auth_ops \<Rightarrow> string option \<Rightarrow> auth_draws \<Rightarrow> 's option \<Rightarrow> 's option \<times> (unit, 'c outbound) result" where
  "check_nonce P nonce d src =
     (case src of
        None \<Rightarrow> (None, Ok ())
      | Some s \<Rightarrow>
          (let (s', valid_nonce) = (case nonce of Some n \<Rightarrow> ao_verify P n (ad_nonce d) s | None \<Rightarrow> (s, False)) in
           if valid_nonce then (Some s', Ok ())
           else (let (src', resp) = challenge P ''use_dpop_nonce'' (Some ''Resource server requires fresh DPoP nonce'')
                       (ad_issue d) (Some s')
                 in (src', Err resp))))"

definition proof_refused ::
  "('s, 'v, 'c) auth_ops \<Rightarrow> DPoPError \<Rightarrow> auth_draws \<Rightarrow> 's option \<Rightarrow> 's option \<times> 'c outbound" where
  "proof_refused P err d src =
     (case err of
        DPoPError.ReplayDetected _ \<Rightarrow>
          (src, unauthorized_response P ''invalid_dpop_proof'' (Some ''DPoP proof replay detected'') None)
      | DPoPError.ReplayCacheSaturated \<Rightarrow> (src, service_unavailable_response P)
      | _ \<Rightarrow> challenge P ''invalid_dpop_proof'' None (ad_issue d) src)"

definition call_begin ::
  "('s, 'v, 'c) auth_ops \<Rightarrow> 'b inbound \<Rightarrow> auth_draws \<Rightarrow> ('s, 'v, 'i) OAuthAuthService
   \<Rightarrow> ('s, 'v, 'i) OAuthAuthService \<times> ('b pending_auth, 'c outbound) result" where
  "call_begin P rq d svc =
     (let E = ao_dpop P;
          with_source = (\<lambda>(src, r). (svc\<lparr>sv_nonce_source := src\<rparr>, r))
      in case request_token rq of
           Err e \<Rightarrow> (svc, Err (unauthorized_response P e None None))
         | Ok access_token \<Rightarrow>
             (case in_header rq ''DPoP'' of
                Some (Err _) \<Rightarrow> (svc, Err (unauthorized_response P ''invalid_dpop_proof'' None None))
              | None \<Rightarrow>
                  if \<not> has_authorization rq
                  then (svc, Err (unauthorized_response P ''missing_dpop_proof'' None None))
                  else with_source (apsnd Err (challenge P ''missing_dpop_proof'' None (ad_issue d) (sv_nonce_source svc)))
              | Some (Ok dpop_header) \<Rightarrow>
                  (case request_htu P svc rq of
                     None \<Rightarrow> (svc, Err (unauthorized_response P ''invalid_dpop_proof'' None None))
                   | Some htu \<Rightarrow>
                       (let ath = (if sv_require_ath svc
                              then Some (compute_access_token_hash (env_crypto E) access_token) else None)
                        in case verify_proof_deferred E dpop_header (in_method rq) htu None ath None (ad_proof d)
                                  (ad_admit d) (sv_verifier svc) of
                             Err err \<Rightarrow> with_source (apsnd Err (proof_refused P err d (sv_nonce_source svc)))
                           | Ok (claims, jwk, replay_admission) \<Rightarrow>
                               with_source (case check_nonce P (cl_nonce claims) d (sv_nonce_source svc) of
                                 (src, r) \<Rightarrow> (src, try_bind r (\<lambda>_.
                                   Ok \<lparr> pa_token = access_token, pa_thumbprint = thumbprint (env_crypto E) jwk,
                                     pa_admission = replay_admission, pa_request = rq \<rparr>)))))))"

text \<open>The future, up to the call of the inner service: validation, then the commit.\<close>

definition admit_request ::
  "('s, 'v, 'c) auth_ops \<Rightarrow> 'b pending_auth \<Rightarrow> auth_draws \<Rightarrow> ('s, 'v, 'i) OAuthAuthService
   \<Rightarrow> ('s, 'v, 'i) OAuthAuthService \<times> ('b inbound, 'c outbound) result" where
  "admit_request P p d svc =
     (case ao_validate P (sv_token_validator svc) (ad_validate d) (pa_token p) (pa_thumbprint p) of
        Err _ \<Rightarrow> (svc, Err (unauthorized_response P ''invalid_token'' None None))
      | Ok user \<Rightarrow>
          (case commit_replay_admission (ao_dpop P) (pa_admission p) (sv_verifier svc) of
             (v, Err DPoPError.ReplayCacheSaturated) \<Rightarrow>
               (svc\<lparr>sv_verifier := v\<rparr>, Err (service_unavailable_response P))
           | (v, Err _) \<Rightarrow>
               (svc\<lparr>sv_verifier := v\<rparr>,
                Err (unauthorized_response P ''invalid_dpop_proof'' (Some ''DPoP proof replay detected'') None))
           | (v, Ok _) \<Rightarrow>
               (svc\<lparr>sv_verifier := v\<rparr>,
                Ok ((pa_request p)\<lparr>in_ext_session := Some (OAuthSessionExtension_new user), in_ext_user := Some user\<rparr>))))"

text \<open>What happens to the answer of the inner service.\<close>

definition attach_nonce ::
  "('s, 'v, 'c) auth_ops \<Rightarrow> ('c outbound, 'e) result \<Rightarrow> auth_draws \<Rightarrow> 's option \<Rightarrow> 's option \<times> ('c outbound, 'e) result" where
  "attach_nonce P res d src =
     (case res of
        Ok response \<Rightarrow>
          if is_success (out_status response) then
            (case src of
               None \<Rightarrow> (None, Ok response)
             | Some s \<Rightarrow>
                 (case ao_generate P (fst (ad_issue d)) (snd (ad_issue d)) s of
                    (s', Ok nonce) \<Rightarrow> (Some s', Ok (set_nonce_header P nonce response))
                  | (s', Err _) \<Rightarrow> (Some s', Ok (service_unavailable_response P))))
          else (src, res)
      | Err _ \<Rightarrow> (src, res))"

type_synonym ('b, 'c, 'e, 'w) inner_service = "'b inbound \<Rightarrow> 'w \<Rightarrow> 'w \<times> ('c outbound, 'e) result"

definition call_finish ::
  "('s, 'v, 'c) auth_ops \<Rightarrow> 'b pending_auth \<Rightarrow> auth_draws
   \<Rightarrow> ('s, 'v, ('b, 'c, 'e, 'w) inner_service) OAuthAuthService \<times> 'w
   \<Rightarrow> (('s, 'v, ('b, 'c, 'e, 'w) inner_service) OAuthAuthService \<times> 'w) \<times> ('c outbound, 'e) result" where
  "call_finish P p d s =
     (case admit_request P p d (fst s) of
        (svc, Err resp) \<Rightarrow> ((svc, snd s), Ok resp)
      | (svc, Ok rq) \<Rightarrow>
          (let (w, res) = sv_inner svc rq (snd s); (src, res') = attach_nonce P res d (sv_nonce_source svc)
           in ((svc\<lparr>sv_nonce_source := src\<rparr>, w), res')))"

text \<open>A request that nothing interleaves with.\<close>

definition call ::
  "('s, 'v, 'c) auth_ops \<Rightarrow> 'b inbound \<Rightarrow> auth_draws
   \<Rightarrow> ('s, 'v, ('b, 'c, 'e, 'w) inner_service) OAuthAuthService \<times> 'w
   \<Rightarrow> (('s, 'v, ('b, 'c, 'e, 'w) inner_service) OAuthAuthService \<times> 'w) \<times> ('c outbound, 'e) result" where
  "call P rq d s =
     (case call_begin P rq d (fst s) of
        (svc, Err resp) \<Rightarrow> ((svc, snd s), Ok resp)
      | (svc, Ok p) \<Rightarrow> call_finish P p d (svc, snd s))"

end
