(* ===== verification/Extractors.thy ===== *)
theory Extractors
  imports Tower
begin

text \<open>
  The extractors and response helpers for Axum and Actix (\<open>integrations/axum.rs\<close>,
  \<open>integrations/actix.rs\<close>).  \<open>serde_urlencoded\<close>, the JSON serialiser and the response builders of the
  frameworks are parameters.
\<close>

record extract_env =
  xe_query_from_str :: "string \<Rightarrow> (OAuthCallbackQuery, string) result"
  xe_json_to_vec :: "json \<Rightarrow> (bytes, string) result"
  xe_json_to_string :: "json \<Rightarrow> (string, string) result"
  xe_header_value :: "string \<Rightarrow> bool"
  xe_header_error :: string
  xe_actix_error :: "string outbound"

definition error_body :: "string \<Rightarrow> string \<Rightarrow> json" where
  "error_body err description =
     JObject [''error'' \<mapsto> JString err, ''error_description'' \<mapsto> JString description]"

section \<open>Axum\<close>

definition axum_callback_query :: "extract_env \<Rightarrow> string option \<Rightarrow> (OAuthCallbackQuery, nat \<times> json) result" where
  "axum_callback_query X query =
     (let query_str = (case query of Some q \<Rightarrow> q | None \<Rightarrow> []) in
      map_err (\<lambda>err. (400, error_body ''invalid_request'' (''Malformed OAuth callback query parameters: '' @ err)))
        (xe_query_from_str X query_str))"

text \<open>Whether an \<open>Authorization\<close> header that is text names another scheme than DPoP.\<close>

definition other_scheme :: "'b inbound \<Rightarrow> bool" where
  "other_scheme rq =
     (case in_header rq ''authorization'' of
        Some (Ok auth) \<Rightarrow>
          \<not> (case split_once_str '' '' auth of
               Some (scheme, _) \<Rightarrow> eq_ignore_ascii_case scheme ''DPoP''
             | None \<Rightarrow> False)
      | _ \<Rightarrow> False)"

definition axum_user :: "'b inbound \<Rightarrow> (AuthenticatedUser, nat \<times> json) result" where
  "axum_user rq =
     (case in_ext_session rq of
        Some ext \<Rightarrow> Ok (ext_user ext)
      | None \<Rightarrow>
          (case in_ext_user rq of
             Some user \<Rightarrow> Ok user
           | None \<Rightarrow>
               if other_scheme rq
               then Err (401, error_body ''invalid_token'' (''Invalid Authorization scheme: expected '' @ sq ''DPoP''))
               else Err (401, error_body ''unauthorized'' ''Missing authenticated session extension or credentials'')))"

text \<open>The builder of the \<open>http\<close> crate: the first header value that is not valid makes it fail.\<close>

definition build_response :: "extract_env \<Rightarrow> nat \<Rightarrow> (string \<times> string) list \<Rightarrow> bytes \<Rightarrow> (bytes outbound, string) result" where
  "build_response X status headers body =
     (if list_all (xe_header_value X \<circ> snd) headers
      then Ok (fold (\<lambda>(n, v). set_header n v) headers \<lparr> out_status = status, out_headers = (\<lambda>_. []), out_body = body \<rparr>)
      else Err (xe_header_error X))"

definition client_metadata_response ::
  "crypto_lib \<Rightarrow> extract_env \<Rightarrow> OAuthClientMetadata \<Rightarrow> (bytes outbound, IntegrationError) result" where
  "client_metadata_response L X metadata =
     try_bind (map_err (\<lambda>e. IntegrationError.Internal (''Failed to serialize client metadata: '' @ e))
       (xe_json_to_vec X (metadata_to_json L metadata))) (\<lambda>json_bytes.
     map_err (\<lambda>e. IntegrationError.Internal (''Failed to construct metadata response: '' @ e))
       (build_response X 200 [(''content-type'', ''application/json''), (''access-control-allow-origin'', ''*'')] json_bytes))"

definition redirect_to_authorization :: "extract_env \<Rightarrow> AuthorizationRequest \<Rightarrow> (bytes outbound, IntegrationError) result" where
  "redirect_to_authorization X auth_req =
     map_err (\<lambda>e. IntegrationError.Internal (''Failed to construct redirect response: '' @ e))
       (build_response X 303 [(''location'', url_as_str (ar_authorization_url auth_req)),
          (''cache-control'', ''no-store''), (''pragma'', ''no-cache'')] [])"

section \<open>Actix\<close>

text \<open>An error of Actix is given by its status and its text.\<close>

definition actix_callback_query :: "extract_env \<Rightarrow> string \<Rightarrow> (OAuthCallbackQuery, nat \<times> string) result" where
  "actix_callback_query X query_str =
     (case xe_query_from_str X query_str of
        Ok query \<Rightarrow> Ok query
      | Err err \<Rightarrow> Err (400, ''Malformed OAuth callback query parameters: '' @ err))"

definition actix_user :: "'b inbound \<Rightarrow> (AuthenticatedUser, nat \<times> string) result" where
  "actix_user rq =
     (case in_ext_session rq of
        Some ext \<Rightarrow> Ok (ext_user ext)
      | None \<Rightarrow>
          (case in_ext_user rq of
             Some user \<Rightarrow> Ok user
           | None \<Rightarrow>
               if other_scheme rq then Err (401, ''Invalid Authorization scheme: expected '' @ sq ''DPoP'')
               else Err (401, ''Missing authenticated session extension or credentials'')))"

text \<open>The builder of Actix keeps a header error until the end and then answers with the error.\<close>

definition actix_response :: "extract_env \<Rightarrow> nat \<Rightarrow> (string \<times> string) list \<Rightarrow> string \<Rightarrow> string outbound" where
  "actix_response X status headers body =
     (if list_all (xe_header_value X \<circ> snd) headers
      then fold (\<lambda>(n, v). set_header n v) headers \<lparr> out_status = status, out_headers = (\<lambda>_. []), out_body = body \<rparr>
      else xe_actix_error X)"

definition client_metadata_http_response ::
  "crypto_lib \<Rightarrow> extract_env \<Rightarrow> OAuthClientMetadata \<Rightarrow> (string outbound, IntegrationError) result" where
  "client_metadata_http_response L X metadata =
     try_bind (map_err (\<lambda>e. IntegrationError.Internal (''Failed to serialize metadata: '' @ e))
       (xe_json_to_string X (metadata_to_json L metadata))) (\<lambda>json_string.
     Ok (actix_response X 200 [(''content-type'', ''application/json''), (''access-control-allow-origin'', ''*'')] json_string))"

definition redirect_to_authorization_http_response :: "extract_env \<Rightarrow> AuthorizationRequest \<Rightarrow> string outbound" where
  "redirect_to_authorization_http_response X auth_req =
     actix_response X 303 [(''location'', url_as_str (ar_authorization_url auth_req)),
       (''cache-control'', ''no-store''), (''pragma'', ''no-cache'')] []"

end
