(* ===== verification/Validator_Props.thy ===== *)
theory Validator_Props
  imports Validator Dpop_Props
begin

text \<open>
  Properties of access token validation: which signed tokens are accepted, that issued tokens are
  accepted, what the registry answers after any sequence of operations, and that both validators meet
  the interface of the middleware.
\<close>

section \<open>Signed tokens\<close>

lemma check_token_header_Ok:
  "check_token_header V hv = Ok () \<longleftrightarrow> json_get_str ''alg'' hv = Some ''ES256''
     \<and> (\<exists>t. json_get_str ''typ'' hv = Some t
          \<and> (eq_ignore_ascii_case t ''at+jwt'' \<or> eq_ignore_ascii_case t ''application/at+jwt''))"
  by (auto simp: check_token_header_def Let_def split: option.splits)

lemma check_token_times_Ok:
  "check_token_times v c n = Ok () \<longleftrightarrow>
     unat n + unat (secs64 (jv_clock_skew_leeway v)) < unat (at_exp c)
     \<and> (case at_nbf c of Some nbf \<Rightarrow> unat nbf \<le> unat n + unat (secs64 (jv_clock_skew_leeway v)) | None \<Rightarrow> True)"
  using unat_u64_less [of "at_exp c"] unat_u64_less [of "the (at_nbf c)"]
  by (auto simp: check_token_times_def Let_def unat_saturating_add word_le_nat_alt word_less_nat_alt split: option.splits)

lemma check_token_identity_Ok:
  "check_token_issuer v c = Ok () \<longleftrightarrow> trim (at_iss c) \<noteq> [] \<and> jv_expected_issuer v = Some (at_iss c)"
  "check_token_audience V v c = Ok () \<longleftrightarrow>
     (\<exists>aud. jv_expected_audience v = Some aud \<and> audience_matches (at_aud c) aud)"
  "check_token_subject v c = Ok () \<longleftrightarrow> trim (at_sub c) \<noteq> []
     \<and> (jv_expected_subject v = None \<or> jv_expected_subject v = Some (at_sub c))"
  by (auto simp: check_token_issuer_def check_token_audience_def check_token_subject_def audience_matches_def
      split: option.splits if_splits)

lemma check_token_scopes_Ok:
  "check_token_scopes v c = Ok () \<longleftrightarrow>
     set (jv_required_scopes v) \<subseteq> set (split_whitespace (case at_scope c of Some s \<Rightarrow> s | None \<Rightarrow> []))"
  by (auto simp: check_token_scopes_def Let_def list_all_iff)

text \<open>The claims meet what the validator is configured to expect at the second \<open>n\<close>.\<close>

definition claims_expected :: "JwtAccessTokenValidator \<Rightarrow> JwtAccessTokenClaims \<Rightarrow> u64 \<Rightarrow> bool" where
  "claims_expected v c n =
     (unat n + unat (secs64 (jv_clock_skew_leeway v)) < unat (at_exp c)
      \<and> (case at_nbf c of Some nbf \<Rightarrow> unat nbf \<le> unat n + unat (secs64 (jv_clock_skew_leeway v)) | None \<Rightarrow> True)
      \<and> trim (at_iss c) \<noteq> [] \<and> jv_expected_issuer v = Some (at_iss c)
      \<and> (\<exists>aud. jv_expected_audience v = Some aud \<and> audience_matches (at_aud c) aud)
      \<and> trim (at_sub c) \<noteq> [] \<and> (jv_expected_subject v = None \<or> jv_expected_subject v = Some (at_sub c))
      \<and> set (jv_required_scopes v) \<subseteq> set (split_whitespace (case at_scope c of Some s \<Rightarrow> s | None \<Rightarrow> [])))"

text \<open>The token is signed by the key the validator trusts for it, over a header for access tokens and
  these claims.\<close>

definition signed_claims ::
  "validator_env \<Rightarrow> JwtAccessTokenValidator \<Rightarrow> string \<Rightarrow> JwtAccessTokenClaims \<Rightarrow> bool" where
  "signed_claims V v tok c =
     (\<exists>h p s hb pb sb hv t vk. split_on (CHR ''.'') (trim tok) = [h, p, s]
        \<and> base64url_decode (ve_crypto V) h = Ok hb \<and> base64url_decode (ve_crypto V) p = Ok pb
        \<and> base64url_decode (ve_crypto V) s = Ok sb \<and> ve_json_from_slice V hb = Ok hv
        \<and> json_get_str ''alg'' hv = Some ''ES256'' \<and> json_get_str ''typ'' hv = Some t
        \<and> (eq_ignore_ascii_case t ''at+jwt'' \<or> eq_ignore_ascii_case t ''application/at+jwt'')
        \<and> select_key v (json_get_str ''kid'' hv) = Some vk
        \<and> verify_p256_raw (ve_crypto V) vk (as_bytes (h @ ''.'' @ p)) sb = Ok ()
        \<and> ve_claims_from_slice V pb = Ok c)"

definition jwt_trusted ::
  "validator_env \<Rightarrow> JwtAccessTokenValidator \<Rightarrow> system_time \<Rightarrow> string \<Rightarrow> string \<Rightarrow> string \<Rightarrow> string option \<Rightarrow> bool" where
  "jwt_trusted V v now tok jkt did sc =
     (\<exists>c n. signed_claims V v tok c \<and> unix_secs now = Ok n \<and> claims_expected v c n
        \<and> constant_time_eq (ve_crypto V) (as_bytes (cnf_jkt (at_cnf c))) (as_bytes jkt)
        \<and> did = at_sub c \<and> sc = at_scope c)"

lemma verify_token_sync_Ok:
  "verify_token_sync V v now tok jkt = Ok u \<longleftrightarrow>
     jwt_trusted V v now tok jkt (au_did u) (au_scope u) \<and> au_access_token u = tok \<and> au_dpop_thumbprint u = jkt"
proof -
  have "(\<exists>h p s. split_on (CHR ''.'') (trim tok) = [h, p, s]) \<or> (\<nexists>u. verify_token_sync V v now tok jkt = Ok u)"
    by (simp add: verify_token_sync_def Let_def split: list.split)
  moreover have "(\<exists>h p s. split_on (CHR ''.'') (trim tok) = [h, p, s])"
    if "jwt_trusted V v now tok jkt (au_did u) (au_scope u)"
    using that by (auto simp: jwt_trusted_def signed_claims_def)
  moreover have ?thesis if "split_on (CHR ''.'') (trim tok) = [h, p, s]" for h p s
    unfolding verify_token_sync_def that Let_def jwt_trusted_def signed_claims_def claims_expected_def
    by (cases u) (auto simp: check_token_header_Ok check_token_times_Ok check_token_identity_Ok check_token_scopes_Ok)
  ultimately show ?thesis
    by blast
qed

interpretation jwt: token_validator "verify_token_sync V" "jwt_trusted V" for V
  by unfold_locales (simp_all add: verify_token_sync_Ok)

text \<open>Values and claims are read back from what was written.\<close>

definition token_serde_ok :: "validator_env \<Rightarrow> string option \<Rightarrow> JwtAccessTokenClaims \<Rightarrow> bool" where
  "token_serde_ok V kid c =
     ((\<exists>t. ve_json_to_string V (token_header kid) = Ok t \<and> ve_json_from_slice V (as_bytes t) = Ok (token_header kid))
      \<and> (\<exists>t. ve_json_to_string V (at_claims_to_value c) = Ok t \<and> ve_claims_from_slice V (as_bytes t) = Ok c))"

lemma signed_token:
  assumes "b64_documented (ve_crypto V)" "p256_documented (ve_crypto V)" "token_serde_ok V kid c"
    "select_key v kid = Some (p256_verifying_key (ve_crypto V) key)"
  obtains tok where "claims_sign_jwt V key kid c = Ok tok" "signed_claims V v tok c" "trim tok = tok"
proof -
  let ?L = "ve_crypto V"
  obtain ht pt where t: "ve_json_to_string V (token_header kid) = Ok ht" "ve_json_from_slice V (as_bytes ht) = Ok (token_header kid)"
    "ve_json_to_string V (at_claims_to_value c) = Ok pt" "ve_claims_from_slice V (as_bytes pt) = Ok c"
    using assms(3) by (auto simp: token_serde_ok_def)
  let ?h = "base64url_encode ?L (as_bytes ht)" and ?p = "base64url_encode ?L (as_bytes pt)"
  let ?sig = "p256_sign ?L key (as_bytes (?h @ ''.'' @ ?p))"
  let ?tok = "?h @ ''.'' @ ?p @ ''.'' @ base64url_encode ?L ?sig"
  have ty: "eq_ignore_ascii_case ''at+jwt'' ''at+jwt''"
    by (simp add: eq_ignore_ascii_case_def)
  have hd: "json_get_str ''alg'' (token_header kid) = Some ''ES256''" "json_get_str ''typ'' (token_header kid) = Some ''at+jwt''"
    "json_get_str ''kid'' (token_header kid) = kid"
    by (cases kid; simp add: token_header_def json_get_str_def)+
  have "claims_sign_jwt V key kid c = Ok ?tok"
    using t verify_own_signature(1) [OF assms(2)] by (simp add: claims_sign_jwt_def Let_def)
  moreover have "signed_claims V v ?tok c"
    unfolding signed_claims_def
    by (intro exI [of _ ?h] exI [of _ ?p] exI [of _ "base64url_encode ?L ?sig"] exI [of _ "as_bytes ht"]
        exI [of _ "as_bytes pt"] exI [of _ ?sig] exI [of _ "token_header kid"] exI [of _ "''at+jwt''"]
        exI [of _ "p256_verifying_key ?L key"])
      (simp only: split_compact [OF assms(1)] base64url_props(3) [OF assms(1)] t hd ty assms(4)
        verify_own_signature(2) [OF assms(2)] simp_thms)
  moreover have "trim ?tok = ?tok"
    by (rule trim_compact [OF assms(1)])
  ultimately show thesis
    by (rule that)
qed

section \<open>The registry\<close>

datatype registry_op =
    Register bytes string string "string option" "system_time option"
  | RegisterSession OAuthSession
  | Revoke string
  | PruneRegistry system_time

fun registry_step :: "crypto_lib \<Rightarrow> registry_op \<Rightarrow> InMemoryTokenValidator \<Rightarrow> InMemoryTokenValidator" where
  "registry_step L (Register tok did jkt sc x) m = register_token L tok did jkt sc x m"
| "registry_step L (RegisterSession s) m = register_session L s m"
| "registry_step L (Revoke tok) m = revoke_token L tok m"
| "registry_step L (PruneRegistry now) m = fst (registry_prune_expired now m)"

definition registry_run :: "crypto_lib \<Rightarrow> registry_op list \<Rightarrow> InMemoryTokenValidator \<Rightarrow> InMemoryTokenValidator" where
  "registry_run L ops m = fold (registry_step L) ops m"

text \<open>What an operation stores for a digest, and whether it leaves an entry for it alone.\<close>

fun registers :: "crypto_lib \<Rightarrow> bytes \<Rightarrow> registry_op \<Rightarrow> RegisteredToken option" where
  "registers L d (Register tok did jkt sc x) = (if sha256_digest L tok = d
     then Some \<lparr> rt_did = did, rt_dpop_thumbprint = jkt, rt_scope = sc, rt_expires_at = x \<rparr> else None)"
| "registers L d (RegisterSession s) = (if sha256_digest L (as_bytes (os_access_token s)) = d
     then Some \<lparr> rt_did = os_sub s, rt_dpop_thumbprint = jwk_thumbprint L (os_dpop_key s), rt_scope = os_scope s,
       rt_expires_at = os_expires_at s \<rparr> else None)"
| "registers L d _ = None"

fun keeps_entry :: "crypto_lib \<Rightarrow> bytes \<Rightarrow> RegisteredToken \<Rightarrow> registry_op \<Rightarrow> bool" where
  "keeps_entry L d e (Revoke tok) = (sha256_digest L (as_bytes tok) \<noteq> d)"
| "keeps_entry L d e (PruneRegistry now) = (case rt_expires_at e of Some x \<Rightarrow> now < x | None \<Rightarrow> True)"
| "keeps_entry L d e x = (registers L d x = None)"

lemma registry_step_ok: "hm_ok m \<Longrightarrow> hm_ok (registry_step L x m)"
  by (cases x) (auto simp: register_token_def register_session_def revoke_token_def registry_prune_expired_def Let_def)

lemma registry_step_get:
  "hm_ok m \<Longrightarrow> hm_get d (registry_step L x m) = Some e \<longleftrightarrow>
     registers L d x = Some e \<or> (hm_get d m = Some e \<and> keeps_entry L d e x)"
  by (cases x) (auto simp: register_token_def register_session_def revoke_token_def registry_prune_expired_def Let_def
      hm_get_retain split: option.splits if_splits)

lemma registry_run_ok: "hm_ok m \<Longrightarrow> hm_ok (registry_run L ops m)"
  by (induction ops arbitrary: m) (simp_all add: registry_run_def registry_step_ok)

lemma registry_run_get:
  "hm_get d (registry_run L ops []) = Some e \<longleftrightarrow>
     (\<exists>before x after. ops = before @ x # after \<and> registers L d x = Some e \<and> list_all (keeps_entry L d e) after)"
  (is "_ \<longleftrightarrow> ?R ops")
proof (induction ops rule: rev_induct)
  case Nil
  show ?case
    by (simp add: registry_run_def)
next
  case (snoc y ops)
  have ok: "hm_ok (registry_run L ops [])"
    by (rule registry_run_ok) simp
  have "?R (ops @ [y]) \<longleftrightarrow> registers L d y = Some e \<or> (?R ops \<and> keeps_entry L d e y)"
  proof
    assume "?R (ops @ [y])"
    then obtain before x after where "ops @ [y] = before @ x # after" "registers L d x = Some e"
      "list_all (keeps_entry L d e) after"
      by blast
    thus "registers L d y = Some e \<or> (?R ops \<and> keeps_entry L d e y)"
      by (cases after rule: rev_cases) auto
  next
    assume "registers L d y = Some e \<or> (?R ops \<and> keeps_entry L d e y)"
    thus "?R (ops @ [y])"
    proof
      assume "registers L d y = Some e"
      thus ?thesis
        by (intro exI [of _ ops] exI [of _ y] exI [of _ "[]"]) simp
    next
      assume "?R ops \<and> keeps_entry L d e y"
      then obtain before x after where "ops = before @ x # after" "registers L d x = Some e"
        "list_all (keeps_entry L d e) after" "keeps_entry L d e y"
        by blast
      thus ?thesis
        by (intro exI [of _ before] exI [of _ x] exI [of _ "after @ [y]"]) simp
    qed
  qed
  moreover have "registry_run L (ops @ [y]) [] = registry_step L y (registry_run L ops [])"
    by (simp add: registry_run_def)
  ultimately show ?case
    using snoc registry_step_get [OF ok] by simp
qed

text \<open>The token has a current entry for this subject and scope that is bound to the key.\<close>

definition registry_trusted ::
  "crypto_lib \<Rightarrow> InMemoryTokenValidator \<Rightarrow> system_time \<Rightarrow> string \<Rightarrow> string \<Rightarrow> string \<Rightarrow> string option \<Rightarrow> bool" where
  "registry_trusted L m now tok jkt did sc =
     (\<exists>e. hm_get (sha256_digest L (as_bytes tok)) m = Some e
        \<and> (case rt_expires_at e of Some x \<Rightarrow> now \<le> x | None \<Rightarrow> True)
        \<and> constant_time_eq L (as_bytes (rt_dpop_thumbprint e)) (as_bytes jkt) \<and> did = rt_did e \<and> sc = rt_scope e)"

lemma validate_sync_Ok:
  "validate_sync L m now tok jkt = Ok u \<longleftrightarrow>
     registry_trusted L m now tok jkt (au_did u) (au_scope u) \<and> au_access_token u = tok \<and> au_dpop_thumbprint u = jkt"
proof (cases "hm_get (sha256_digest L (as_bytes tok)) m")
  case (Some e)
  thus ?thesis
    by (cases u; cases "rt_expires_at e") (auto simp: validate_sync_def registry_trusted_def)
qed (simp add: validate_sync_def registry_trusted_def)

interpretation registry: token_validator "validate_sync L" "registry_trusted L" for L
  by unfold_locales (simp_all add: validate_sync_Ok)

section \<open>A concrete validator\<close>

definition sample_at_claims :: JwtAccessTokenClaims where
  "sample_at_claims = \<lparr> at_iss = ''https://as'', at_sub = ''did:web:a'', at_client_id = ''c'',
     at_aud = Some (JArray [JString ''https://b'', JString ''https://rs'']), at_exp = 1000, at_nbf = Some 120, at_iat = 0,
     at_jti = ''j'', at_scope = Some ''atproto'', at_cnf = \<lparr> cnf_jkt = jwk_thumbprint sample_lib sample_key \<rparr> \<rparr>"

definition sample_ve :: validator_env where
  "sample_ve = \<lparr> ve_crypto = sample_lib,
     ve_json_to_string = (\<lambda>v. Ok (if json_get ''typ'' v = None then ''P'' else ''H'')),
     ve_json_from_slice = (\<lambda>bs. if bs = as_bytes ''H'' then Ok (token_header None) else Err ''expected value''),
     ve_claims_from_slice = (\<lambda>bs. if bs = as_bytes ''P'' then Ok sample_at_claims else Err ''expected value''),
     ve_show_json = (\<lambda>_. ''j''), ve_debug_str = id \<rparr>"

definition sample_validator :: JwtAccessTokenValidator where
  "sample_validator = with_required_scope ''atproto'' (with_expected_audience ''https://rs''
     (with_expected_issuer ''https://as'' (with_trusted_key ''kid1'' (replicate 64 1) JwtAccessTokenValidator_new)))"

lemma sample_ve_ok:
  "b64_documented (ve_crypto sample_ve)" "p256_documented (ve_crypto sample_ve)" "ct_eq_documented (ve_crypto sample_ve)"
  "token_serde_ok sample_ve None sample_at_claims"
  "select_key sample_validator None = Some (p256_verifying_key (ve_crypto sample_ve) [])"
  using sample_documented
  by (simp_all add: sample_ve_def token_serde_ok_def token_header_def at_claims_to_value_def select_key_def
      sample_validator_def with_trusted_key_def with_expected_issuer_def with_expected_audience_def
      with_required_scope_def JwtAccessTokenValidator_new_def sample_lib_def hm_insert_def)

lemma sample_expected: "unix_secs 60000000000 = Ok 60" "claims_expected sample_validator sample_at_claims 60"
proof -
  show "unix_secs 60000000000 = Ok 60"
    by (simp add: unix_secs_def secs64_def as_secs_def nanos_per_sec_def)
  have "secs64 (from_secs 60) = 60"
    by (simp add: secs64_def as_secs_def from_secs_def nanos_per_sec_def)
  moreover have "trim ''https://as'' \<noteq> []" "trim ''did:web:a'' \<noteq> []" "split_whitespace ''atproto'' = [''atproto'']"
    by code_simp+
  ultimately show "claims_expected sample_validator sample_at_claims 60"
    by (simp add: claims_expected_def sample_validator_def sample_at_claims_def with_trusted_key_def
        with_expected_issuer_def with_expected_audience_def with_required_scope_def JwtAccessTokenValidator_new_def
        audience_matches_def)
qed

section \<open>Properties\<close>

text \<open>C12: A signed access token is accepted exactly when a key that the validator trusts for its \<open>kid\<close>
  verifies its signature over an \<open>at+jwt\<close> header and the claims, the claims name the expected issuer, an
  audience that is or contains the expected one, a subject, and all required scopes, the time is inside
  the validity, and the token is bound to the key of the presented proof.  The user is then the subject
  with the scope of the claims.  A validator without expected issuer or audience accepts nothing.\<close>

theorem access_token_accepted_iff:
  assumes "ct_eq_documented (ve_crypto V)"
  shows "verify_token_sync V v now tok jkt = Ok u \<longleftrightarrow>
    (\<exists>c n. signed_claims V v tok c \<and> unix_secs now = Ok n \<and> claims_expected v c n \<and> cnf_jkt (at_cnf c) = jkt
       \<and> u = \<lparr> au_did = at_sub c, au_access_token = tok, au_dpop_thumbprint = jkt, au_scope = at_scope c \<rparr>)"
  unfolding verify_token_sync_Ok jwt_trusted_def constant_time_eq_iff [OF assms] by (cases u) auto

theorem access_token_accepted_iff_witness:
  "\<exists>tok. verify_token_sync sample_ve sample_validator 60000000000 tok (jwk_thumbprint sample_lib sample_key) =
     Ok \<lparr> au_did = ''did:web:a'', au_access_token = tok, au_dpop_thumbprint = jwk_thumbprint sample_lib sample_key,
       au_scope = Some ''atproto'' \<rparr>"
proof -
  obtain tok where "signed_claims sample_ve sample_validator tok sample_at_claims"
    by (rule signed_token [OF sample_ve_ok(1,2,4,5)])
  with sample_expected show ?thesis
    unfolding access_token_accepted_iff [OF sample_ve_ok(3)]
    by (intro exI [of _ tok] exI [of _ sample_at_claims] exI [of _ 60]) (simp add: sample_at_claims_def)
qed

text \<open>Claims that are signed with a trusted key and meet the expectations of the validator are accepted
  for the holder of the key they are bound to.\<close>

theorem issued_token_verifies:
  assumes "b64_documented (ve_crypto V)" "p256_documented (ve_crypto V)" "ct_eq_documented (ve_crypto V)"
    and "token_serde_ok V kid c" "select_key v kid = Some (p256_verifying_key (ve_crypto V) key)"
    and "unix_secs now = Ok n" "claims_expected v c n"
  shows "\<exists>tok. claims_sign_jwt V key kid c = Ok tok \<and> verify_token_sync V v now tok (cnf_jkt (at_cnf c)) =
    Ok \<lparr> au_did = at_sub c, au_access_token = tok, au_dpop_thumbprint = cnf_jkt (at_cnf c), au_scope = at_scope c \<rparr>"
proof -
  obtain tok where "claims_sign_jwt V key kid c = Ok tok" "signed_claims V v tok c"
    by (rule signed_token [OF assms(1,2,4,5)])
  thus ?thesis
    using assms(6,7) by (auto simp: verify_token_sync_Ok jwt_trusted_def constant_time_eq_iff [OF assms(3)])
qed

theorem issued_token_verifies_witness:
  "\<exists>tok. claims_sign_jwt sample_ve [] None sample_at_claims = Ok tok
     \<and> verify_token_sync sample_ve sample_validator 60000000000 tok (cnf_jkt (at_cnf sample_at_claims)) =
       Ok \<lparr> au_did = at_sub sample_at_claims, au_access_token = tok,
         au_dpop_thumbprint = cnf_jkt (at_cnf sample_at_claims), au_scope = at_scope sample_at_claims \<rparr>"
  by (rule issued_token_verifies [OF sample_ve_ok(1-5) sample_expected])

text \<open>C36: The registry accepts a token, after any sequence of operations, exactly when the last
  registration for it has been neither revoked, replaced nor pruned, has not expired and is bound to
  the presented key.\<close>

theorem registry_accepts_iff:
  assumes "ct_eq_documented L"
  shows "validate_sync L (registry_run L ops InMemoryTokenValidator_new) now tok jkt = Ok u \<longleftrightarrow>
    (\<exists>before x after e. ops = before @ x # after \<and> registers L (sha256_digest L (as_bytes tok)) x = Some e
       \<and> list_all (keeps_entry L (sha256_digest L (as_bytes tok)) e) after
       \<and> (case rt_expires_at e of Some t \<Rightarrow> now \<le> t | None \<Rightarrow> True) \<and> rt_dpop_thumbprint e = jkt
       \<and> u = \<lparr> au_did = rt_did e, au_access_token = tok, au_dpop_thumbprint = jkt, au_scope = rt_scope e \<rparr>)"
  unfolding InMemoryTokenValidator_new_def validate_sync_Ok registry_trusted_def registry_run_get
    constant_time_eq_iff [OF assms]
  by (cases u) auto

theorem registry_accepts_iff_witness:
  "validate_sync sample_lib (registry_run sample_lib [Register (as_bytes ''t'') ''did:web:a'' ''k'' None (Some 5), PruneRegistry 4]
     InMemoryTokenValidator_new) 5 ''t'' ''k'' =
     Ok \<lparr> au_did = ''did:web:a'', au_access_token = ''t'', au_dpop_thumbprint = ''k'', au_scope = None \<rparr>"
  unfolding registry_accepts_iff [OF sample_documented(1)]
  by (intro exI [of _ "[]"] exI [of _ "Register (as_bytes ''t'') ''did:web:a'' ''k'' None (Some 5)"]
      exI [of _ "[PruneRegistry 4]"]
      exI [of _ "\<lparr> rt_did = ''did:web:a'', rt_dpop_thumbprint = ''k'', rt_scope = None, rt_expires_at = Some 5 \<rparr>"]) simp

text \<open>Pruning the registry changes the answer for an accepted token only at the very instant of its
  expiry: there the token is still accepted, but pruning already removes it.\<close>

theorem prune_differs_only_at_expiry:
  assumes "hm_ok m" and "n \<le> t" and "validate_sync L m t tok jkt = Ok u"
  shows "validate_sync L (fst (registry_prune_expired n m)) t tok jkt \<noteq> Ok u \<longleftrightarrow>
    n = t \<and> (\<exists>e. hm_get (sha256_digest L (as_bytes tok)) m = Some e \<and> rt_expires_at e = Some t)"
proof -
  obtain e where e: "hm_get (sha256_digest L (as_bytes tok)) m = Some e"
    "case rt_expires_at e of Some x \<Rightarrow> t \<le> x | None \<Rightarrow> True"
    using assms(3) by (auto simp: validate_sync_Ok registry_trusted_def)
  have "hm_get (sha256_digest L (as_bytes tok)) (fst (registry_prune_expired n m)) =
    (if n = t \<and> rt_expires_at e = Some t then None else Some e)"
    using e assms(1,2) by (auto simp: registry_prune_expired_def Let_def hm_get_retain split: option.splits)
  thus ?thesis
    using assms(3) e by (auto simp: validate_sync_Ok registry_trusted_def)
qed

theorem prune_differs_only_at_expiry_witness:
  "validate_sync sample_lib (fst (registry_prune_expired 5 (register_token sample_lib (as_bytes ''t'') ''d'' ''k'' None (Some 5) [])))
     5 ''t'' ''k'' \<noteq> Ok \<lparr> au_did = ''d'', au_access_token = ''t'', au_dpop_thumbprint = ''k'', au_scope = None \<rparr>"
proof -
  let ?m = "register_token sample_lib (as_bytes ''t'') ''d'' ''k'' None (Some 5) []"
  have "validate_sync sample_lib ?m 5 ''t'' ''k''
    = Ok \<lparr> au_did = ''d'', au_access_token = ''t'', au_dpop_thumbprint = ''k'', au_scope = None \<rparr>"
    by (simp add: validate_sync_def register_token_def constant_time_eq_iff [OF sample_documented(1)])
  from prune_differs_only_at_expiry [OF _ _ this, of 5] show ?thesis
    by (simp add: register_token_def)
qed

end
