(* ===== verification/Tower_Props.thy ===== *)
theory Tower_Props
  imports Tower Validator_Props
begin

text \<open>
  Properties of the Tower middleware: what holds of a request that reaches the inner service, that a
  refused request changes nothing but the nonce source, how far replays are excluded when requests
  interleave, and that a request the client library makes is served.
\<close>

section \<open>What the phases guarantee\<close>

lemma challenge_status: "out_status (snd (challenge P code' desc draw src)) \<in> {401, 503}"
  by (auto simp: challenge_def unauthorized_response_def service_unavailable_response_def set_nonce_header_def
      set_header_def Let_def split: option.split prod.split result.split DPoPError.split)

lemma unauthorized_status [simp]: "out_status (unauthorized_response P e desc n) = 401"
  by (simp add: unauthorized_response_def set_nonce_header_def set_header_def Let_def split: option.split)

lemma unavailable_status [simp]: "out_status (service_unavailable_response P) = 503"
  by (simp add: service_unavailable_response_def set_header_def)

lemma proof_refused_status: "out_status (snd (proof_refused P err d src)) \<in> {401, 503}"
  using challenge_status [of P _ _ "ad_issue d" src] by (cases err) (auto simp: proof_refused_def)

lemma check_nonce_Err: "check_nonce P nonce d src = (src', Err resp) \<Longrightarrow> out_status resp \<in> {401, 503}"
  using challenge_status [of P "''use_dpop_nonce''" "Some ''Resource server requires fresh DPoP nonce''" "ad_issue d"]
  by (auto simp: check_nonce_def split_beta Let_def split: option.splits if_splits)

lemma apsnd_Err [simp]: "apsnd Err x = (a, Ok p) \<longleftrightarrow> False" "apsnd Err x = (a, Err r) \<longleftrightarrow> x = (a, r)"
  by (cases x; simp)+

lemma call_begin_Ok:
  assumes "call_begin P rq d svc = (svc', Ok p)"
  obtains tok pr htu claims jwk adm src where "request_token rq = Ok tok" "in_header rq ''DPoP'' = Some (Ok pr)"
    "request_htu P svc rq = Some htu"
    "verify_proof_deferred (ao_dpop P) pr (in_method rq) htu None
       (if sv_require_ath svc then Some (compute_access_token_hash (env_crypto (ao_dpop P)) tok) else None) None
       (ad_proof d) (ad_admit d) (sv_verifier svc) = Ok (claims, jwk, adm)"
    "check_nonce P (cl_nonce claims) d (sv_nonce_source svc) = (src, Ok ())"
    "svc' = svc\<lparr>sv_nonce_source := src\<rparr>"
    "p = \<lparr> pa_token = tok, pa_thumbprint = thumbprint (env_crypto (ao_dpop P)) jwk, pa_admission = adm, pa_request = rq \<rparr>"
  using assms unfolding call_begin_def Let_def
  by (auto split: result.splits option.splits if_splits prod.splits)

lemma call_begin_Err:
  assumes "call_begin P rq d svc = (svc', Err resp)"
  shows "out_status resp \<in> {401, 503} \<and> (\<exists>src. svc' = svc\<lparr>sv_nonce_source := src\<rparr>
    \<and> (src = sv_nonce_source svc \<or> (\<exists>tok. request_token rq = Ok tok)))"
proof -
  have status: "challenge P e desc dr src = (src', r) \<Longrightarrow> out_status r \<in> {401, 503}"
    "proof_refused P err d src = (src', r) \<Longrightarrow> out_status r \<in> {401, 503}" for e desc dr src src' r err
    using challenge_status [of P e desc dr src] proof_refused_status [of P err d src] by simp_all
  have "svc = svc\<lparr>sv_nonce_source := sv_nonce_source svc\<rparr>"
    by simp
  hence "\<exists>src. svc = svc\<lparr>sv_nonce_source := src\<rparr> \<and> (src = sv_nonce_source svc \<or> (\<exists>tok. request_token rq = Ok tok))"
    by blast
  thus ?thesis
    using assms status unfolding call_begin_def Let_def
    by (auto split: result.splits option.splits if_splits prod.splits simp: try_bind_Err_iff dest: check_nonce_Err)
qed

lemma admit_request_Ok:
  assumes "admit_request P p d svc = (svc', Ok rq')"
  obtains user v where "ao_validate P (sv_token_validator svc) (ad_validate d) (pa_token p) (pa_thumbprint p) = Ok user"
    "commit_replay_admission (ao_dpop P) (pa_admission p) (sv_verifier svc) = (v, Ok ())" "svc' = svc\<lparr>sv_verifier := v\<rparr>"
    "rq' = (pa_request p)\<lparr>in_ext_session := Some (OAuthSessionExtension_new user), in_ext_user := Some user\<rparr>"
  using assms by (auto simp: admit_request_def split: result.splits prod.splits DPoPError.splits)

text \<open>The commit decides once the token is valid.\<close>

lemma admit_request_valid:
  assumes "ao_validate P (sv_token_validator svc) (ad_validate d) (pa_token p) (pa_thumbprint p) = Ok user"
  shows "fst (admit_request P p d svc) = svc\<lparr>sv_verifier := fst (commit_replay_admission (ao_dpop P) (pa_admission p) (sv_verifier svc))\<rparr>"
    "(\<exists>rq. snd (admit_request P p d svc) = Ok rq)
       \<longleftrightarrow> snd (commit_replay_admission (ao_dpop P) (pa_admission p) (sv_verifier svc)) = Ok ()"
  using assms by (auto simp: admit_request_def split: result.split prod.split DPoPError.split)

lemma admit_request_invalid:
  assumes "ao_validate P (sv_token_validator svc) (ad_validate d) (pa_token p) (pa_thumbprint p) = Err e"
  shows "admit_request P p d svc = (svc, Err (unauthorized_response P ''invalid_token'' None None))"
  using assms by (simp add: admit_request_def)

text \<open>The user that a validator with the promised contract puts into the request.\<close>

context token_validator
begin

lemma admitted_user:
  assumes "ao_validate P = validate_access_token"
    and "call_begin P rq d svc = (svc1, Ok p)" "admit_request P p d' svc2 = (svc3, Ok rq')"
  obtains tok pr htu claims jwk u where "request_token rq = Ok tok" "in_header rq ''DPoP'' = Some (Ok pr)"
    "request_htu P svc rq = Some htu"
    "verify_proof_no_replay (ao_dpop P) (sv_verifier svc) pr (in_method rq) htu None
       (if sv_require_ath svc then Some (compute_access_token_hash (env_crypto (ao_dpop P)) tok) else None) None
       (ad_proof d) = Ok (claims, jwk)"
    "\<exists>src. check_nonce P (cl_nonce claims) d (sv_nonce_source svc) = (src, Ok ())"
    "trusted (sv_token_validator svc2) (ad_validate d') tok (thumbprint (env_crypto (ao_dpop P)) jwk) (au_did u) (au_scope u)"
    "au_access_token u = tok" "au_dpop_thumbprint u = thumbprint (env_crypto (ao_dpop P)) jwk"
    "rq' = rq\<lparr>in_ext_session := Some (OAuthSessionExtension_new u), in_ext_user := Some u\<rparr>"
proof -
  obtain tok pr htu claims jwk adm src where b: "request_token rq = Ok tok" "in_header rq ''DPoP'' = Some (Ok pr)"
    "request_htu P svc rq = Some htu"
    "verify_proof_deferred (ao_dpop P) pr (in_method rq) htu None
       (if sv_require_ath svc then Some (compute_access_token_hash (env_crypto (ao_dpop P)) tok) else None) None
       (ad_proof d) (ad_admit d) (sv_verifier svc) = Ok (claims, jwk, adm)"
    "check_nonce P (cl_nonce claims) d (sv_nonce_source svc) = (src, Ok ())"
    "p = \<lparr> pa_token = tok, pa_thumbprint = thumbprint (env_crypto (ao_dpop P)) jwk, pa_admission = adm, pa_request = rq \<rparr>"
    using assms(2) by (rule call_begin_Ok)
  obtain u v where a: "validate_access_token (sv_token_validator svc2) (ad_validate d') (pa_token p) (pa_thumbprint p) = Ok u"
    "rq' = (pa_request p)\<lparr>in_ext_session := Some (OAuthSessionExtension_new u), in_ext_user := Some u\<rparr>"
    using assms(1,3) by (auto elim: admit_request_Ok)
  show thesis
    using that [OF b(1-3), of claims jwk u] b(4-6) a user_bound [OF a(1)] user_trusted [OF a(1)]
    by (auto simp: verify_proof_deferred_def Let_def split: if_splits)
qed

end

section \<open>Interleaved requests\<close>

text \<open>The service with the requests that wait for validation.  The log records every commit of a replay
  admission, and whether the request went on to the inner service.\<close>

record ('s, 'v, 'b, 'i) tower_state =
  tw_service :: "('s, 'v, 'i) OAuthAuthService"
  tw_pending :: "'b pending_auth list"
  tw_log :: "(ReplayAdmission \<times> bool) list"

text \<open>Steps: a request is refused or becomes pending; a pending one ends with an invalid token or is
  committed; the validator and the nonce source change in any way, as they do when tokens are
  registered or answers carry new nonces.\<close>

inductive tower_step ::
  "('s, 'v, 'c) auth_ops \<Rightarrow> ('s, 'v, 'b, 'i) tower_state \<Rightarrow> ('s, 'v, 'b, 'i) tower_state \<Rightarrow> bool" for P where
  refuse: "call_begin P (rq :: 'b inbound) d (tw_service s) = (svc, Err resp) \<Longrightarrow> tower_step P s (s\<lparr>tw_service := svc\<rparr>)"
| start: "call_begin P rq d (tw_service s) = (svc, Ok p)
     \<Longrightarrow> tower_step P s (s\<lparr>tw_service := svc, tw_pending := tw_pending s @ [p]\<rparr>)"
| invalid: "p \<in> set (tw_pending s)
     \<Longrightarrow> ao_validate P (sv_token_validator (tw_service s)) (ad_validate d) (pa_token p) (pa_thumbprint p) = Err e
     \<Longrightarrow> admit_request P p d (tw_service s) = (svc, Err resp)
     \<Longrightarrow> tower_step P s (s\<lparr>tw_service := svc, tw_pending := remove1 p (tw_pending s)\<rparr>)"
| resume: "p \<in> set (tw_pending s)
     \<Longrightarrow> ao_validate P (sv_token_validator (tw_service s)) (ad_validate d) (pa_token p) (pa_thumbprint p) = Ok u
     \<Longrightarrow> admit_request P p d (tw_service s) = (svc, r)
     \<Longrightarrow> tower_step P s (s\<lparr>tw_service := svc, tw_pending := remove1 p (tw_pending s),
           tw_log := tw_log s @ [(pa_admission p, is_ok r)]\<rparr>)"
| environment: "tower_step P s (s\<lparr>tw_service := (tw_service s)\<lparr>sv_token_validator := v, sv_nonce_source := src\<rparr>\<rparr>)"

inductive tower_reach ::
  "('s, 'v, 'c) auth_ops \<Rightarrow> ('s, 'v, 'i) OAuthAuthService \<Rightarrow> ('s, 'v, 'b, 'i) tower_state \<Rightarrow> bool" for P svc where
  init: "tower_reach P svc \<lparr> tw_service = svc, tw_pending = [], tw_log = [] \<rparr>"
| step: "tower_reach P svc s \<Longrightarrow> tower_step P s s' \<Longrightarrow> tower_reach P svc s'"

definition admit_op :: "ReplayAdmission \<Rightarrow> replay_op" where
  "admit_op a = Admit (adm_jkt a) (adm_jti a) (adm_expires_at a) (adm_now a)"

text \<open>The cache is the one that the logged admissions lead to, with these answers.\<close>

definition log_explains :: "dpop_env \<Rightarrow> DPoPReplayCache \<Rightarrow> DPoPVerifier \<Rightarrow> (ReplayAdmission \<times> bool) list \<Rightarrow> bool" where
  "log_explains E c0 v log =
     (\<exists>c out. replay_cache v = Some c
        \<and> run_replay (check_and_record (env_hash E)) replay_prune_expired (map (admit_op \<circ> fst) log) c0 = (c, out)
        \<and> map snd log = map (\<lambda>x. x = Some (Ok ())) out)"

lemma log_explains_snoc:
  assumes "log_explains E c0 v log" "commit_replay_admission E a v = (v', r)"
  shows "log_explains E c0 v' (log @ [(a, r = Ok ())])"
proof -
  obtain c out where c: "replay_cache v = Some c"
    "run_replay (check_and_record (env_hash E)) replay_prune_expired (map (admit_op \<circ> fst) log) c0 = (c, out)"
    "map snd log = map (\<lambda>x. x = Some (Ok ())) out"
    using assms(1) by (auto simp: log_explains_def)
  thus ?thesis
    using assms(2) by (auto simp: log_explains_def commit_replay_admission_def record_admission_def admit_op_def
        run_replay_snoc split: prod.splits)
qed

lemma tower_step_log:
  assumes "tower_step P s s'" "log_explains (ao_dpop P) c0 (sv_verifier (tw_service s)) (tw_log s)"
  shows "log_explains (ao_dpop P) c0 (sv_verifier (tw_service s')) (tw_log s')"
  using assms
proof (cases rule: tower_step.cases)
  case (refuse rq d svc resp)
  thus ?thesis
    using assms(2) call_begin_Err [OF refuse(2)] by fastforce
next
  case (start rq d svc p)
  from start(2) have "sv_verifier svc = sv_verifier (tw_service s)"
    by (rule call_begin_Ok) simp
  thus ?thesis
    using assms(2) start(1) by simp
next
  case (invalid p d e svc resp)
  thus ?thesis
    using assms(2) admit_request_invalid [OF invalid(3)] by simp
next
  case (resume p d u svc r)
  obtain v r' where c: "commit_replay_admission (ao_dpop P) (pa_admission p) (sv_verifier (tw_service s)) = (v, r')"
    by fastforce
  have "is_ok r = (r' = Ok ())" "sv_verifier svc = v"
    using admit_request_valid [OF resume(3)] resume(4) c by (cases r; auto)+
  thus ?thesis
    using log_explains_snoc [OF assms(2) c] resume(1) by simp
next
  case (environment v src)
  thus ?thesis
    using assms(2) by simp
qed

lemma tower_reach_log:
  assumes "tower_reach P svc s" "replay_cache (sv_verifier svc) = Some c0"
  shows "log_explains (ao_dpop P) c0 (sv_verifier (tw_service s)) (tw_log s)"
  using assms
proof (induction rule: tower_reach.induct)
  case init
  thus ?case
    by (simp add: log_explains_def)
qed (auto intro: tower_step_log)

lemma logged_admission:
  assumes "log_explains E c0 v log" "i < length log" "log ! i = (a, True)"
  obtains c out where "run_replay (check_and_record (env_hash E)) replay_prune_expired (map (admit_op \<circ> fst) log) c0 = (c, out)"
    "admitted_at (map (admit_op \<circ> fst) log) out (adm_jkt a) (adm_jti a) i"
proof -
  obtain c out where c: "run_replay (check_and_record (env_hash E)) replay_prune_expired (map (admit_op \<circ> fst) log) c0 = (c, out)"
    "map snd log = map (\<lambda>x. x = Some (Ok ())) out"
    using assms(1) by (auto simp: log_explains_def)
  have "length out = length log"
    using arg_cong [OF c(2), of length] by simp
  moreover have "(out ! i = Some (Ok ())) = snd (log ! i)"
    using arg_cong [OF c(2), of "\<lambda>xs. xs ! i"] assms(2) calculation by simp
  ultimately have "admitted_at (map (admit_op \<circ> fst) log) out (adm_jkt a) (adm_jti a) i"
    using assms(2,3) by (simp add: admitted_at_def admit_op_def)
  thus thesis
    using that c(1) by blast
qed

section \<open>Requests of the client library\<close>

lemma ath_trimmed:
  assumes "b64_documented L" "sha256_documented L"
  shows "trimmed_opt (Some (compute_access_token_hash L tok)) = Some (compute_access_token_hash L tok)"
proof -
  have "length (compute_access_token_hash L tok) = 43"
    using assms(2) base64url_props(2) [OF assms(1)] by (simp add: compute_access_token_hash_def sha256_digest_def
        sha256_documented_def)
  thus ?thesis
    using trim_base64url [OF assms(1)] by (auto simp: trimmed_opt_def compute_access_token_hash_def)
qed

lemma session_token:
  assumes "in_headers rq ''authorization'' = [Ok (dpop_auth_header s)]" "trim (os_access_token s) = os_access_token s"
  shows "request_token rq = Ok (os_access_token s)"
proof -
  have "to_ascii_lowercase ''authorization'' = ''authorization''"
    by code_simp
  moreover have "eq_ignore_ascii_case ''DPoP'' ''DPoP''"
    by (simp add: eq_ignore_ascii_case_def)
  ultimately show ?thesis
    using assms by (simp add: request_token_def in_header_def dpop_auth_header_def starts_with_def)
qed

lemma registered_session_valid:
  assumes "ct_eq_documented L" "case os_expires_at s of Some x \<Rightarrow> t \<le> x | None \<Rightarrow> True"
  shows "validate_sync L (register_session L s m) t (os_access_token s) (jwk_thumbprint L (os_dpop_key s))
    = Ok (ext_user (from_session L s))"
  using assms(2) by (auto simp: validate_sync_Ok registry_trusted_def register_session_def register_token_def from_session_def
      constant_time_eq_iff [OF assms(1)])

text \<open>A pending request for the proof and the session, and its admission by a verifier that has a place
  for a proof it has not seen.\<close>

lemma session_request_begins:
  assumes "request_token rq = Ok tok" "in_header rq ''DPoP'' = Some (Ok pr)" "request_htu P svc rq = Some htu"
    and "check_nonce P (cl_nonce claims) d (sv_nonce_source svc) = (src, Ok ())"
    and "verify_proof_no_replay (ao_dpop P) (sv_verifier svc) pr (in_method rq) htu None
       (if sv_require_ath svc then Some (compute_access_token_hash (env_crypto (ao_dpop P)) tok) else None) None
       (ad_proof d) = Ok (claims, jwk)"
    and "unix_secs (ad_admit d) = Ok n"
  obtains p where "call_begin P rq d svc = (svc\<lparr>sv_nonce_source := src\<rparr>, Ok p)" "pa_token p = tok" "pa_request p = rq"
    "pa_thumbprint p = thumbprint (env_crypto (ao_dpop P)) jwk"
    "pa_admission p = \<lparr> adm_jkt = thumbprint (env_crypto (ao_dpop P)) jwk, adm_jti = cl_jti claims,
       adm_expires_at = admission_expiry (sv_verifier svc) n, adm_now = n \<rparr>"
proof -
  have "call_begin P rq d svc = (svc\<lparr>sv_nonce_source := src\<rparr>, Ok \<lparr> pa_token = tok, pa_thumbprint = thumbprint (env_crypto (ao_dpop P)) jwk,
      pa_admission = \<lparr> adm_jkt = thumbprint (env_crypto (ao_dpop P)) jwk, adm_jti = cl_jti claims,
        adm_expires_at = admission_expiry (sv_verifier svc) n, adm_now = n \<rparr>, pa_request = rq \<rparr>)"
    using assms by (simp add: call_begin_def verify_proof_deferred_def Let_def)
  thus thesis
    by (rule that) simp_all
qed

lemma fresh_verifier_commits:
  assumes "replay_cache v = Some DPoPReplayCache_new"
  shows "snd (commit_replay_admission E a v) = Ok ()"
  using assms fresh_cache_admits by (auto simp: commit_replay_admission_def record_admission_def split_beta)

lemma unseen_proof_commits:
  assumes "\<And>c. replay_cache v = Some c \<Longrightarrow> \<not> is_consumed (env_hash E) (adm_jkt a) (adm_jti a) (adm_now a) c
      \<and> live_count (adm_now a) (shard_for (env_hash E) (composite_key (adm_jkt a) (adm_jti a)) c) < REPLAY_SHARD_CAPACITY"
  shows "snd (commit_replay_admission E a v) = Ok ()"
  using assms by (auto simp: commit_replay_admission_def record_admission_def split_beta check_and_record_result is_consumed_def
      replay_expiry_def Let_def split: option.splits)

lemma admitted_by_commit:
  assumes "ao_validate P (sv_token_validator svc) (ad_validate d) (pa_token p) (pa_thumbprint p) = Ok user"
    and "commit_replay_admission (ao_dpop P) (pa_admission p) (sv_verifier svc) = (v, Ok ())"
  shows "admit_request P p d svc = (svc\<lparr>sv_verifier := v\<rparr>,
    Ok ((pa_request p)\<lparr>in_ext_session := Some (OAuthSessionExtension_new user), in_ext_user := Some user\<rparr>))"
  using assms by (simp add: admit_request_def)

lemma admitted_by_fresh_verifier:
  assumes "ao_validate P (sv_token_validator svc) (ad_validate d) (pa_token p) (pa_thumbprint p) = Ok user"
    and "replay_cache (sv_verifier svc) = Some DPoPReplayCache_new"
  obtains v where "admit_request P p d svc = (svc\<lparr>sv_verifier := v\<rparr>,
    Ok ((pa_request p)\<lparr>in_ext_session := Some (OAuthSessionExtension_new user), in_ext_user := Some user\<rparr>))"
proof -
  obtain v where "commit_replay_admission (ao_dpop P) (pa_admission p) (sv_verifier svc) = (v, Ok ())"
    using fresh_verifier_commits [OF assms(2)] by (metis surjective_pairing)
  thus thesis
    using that admitted_by_commit [OF assms(1)] by blast
qed

section \<open>A concrete service\<close>

definition sample_ops ::
  "dpop_env \<Rightarrow> ('v \<Rightarrow> system_time \<Rightarrow> string \<Rightarrow> string \<Rightarrow> (AuthenticatedUser, IntegrationError) result) \<Rightarrow> (unit, 'v, unit) auth_ops" where
  "sample_ops E val = \<lparr> ao_dpop = E, ao_generate = (\<lambda>_ _ s. (s, Err DPoPError.NonceCacheSaturated)),
     ao_verify = (\<lambda>_ _ s. (s, False)), ao_validate = val, ao_parse_scheme = Some, ao_header_name = (\<lambda>_. True),
     ao_header_value = (\<lambda>_. True), ao_default_body = () \<rparr>"

definition sample_service :: "'v \<Rightarrow> 'i \<Rightarrow> (unit, 'v, 'i) OAuthAuthService" where
  "sample_service vd inner =
     layer (ly_with_htu_override (\<lambda>_. ''u'') (OAuthAuthLayer_new DPoPVerifier_new vd)) inner"

definition sample_inbound :: "string \<Rightarrow> string \<Rightarrow> unit inbound" where
  "sample_inbound auth pr = \<lparr> in_method = ''GET'',
     in_uri = \<lparr> uri_scheme_str = None, uri_authority = None, uri_host = None, uri_port = None, uri_path_and_query = Some ''/x'' \<rparr>,
     in_headers = (\<lambda>h. if h = ''authorization'' then [Ok auth] else if h = ''dpop'' then [Ok pr] else []),
     in_body = (), in_ext_session = None, in_ext_user = None \<rparr>"

text \<open>An inner service that counts its calls.\<close>

definition sample_inner :: "(unit, unit, unit, nat) inner_service" where
  "sample_inner rq w = (Suc w, Ok \<lparr> out_status = 200, out_headers = (\<lambda>_. []), out_body = () \<rparr>)"

definition sample_ad :: "system_time \<Rightarrow> auth_draws" where
  "sample_ad t = \<lparr> ad_proof = t, ad_admit = t, ad_nonce = t, ad_validate = 60000000000, ad_issue = (t, []) \<rparr>"

lemma sample_service_simps [simp]:
  "sv_verifier (sample_service vd i) = DPoPVerifier_new" "sv_token_validator (sample_service vd i) = vd"
  "sv_nonce_source (sample_service vd i) = None" "sv_htu_override (sample_service vd i) = Some (\<lambda>_. ''u'')"
  "sv_inner (sample_service vd i) = i" "sv_require_ath (sample_service vd i)"
  by (simp_all add: sample_service_def layer_def ly_with_htu_override_def OAuthAuthLayer_new_def)

lemma sample_inbound_simps:
  "in_method (sample_inbound auth pr) = ''GET''" "in_header (sample_inbound auth pr) ''DPoP'' = Some (Ok pr)"
  "request_token (sample_inbound (''DPoP '' @ tok) pr) = Ok (trim tok)"
proof -
  have low: "to_ascii_lowercase ''DPoP'' = ''dpop''" "to_ascii_lowercase ''authorization'' = ''authorization''"
    by code_simp+
  have "eq_ignore_ascii_case ''DPoP'' ''DPoP''"
    by (simp add: eq_ignore_ascii_case_def)
  with low show "in_method (sample_inbound auth pr) = ''GET''" "in_header (sample_inbound auth pr) ''DPoP'' = Some (Ok pr)"
    "request_token (sample_inbound (''DPoP '' @ tok) pr) = Ok (trim tok)"
    by (simp_all add: sample_inbound_def in_header_def request_token_def starts_with_def)
qed

text \<open>A request whose proof names no token, on a service that does not ask for it.\<close>

lemma sample_begin:
  assumes "verify_proof_no_replay sample_env v pr ''GET'' ''u'' None None None t = Ok (claims, jwk)" "unix_secs t = Ok n"
    and "sv_verifier svc = v" "sv_nonce_source svc = None" "sv_htu_override svc = Some (\<lambda>_. ''u'')" "\<not> sv_require_ath svc"
  obtains p where "call_begin (sample_ops sample_env val) (sample_inbound (''DPoP '' @ tok) pr) (sample_ad t) svc = (svc, Ok p)"
    "pa_token p = trim tok" "pa_thumbprint p = thumbprint sample_lib jwk" "pa_request p = sample_inbound (''DPoP '' @ tok) pr"
    "pa_admission p = \<lparr> adm_jkt = thumbprint sample_lib jwk, adm_jti = cl_jti claims,
       adm_expires_at = admission_expiry v n, adm_now = n \<rparr>"
  by (rule session_request_begins [where P = "sample_ops sample_env val" and rq = "sample_inbound (''DPoP '' @ tok) pr"
        and svc = svc and d = "sample_ad t" and htu = "''u''" and n = n and src = None, OF sample_inbound_simps(3,2)])
    (use assms in \<open>auto simp: request_htu_def sample_inbound_simps sample_ops_def sample_ad_def sample_env_crypto check_nonce_def\<close>)

text \<open>A service on which a proof is admitted, and again at the end of its window.\<close>

definition sample_tower_ops :: "(unit, InMemoryTokenValidator, unit) auth_ops" where
  "sample_tower_ops = sample_ops sample_env (validate_sync sample_lib)"

definition sample_tower :: "(unit, InMemoryTokenValidator, unit) OAuthAuthService" where
  "sample_tower = sv_with_require_ath False (sample_service (register_token sample_lib (as_bytes ''t'') ''d''
     (jwk_thumbprint sample_lib sample_key) None None []) ())"

lemma sample_tower_valid:
  "\<exists>u. ao_validate sample_tower_ops (sv_token_validator sample_tower) t (trim ''t'') (jwk_thumbprint sample_lib sample_key) = Ok u"
proof -
  have "trim ''t'' = ''t''"
    by code_simp
  thus ?thesis
    by (simp add: sample_tower_ops_def sample_ops_def sample_tower_def sv_with_require_ath_def validate_sync_def
        register_token_def constant_time_eq_iff [OF sample_documented(1)])
qed

lemma sample_tower_admits:
  fixes s :: "(unit, InMemoryTokenValidator, unit, unit) tower_state"
  assumes s: "tower_reach sample_tower_ops sample_tower s" "tw_service s = sample_tower\<lparr>sv_verifier := v\<rparr>" "unix_secs t = Ok n"
    and h: "handle_request sample_env ((sample_request pr)\<lparr>rq_clock := t, rq_clock' := t\<rparr>) v
      = (v', Ok (sample_claims, public_jwk sample_lib sample_key))"
  obtains s' a where "tower_reach sample_tower_ops sample_tower (s' :: (unit, InMemoryTokenValidator, unit, unit) tower_state)" "tw_log s' = tw_log s @ [(a, True)]"
    "adm_jkt a = jwk_thumbprint sample_lib sample_key" "adm_jti a = cl_jti sample_claims"
    "tw_service s' = sample_tower\<lparr>sv_verifier := v'\<rparr>"
proof -
  let ?P = sample_tower_ops and ?jwk = "public_jwk sample_lib sample_key"
  have ver: "verify_proof_no_replay sample_env v pr ''GET'' ''u'' None None None t = Ok (sample_claims, ?jwk)"
    "record_admission sample_env (thumbprint sample_lib ?jwk) (cl_jti sample_claims) (admission_expiry v n) n v = (v', Ok ())"
    using accepted_request [OF h] s(3) by (simp_all add: sample_request_def sample_env_crypto)
  obtain p where p: "call_begin ?P (sample_inbound (''DPoP '' @ ''t'') pr) (sample_ad t) (tw_service s) = (tw_service s, Ok p)"
    "pa_token p = trim ''t''" "pa_thumbprint p = thumbprint sample_lib ?jwk"
    "pa_admission p = \<lparr> adm_jkt = thumbprint sample_lib ?jwk, adm_jti = cl_jti sample_claims,
       adm_expires_at = admission_expiry v n, adm_now = n \<rparr>"
    unfolding sample_tower_ops_def
    by (rule sample_begin [OF ver(1) s(3), where svc = "tw_service s" and tok = "''t''" and val = "validate_sync sample_lib"])
      (simp_all add: s(2) sample_tower_def sv_with_require_ath_def)
  let ?s1 = "s\<lparr>tw_service := tw_service s, tw_pending := tw_pending s @ [p]\<rparr>"
  have s1: "tower_reach ?P sample_tower ?s1"
    by (rule tower_reach.step [OF s(1)], rule tower_step.start, rule p(1))
  obtain u where u: "ao_validate ?P (sv_token_validator (tw_service s)) (ad_validate (sample_ad t)) (pa_token p) (pa_thumbprint p) = Ok u"
    using sample_tower_valid p(2,3) by (auto simp: s(2) jwk_thumbprint_def)
  have "commit_replay_admission (ao_dpop ?P) (pa_admission p) (sv_verifier (tw_service s)) = (v', Ok ())"
    using ver(2) p(4) by (simp add: commit_replay_admission_def sample_tower_ops_def sample_ops_def s(2))
  note ad = admitted_by_commit [OF u this]
  have "tower_step ?P ?s1 (?s1\<lparr>tw_service := (tw_service s)\<lparr>sv_verifier := v'\<rparr>, tw_pending := remove1 p (tw_pending ?s1),
      tw_log := tw_log ?s1 @ [(pa_admission p, True)]\<rparr>)"
    using tower_step.resume [of p ?s1 ?P "sample_ad t" u] u ad by simp
  from tower_reach.step [OF s1 this] show thesis
    by (rule that [of _ "pa_admission p"]) (simp_all add: p(4) s(2) jwk_thumbprint_def)
qed

lemma sample_replayed:
  obtains s a b where "tower_reach sample_tower_ops sample_tower (s :: (unit, InMemoryTokenValidator, unit, unit) tower_state)"
    "tw_log s = [(a, True), (b, True)]" "adm_jkt a = adm_jkt b" "adm_jti a = adm_jti b"
proof -
  let ?jwk = "public_jwk sample_lib sample_key"
  let ?s0 = "\<lparr> tw_service = sample_tower, tw_pending = [], tw_log = [] \<rparr> :: (unit, InMemoryTokenValidator, unit, unit) tower_state"
  obtain pr where pr: "verify_proof_no_replay sample_env DPoPVerifier_new pr ''GET'' ''u'' None None None 0 = Ok (sample_claims, ?jwk)"
    by (rule sample_proof)
  let ?rq = "\<lambda>t. (sample_request pr)\<lparr>rq_clock := t, rq_clock' := t\<rparr>"
  have rq0: "?rq 0 = sample_request pr"
    by (simp add: sample_request_def)
  obtain v1 where first: "handle_request sample_env (?rq 0) DPoPVerifier_new = (v1, Ok (sample_claims, ?jwk))"
    using sample_first_request [OF pr] unfolding rq0 by (metis surjective_pairing)
  have cache: "replay_cache DPoPVerifier_new = Some DPoPReplayCache_new"
    by (simp add: DPoPVerifier_new_def)
  have "snd (handle_request sample_env (?rq 360000000000) v1) = Ok (sample_claims, ?jwk)"
    by (rule replay_window_end [OF sample_env_documented(3) cache first [unfolded rq0], of 0 360000000000 360])
      (simp_all add: sample_default_times sample_request_def sample_claims_def)
  then obtain v2 where second: "handle_request sample_env (?rq 360000000000) v1 = (v2, Ok (sample_claims, ?jwk))"
    by (metis surjective_pairing)
  have s0: "tw_service ?s0 = sample_tower\<lparr>sv_verifier := DPoPVerifier_new\<rparr>"
    by (simp add: sample_tower_def sv_with_require_ath_def sample_service_def layer_def ly_with_htu_override_def
        OAuthAuthLayer_new_def)
  obtain s1 :: "(unit, InMemoryTokenValidator, unit, unit) tower_state" and a where 1: "tower_reach sample_tower_ops sample_tower s1" "tw_log s1 = tw_log ?s0 @ [(a, True)]"
    "adm_jkt a = jwk_thumbprint sample_lib sample_key" "adm_jti a = cl_jti sample_claims"
    "tw_service s1 = sample_tower\<lparr>sv_verifier := v1\<rparr>"
    by (rule sample_tower_admits [OF tower_reach.init s0 sample_default_times(3) first])
  obtain s2 :: "(unit, InMemoryTokenValidator, unit, unit) tower_state" and b where "tower_reach sample_tower_ops sample_tower s2" "tw_log s2 = tw_log s1 @ [(b, True)]"
    "adm_jkt b = jwk_thumbprint sample_lib sample_key" "adm_jti b = cl_jti sample_claims"
    by (rule sample_tower_admits [OF 1(1,5) sample_default_times(5) second])
  with 1 show thesis
    by (intro that [of s2 a b]) simp_all
qed

text \<open>A session, and an environment that reads back the claims of its proof.\<close>

definition served_session :: OAuthSession where
  "served_session = \<lparr> os_sub = ''did:web:a'', os_access_token = ''t'', os_refresh_token = None, os_token_type = ''DPoP'',
     os_scope = None, os_expires_at = Some 60000000000, os_dpop_key = sample_key, os_pds_endpoint = None,
     os_auth_server_issuer = None, os_token_endpoint = None, os_created_at = 0 \<rparr>"

definition served_claims :: DPoPProofClaims where
  "served_claims = created_claims sample_env ''GET'' ''https://as.example:81/token'' (Some ''AAAA'')
     (Some (compute_access_token_hash sample_lib ''t'')) 60 (replicate 16 0)"

definition served_env :: dpop_env where
  "served_env = sample_env\<lparr>env_serde := sample_serde\<lparr>claims_from_slice :=
     (\<lambda>bs. if bs = as_bytes ''P'' then Ok served_claims else Err ''expected value'')\<rparr>\<rparr>"

lemma served_env_documented:
  "env_crypto served_env = sample_lib" "url_documented (env_url served_env)" "url_canonical (env_url served_env)"
  "serde_value_ok (env_serde served_env) (proof_header (public_jwk sample_lib sample_key))"
  "serde_jwk_ok (env_serde served_env) (public_jwk sample_lib sample_key)"
  "serde_claims_ok (env_serde served_env) (created_claims served_env ''GET'' ''https://as.example:81/token'' (Some ''AAAA'')
     (Some (compute_access_token_hash sample_lib ''t'')) 60 (replicate 16 0))"
  "normalize_htu (env_url served_env) ''u'' = Ok ''https://as.example:81/token''"
  using sample_env_documented(4-7) sample_normalize
  by (simp_all add: served_env_def served_claims_def sample_env_def serde_value_ok_def serde_jwk_ok_def serde_claims_ok_def
      sample_serde_def created_claims_def claims_to_value_def opt_member_def trimmed_opt_def split: option.split)

text \<open>The middleware with a source of nonces that has issued one.\<close>

definition served_ops :: "(InMemoryServerNonceSource, InMemoryTokenValidator, unit) auth_ops" where
  "served_ops = \<lparr> ao_dpop = served_env, ao_generate = generate_nonce sample_lib, ao_verify = verify_nonce,
     ao_validate = validate_sync sample_lib, ao_parse_scheme = Some, ao_header_name = (\<lambda>_. True),
     ao_header_value = (\<lambda>_. True), ao_default_body = () \<rparr>"

definition served_source :: InMemoryServerNonceSource where
  "served_source = fst (generate_nonce sample_lib 0 [0, 0, 0] (InMemoryServerNonceSource_new 5000000000))"

definition served_service ::
  "(InMemoryServerNonceSource, InMemoryTokenValidator, (unit, unit, unit, nat) inner_service) OAuthAuthService" where
  "served_service = layer (ly_with_nonce_source served_source (ly_with_htu_override (\<lambda>_. ''u'')
     (OAuthAuthLayer_new DPoPVerifier_new (register_session sample_lib served_session [])))) sample_inner"

lemma served_source_verifies: "verify_nonce ''AAAA'' 0 served_source = (served_source, True)"
  "generate_nonce sample_lib 0 [0, 0, 1] served_source = (fst (generate_nonce sample_lib 0 [0, 0, 1] served_source), Ok ''AAAB'')"
  by (simp add: served_source_def nonce_eval hm_insert_def hm_get_def)
    (simp add: served_source_def nonce_eval hm_insert_def word_le_nat_alt)

section \<open>Properties\<close>

text \<open>C4: A request that reaches the inner service behind the validator of signed tokens is authenticated.
  Its \<open>Authorization\<close> header carries a token and its \<open>DPoP\<close> header a proof that the verifier accepts for
  the method and target of the request and, unless switched off, for the hash of this token; if there is
  a nonce source, it accepted the nonce of the proof; the token is signed by a trusted key, meets all
  expectations of the validator, and is bound to the very key that signed the proof.  The inner service
  sees the subject of the token as the user.  This holds whatever happened to the service between the
  two phases.\<close>

theorem jwt_request_authenticated:
  assumes "ct_eq_documented (ve_crypto V)" and "ao_validate P = verify_token_sync V"
    and "call_begin P rq d svc = (svc1, Ok p)" and "admit_request P p d' svc2 = (svc3, Ok rq')"
  shows "\<exists>tok pr htu claims jwk c n u. request_token rq = Ok tok \<and> in_header rq ''DPoP'' = Some (Ok pr)
    \<and> request_htu P svc rq = Some htu
    \<and> verify_proof_no_replay (ao_dpop P) (sv_verifier svc) pr (in_method rq) htu None
        (if sv_require_ath svc then Some (compute_access_token_hash (env_crypto (ao_dpop P)) tok) else None) None
        (ad_proof d) = Ok (claims, jwk)
    \<and> (case sv_nonce_source svc of None \<Rightarrow> True
       | Some s \<Rightarrow> \<exists>x. cl_nonce claims = Some x \<and> snd (ao_verify P x (ad_nonce d) s))
    \<and> signed_claims V (sv_token_validator svc2) tok c \<and> unix_secs (ad_validate d') = Ok n
    \<and> claims_expected (sv_token_validator svc2) c n
    \<and> cnf_jkt (at_cnf c) = thumbprint (env_crypto (ao_dpop P)) jwk
    \<and> u = \<lparr> au_did = at_sub c, au_access_token = tok, au_dpop_thumbprint = cnf_jkt (at_cnf c), au_scope = at_scope c \<rparr>
    \<and> rq' = rq\<lparr>in_ext_session := Some (OAuthSessionExtension_new u), in_ext_user := Some u\<rparr>"
proof -
  obtain tok pr htu claims jwk u where a: "request_token rq = Ok tok" "in_header rq ''DPoP'' = Some (Ok pr)"
    "request_htu P svc rq = Some htu"
    "verify_proof_no_replay (ao_dpop P) (sv_verifier svc) pr (in_method rq) htu None
       (if sv_require_ath svc then Some (compute_access_token_hash (env_crypto (ao_dpop P)) tok) else None) None
       (ad_proof d) = Ok (claims, jwk)"
    "\<exists>src. check_nonce P (cl_nonce claims) d (sv_nonce_source svc) = (src, Ok ())"
    "jwt_trusted V (sv_token_validator svc2) (ad_validate d') tok (thumbprint (env_crypto (ao_dpop P)) jwk) (au_did u) (au_scope u)"
    "au_access_token u = tok" "au_dpop_thumbprint u = thumbprint (env_crypto (ao_dpop P)) jwk"
    "rq' = rq\<lparr>in_ext_session := Some (OAuthSessionExtension_new u), in_ext_user := Some u\<rparr>"
    using assms(2-4) by (rule jwt.admitted_user)
  obtain c n where c: "signed_claims V (sv_token_validator svc2) tok c" "unix_secs (ad_validate d') = Ok n"
    "claims_expected (sv_token_validator svc2) c n" "cnf_jkt (at_cnf c) = thumbprint (env_crypto (ao_dpop P)) jwk"
    "au_did u = at_sub c" "au_scope u = at_scope c"
    using a(6) by (auto simp: jwt_trusted_def constant_time_eq_iff [OF assms(1)])
  have "case sv_nonce_source svc of None \<Rightarrow> True
      | Some s \<Rightarrow> \<exists>x. cl_nonce claims = Some x \<and> snd (ao_verify P x (ad_nonce d) s)"
    using a(5) by (auto simp: check_nonce_def split_beta split: option.splits if_splits)
  moreover have "u = \<lparr> au_did = at_sub c, au_access_token = tok, au_dpop_thumbprint = cnf_jkt (at_cnf c), au_scope = at_scope c \<rparr>"
    using a(7,8) c(4-6) by (cases u) simp
  ultimately show ?thesis
    using a(1-4,9) c(1-4) by blast
qed

theorem jwt_request_authenticated_witness:
  "\<exists>(rq :: unit inbound) rq' p svc2 svc3. call_begin (sample_ops sample_env (verify_token_sync sample_ve)) rq (sample_ad 0)
       (sv_with_require_ath False (sample_service sample_validator ())) = (svc2, Ok p)
     \<and> admit_request (sample_ops sample_env (verify_token_sync sample_ve)) p (sample_ad 0) svc2 = (svc3, Ok rq')
     \<and> map_option au_did (in_ext_user rq') = Some ''did:web:a''"
proof -
  let ?P = "sample_ops sample_env (verify_token_sync sample_ve)" and ?jwk = "public_jwk sample_lib sample_key"
  let ?svc = "sv_with_require_ath False (sample_service sample_validator ())"
  obtain tok where tok: "signed_claims sample_ve sample_validator tok sample_at_claims" "trim tok = tok"
    by (rule signed_token [OF sample_ve_ok(1,2,4,5)])
  obtain pr where pr: "verify_proof_no_replay sample_env DPoPVerifier_new pr ''GET'' ''u'' None None None 0
       = Ok (sample_claims, ?jwk)"
    by (rule sample_proof)
  obtain p where b: "call_begin ?P (sample_inbound (''DPoP '' @ tok) pr) (sample_ad 0) ?svc = (?svc, Ok p)" "pa_token p = tok"
    "pa_thumbprint p = thumbprint sample_lib ?jwk" "pa_request p = sample_inbound (''DPoP '' @ tok) pr"
    by (rule sample_begin [OF pr sample_default_times(3), where svc = ?svc and tok = tok and val = "verify_token_sync sample_ve"])
      (simp_all add: sv_with_require_ath_def tok(2))
  have "\<exists>u. verify_token_sync sample_ve sample_validator 60000000000 tok (thumbprint sample_lib ?jwk) = Ok u"
    using tok(1) sample_expected sample_ve_ok(3)
    by (intro exI [of _ "\<lparr> au_did = at_sub sample_at_claims, au_access_token = tok,
          au_dpop_thumbprint = thumbprint sample_lib ?jwk, au_scope = at_scope sample_at_claims \<rparr>"])
      (auto simp: verify_token_sync_Ok jwt_trusted_def constant_time_eq_iff sample_at_claims_def jwk_thumbprint_def)
  then obtain u where "ao_validate ?P (sv_token_validator ?svc) (ad_validate (sample_ad 0)) (pa_token p) (pa_thumbprint p) = Ok u"
    using b by (auto simp: sample_ops_def sv_with_require_ath_def sample_ad_def)
  moreover have "replay_cache (sv_verifier ?svc) = Some DPoPReplayCache_new"
    by (simp add: sv_with_require_ath_def DPoPVerifier_new_def)
  ultimately obtain v rq' where a: "admit_request ?P p (sample_ad 0) ?svc = (?svc\<lparr>sv_verifier := v\<rparr>, Ok rq')"
    by (rule admitted_by_fresh_verifier) (rule that)
  have "ao_validate ?P = verify_token_sync sample_ve"
    by (simp add: sample_ops_def)
  from jwt_request_authenticated [OF sample_ve_ok(3) this b(1) a] obtain tok' c u' where
    "request_token (sample_inbound (''DPoP '' @ tok) pr) = Ok tok'" "signed_claims sample_ve (sv_token_validator ?svc) tok' c"
    "au_did u' = at_sub c" "in_ext_user rq' = Some u'"
    by force
  hence "signed_claims sample_ve sample_validator tok c" "au_did u' = at_sub c" "in_ext_user rq' = Some u'"
    using sample_inbound_simps(3) [of tok pr] tok(2) by (simp_all add: sv_with_require_ath_def)
  moreover from this tok have "c = sample_at_claims"
    by (auto simp: signed_claims_def)
  ultimately show ?thesis
    using a b(1) by (intro exI [of _ "sample_inbound (''DPoP '' @ tok) pr"] exI [of _ rq'] exI [of _ p])
      (auto simp: sample_at_claims_def)
qed

text \<open>C21: A request that is not authenticated is answered with status 401 or 503, reaches no inner
  service and leaves the replay cache as it was, so that proofs without a valid token cannot fill it.
  Only a request that presents a token under the DPoP scheme can make the service issue a nonce.\<close>

theorem refused_request:
  assumes "\<forall>svc1 p. call_begin P rq d svc = (svc1, Ok p) \<longrightarrow>
    (\<forall>u. ao_validate P (sv_token_validator svc1) (ad_validate d) (pa_token p) (pa_thumbprint p) \<noteq> Ok u)"
  shows "\<exists>src resp. call P rq d (svc, w) = ((svc\<lparr>sv_nonce_source := src\<rparr>, w), Ok resp) \<and> out_status resp \<in> {401, 503}
    \<and> (src = sv_nonce_source svc \<or> (\<exists>tok. request_token rq = Ok tok))"
proof -
  obtain svc1 r where b: "call_begin P rq d svc = (svc1, r)"
    by fastforce
  show ?thesis
  proof (cases r)
    case (Err resp)
    with call_begin_Err [of P rq d svc svc1 resp] b show ?thesis
      by (auto simp: call_def)
  next
    case (Ok p)
    then obtain e where "ao_validate P (sv_token_validator svc1) (ad_validate d) (pa_token p) (pa_thumbprint p) = Err e"
      using assms b by (metis result.exhaust)
    from admit_request_invalid [OF this]
    have "call P rq d (svc, w) = ((svc1, w), Ok (unauthorized_response P ''invalid_token'' None None))"
      by (simp add: call_def b Ok call_finish_def)
    moreover obtain tok src where "request_token rq = Ok tok" "svc1 = svc\<lparr>sv_nonce_source := src\<rparr>"
      using b unfolding Ok by (rule call_begin_Ok)
    ultimately show ?thesis
      by auto
  qed
qed

theorem refused_request_witness:
  "\<exists>resp. call (sample_ops sample_env (validate_sync sample_lib)) ((sample_inbound [] [])\<lparr>in_headers := \<lambda>_. []\<rparr>) (sample_ad 0)
     (sample_service InMemoryTokenValidator_new sample_inner, 5 :: nat) = ((sample_service InMemoryTokenValidator_new sample_inner, 5), Ok resp)
     \<and> out_status resp \<in> {401, 503}"
proof -
  let ?rq = "(sample_inbound [] [])\<lparr>in_headers := \<lambda>_. []\<rparr>" and ?svc = "sample_service InMemoryTokenValidator_new sample_inner"
  let ?P = "sample_ops sample_env (validate_sync sample_lib)"
  have tok: "request_token ?rq = Err ''missing_token''"
    by (simp add: request_token_def in_header_def)
  have "\<exists>src resp. call ?P ?rq (sample_ad 0) (?svc, 5 :: nat) = ((?svc\<lparr>sv_nonce_source := src\<rparr>, 5), Ok resp)
    \<and> out_status resp \<in> {401, 503} \<and> (src = sv_nonce_source ?svc \<or> (\<exists>tok. request_token ?rq = Ok tok))"
    by (rule refused_request) (simp add: call_begin_def tok)
  moreover have "?svc\<lparr>sv_nonce_source := sv_nonce_source ?svc\<rparr> = ?svc"
    by simp
  ultimately show ?thesis
    using tok by auto
qed

text \<open>C10: However requests interleave, a proof passes to the inner service a second time only after
  the commit of some admission was attempted at a second that reached the expiry recorded for the
  first: one of a request in between, whether or not it succeeded, or that of the second pass itself.\<close>

theorem interleaved_replay_rejected:
  assumes "tower_reach P svc s" and "replay_cache (sv_verifier svc) = Some c0" and "replay_inv (env_hash (ao_dpop P)) c0"
    and "i < j" and "j < length (tw_log s)" and "tw_log s ! i = (a, True)" and "tw_log s ! j = (b, True)"
    and "adm_jkt a = adm_jkt b" and "adm_jti a = adm_jti b"
  shows "\<exists>m. i < m \<and> m \<le> j \<and> adm_expires_at a \<le> adm_now (fst (tw_log s ! m))"
proof -
  let ?ops = "map (admit_op \<circ> fst) (tw_log s)"
  have log: "log_explains (ao_dpop P) c0 (sv_verifier (tw_service s)) (tw_log s)"
    by (rule tower_reach_log [OF assms(1,2)])
  have i: "i < length (tw_log s)"
    using assms(4,5) by simp
  from log i assms(6) obtain c out where
    "run_replay (check_and_record (env_hash (ao_dpop P))) replay_prune_expired ?ops c0 = (c, out)"
    "admitted_at ?ops out (adm_jkt a) (adm_jti a) i"
    by (rule logged_admission)
  moreover from log assms(5,7) obtain c' out' where
    "run_replay (check_and_record (env_hash (ao_dpop P))) replay_prune_expired ?ops c0 = (c', out')"
    "admitted_at ?ops out' (adm_jkt b) (adm_jti b) j"
    by (rule logged_admission)
  ultimately obtain m where "i < m" "m \<le> j" "op_exp (?ops ! i) \<le> op_now (?ops ! m)"
    using replay_cache.no_second_admission [OF assms(3,4), of ?ops "adm_jkt a" "adm_jti a"] assms(8,9) by auto
  thus ?thesis
    using assms(5,6) i by (intro exI [of _ m]) (simp add: admit_op_def)
qed

theorem interleaved_replay_rejected_witness:
  "\<exists>(s :: (unit, InMemoryTokenValidator, unit, unit) tower_state) a b. tower_reach sample_tower_ops sample_tower s \<and> tw_log s = [(a, True), (b, True)]
     \<and> adm_jkt a = adm_jkt b \<and> adm_jti a = adm_jti b \<and> adm_expires_at a \<le> adm_now b"
proof -
  obtain s :: "(unit, InMemoryTokenValidator, unit, unit) tower_state" and a b
    where s: "tower_reach sample_tower_ops sample_tower s" "tw_log s = [(a, True), (b, True)]"
    "adm_jkt a = adm_jkt b" "adm_jti a = adm_jti b"
    by (rule sample_replayed)
  have cache: "replay_cache (sv_verifier sample_tower) = Some DPoPReplayCache_new"
    by (simp add: sample_tower_def sv_with_require_ath_def DPoPVerifier_new_def)
  have "\<exists>m. 0 < m \<and> m \<le> 1 \<and> adm_expires_at a \<le> adm_now (fst (tw_log s ! m))"
    by (rule interleaved_replay_rejected [OF s(1) cache replay_inv_new]) (use s in simp_all)
  hence "adm_expires_at a \<le> adm_now b"
    using s(2) by (auto simp: le_Suc_eq)
  with s show ?thesis
    by blast
qed

text \<open>C22: A request that the client library makes for a session is served by the middleware.  The
  proof that \<open>create_dpop_proof\<close> makes for the method and the target, with the nonce the client was given if
  any, together with \<open>dpop_auth_header\<close> brings the request to the inner service with the user of the
  session, and the answer of the inner service goes out with a fresh nonce if the middleware has a
  source of nonces.  The conditions: the session is registered and has not expired; its access token
  has no blanks around it; the clock of the middleware is within the skew and the age of the proof; if
  the middleware has a source of nonces, it accepts the nonce of the proof; if it has a replay cache, the pair of key and
  proof identifier is not recorded there as live and its shard is not full; and the libraries do
  what they document, with claims, header and key read back as written.\<close>

theorem session_request_served:
  assumes lib: "b64_documented L" "p256_documented L" "ct_eq_documented L" "sha256_documented L"
    and url: "url_documented (env_url E)" "url_canonical (env_url E)"
    and env: "env_crypto E = L" "ao_dpop P = E" "ao_validate P = validate_sync L"
    and serde: "serde_value_ok (env_serde E) (proof_header (public_jwk L (os_dpop_key s)))"
      "serde_jwk_ok (env_serde E) (public_jwk L (os_dpop_key s))"
      "serde_claims_ok (env_serde E) (created_claims E (in_method rq) nh nonce
         (Some (compute_access_token_hash L (os_access_token s))) iat jti_bytes)"
    and input: "normalize_htu (env_url E) htu = Ok nh" "list_all is_visible_ascii (in_method rq)" "length jti_bytes = 16"
      "unix_secs now = Ok iat" "trim (os_access_token s) = os_access_token s"
    and sent: "create_dpop_proof E s (in_method rq) htu nonce now jti_bytes = Ok pr"
      "in_headers rq ''authorization'' = [Ok (dpop_auth_header s)]" "in_headers rq ''dpop'' = [Ok pr]"
    and service: "request_htu P svc rq = Some htu" "sv_token_validator svc = register_session L s m"
    and source: "case sv_nonce_source svc of
        None \<Rightarrow> src = None
      | Some n0 \<Rightarrow> (\<exists>x n1. trimmed_opt nonce = Some x \<and> ao_verify P x (ad_nonce d) n0 = (n1, True) \<and> src = Some n1)"
    and unseen: "\<And>c. replay_cache (sv_verifier svc) = Some c \<Longrightarrow>
        \<not> is_consumed (env_hash E) (jwk_thumbprint L (os_dpop_key s)) (base64url_encode L jti_bytes) t' c
        \<and> live_count t' (shard_for (env_hash E)
            (composite_key (jwk_thumbprint L (os_dpop_key s)) (base64url_encode L jti_bytes)) c) < REPLAY_SHARD_CAPACITY"
    and window: "unix_secs (ad_proof d) = Ok t" "unat iat \<le> unat t + unat (secs64 (max_clock_skew (sv_verifier svc)))"
      "unat t \<le> unat iat + unat (secs64 (max_proof_age (sv_verifier svc)))" "unix_secs (ad_admit d) = Ok t'"
      "case os_expires_at s of Some x \<Rightarrow> ad_validate d \<le> x | None \<Rightarrow> True"
  shows "\<exists>v. call P rq d (svc, w) =
    (let u = ext_user (from_session L s);
         (w', res) = sv_inner svc (rq\<lparr>in_ext_session := Some (OAuthSessionExtension_new u), in_ext_user := Some u\<rparr>) w;
         (src', res') = attach_nonce P res d src
     in ((svc\<lparr>sv_verifier := v, sv_nonce_source := src'\<rparr>, w'), res'))"
proof -
  let ?ath = "compute_access_token_hash L (os_access_token s)" and ?svc = "svc\<lparr>sv_nonce_source := src\<rparr>"
  let ?claims = "created_claims E (in_method rq) nh nonce (Some ?ath) iat jti_bytes"
  obtain pr' where "create_proof E (os_dpop_key s) (in_method rq) htu nonce (Some ?ath) now jti_bytes = Ok pr'"
    and ver: "verify_proof_no_replay E (sv_verifier svc) pr' (in_method rq) htu None
      (if sv_require_ath svc then Some ?ath else None) None (ad_proof d) = Ok (?claims, public_jwk L (os_dpop_key s))"
    by (rule created_proof_accepted [of E "os_dpop_key s" "in_method rq" nh nonce "Some ?ath" iat jti_bytes htu now
          "ad_proof d" t "sv_verifier svc" None "if sv_require_ath svc then Some ?ath else None"])
      (use lib url env serde input window ath_trimmed [OF lib(1,4)] in simp_all)
  hence pr: "pr' = pr"
    using env(1) sent(1) by (simp add: create_dpop_proof_def)
  have "to_ascii_lowercase ''DPoP'' = ''dpop''"
    by code_simp
  hence header: "in_header rq ''DPoP'' = Some (Ok pr)"
    using sent(3) by (simp add: in_header_def)
  have nonce: "check_nonce P (cl_nonce ?claims) d (sv_nonce_source svc) = (src, Ok ())"
    using source by (auto simp: check_nonce_def created_claims_def split: option.splits)
  have "verify_proof_no_replay (ao_dpop P) (sv_verifier svc) pr (in_method rq) htu None
      (if sv_require_ath svc then Some (compute_access_token_hash (env_crypto (ao_dpop P)) (os_access_token s)) else None)
      None (ad_proof d) = Ok (?claims, public_jwk L (os_dpop_key s))"
    using ver by (simp only: pr env(1,2))
  from session_request_begins [OF session_token [OF sent(2) input(5)] header service(1) nonce this window(4)]
  obtain p where p: "call_begin P rq d svc = (?svc, Ok p)" "pa_token p = os_access_token s" "pa_request p = rq"
    "pa_thumbprint p = jwk_thumbprint L (os_dpop_key s)"
    "pa_admission p = \<lparr> adm_jkt = jwk_thumbprint L (os_dpop_key s), adm_jti = base64url_encode L jti_bytes,
       adm_expires_at = admission_expiry (sv_verifier svc) t', adm_now = t' \<rparr>"
    by (auto simp: jwk_thumbprint_def env(1,2) created_claims_def)
  have valid: "ao_validate P (sv_token_validator ?svc) (ad_validate d) (pa_token p) (pa_thumbprint p) = Ok (ext_user (from_session L s))"
    using registered_session_valid [OF lib(3) window(5)] p(2,4) env(3) service(2) by simp
  obtain v where "commit_replay_admission (ao_dpop P) (pa_admission p) (sv_verifier ?svc) = (v, Ok ())"
    using unseen_proof_commits [of "sv_verifier svc" E "pa_admission p"] unseen p(5) env(2) by (metis OAuthAuthService.select_convs(2)
      OAuthAuthService.surjective OAuthAuthService.update_convs(4) ReplayAdmission.select_convs(1,2,4) prod.collapse)
  from admitted_by_commit [OF valid this] show ?thesis
    using p(1,3) by (intro exI [of _ v]) (auto simp: call_def call_finish_def split_beta Let_def)
qed

theorem session_request_served_witness:
  "\<exists>pr svc. create_dpop_proof served_env served_session ''GET'' ''u'' (Some ''AAAA'') 60000000000 (replicate 16 0) = Ok pr
     \<and> call served_ops (sample_inbound (dpop_auth_header served_session) pr) ((sample_ad 0)\<lparr>ad_issue := (0, [0, 0, 1])\<rparr>)
         (served_service, 5)
       = ((svc, 6), Ok (set_nonce_header served_ops ''AAAB'' \<lparr> out_status = 200, out_headers = (\<lambda>_. []), out_body = () \<rparr>))"
proof -
  have s: "os_dpop_key served_session = sample_key" "os_access_token served_session = ''t''"
    "os_expires_at served_session = Some 60000000000"
    by (simp_all add: served_session_def)
  have svc: "sv_verifier served_service = DPoPVerifier_new" "sv_nonce_source served_service = Some served_source"
    "sv_token_validator served_service = register_session sample_lib served_session []" "sv_inner served_service = sample_inner"
    "sv_htu_override served_service = Some (\<lambda>_. ''u'')"
    by (simp_all add: served_service_def layer_def ly_with_nonce_source_def ly_with_htu_override_def OAuthAuthLayer_new_def)
  have t: "trim ''t'' = ''t''"
    by code_simp
  obtain pr where pr: "create_dpop_proof served_env served_session ''GET'' ''u'' (Some ''AAAA'') 60000000000 (replicate 16 0) = Ok pr"
    by (rule created_proof_accepted [of served_env sample_key "''GET''" "''https://as.example:81/token''" "Some ''AAAA''"
          "Some (compute_access_token_hash sample_lib ''t'')" 60 "replicate 16 0" "''u''" 60000000000 0 0 DPoPVerifier_new None None])
      (use served_env_documented sample_documented in \<open>simp_all add: s create_dpop_proof_def sample_default_times sample_visible\<close>)
  let ?rq = "sample_inbound (dpop_auth_header served_session) pr" and ?d = "(sample_ad 0)\<lparr>ad_issue := (0, [0, 0, 1])\<rparr>"
  have cache: "c = DPoPReplayCache_new" if "replay_cache DPoPVerifier_new = Some c" for c
    using that by (simp add: DPoPVerifier_new_def)
  have unseen: "\<not> is_consumed h jkt jti 0 DPoPReplayCache_new
      \<and> live_count 0 (shard_for h (composite_key jkt jti) DPoPReplayCache_new) < REPLAY_SHARD_CAPACITY" for h jkt jti
    using fresh_cache_admits [of h jkt jti 0 0] unfolding check_and_record_result
    by (auto simp: is_consumed_def replay_expiry_def Let_def split: if_splits option.splits)
  obtain g where "generate_nonce sample_lib 0 [0, 0, 1] served_source = (g, Ok ''AAAB'')"
    using served_source_verifies(2) by blast
  hence attached: "attach_nonce served_ops (Ok \<lparr> out_status = 200, out_headers = (\<lambda>_. []), out_body = () \<rparr> :: (unit outbound, unit) result)
      ?d (Some served_source)
    = (Some g, Ok (set_nonce_header served_ops ''AAAB'' \<lparr> out_status = 200, out_headers = (\<lambda>_. []), out_body = () \<rparr>))"
    by (simp add: attach_nonce_def is_success_def) (simp add: served_ops_def)
  have "\<exists>v. call served_ops ?rq ?d (served_service, 5) =
    (let u = ext_user (from_session sample_lib served_session);
         (w', res) = sv_inner served_service (?rq\<lparr>in_ext_session := Some (OAuthSessionExtension_new u), in_ext_user := Some u\<rparr>) 5;
         (src', res') = attach_nonce served_ops res ?d (Some served_source)
     in ((served_service\<lparr>sv_verifier := v, sv_nonce_source := src'\<rparr>, w'), res'))"
    by (rule session_request_served [OF sample_documented(3,4,1,2), where E = served_env and nh = "''https://as.example:81/token''"
          and iat = 60 and jti_bytes = "replicate 16 0" and htu = "''u''" and now = 60000000000 and pr = pr and m = "[]"
          and t = 0 and t' = 0 and nonce = "Some ''AAAA''"])
      (use served_env_documented sample_documented pr unseen cache in \<open>simp_all add: s svc t served_ops_def sample_inbound_def
        request_htu_def sample_ad_def sample_default_times sample_visible trimmed_opt_def sample_nonce served_source_verifies\<close>)
  thus ?thesis
    using pr attached by (auto simp: sample_inner_def svc Let_def)
qed

end
