(* ===== verification/Extractors_Props.thy ===== *)
theory Extractors_Props
  imports Extractors Tower_Props
begin

text \<open>
  The extractors behind the middleware: a handler sees exactly the user whose token was validated, and
  headers alone never make a user.
\<close>

section \<open>Lemmas\<close>

lemma extracted_user:
  "axum_user rq = Ok u \<longleftrightarrow> map_option ext_user (in_ext_session rq) = Some u
     \<or> in_ext_session rq = None \<and> in_ext_user rq = Some u"
  "actix_user rq = Ok u \<longleftrightarrow> axum_user rq = Ok u"
  by (auto simp: axum_user_def actix_user_def split: option.splits)

lemma other_scheme_iff: "other_scheme rq \<longleftrightarrow> request_token rq = Err ''invalid_scheme''"
  by (auto simp: other_scheme_def request_token_def split: option.splits result.splits)

section \<open>Properties\<close>

text \<open>C18: A handler sees the validated user and no other.  Whether or not the middleware would admit it, a
  request that arrives without extensions gives the extractors of both frameworks an answer with
  status 401 and no user, whatever headers it carries: the invalid scheme when its \<open>Authorization\<close>
  header is text of another scheme than DPoP, and missing credentials otherwise, with no header or with one of the DPoP scheme alike.  Once the middleware has
  admitted a request, both extractors yield exactly the user that the validator returned for the
  token of the request, whatever extensions the request arrived with.\<close>

theorem handler_sees_validated_user:
  "(in_ext_session rq = None \<and> in_ext_user rq = None \<longrightarrow>
      (if request_token rq = Err ''invalid_scheme''
       then axum_user rq = Err (401, error_body ''invalid_token'' (''Invalid Authorization scheme: expected '' @ sq ''DPoP''))
         \<and> actix_user rq = Err (401, ''Invalid Authorization scheme: expected '' @ sq ''DPoP'')
       else axum_user rq = Err (401, error_body ''unauthorized'' ''Missing authenticated session extension or credentials'')
         \<and> actix_user rq = Err (401, ''Missing authenticated session extension or credentials'')))
   \<and> (call_begin P rq d svc = (svc1, Ok p) \<and> admit_request P p d' svc2 = (svc3, Ok rq') \<longrightarrow>
      (\<exists>tok u. request_token rq = Ok tok
         \<and> ao_validate P (sv_token_validator svc2) (ad_validate d') tok (pa_thumbprint p) = Ok u
         \<and> axum_user rq' = Ok u \<and> actix_user rq' = Ok u))" (is "?refused \<and> (?begun \<and> ?admitted \<longrightarrow> ?seen)")
proof (rule conjI)
  show "?refused"
    by (simp add: axum_user_def actix_user_def other_scheme_iff)
  show "?begun \<and> ?admitted \<longrightarrow> ?seen"
  proof
    assume run: "?begun \<and> ?admitted"
    obtain tok where "request_token rq = Ok tok" "pa_token p = tok"
      using conjunct1 [OF run] by (rule call_begin_Ok) auto
    moreover obtain u where "ao_validate P (sv_token_validator svc2) (ad_validate d') (pa_token p) (pa_thumbprint p) = Ok u"
      "in_ext_session rq' = Some (OAuthSessionExtension_new u)"
      using conjunct2 [OF run] by (rule admit_request_Ok) auto
    ultimately show "?seen"
      by (auto simp: extracted_user OAuthSessionExtension_new_def)
  qed
qed

theorem handler_sees_validated_user_witness:
  "\<exists>(rq :: unit inbound) rq' p svc u. call_begin sample_tower_ops rq (sample_ad 0) sample_tower = (sample_tower, Ok p)
     \<and> admit_request sample_tower_ops p (sample_ad 0) sample_tower = (svc, Ok rq')
     \<and> axum_user rq' = Ok u \<and> actix_user rq' = Ok u
     \<and> axum_user (sample_inbound ''Bearer t'' []) = Err (401, error_body ''invalid_token'' (''Invalid Authorization scheme: expected '' @ sq ''DPoP''))
     \<and> actix_user (sample_inbound ''DPoP t'' []) = Err (401, ''Missing authenticated session extension or credentials'')"
proof -
  let ?jwk = "public_jwk sample_lib sample_key"
  obtain pr where pr: "verify_proof_no_replay sample_env DPoPVerifier_new pr ''GET'' ''u'' None None None 0 = Ok (sample_claims, ?jwk)"
    by (rule sample_proof)
  obtain p where b: "call_begin sample_tower_ops (sample_inbound (''DPoP '' @ ''t'') pr) (sample_ad 0) sample_tower = (sample_tower, Ok p)"
    "pa_token p = trim ''t''" "pa_thumbprint p = thumbprint sample_lib ?jwk"
    unfolding sample_tower_ops_def
    by (rule sample_begin [OF pr sample_default_times(3), where svc = sample_tower and tok = "''t''" and val = "validate_sync sample_lib"])
      (simp_all add: sample_tower_def sv_with_require_ath_def)
  obtain u where "ao_validate sample_tower_ops (sv_token_validator sample_tower) (ad_validate (sample_ad 0)) (pa_token p) (pa_thumbprint p) = Ok u"
    using sample_tower_valid b(2,3) by (auto simp: jwk_thumbprint_def)
  moreover have "replay_cache (sv_verifier sample_tower) = Some DPoPReplayCache_new"
    by (simp add: sample_tower_def sv_with_require_ath_def DPoPVerifier_new_def)
  ultimately obtain v rq' where a: "admit_request sample_tower_ops p (sample_ad 0) sample_tower = (sample_tower\<lparr>sv_verifier := v\<rparr>, Ok rq')"
    by (rule admitted_by_fresh_verifier) (rule that)
  have ext: "in_ext_session (sample_inbound auth x) = None \<and> in_ext_user (sample_inbound auth x) = None" for auth x
    by (simp add: sample_inbound_def)
  have tok: "request_token (sample_inbound ''Bearer t'' []) = Err ''invalid_scheme''" "request_token (sample_inbound ''DPoP t'' []) \<noteq> Err ''invalid_scheme''"
    by code_simp+
  note refused = handler_sees_validated_user [THEN conjunct1, rule_format, OF ext]
  have "axum_user (sample_inbound ''Bearer t'' []) = Err (401, error_body ''invalid_token'' (''Invalid Authorization scheme: expected '' @ sq ''DPoP''))"
    "actix_user (sample_inbound ''DPoP t'' []) = Err (401, ''Missing authenticated session extension or credentials'')"
    using refused [of "''Bearer t''" "[]"] refused [of "''DPoP t''" "[]"] tok by simp_all
  with handler_sees_validated_user [THEN conjunct2, rule_format, OF conjI, OF b(1) a] a b(1) show ?thesis
    by blast
qed

end
