(* ===== verification/Sealed.thy ===== *)
theory Sealed
  imports Utf8 Nonce_Source
begin

text \<open>
  Encryption at rest (\<open>sealed.rs\<close>): an AES-256-GCM key and the envelopes made with it.  The cipher and
  the padded base64 engine are parameters; a cipher object is represented by a byte string, and the
  random nonce is an argument.
\<close>

record aead_lib =
  aes_new_from_slice :: "bytes \<Rightarrow> (bytes, string) result"
  aes_encrypt :: "bytes \<Rightarrow> bytes \<Rightarrow> bytes \<Rightarrow> bytes \<Rightarrow> (bytes, string) result"
  aes_decrypt :: "bytes \<Rightarrow> bytes \<Rightarrow> bytes \<Rightarrow> bytes \<Rightarrow> (bytes, string) result"
  b64std_encode :: "bytes \<Rightarrow> string"
  b64std_decode :: "string \<Rightarrow> (bytes, string) result"

section \<open>Keys\<close>

definition SEALED_ENVELOPE_PREFIX :: string where
  "SEALED_ENVELOPE_PREFIX = ''enc:v1:''"

record SealedBox =
  sb_key :: bytes

definition SealedBox_new :: "bytes \<Rightarrow> SealedBox" where
  "SealedBox_new key = \<lparr> sb_key = key \<rparr>"

definition from_secret_passphrase :: "crypto_lib \<Rightarrow> string \<Rightarrow> SealedBox" where
  "from_secret_passphrase L secret = \<lparr> sb_key = sha256_digest L (as_bytes secret) \<rparr>"

definition debug_sealed_box :: "SealedBox \<Rightarrow> (string \<times> string) list" where
  "debug_sealed_box b = [(''key'', ''[REDACTED]'')]"

fun chunks_of_2 :: "bytes \<Rightarrow> bytes list" where
  "chunks_of_2 (a # b # r) = [a, b] # chunks_of_2 r"
| "chunks_of_2 _ = []"

definition hex_chunk :: "bytes \<Rightarrow> (u8, CryptoError) result" where
  "hex_chunk chunk =
     try_bind (map_err (\<lambda>e. CryptoError.InvalidKey (''Key is not valid UTF-8: '' @ e)) (from_utf8 chunk)) (\<lambda>pair.
     map_err (\<lambda>e. CryptoError.InvalidKey (''Key is not valid hex: '' @ e)) (u8_from_hex pair))"

text \<open>\<open>collect\<close> into a result: the first error wins.\<close>

fun collect_results :: "('a \<Rightarrow> ('b, 'e) result) \<Rightarrow> 'a list \<Rightarrow> ('b list, 'e) result" where
  "collect_results f [] = Ok []"
| "collect_results f (x # xs) = try_bind (f x) (\<lambda>y. try_bind (collect_results f xs) (\<lambda>ys. Ok (y # ys)))"

definition from_hex :: "string \<Rightarrow> (SealedBox, CryptoError) result" where
  "from_hex hex =
     (let bs = as_bytes hex in
      if length bs \<noteq> 64
      then Err (CryptoError.InvalidKey
        (''Expected a 64-character hex key, got '' @ show_nat (length bs) @ '' characters''))
      else try_bind (collect_results hex_chunk (chunks_of_2 bs)) (\<lambda>key.
        if length key \<noteq> 32 then Err (CryptoError.InvalidKey ''Key must decode to 32 bytes'')
        else Ok \<lparr> sb_key = key \<rparr>))"

section \<open>Envelopes\<close>

definition seal_with_aad :: "aead_lib \<Rightarrow> SealedBox \<Rightarrow> bytes \<Rightarrow> bytes \<Rightarrow> bytes \<Rightarrow> (string, CryptoError) result" where
  "seal_with_aad A b plaintext aad nonce =
     try_bind (map_err (\<lambda>e. CryptoError.InvalidKey (''Invalid AES-256-GCM key: '' @ e)) (aes_new_from_slice A (sb_key b)))
       (\<lambda>cipher.
     try_bind (map_err (\<lambda>e. CryptoError.Seal (''AES-256-GCM sealing failed: '' @ e)) (aes_encrypt A cipher nonce plaintext aad))
       (\<lambda>ciphertext.
     Ok (SEALED_ENVELOPE_PREFIX @ b64std_encode A (nonce @ ciphertext))))"

definition seal :: "aead_lib \<Rightarrow> SealedBox \<Rightarrow> bytes \<Rightarrow> bytes \<Rightarrow> (string, CryptoError) result" where
  "seal A b plaintext nonce = seal_with_aad A b plaintext [] nonce"

definition open_with_aad :: "aead_lib \<Rightarrow> SealedBox \<Rightarrow> string \<Rightarrow> bytes \<Rightarrow> (bytes, CryptoError) result" where
  "open_with_aad A b raw aad =
     (case strip_prefix SEALED_ENVELOPE_PREFIX (trim raw) of
        None \<Rightarrow> Ok (as_bytes (trim raw))
      | Some encoded \<Rightarrow>
          try_bind (map_err (\<lambda>e. CryptoError.Base64Decode (''Sealed payload Base64 decode: '' @ e)) (b64std_decode A encoded))
            (\<lambda>combined.
          if length combined < 28 then Err (CryptoError.InvalidEnvelope ''Sealed payload is truncated'')
          else
            (let nonce = take 12 combined; ciphertext = drop 12 combined in
             try_bind (map_err (\<lambda>e. CryptoError.InvalidKey (''Invalid AES-256-GCM key: '' @ e))
               (aes_new_from_slice A (sb_key b))) (\<lambda>cipher.
             let decrypt = (\<lambda>associated. map_err (\<lambda>_. CryptoError.Open
                   ''Authentication tag mismatch or invalid key while opening sealed payload'')
                   (aes_decrypt A cipher nonce ciphertext associated))
             in case decrypt aad of
                  Ok plaintext \<Rightarrow> Ok plaintext
                | Err err \<Rightarrow>
                    if aad \<noteq> [] then (case decrypt [] of Ok plaintext \<Rightarrow> Ok plaintext | Err _ \<Rightarrow> Err err)
                    else Err err))))"

definition open_sealed :: "aead_lib \<Rightarrow> SealedBox \<Rightarrow> string \<Rightarrow> (bytes, CryptoError) result" where
  "open_sealed A b raw = open_with_aad A b raw []"

definition open_string_with_aad :: "aead_lib \<Rightarrow> SealedBox \<Rightarrow> string \<Rightarrow> bytes \<Rightarrow> (string, CryptoError) result" where
  "open_string_with_aad A b raw aad =
     try_bind (open_with_aad A b raw aad) (\<lambda>bs. map_err CryptoError.Utf8 (from_utf8 bs))"

definition open_string :: "aead_lib \<Rightarrow> SealedBox \<Rightarrow> string \<Rightarrow> (string, CryptoError) result" where
  "open_string A b raw = open_string_with_aad A b raw []"

section \<open>Documented behaviour\<close>

text \<open>\<open>aes_gcm\<close>: a key has 32 bytes; the ciphertext ends in a tag of 16 bytes; decryption yields a
  plaintext exactly when the ciphertext is the encryption of it under the same key, nonce and
  associated data.\<close>

definition aead_documented :: "aead_lib \<Rightarrow> bool" where
  "aead_documented A =
     ((\<forall>k. length k = 32 \<longrightarrow> (\<exists>c. aes_new_from_slice A k = Ok c))
      \<and> (\<forall>c n m a x. aes_encrypt A c n m a = Ok x \<longrightarrow> length x = length m + 16)
      \<and> (\<forall>c n m a x. aes_decrypt A c n x a = Ok m \<longleftrightarrow> aes_encrypt A c n m a = Ok x))"

text \<open>\<open>base64\<close>, the standard alphabet: printable characters, inverted by decoding.\<close>

definition b64std_documented :: "aead_lib \<Rightarrow> bool" where
  "b64std_documented A =
     (\<forall>d. list_all is_visible_ascii (b64std_encode A d) \<and> b64std_decode A (b64std_encode A d) = Ok d)"

section \<open>Lemmas\<close>

lemma collect_results_Ok:
  "collect_results f xs = Ok ys \<longleftrightarrow> list_all2 (\<lambda>x y. f x = Ok y) xs ys"
  by (induction xs arbitrary: ys) (auto simp: list_all2_Cons1)

lemma length_chunks_of_2: "length (chunks_of_2 bs) = length bs div 2"
  by (induction bs rule: chunks_of_2.induct) auto

lemma prefix_trim:
  assumes "b64std_documented A"
  shows "trim (SEALED_ENVELOPE_PREFIX @ b64std_encode A d) = SEALED_ENVELOPE_PREFIX @ b64std_encode A d"
proof -
  have "list_all is_visible_ascii SEALED_ENVELOPE_PREFIX"
    by code_simp
  thus ?thesis
    using assms by (intro trim_visible) (simp add: b64std_documented_def)
qed

lemma strip_envelope: "strip_prefix SEALED_ENVELOPE_PREFIX (SEALED_ENVELOPE_PREFIX @ s) = Some s"
  by (simp add: strip_prefix_def)


lemma open_envelope:
  assumes "aead_documented A" "b64std_documented A" "length nonce = 12" "aes_new_from_slice A (sb_key b) = Ok c"
    and "aes_encrypt A c nonce pt a = Ok ct"
  shows "open_with_aad A b (SEALED_ENVELOPE_PREFIX @ b64std_encode A (nonce @ ct)) aad =
    (case aes_decrypt A c nonce ct aad of
       Ok m \<Rightarrow> Ok m
     | Err _ \<Rightarrow> (case aes_decrypt A c nonce ct [] of Ok m \<Rightarrow> Ok m
         | Err _ \<Rightarrow> Err (CryptoError.Open ''Authentication tag mismatch or invalid key while opening sealed payload'')))"
proof -
  have "length ct = length pt + 16"
    using assms(1,5) by (auto simp: aead_documented_def)
  thus ?thesis
    using assms(2-4)
    by (auto simp: open_with_aad_def prefix_trim strip_envelope b64std_documented_def Let_def split: result.split)
qed

text \<open>Pairs of hexadecimal digits, where the first of a pair may be a plus sign.\<close>

fun hex_pairs :: "string \<Rightarrow> bool" where
  "hex_pairs (a # b # r) = ((is_ascii_hexdigit a \<or> a = CHR ''+'') \<and> is_ascii_hexdigit b \<and> hex_pairs r)"
| "hex_pairs [] = True"
| "hex_pairs [_] = False"

lemma hex_value_pair:
  "u8_from_hex [a, b] = Ok x \<Longrightarrow> (is_ascii_hexdigit a \<or> a = CHR ''+'') \<and> is_ascii_hexdigit b"
  by (auto simp: u8_from_hex_def strip_prefix_def starts_with_iff hex_digit_iff [symmetric] split: option.splits if_splits)

lemma hex_pair_value:
  assumes "is_ascii_hexdigit a \<or> a = CHR ''+''" "is_ascii_hexdigit b"
  shows "\<exists>x. u8_from_hex [a, b] = Ok x"
proof -
  obtain d where d: "hex_digit b = Some d" "d < 16"
    using assms(2) hex_digit_iff hex_digit_less by blast
  show ?thesis
  proof (cases "a = CHR ''+''")
    case True
    with d show ?thesis by (simp add: u8_from_hex_def strip_prefix_def starts_with_iff)
  next
    case False
    then obtain c where "hex_digit a = Some c" "c < 16"
      using assms(1) hex_digit_iff hex_digit_less by blast
    with False d show ?thesis by (simp add: u8_from_hex_def strip_prefix_def starts_with_iff)
  qed
qed

lemma from_bytes_as_bytes: "from_bytes (as_bytes s) = s"
  by (simp add: from_bytes_def as_bytes_def o_def unat_of_nat code_less_256 code_def map_idI)

lemma hex_chunk_Ok_iff:
  "(\<exists>x. hex_chunk (as_bytes [a, b]) = Ok x) \<longleftrightarrow> (is_ascii_hexdigit a \<or> a = CHR ''+'') \<and> is_ascii_hexdigit b"
proof
  assume "\<exists>x. hex_chunk (as_bytes [a, b]) = Ok x"
  thus "(is_ascii_hexdigit a \<or> a = CHR ''+'') \<and> is_ascii_hexdigit b"
    using hex_value_pair by (auto simp: hex_chunk_def from_utf8_Ok from_bytes_as_bytes)
next
  assume h: "(is_ascii_hexdigit a \<or> a = CHR ''+'') \<and> is_ascii_hexdigit b"
  hence "code a < 128" "code b < 128"
    by (auto simp: ascii_simps code_def)
  hence "from_utf8 (as_bytes [a, b]) = Ok [a, b]"
    using from_utf8_ascii [of "as_bytes [a, b]"]
    by (simp add: from_bytes_as_bytes) (simp add: as_bytes_def word_less_nat_alt unat_of_nat code_less_256)
  with h show "\<exists>x. hex_chunk (as_bytes [a, b]) = Ok x"
    using hex_pair_value by (fastforce simp: hex_chunk_def)
qed

lemma collect_hex_chunks:
  "even (length h) \<Longrightarrow> (\<exists>k. collect_results hex_chunk (chunks_of_2 (as_bytes h)) = Ok k) \<longleftrightarrow> hex_pairs h"
proof (induction h rule: hex_pairs.induct)
  case (1 a b r)
  have "chunks_of_2 (as_bytes (a # b # r)) = as_bytes [a, b] # chunks_of_2 (as_bytes r)"
    by (simp add: as_bytes_def)
  with 1 hex_chunk_Ok_iff [of a b] show ?case
    by auto
qed (auto simp: as_bytes_def)

section \<open>A concrete cipher\<close>

definition sample_tag :: "bytes \<Rightarrow> bytes" where
  "sample_tag a = replicate 16 (if a = [] then 0 else 1)"

definition sample_aead :: aead_lib where
  "sample_aead = \<lparr> aes_new_from_slice = (\<lambda>k. if length k = 32 then Ok k else Err ''Invalid Length''),
     aes_encrypt = (\<lambda>c n m a. Ok (m @ sample_tag a)),
     aes_decrypt = (\<lambda>c n x a. let k = length x - 16 in
       if 16 \<le> length x \<and> drop k x = sample_tag a then Ok (take k x) else Err ''aead::Error''),
     b64std_encode = b64_encode_nopad sample_lib, b64std_decode = b64_decode_nopad sample_lib \<rparr>"

lemma sample_aead_documented: "aead_documented sample_aead" "b64std_documented sample_aead"
proof -
  have "(if 16 \<le> length x \<and> drop (length x - 16) x = sample_tag a then Ok (take (length x - 16) x) else Err ''aead::Error'')
      = Ok m \<longleftrightarrow> x = m @ sample_tag a" for x m a
  proof (intro iffI)
    assume "(if 16 \<le> length x \<and> drop (length x - 16) x = sample_tag a then Ok (take (length x - 16) x)
      else Err ''aead::Error'') = Ok m"
    hence "drop (length x - 16) x = sample_tag a" "m = take (length x - 16) x"
      by (auto split: if_splits)
    thus "x = m @ sample_tag a"
      using append_take_drop_id [of "length x - 16" x] by simp
  qed (simp add: sample_tag_def)
  thus "aead_documented sample_aead"
    by (auto simp: aead_documented_def sample_aead_def Let_def sample_tag_def)
  show "b64std_documented sample_aead"
    using sample_documented(3) by (auto simp: b64std_documented_def b64_documented_def sample_aead_def intro: b64url_visible)
qed

section \<open>Properties\<close>

text \<open>C20: What is sealed can be opened.  An envelope opens, under the associated data it was sealed with, to
  exactly the sealed bytes; if it was sealed without associated data, it opens under any.\<close>

theorem seal_open_roundtrip:
  assumes "aead_documented A" "b64std_documented A" "length nonce = 12" and "seal_with_aad A b pt a nonce = Ok env"
  shows "open_with_aad A b env a = Ok pt \<and> (a = [] \<longrightarrow> (\<forall>aad. \<exists>m. open_with_aad A b env aad = Ok m))"
proof -
  obtain c ct where c: "aes_new_from_slice A (sb_key b) = Ok c" "aes_encrypt A c nonce pt a = Ok ct"
    "env = SEALED_ENVELOPE_PREFIX @ b64std_encode A (nonce @ ct)"
    using assms(4) by (auto simp: seal_with_aad_def)
  hence "aes_decrypt A c nonce ct a = Ok pt"
    using assms(1) by (simp add: aead_documented_def)
  thus ?thesis
    unfolding c(3) open_envelope [OF assms(1-3) c(1,2)] by (auto split: result.split)
qed

theorem seal_open_roundtrip_witness:
  "open_with_aad sample_aead (SealedBox_new (replicate 32 0))
     (SEALED_ENVELOPE_PREFIX @ b64std_encode sample_aead (replicate 12 0 @ [7] @ sample_tag [1])) [1] = Ok [7]"
proof -
  have "seal_with_aad sample_aead (SealedBox_new (replicate 32 0)) [7] [1] (replicate 12 0) =
    Ok (SEALED_ENVELOPE_PREFIX @ b64std_encode sample_aead (replicate 12 0 @ [7] @ sample_tag [1]))"
    by (simp add: seal_with_aad_def SealedBox_new_def sample_aead_def)
  from seal_open_roundtrip [OF sample_aead_documented _ this] show ?thesis
    by simp
qed

text \<open>C19: Nothing but a sealed plaintext opens.  If a value with the envelope prefix opens, its payload is a
  nonce and the encryption, under the key of the box, of exactly the bytes returned, with the given
  associated data or with none; a value without the prefix is returned as it is, up to surrounding
  white space, whatever the key and the associated data.\<close>

theorem opened_was_sealed:
  assumes "aead_documented A" and "open_with_aad A b raw aad = Ok pt"
  shows "case strip_prefix SEALED_ENVELOPE_PREFIX (trim raw) of
      None \<Rightarrow> pt = as_bytes (trim raw)
    | Some encoded \<Rightarrow> \<exists>nonce ct c a. b64std_decode A encoded = Ok (nonce @ ct) \<and> length nonce = 12
        \<and> aes_new_from_slice A (sb_key b) = Ok c \<and> a \<in> {aad, []} \<and> aes_encrypt A c nonce pt a = Ok ct"
proof (cases "strip_prefix SEALED_ENVELOPE_PREFIX (trim raw)")
  case None
  thus ?thesis
    using assms(2) by (simp add: open_with_aad_def)
next
  case (Some encoded)
  then obtain x where x: "b64std_decode A encoded = Ok x" "28 \<le> length x"
    using assms(2) by (auto simp: open_with_aad_def split: if_splits)
  with Some assms(2) obtain c where c: "aes_new_from_slice A (sb_key b) = Ok c"
    by (auto simp: open_with_aad_def Let_def)
  have "aes_decrypt A c (take 12 x) (drop 12 x) aad = Ok pt \<or> aes_decrypt A c (take 12 x) (drop 12 x) [] = Ok pt"
    using assms(2) Some x c
    by (cases "aes_decrypt A c (take 12 x) (drop 12 x) aad"; cases "aes_decrypt A c (take 12 x) (drop 12 x) []")
      (auto simp: open_with_aad_def Let_def split: if_splits)
  then obtain a where "a \<in> {aad, []}" "aes_encrypt A c (take 12 x) pt a = Ok (drop 12 x)"
    using assms(1) unfolding aead_documented_def by blast
  with x c have "b64std_decode A encoded = Ok (take 12 x @ drop 12 x) \<and> length (take 12 x) = 12
    \<and> aes_new_from_slice A (sb_key b) = Ok c \<and> a \<in> {aad, []} \<and> aes_encrypt A c (take 12 x) pt a = Ok (drop 12 x)"
    by simp
  thus ?thesis
    unfolding Some option.case by blast
qed

theorem opened_was_sealed_witness:
  "\<exists>raw. open_with_aad sample_aead (SealedBox_new (replicate 32 0)) raw [1] = Ok [7]
     \<and> (case strip_prefix SEALED_ENVELOPE_PREFIX (trim raw) of
          None \<Rightarrow> [7] = as_bytes (trim raw)
        | Some encoded \<Rightarrow> \<exists>nonce ct c a. b64std_decode sample_aead encoded = Ok (nonce @ ct) \<and> length nonce = 12
            \<and> aes_new_from_slice sample_aead (sb_key (SealedBox_new (replicate 32 0))) = Ok c \<and> a \<in> {[1], []}
            \<and> aes_encrypt sample_aead c nonce [7] a = Ok ct)"
proof -
  have "aes_new_from_slice sample_aead (sb_key (SealedBox_new (replicate 32 0))) = Ok (replicate 32 0)"
    and "aes_encrypt sample_aead (replicate 32 0) (replicate 12 0) [7] [1] = Ok ([7] @ sample_tag [1])"
    and "aes_decrypt sample_aead (replicate 32 0) (replicate 12 0) ([7] @ sample_tag [1]) [1] = Ok [7]"
    by (simp_all add: sample_aead_def SealedBox_new_def sample_tag_def)
  note o = open_envelope [OF sample_aead_documented _ this(1,2), of "[1]"] this(3)
  have "open_with_aad sample_aead (SealedBox_new (replicate 32 0))
    (SEALED_ENVELOPE_PREFIX @ b64std_encode sample_aead (replicate 12 0 @ [7] @ sample_tag [1])) [1] = Ok [7]"
    using o by simp
  from opened_was_sealed [OF sample_aead_documented(1) this] this show ?thesis
    by blast
qed

text \<open>C35: The hexadecimal keys that are accepted.  A text is accepted exactly when it has 64 bytes and each
  pair is two hexadecimal digits, or a plus sign and one digit.\<close>

theorem from_hex_accepts_iff:
  "(\<exists>b. from_hex h = Ok b) \<longleftrightarrow> length h = 64 \<and> hex_pairs h"
proof -
  have len: "length k = 32" if "length h = 64" "collect_results hex_chunk (chunks_of_2 (as_bytes h)) = Ok k" for k
    using that list_all2_lengthD [of _ "chunks_of_2 (as_bytes h)" k] by (simp add: collect_results_Ok length_chunks_of_2)
  have "(\<exists>b. from_hex h = Ok b) \<longleftrightarrow> length h = 64 \<and> (\<exists>k. collect_results hex_chunk (chunks_of_2 (as_bytes h)) = Ok k)"
    using len by (cases "collect_results hex_chunk (chunks_of_2 (as_bytes h))") (simp_all add: from_hex_def Let_def)
  thus ?thesis
    using collect_hex_chunks [of h] by auto
qed

end
