(* ===== verification/Verus_Contracts.thy ===== *)
theory Verus_Contracts
  imports Ip_Filter Pkce State_Store
begin

text \<open>
  The specifications that the crate states for the Verus verifier (\<open>verification/verus_contracts.rs\<close> and
  the specification functions in \<open>kernels/ip_filter.rs\<close>), and how they relate to the code that is
  shipped.
\<close>

section \<open>Address ranges\<close>

definition contract_is_restricted_ipv4 :: "u8 \<Rightarrow> u8 \<Rightarrow> u8 \<Rightarrow> u8 \<Rightarrow> bool" where
  "contract_is_restricted_ipv4 o0 o1 o2 o3 =
     (o0 = 0
      \<or> o0 = 10
      \<or> (o0 = 100 \<and> o1 \<ge> 64 \<and> o1 \<le> 127)
      \<or> o0 = 127
      \<or> (o0 = 169 \<and> o1 = 254)
      \<or> (o0 = 172 \<and> o1 \<ge> 16 \<and> o1 \<le> 31)
      \<or> (o0 = 192 \<and> o1 = 0 \<and> o2 = 0)
      \<or> (o0 = 192 \<and> o1 = 0 \<and> o2 = 2)
      \<or> (o0 = 192 \<and> o1 = 88 \<and> o2 = 99)
      \<or> (o0 = 192 \<and> o1 = 168)
      \<or> (o0 = 198 \<and> (o1 = 18 \<or> o1 = 19))
      \<or> (o0 = 198 \<and> o1 = 51 \<and> o2 = 100)
      \<or> (o0 = 203 \<and> o1 = 0 \<and> o2 = 113)
      \<or> (o0 \<ge> 224 \<and> o0 \<le> 239)
      \<or> o0 \<ge> 240)"

section \<open>State machine\<close>

datatype VerusStateStatus =
    Uninitialized
  | VPending (v_created_at: nat) (v_ttl: nat)
  | VConsumed nat
  | VExpired nat

record VerusOAuthStateModel =
  vm_status :: VerusStateStatus
  vm_consumption_count :: nat

definition VerusOAuthStateModel_new :: VerusOAuthStateModel where
  "VerusOAuthStateModel_new = \<lparr> vm_status = Uninitialized, vm_consumption_count = 0 \<rparr>"

definition vm_insert :: "nat \<Rightarrow> nat \<Rightarrow> VerusOAuthStateModel \<Rightarrow> VerusOAuthStateModel" where
  "vm_insert current_tick ttl m =
     (case vm_status m of
        Uninitialized \<Rightarrow> \<lparr> vm_status = VPending current_tick ttl, vm_consumption_count = vm_consumption_count m \<rparr>
      | _ \<Rightarrow> m)"

definition vm_take_state :: "nat \<Rightarrow> VerusOAuthStateModel \<Rightarrow> VerusOAuthStateModel \<times> bool" where
  "vm_take_state current_tick m =
     (case vm_status m of
        VPending created_at ttl \<Rightarrow>
          if current_tick < created_at + ttl
          then (\<lparr> vm_status = VConsumed current_tick, vm_consumption_count = vm_consumption_count m + 1 \<rparr>, True)
          else (\<lparr> vm_status = VExpired current_tick, vm_consumption_count = vm_consumption_count m \<rparr>, False)
      | _ \<Rightarrow> (m, False))"

section \<open>Verifiers and comparison\<close>

definition is_unreserved_ascii :: "u8 \<Rightarrow> bool" where
  "is_unreserved_ascii c =
     ((c \<ge> 0x30 \<and> c \<le> 0x39) \<or> (c \<ge> 0x41 \<and> c \<le> 0x5a) \<or> (c \<ge> 0x61 \<and> c \<le> 0x7a)
      \<or> c = 0x2d \<or> c = 0x2e \<or> c = 0x5f \<or> c = 0x7e)"

definition spec_pkce_verifier_valid :: "nat \<Rightarrow> bool \<Rightarrow> bool" where
  "spec_pkce_verifier_valid len all_unreserved = (len \<ge> 43 \<and> len \<le> 128 \<and> all_unreserved)"

definition spec_slices_equal :: "u8 \<times> u8 \<Rightarrow> u8 \<times> u8 \<Rightarrow> bool" where
  "spec_slices_equal a b = (fst a = fst b \<and> snd a = snd b)"

definition spec_constant_time_diff :: "u8 \<times> u8 \<Rightarrow> u8 \<times> u8 \<Rightarrow> u8" where
  "spec_constant_time_diff a b = ((fst a XOR fst b) OR (snd a XOR snd b))"

section \<open>Runs of the state machine\<close>

datatype verus_op = VInsert nat nat | VTake nat

fun verus_run :: "verus_op list \<Rightarrow> VerusOAuthStateModel \<Rightarrow> VerusOAuthStateModel \<times> bool list" where
  "verus_run [] m = (m, [])"
| "verus_run (VInsert t ttl # ops) m = verus_run ops (vm_insert t ttl m)"
| "verus_run (VTake t # ops) m =
     (let (m', taken) = vm_take_state t m; (m'', out) = verus_run ops m' in (m'', taken # out))"

section \<open>Lemmas\<close>

lemma unreserved_ascii_eq: "is_unreserved_ascii c = is_unreserved_byte c"
  by (auto simp: is_unreserved_ascii_def is_unreserved_byte_def u8_is_ascii_alphanumeric_def)

lemma verus_terminal:
  "case vm_status m of VConsumed _ \<Rightarrow> True | VExpired _ \<Rightarrow> True | _ \<Rightarrow> False \<Longrightarrow>
   fst (verus_run ops m) = m \<and> set (snd (verus_run ops m)) \<subseteq> {False}"
proof (induction ops)
  case (Cons x ops)
  thus ?case
    by (cases x; cases "vm_status m") (auto simp: vm_insert_def vm_take_state_def split: prod.splits)
qed simp

lemma verus_run_single:
  "case vm_status m of Uninitialized \<Rightarrow> True | VPending _ _ \<Rightarrow> True | _ \<Rightarrow> False \<Longrightarrow>
   length (filter (\<lambda>x. x) (snd (verus_run ops m))) \<le> 1
   \<and> vm_consumption_count (fst (verus_run ops m)) = vm_consumption_count m + length (filter (\<lambda>x. x) (snd (verus_run ops m)))"
proof (induction ops m rule: verus_run.induct)
  case (3 t ops m)
  obtain m' taken where t: "vm_take_state t m = (m', taken)"
    by fastforce
  show ?case
  proof (cases "vm_status m")
    case (VPending c ttl)
    have "fst (verus_run ops m') = m'" "set (snd (verus_run ops m')) \<subseteq> {False}"
      using verus_terminal [of m' ops] t VPending by (auto simp: vm_take_state_def split: if_splits)
    moreover from this(2) have "filter (\<lambda>x. x) (snd (verus_run ops m')) = []"
      by (auto simp: filter_empty_conv)
    ultimately show ?thesis
      using t VPending by (auto simp: vm_take_state_def split: if_splits prod.splits)
  qed (use 3 t in \<open>auto simp: vm_take_state_def split: prod.splits\<close>)
qed (auto simp: vm_insert_def split: VerusStateStatus.splits)

section \<open>Properties\<close>

text \<open>The contracts describe the shipped kernels.  The address contract, which tests the shared address
  space by an interval, agrees with the classifier, which tests it by a mask; the verifier contract,
  applied to a byte string, is acceptance by the verifier kernel; the accumulated difference is zero
  exactly for equal pairs.\<close>

theorem contracts_meet_kernels:
  "contract_is_restricted_ipv4 o0 o1 o2 o3 = is_restricted_ipv4_octets (o0, o1, o2, o3)
   \<and> (validate_verifier_bytes bs = Ok () \<longleftrightarrow>
        spec_pkce_verifier_valid (length bs) (list_all is_unreserved_ascii bs))
   \<and> (spec_constant_time_diff a b = 0 \<longleftrightarrow> spec_slices_equal a b)"
proof (intro conjI)
  have "(o1 AND 0xC0 = 64) = (o1 \<ge> 64 \<and> o1 \<le> 127)"
    unfolding mask_tests(1) word_le_nat_alt by (simp add: div_nat_eqI) linarith
  thus "contract_is_restricted_ipv4 o0 o1 o2 o3 = is_restricted_ipv4_octets (o0, o1, o2, o3)"
    by (simp add: contract_is_restricted_ipv4_def)
  have u: "is_unreserved_ascii = is_unreserved_byte"
    by (rule ext) (rule unreserved_ascii_eq)
  show "validate_verifier_bytes bs = Ok () \<longleftrightarrow>
    spec_pkce_verifier_valid (length bs) (list_all is_unreserved_ascii bs)"
    unfolding u by (auto simp: validate_verifier_bytes_def spec_pkce_verifier_valid_def is_valid_verifier_length_def
        VERIFIER_MIN_LENGTH_def VERIFIER_MAX_LENGTH_def scan_verifier_Ok)
  show "spec_constant_time_diff a b = 0 \<longleftrightarrow> spec_slices_equal a b"
    by (simp add: spec_constant_time_diff_def spec_slices_equal_def or_eq_0_iff xor_eq_0_iff)
qed

text \<open>In the contract's state machine at most one take succeeds, in every sequence of insertions and
  takes at any ticks, and the counter says how many did.\<close>

theorem contract_single_use:
  "length (filter (\<lambda>x. x) (snd (verus_run ops VerusOAuthStateModel_new))) \<le> 1
   \<and> vm_consumption_count (fst (verus_run ops VerusOAuthStateModel_new))
     = length (filter (\<lambda>x. x) (snd (verus_run ops VerusOAuthStateModel_new)))"
  using verus_run_single [of VerusOAuthStateModel_new ops] by (simp add: VerusOAuthStateModel_new_def)

end
