(* ===== verification/Spec2Isabelle.thy ===== *)
theory Spec2Isabelle
  imports Ip_Filter Pkce State_Model Dpop_Props Service_Props Single_Flight_Props Extractors_Props Sealed Verus_Contracts
begin

text \<open>
  Verification of \<open>skyauth\<close>, an OAuth client and resource server library for the AT Protocol.

  \<^bold>\<open>The program.\<close>  A client resolves the identity of a user (\<open>identity.rs\<close>), discovers the endpoints of the
  user's authorization server (\<open>discovery.rs\<close>), pushes an authorization request (\<open>par.rs\<close>), keeps the
  login under a state token (\<open>store.rs\<close>), exchanges the code of the callback and refreshes tokens
  (\<open>client.rs\<close>, \<open>session.rs\<close>).  Every outbound request passes the boundary of \<open>ssrf.rs\<close>, and token requests carry
  DPoP proofs (\<open>dpop.rs\<close>).  A resource server checks inbound requests with the middleware of
  \<open>integrations/tower.rs\<close>, which uses the proof verifier, the replay cache and the nonce source of \<open>dpop.rs\<close> and
  the token validators of \<open>integrations/validator.rs\<close>; handlers read the user with the extractors of
  \<open>integrations/axum.rs\<close> and \<open>actix.rs\<close>.  Service tokens are verified in \<open>service_auth.rs\<close>, and \<open>sealed.rs\<close>
  encrypts credentials at rest.

  \<^bold>\<open>Conventions.\<close>  A struct is a record, an enum a datatype, and a function one definition with the name it has in
  the source (with a prefix where names clash).  Machine integers are words.  A string is the list of its
  UTF-8 bytes.  A \<open>HashMap\<close> is an association list with distinct keys, whose order stands for the unspecified
  iteration order.  \<open>Result\<close> is the type \<open>result\<close> of Prelude, and \<open>?\<close> is \<open>try_bind\<close>.  State is passed explicitly;
  clock readings and random bytes are arguments.  A lock that is held for a whole operation makes it one
  step.  Third-party code is a parameter: the cryptographic crates (\<open>crypto_lib\<close>, \<open>aead_lib\<close>), the URL parser,
  serde, and the network with its servers, which may answer anything.  What a property needs of them is a
  named hypothesis (\<open>b64_documented\<close>, \<open>p256_documented\<close>, \<open>aead_documented\<close>, ...), and Sample_Crypto and the samples beside
  the properties give concrete functions that satisfy it.

  \<^bold>\<open>Theories.\<close>
  \<^item> Prelude: results, saturating arithmetic, maps, the string functions of the standard library.  Errors: the
    enums of \<open>error.rs\<close>.  Json, Clock, Net_Addr and Utf8: JSON values, times, address parsing, UTF-8 validation.
  \<^item> Ip_Filter (\<open>kernels/ip_filter.rs\<close>): the classifiers are membership of the documented address blocks.
  \<^item> Crypto, Pkce, Nsid, Htu, Base58, Multikey: \<open>crypto.rs\<close>, \<open>pkce.rs\<close> and the byte kernels, each shown to decide
    its grammar or to meet the specification of \<open>verification/formal_models.rs\<close>; Base58 with its carries at width.
  \<^item> Store_Interface, State_Store, State_Model: a state token is handed out at most once per insertion, the store
    is bounded, and it simulates the state machine of \<open>formal_models.rs\<close>.
  \<^item> Replay_Interface, Replay_Cache, Nonce_Interface, Nonce_Source, Dpop, Dpop_Props: proofs, replay and nonces.
    An accepted proof is bound to key, method, target, token and time; it is accepted again only when its
    window ends, in the very last second unless a request crosses a second between its clock readings, and
    there it is.
  \<^item> Net, Ssrf, Confine: the world of requests and the boundary.  Confine has the rules by which larger
    operations inherit that each request goes to an admitted URL and that their number is bounded.
  \<^item> Identity, Identity_Props, Discovery, Discovery_Props: resolved identities and discovered endpoints are coherent.
  \<^item> Cache_Interface, Key_Cache, Service_Auth, Service_Props: the key cache, and which service tokens are accepted:
    those signed by a key cached for their issuer or published in the document fetched for it.
  \<^item> Session, Client_Base, Par, Token_Request, Client, Client_Props: login, callback and refresh.  A session belongs
    to the login that stored its state; a callback works once; refreshing keeps identity and key.
  \<^item> Single_Flight, Single_Flight_Props: tasks that run \<open>refresh_shared_session\<close> and \<open>refresh_session\<close>, as an interleaving
    step relation: they exclude each other per subject, and a rotated refresh token is not submitted again.
  \<^item> Integrations, Validator_Interface, Validator, Validator_Props, Tower, Tower_Props: which tokens the two validators
    accept, and the middleware, whose call is split where its future starts, so that requests interleave.  An
    admitted request is authenticated, a refused one leaves no trace in the replay cache, and a request the
    client makes in time, with an accepted nonce and a proof not seen before, is served.
  \<^item> Extractors, Extractors_Props: a handler sees the validated user and no other.
  \<^item> Sealed: what is sealed opens again, and nothing else opens.
  \<^item> Verus_Contracts: the contracts of \<open>verus_contracts.rs\<close> agree with the shipped kernels.

  \<^bold>\<open>Interfaces.\<close>  The locales of Store_Interface, Replay_Interface, Nonce_Interface, Cache_Interface and
  Validator_Interface state what their clients rely on; each is interpreted on the definitions that model the code.

  \<^bold>\<open>Bounds and fuel.\<close>  Capacities are those of the code: 64 shards of 1024 states, 64 of 2048 proofs, 64 of 512 keys, 4096
  mutexes, three redirects.  The loops of the code are structural or have a termination proof, except that
  the carry loops of Base58 are shown to end after at most four bytes or six digits.  The exclusion of
  refreshes holds with fewer tasks than the mutex table has places and a server that does not reissue
  tokens; a full table loses it, which is a theorem as well.  That no rotated token is submitted again holds
  for session objects that start with different tokens: copies of one session are not coordinated.

  \<^bold>\<open>Not modelled.\<close>  The harnesses of \<open>kani_harnesses.rs\<close> and the proof functions of \<open>verus_kernels.rs\<close>, which are drivers of
  other verifiers and not called by the crate; module declarations and re-exports; tests; log output; the
  \<open>Display\<close> texts other than those of \<open>CryptoError\<close>; accessors, which are record selectors; the asynchronous
  wrappers of the store and validator traits, which only forward.  Building the pooled HTTP client is taken to
  succeed; the fallback of the code for a failure there is outside the model.  Memory erasure is modelled as
  emptying the field, not at the level of the allocator.
\<close>

end
